(* ===== verification/JsPrelude.thy ===== *)
theory JsPrelude
  imports Main "HOL-Library.AList" "HOL-Library.Char_ord" "HOL-Library.List_Lexorder"
begin

text \<open>
  Shared vocabulary of the development: the JavaScript library functions the TypeScript
  sources use on strings, numbers, dates and JSON, thrown values, the ring-buffer
  interface, and the lemmas about them that the component theories use.

  Strings are byte strings (\<^typ>\<open>string\<close>): a character outside ASCII is its UTF-8
  encoding. \<open>trim\<close>, \<open>toLowerCase\<close> and \<open>toUpperCase\<close> act on the ASCII
  characters, and \<open>slice\<close> and \<open>length\<close> count bytes, so they agree with the code on
  ASCII text. Integers are unbounded \<^typ>\<open>int\<close>; the doubles of the code are exact on
  them up to \<open>2 ^ 53\<close>.
\<close>

section \<open>Collections of proof hints\<close>

named_theorems js_simps \<open>evaluation of the string and number primitives\<close>
named_theorems world_simps \<open>how the primitive effects change the world\<close>

section \<open>Strings\<close>

definition is_ws :: "char \<Rightarrow> bool" where
  "is_ws c \<longleftrightarrow> c \<in> {CHR 0x20, CHR 0x09, CHR 0x0A, CHR 0x0B, CHR 0x0C, CHR 0x0D}"

definition js_trim :: "string \<Rightarrow> string" where
  "js_trim s = rev (dropWhile is_ws (rev (dropWhile is_ws s)))"

definition lower_char :: "char \<Rightarrow> char" where
  "lower_char c =
     (let n = of_char c :: nat in if 65 \<le> n \<and> n \<le> 90 then char_of (n + 32) else c)"

definition upper_char :: "char \<Rightarrow> char" where
  "upper_char c =
     (let n = of_char c :: nat in if 97 \<le> n \<and> n \<le> 122 then char_of (n - 32) else c)"

definition js_lower :: "string \<Rightarrow> string" where
  "js_lower = map lower_char"

definition js_upper :: "string \<Rightarrow> string" where
  "js_upper = map upper_char"

definition js_startsWith :: "string \<Rightarrow> string \<Rightarrow> bool" where
  "js_startsWith s p \<longleftrightarrow> take (length p) s = p"

fun js_includes :: "string \<Rightarrow> string \<Rightarrow> bool" where
  "js_includes [] p \<longleftrightarrow> p = []"
| "js_includes (c # s) p \<longleftrightarrow> js_startsWith (c # s) p \<or> js_includes s p"

fun js_join :: "string \<Rightarrow> string list \<Rightarrow> string" where
  "js_join sep [] = []"
| "js_join sep [x] = x"
| "js_join sep (x # y # xs) = x @ sep @ js_join sep (y # xs)"

fun js_split :: "char \<Rightarrow> string \<Rightarrow> string list" where
  "js_split c [] = [[]]"
| "js_split c (x # xs) =
     (if x = c then [] # js_split c xs
      else (case js_split c xs of [] \<Rightarrow> [[x]] | w # ws \<Rightarrow> (x # w) # ws))"

text \<open>\<open>s.replace(/x+$/, "")\<close> and \<open>s.replace(/x$/, "")\<close> for one character.\<close>

definition strip_trailing :: "char \<Rightarrow> string \<Rightarrow> string" where
  "strip_trailing c s = rev (dropWhile (\<lambda>x. x = c) (rev s))"

definition strip_one_trailing :: "char \<Rightarrow> string \<Rightarrow> string" where
  "strip_one_trailing c s = (if s \<noteq> [] \<and> last s = c then butlast s else s)"

text \<open>\<open>a || b\<close> on strings and \<open>a ?? b\<close> on possibly undefined values.\<close>

definition str_or :: "string \<Rightarrow> string \<Rightarrow> string" where
  "str_or a b = (if a = [] then b else a)"

definition coalesce :: "'a option \<Rightarrow> 'a \<Rightarrow> 'a" where
  "coalesce x d = (case x of None \<Rightarrow> d | Some v \<Rightarrow> v)"

text \<open>\<open>Boolean(x)\<close> of a possibly undefined string.\<close>

definition truthy :: "string option \<Rightarrow> bool" where
  "truthy x \<longleftrightarrow> (case x of None \<Rightarrow> False | Some v \<Rightarrow> v \<noteq> [])"

text \<open>The characters of the messages that are not ASCII, in UTF-8.\<close>

definition u_arrow :: string where "u_arrow = [CHR 0xE2, CHR 0x86, CHR 0x92]"
definition u_middot :: string where "u_middot = [CHR 0xC2, CHR 0xB7]"
definition u_emdash :: string where "u_emdash = [CHR 0xE2, CHR 0x80, CHR 0x94]"
definition u_ellipsis :: string where "u_ellipsis = [CHR 0xE2, CHR 0x80, CHR 0xA6]"

lemma coalesce_simps [simp]:
  "coalesce None d = d" "coalesce (Some v) d = v"
  by (simp_all add: coalesce_def)

lemma truthy_simps [simp]:
  "\<not> truthy None" "truthy (Some v) \<longleftrightarrow> v \<noteq> []"
  by (simp_all add: truthy_def)

lemma str_or_simps [simp]: "str_or [] b = b" "a \<noteq> [] \<Longrightarrow> str_or a b = a"
  by (simp_all add: str_or_def)

lemma str_or_eq_Nil_iff [simp]: "str_or a b = [] \<longleftrightarrow> a = [] \<and> b = []"
  by (simp add: str_or_def)

lemma upper_char_idem [simp]: "upper_char (upper_char c) = upper_char c"
proof (cases "97 \<le> (of_char c :: nat) \<and> (of_char c :: nat) \<le> 122")
  case True
  then have "of_char c - 32 < (256 :: nat)" by linarith
  then have "of_char (char_of (of_char c - 32 :: nat) :: char) = (of_char c - 32 :: nat)" by simp
  with True show ?thesis by (auto simp: upper_char_def Let_def)
qed (auto simp: upper_char_def Let_def)

lemma js_upper_idem [simp]: "js_upper (js_upper s) = js_upper s"
  by (simp add: js_upper_def)

subsection \<open>Trimming\<close>

lemma dropWhile_idem_lemma [simp]: "dropWhile P (dropWhile P xs) = dropWhile P xs"
  by (induction xs) auto

lemma js_trim_Nil [simp]: "js_trim [] = []"
  by (simp add: js_trim_def)

definition trimmed :: "string \<Rightarrow> bool" where
  "trimmed s \<longleftrightarrow> (s \<noteq> [] \<longrightarrow> \<not> is_ws (hd s) \<and> \<not> is_ws (last s))"

lemma hd_dropWhile_not: "dropWhile P xs \<noteq> [] \<Longrightarrow> \<not> P (hd (dropWhile P xs))"
  by (induction xs) auto

lemma trimmed_js_trim [simp, intro]: "trimmed (js_trim s)"
proof -
  define t where "t = dropWhile is_ws s"
  define u where "u = dropWhile is_ws (rev t)"
  have trim: "js_trim s = rev u" by (simp add: js_trim_def t_def u_def)
  have "\<not> is_ws (hd (rev u))" if "u \<noteq> []"
  proof -
    obtain p where p: "rev t = p @ u"
      using takeWhile_dropWhile_id [of is_ws "rev t"] u_def by metis
    then have "t = rev u @ rev p" by (metis rev_append rev_rev_ident)
    with that have "hd t = hd (rev u)" and "t \<noteq> []" by auto
    with hd_dropWhile_not [of is_ws s] show ?thesis by (simp add: t_def)
  qed
  moreover have "\<not> is_ws (hd u)" if "u \<noteq> []"
    using that hd_dropWhile_not [of is_ws "rev t"] by (simp add: u_def)
  ultimately show ?thesis
    by (auto simp: trimmed_def trim last_rev)
qed

lemma js_trim_trimmed: "trimmed s \<Longrightarrow> js_trim s = s"
proof (cases s)
  case (Cons c cs)
  assume "trimmed s"
  with Cons have "\<not> is_ws (hd s)" and "\<not> is_ws (last s)" by (auto simp: trimmed_def)
  then have "dropWhile is_ws s = s" using Cons by simp
  moreover have "dropWhile is_ws (rev s) = rev s"
    using \<open>\<not> is_ws (last s)\<close> Cons by (cases "rev s") (auto simp: last_rev dest: arg_cong [where f = hd] simp flip: hd_rev)
  ultimately show ?thesis by (simp add: js_trim_def)
qed simp

lemma js_trim_idem [simp]: "js_trim (js_trim s) = js_trim s"
  by (rule js_trim_trimmed) (rule trimmed_js_trim)

lemma js_trim_fixed_iff: "js_trim s = s \<longleftrightarrow> trimmed s"
  by (metis js_trim_trimmed trimmed_js_trim)

subsection \<open>Joining and splitting\<close>

lemma js_split_not_Nil [simp]: "js_split c s \<noteq> []"
  by (induction s) (auto split: list.splits)

lemma js_split_join: "js_join [c] (js_split c s) = s"
proof (induction s)
  case (Cons x xs)
  show ?case
  proof (cases "js_split c xs")
    case Nil
    then show ?thesis by simp
  next
    case (Cons w ws)
    with Cons.IH show ?thesis by (cases ws) auto
  qed
qed simp

lemma js_split_no_sep: "w \<in> set (js_split c s) \<Longrightarrow> c \<notin> set w"
  by (induction s arbitrary: w) (auto split: if_splits list.splits)

lemma js_split_single: "c \<notin> set w \<Longrightarrow> js_split c w = [w]"
  by (induction w) auto

lemma js_split_append: "c \<notin> set w \<Longrightarrow> js_split c (w @ c # s) = w # js_split c s"
  by (induction w) auto

lemma js_includes_iff: "js_includes s p \<longleftrightarrow> (\<exists>a b. s = a @ p @ b)"
proof (induction s)
  case (Cons c s)
  have "js_startsWith (c # s) p \<longleftrightarrow> (\<exists>b. c # s = p @ b)"
    unfolding js_startsWith_def by (metis append_eq_conv_conj append_take_drop_id)
  with Cons show ?case by (auto simp: Cons_eq_append_conv)
qed auto

end
