(* ===== verification/JsNumbers.thy ===== *)
theory JsNumbers
  imports JsPrelude
begin

text \<open>
  Decimal rendering of integers in template literals, \<open>parseInt(s, 10)\<close>,
  \<open>Number.isFinite\<close>, \<open>Math.round\<close> of a quotient and \<open>Date.prototype.toISOString\<close>,
  with the round trips between rendering and parsing.
\<close>

section \<open>Rendering\<close>

definition digit_char :: "nat \<Rightarrow> char" where
  "digit_char d = char_of (48 + d)"

definition is_digit :: "char \<Rightarrow> bool" where
  "is_digit c \<longleftrightarrow> 48 \<le> (of_char c :: nat) \<and> (of_char c :: nat) \<le> 57"

definition digit_val :: "char \<Rightarrow> nat" where
  "digit_val c = of_char c - 48"

fun show_nat :: "nat \<Rightarrow> string" where
  "show_nat n = (if n < 10 then [digit_char n] else show_nat (n div 10) @ [digit_char (n mod 10)])"

declare show_nat.simps [simp del]

definition show_int :: "int \<Rightarrow> string" where
  "show_int i = (if i < 0 then CHR ''-'' # show_nat (nat (- i)) else show_nat (nat i))"

text \<open>Evaluation with binary integers.\<close>

fun show_dec :: "int \<Rightarrow> string" where
  "show_dec i = (if i < 10 then [digit_char (nat i)] else show_dec (i div 10) @ [digit_char (nat (i mod 10))])"

declare show_dec.simps [simp del]

lemma show_dec_int: "show_dec (int n) = show_nat n"
proof (induction n rule: show_nat.induct)
  case (1 n)
  then show ?case
    by (subst show_dec.simps, subst show_nat.simps) (simp add: nat_mod_distrib zdiv_int)
qed

lemma show_int_code [code]: "show_int i = (if i < 0 then CHR ''-'' # show_dec (- i) else show_dec i)"
  using show_dec_int [of "nat i"] show_dec_int [of "nat (- i)"] by (auto simp: show_int_def)

section \<open>Parsing\<close>

definition read_digits :: "string \<Rightarrow> int" where
  "read_digits ds = foldl (\<lambda>a c. 10 * a + int (digit_val c)) 0 ds"

text \<open>
  \<open>parseInt(s, 10)\<close>: leading white space, an optional sign, the longest run of digits;
  \<^const>\<open>None\<close> is \<open>NaN\<close>.
\<close>

definition js_parseInt :: "string \<Rightarrow> int option" where
  "js_parseInt s =
     (let t = dropWhile is_ws s;
          neg = (t \<noteq> [] \<and> hd t = CHR ''-'');
          u = (if t \<noteq> [] \<and> (hd t = CHR ''-'' \<or> hd t = CHR ''+'') then tl t else t);
          ds = takeWhile is_digit u
      in if ds = [] then None
         else Some (if neg then - read_digits ds else read_digits ds))"

text \<open>
  \<open>Number.isFinite\<close> of a parsed integer: from \<open>2 ^ 1024 - 2 ^ 970\<close> on a decimal
  literal rounds to \<open>Infinity\<close>.
\<close>

definition js_finite :: "int \<Rightarrow> bool" where
  "js_finite n \<longleftrightarrow> \<bar>n\<bar> < 2 ^ 1024 - 2 ^ 970"

text \<open>
  \<open>const n = parseInt(v ?? d, 10); return Number.isFinite(n) && ok(n) ? n : fallback\<close>,
  the shape of every numeric setting of the program.
\<close>

definition int_setting :: "string option \<Rightarrow> string \<Rightarrow> (int \<Rightarrow> bool) \<Rightarrow> int \<Rightarrow> int" where
  "int_setting v d ok fallback =
     (case js_parseInt (coalesce v d) of
        None \<Rightarrow> fallback
      | Some n \<Rightarrow> if js_finite n \<and> ok n then n else fallback)"

text \<open>\<open>Math.round(a / b)\<close> for an integer \<open>a\<close> and an even positive \<open>b\<close>.\<close>

definition round_div :: "int \<Rightarrow> int \<Rightarrow> int" where
  "round_div a b = (a + b div 2) div b"

lemma int_setting_ok: "ok fallback \<Longrightarrow> ok (int_setting v d ok fallback)"
  by (auto simp: int_setting_def split: option.splits)

section \<open>Round trips\<close>

lemma of_char_digit_char: "d < 10 \<Longrightarrow> of_char (digit_char d) = (48 + d :: nat)"
  by (simp add: digit_char_def)

lemma is_digit_digit_char [simp]: "d < 10 \<Longrightarrow> is_digit (digit_char d)"
  by (simp add: is_digit_def of_char_digit_char)

lemma digit_val_digit_char [simp]: "d < 10 \<Longrightarrow> digit_val (digit_char d) = d"
  by (simp add: digit_val_def of_char_digit_char)

lemma show_nat_digits: "\<forall>c \<in> set (show_nat n). is_digit c"
proof (induction n rule: show_nat.induct)
  case (1 n)
  then show ?case by (subst show_nat.simps) auto
qed

lemma show_nat_not_Nil [simp]: "show_nat n \<noteq> []"
  by (subst show_nat.simps) simp

lemma read_digits_snoc: "read_digits (ds @ [c]) = 10 * read_digits ds + int (digit_val c)"
  by (simp add: read_digits_def)

lemma read_show_nat [simp]: "read_digits (show_nat n) = int n"
proof (induction n rule: show_nat.induct)
  case (1 n)
  show ?case
  proof (cases "n < 10")
    case True
    then show ?thesis by (subst show_nat.simps) (simp add: read_digits_def)
  next
    case False
    with 1 have "read_digits (show_nat (n div 10)) = int (n div 10)" by simp
    moreover have "10 * int (n div 10) + int (n mod 10) = int n"
      by (metis mult_div_mod_eq of_nat_add of_nat_mult of_nat_numeral)
    ultimately show ?thesis using False
      by (subst show_nat.simps) (simp add: read_digits_snoc)
  qed
qed

lemma show_nat_inject [simp]: "show_nat m = show_nat n \<longleftrightarrow> m = n"
  by (metis read_show_nat of_nat_eq_iff)

lemma digit_not_ws: "is_digit c \<Longrightarrow> \<not> is_ws c"
  by (auto simp: is_digit_def is_ws_def)

lemma digit_not_sign: "is_digit c \<Longrightarrow> c \<noteq> CHR ''-'' \<and> c \<noteq> CHR ''+''"
  by (auto simp: is_digit_def)

lemma takeWhile_show_nat: "takeWhile is_digit (show_nat n) = show_nat n"
  using show_nat_digits by (simp add: takeWhile_eq_all_conv)

lemma hd_show_nat: "is_digit (hd (show_nat n))"
  using show_nat_digits show_nat_not_Nil by (metis hd_in_set)

theorem parseInt_show_int: "js_parseInt (show_int i) = Some i"
proof (cases "i < 0")
  case True
  have "dropWhile is_ws (show_int i) = show_int i"
    using True by (simp add: show_int_def is_ws_def)
  with True show ?thesis
    by (simp add: js_parseInt_def show_int_def takeWhile_show_nat)
next
  case False
  have hd: "hd (show_nat (nat i)) \<noteq> CHR ''-''" "hd (show_nat (nat i)) \<noteq> CHR ''+''"
    and ws: "\<not> is_ws (hd (show_nat (nat i)))"
    using digit_not_sign digit_not_ws hd_show_nat by blast+
  have "dropWhile is_ws (show_nat (nat i)) = show_nat (nat i)"
    using ws by (cases "show_nat (nat i)") auto
  with False hd show ?thesis
    by (simp add: js_parseInt_def show_int_def takeWhile_show_nat)
qed

lemma show_int_inject: "show_int i = show_int j \<longleftrightarrow> i = j"
  by (metis parseInt_show_int option.inject)

section \<open>Dates\<close>

text \<open>
  \<open>new Date(ms).toISOString()\<close> for the years 0 to 9999: the proleptic Gregorian date of
  the day number (shifted to eras of 400 years that start on 1 March), then the time of day.
\<close>

definition civil_of_days :: "int \<Rightarrow> int \<times> int \<times> int" where
  "civil_of_days z0 =
     (let z = z0 + 719468;
          era = z div 146097;
          doe = z mod 146097;
          yoe = (doe - doe div 1460 + doe div 36524 - doe div 146096) div 365;
          doy = doe - (365 * yoe + yoe div 4 - yoe div 100);
          mp = (5 * doy + 2) div 153;
          d = doy - (153 * mp + 2) div 5 + 1;
          m = (if mp < 10 then mp + 3 else mp - 9)
      in (yoe + era * 400 + (if m \<le> 2 then 1 else 0), m, d))"

definition pad_left :: "nat \<Rightarrow> string \<Rightarrow> string" where
  "pad_left n s = replicate (n - length s) (CHR ''0'') @ s"

definition js_toISOString :: "int \<Rightarrow> string" where
  "js_toISOString ms =
     (let (y, m, d) = civil_of_days (ms div 86400000);
          t = ms mod 86400000
      in pad_left 4 (show_int y) @ ''-'' @ pad_left 2 (show_int m) @ ''-'' @ pad_left 2 (show_int d)
         @ ''T'' @ pad_left 2 (show_int (t div 3600000)) @ '':''
         @ pad_left 2 (show_int (t div 60000 mod 60)) @ '':''
         @ pad_left 2 (show_int (t div 1000 mod 60)) @ ''.''
         @ pad_left 3 (show_int (t mod 1000)) @ ''Z'')"

lemma toISOString_epoch: "js_toISOString 0 = ''1970-01-01T00:00:00.000Z''"
  by code_simp

lemma toISOString_sample: "js_toISOString 1775346245678 = ''2026-04-04T23:44:05.678Z''"
  by code_simp

end
