(* ===== verification/ApiWorld.thy ===== *)
theory ApiWorld
  imports Complex_Main JsNumbers
begin

text \<open>
  The outside world of the program, threaded explicitly: the clock, the HTTP and GraphQL
  endpoints and the console. What the endpoints answer is not code of the repository, so it
  is a parameter (\<open>remote\<close>) that may depend on every call made so far; the calls
  themselves are recorded in the trace of the \<open>world\<close>. Also here: thrown values, JSON
  values with \<open>JSON.stringify\<close>, and the interface of a bounded log.
\<close>

section \<open>Thrown values\<close>

text \<open>
  The \<open>cause\<close> of an error is nothing, another error, a plain object (of which the code
  reads \<open>syscall\<close>, \<open>code\<close> and \<open>errno\<close>) or another value, given by its
  \<open>String(c)\<close>. A thrown value is an \<open>Error\<close> (name, message, cause) or any other value.
\<close>

datatype cause =
    NoCause
  | CauseError string cause
  | CauseObject "string option" "string option" "int option"
  | CauseOther string

datatype thrown =
    ErrorObject string string cause
  | OtherValue string

definition new_Error :: "string \<Rightarrow> thrown" where
  "new_Error msg = ErrorObject ''Error'' msg NoCause"

text \<open>\<open>e instanceof Error ? e.message : String(e)\<close>, and the variant with a fixed text.\<close>

fun err_message :: "thrown \<Rightarrow> string" where
  "err_message (ErrorObject n m c) = m"
| "err_message (OtherValue s) = s"

fun err_message_or :: "string \<Rightarrow> thrown \<Rightarrow> string" where
  "err_message_or d (ErrorObject n m c) = m"
| "err_message_or d (OtherValue s) = d"

section \<open>JSON\<close>

text \<open>
  The values of \<open>JSON.parse\<close> as far as the program handles them. A number is an integer or a decimal fraction:
  \<open>JDec neg w f\<close> has the sign \<open>neg\<close>, the whole part \<open>w\<close> and, after the point, the digits of \<open>Suc f\<close> from the last to the
  first, so that the fraction never ends in a zero. These are the numbers whose shortest decimal text, the one JavaScript
  prints, has no exponent; a double holds those of at most fifteen digits well enough to print them back. The members of
  an object are listed as JavaScript enumerates them.
\<close>

datatype json =
    JNull
  | JBool bool
  | JInt int
  | JDec bool nat nat
  | JStr string
  | JArr "json list"
  | JObj "(string \<times> json) list"

text \<open>A member whose value is \<open>undefined\<close> is left out of the object.\<close>

definition opt_member :: "string \<Rightarrow> json option \<Rightarrow> (string \<times> json) list" where
  "opt_member k v = (case v of None \<Rightarrow> [] | Some x \<Rightarrow> [(k, x)])"

definition opt_json :: "('a \<Rightarrow> json) \<Rightarrow> 'a option \<Rightarrow> json" where
  "opt_json f v = (case v of None \<Rightarrow> JNull | Some x \<Rightarrow> f x)"

definition hex_digit :: "nat \<Rightarrow> char" where
  "hex_digit d = (if d < 10 then char_of (48 + d) else char_of (87 + d))"

definition hex_val :: "char \<Rightarrow> nat option" where
  "hex_val c =
     (let n = of_char c :: nat
      in if 48 \<le> n \<and> n \<le> 57 then Some (n - 48)
         else if 65 \<le> n \<and> n \<le> 70 then Some (n - 55)
         else if 97 \<le> n \<and> n \<le> 102 then Some (n - 87) else None)"

definition json_escape_char :: "char \<Rightarrow> string" where
  "json_escape_char c =
     (if c = CHR 0x22 then [CHR 0x5C, CHR 0x22]
      else if c = CHR 0x5C then [CHR 0x5C, CHR 0x5C]
      else if c = CHR 0x08 then [CHR 0x5C, CHR ''b'']
      else if c = CHR 0x0C then [CHR 0x5C, CHR ''f'']
      else if c = CHR 0x0A then [CHR 0x5C, CHR ''n'']
      else if c = CHR 0x0D then [CHR 0x5C, CHR ''r'']
      else if c = CHR 0x09 then [CHR 0x5C, CHR ''t'']
      else if (of_char c :: nat) < 32
      then [CHR 0x5C, CHR ''u'', CHR ''0'', CHR ''0'',
            hex_digit (of_char c div 16), hex_digit (of_char c mod 16)]
      else [c])"

definition json_quote :: "string \<Rightarrow> string" where
  "json_quote s = CHR 0x22 # concat (map json_escape_char s) @ [CHR 0x22]"

definition dec_text :: "bool \<Rightarrow> nat \<Rightarrow> nat \<Rightarrow> string" where
  "dec_text neg w f = (if neg then ''-'' else []) @ show_nat w @ ''.'' @ rev (show_nat (Suc f))"

fun json_stringify :: "json \<Rightarrow> string" where
  "json_stringify JNull = ''null''"
| "json_stringify (JBool b) = (if b then ''true'' else ''false'')"
| "json_stringify (JInt i) = show_int i"
| "json_stringify (JDec neg w f) = dec_text neg w f"
| "json_stringify (JStr s) = json_quote s"
| "json_stringify (JArr xs) = ''['' @ js_join '','' (map json_stringify xs) @ '']''"
| "json_stringify (JObj kvs) =
     ''{'' @ js_join '','' (map (\<lambda>(k, v). json_quote k @ '':'' @ json_stringify v) kvs) @ ''}''"

definition no_control :: "string \<Rightarrow> bool" where
  "no_control s \<longleftrightarrow> (\<forall>c \<in> set s. 32 \<le> (of_char c :: nat))"

lemma no_control_append [simp]: "no_control (s @ t) \<longleftrightarrow> no_control s \<and> no_control t"
  by (auto simp: no_control_def)

lemma no_control_Nil [simp]: "no_control []"
  by (simp add: no_control_def)

lemma no_control_Cons [simp]: "no_control (c # s) \<longleftrightarrow> 32 \<le> (of_char c :: nat) \<and> no_control s"
  by (auto simp: no_control_def)

lemma no_control_concat [simp]: "no_control (concat xs) \<longleftrightarrow> (\<forall>x \<in> set xs. no_control x)"
  by (induction xs) auto

lemma of_char_hex_digit: "d < 16 \<Longrightarrow> 32 \<le> (of_char (hex_digit d) :: nat)"
  by (simp add: hex_digit_def)

lemma no_control_escape: "no_control (json_escape_char c)"
proof -
  have "of_char c div 16 < (16::nat)" by (simp add: less_mult_imp_div_less)
  then show ?thesis by (auto simp: json_escape_char_def of_char_hex_digit)
qed

lemma no_control_quote [simp]: "no_control (json_quote s)"
  by (simp add: json_quote_def no_control_escape)

lemma no_control_join: "no_control sep \<Longrightarrow> \<forall>x \<in> set xs. no_control x \<Longrightarrow> no_control (js_join sep xs)"
  by (induction sep xs rule: js_join.induct) auto

lemma no_control_show_int [simp]: "no_control (show_int i)"
  using show_nat_digits by (fastforce simp: show_int_def no_control_def is_digit_def)

lemma no_control_dec [simp]: "no_control (dec_text neg w f)"
  using show_nat_digits by (fastforce simp: dec_text_def no_control_def is_digit_def)

lemma no_control_stringify: "no_control (json_stringify j)"
proof (induction j)
  case (JArr xs)
  then show ?case by (auto intro!: no_control_join)
next
  case (JObj kvs)
  then have "\<forall>x \<in> set (map (\<lambda>(k, v). json_quote k @ '':'' @ json_stringify v) kvs). no_control x"
    by (fastforce simp: snds.simps)
  then show ?case by (auto intro!: no_control_join)
qed auto

section \<open>HTTP replies of the program's own routes\<close>

record reply =
  rp_status :: int
  rp_body :: json

definition json_reply :: "int \<Rightarrow> (string \<times> json) list \<Rightarrow> reply" where
  "json_reply st members = \<lparr>rp_status = st, rp_body = JObj members\<rparr>"

definition error_reply :: "int \<Rightarrow> string \<Rightarrow> reply" where
  "error_reply st msg = json_reply st [(''error'', JStr msg)]"

lemma rp_status_json_reply [simp]: "rp_status (json_reply st ms) = st"
  by (simp add: json_reply_def)

lemma rp_status_error_reply [simp]: "rp_status (error_reply st ms) = st"
  by (simp add: error_reply_def)

section \<open>The GraphQL and HTTP endpoints\<close>

text \<open>
  A GraphQL request of the program: the operation with its variables (for the batch of
  deployments, the query text itself). The data of a reply is a JavaScript object, read by
  field: a field that is absent is \<open>undefined\<close>, an inner \<^const>\<open>None\<close> is \<open>null\<close>.
\<close>

datatype gql_request =
    Gql_ProjectServices "string option"
  | Gql_DeploymentsBatch string
  | Gql_EnvMetrics "string option" string
  | Gql_DeploymentRestart string
  | Gql_DeploymentStop string
  | Gql_DeploymentRemove string
  | Gql_ServiceInstanceDeploy string string

record service_node =
  sn_id :: string
  sn_name :: string

record project_node =
  pn_id :: string
  pn_name :: string
  pn_edges :: "service_node option list option"

record deployment_node =
  dn_id :: string
  dn_status :: "string option"
  dn_createdAt :: "string option"
  dn_url :: "string option"
  dn_staticUrl :: "string option"

record metric_value =
  mv_ts :: string
  mv_value :: "rat option"

record metric_row =
  mr_measurement :: string
  mr_serviceId :: "string option"
  mr_values :: "metric_value list option"

record gql_data =
  gd_project :: "project_node option"
  gd_conns :: "(string \<times> deployment_node option list option) list"
  gd_metrics :: "metric_row list option"
  gd_flags :: "(string \<times> bool option) list"

record gql_body =
  gb_data :: "gql_data option"
  gb_errors :: "string list option"

record gql_response =
  gr_status :: int
  gr_json :: "thrown + gql_body"

record http_response =
  hr_status :: int
  hr_json :: "thrown + json"
  hr_text :: "thrown + string"

text \<open>\<open>res.ok\<close>.\<close>

definition status_ok :: "int \<Rightarrow> bool" where
  "status_ok st \<longleftrightarrow> 200 \<le> st \<and> st \<le> 299"

text \<open>Calls of the Docker engine: listing, inspecting, statistics, killing and restarting.\<close>

datatype docker_request =
    Dk_list
  | Dk_inspect string
  | Dk_stats string
  | Dk_kill string
  | Dk_restart string int

text \<open>A GraphQL request, an HTTP GET, an HTTP POST with its body, a call of the Docker engine.\<close>

datatype call =
    Call_gql gql_request
  | Call_http string
  | Call_post string "json option"
  | Call_docker docker_request

text \<open>
  \<open>o_now n\<close> and \<open>o_perf n\<close> are the \<open>n\<close>-th readings of \<open>Date.now()\<close> (milliseconds)
  and \<open>performance.now()\<close> (microseconds); \<open>o_date s\<close> is \<open>new Date(s).getTime()\<close>,
  \<^const>\<open>None\<close> for \<open>NaN\<close> (which strings parse is up to the engine).
\<close>

record remote =
  o_now :: "nat \<Rightarrow> int"
  o_perf :: "nat \<Rightarrow> int"
  o_date :: "string \<Rightarrow> int option"
  o_gql :: "call list \<Rightarrow> gql_request \<Rightarrow> thrown + gql_response"
  o_http :: "call list \<Rightarrow> string \<Rightarrow> thrown + http_response"
  o_post :: "call list \<Rightarrow> string \<Rightarrow> json option \<Rightarrow> thrown + http_response"

record world =
  w_trace :: "call list"
  w_dates :: nat
  w_perfs :: nat
  w_console :: "(string \<times> (string \<times> string) list) list"

definition init_world :: world where
  "init_world = \<lparr>w_trace = [], w_dates = 0, w_perfs = 0, w_console = []\<rparr>"

definition date_now :: "remote \<Rightarrow> world \<Rightarrow> int \<times> world" where
  "date_now R w = (o_now R (w_dates w), w\<lparr>w_dates := Suc (w_dates w)\<rparr>)"

definition perf_now :: "remote \<Rightarrow> world \<Rightarrow> int \<times> world" where
  "perf_now R w = (o_perf R (w_perfs w), w\<lparr>w_perfs := Suc (w_perfs w)\<rparr>)"

text \<open>\<open>Math.round(performance.now() - t0)\<close>, in milliseconds.\<close>

definition perf_ms :: "int \<Rightarrow> int \<Rightarrow> int" where
  "perf_ms t0 t1 = round_div (t1 - t0) 1000"

definition send_gql :: "remote \<Rightarrow> gql_request \<Rightarrow> world \<Rightarrow> (thrown + gql_response) \<times> world" where
  "send_gql R q w = (o_gql R (w_trace w) q, w\<lparr>w_trace := w_trace w @ [Call_gql q]\<rparr>)"

definition send_http :: "remote \<Rightarrow> string \<Rightarrow> world \<Rightarrow> (thrown + http_response) \<times> world" where
  "send_http R url w = (o_http R (w_trace w) url, w\<lparr>w_trace := w_trace w @ [Call_http url]\<rparr>)"

definition send_post :: "remote \<Rightarrow> string \<Rightarrow> json option \<Rightarrow> world \<Rightarrow> (thrown + http_response) \<times> world" where
  "send_post R url body w = (o_post R (w_trace w) url body, w\<lparr>w_trace := w_trace w @ [Call_post url body]\<rparr>)"

definition console_info :: "string \<Rightarrow> (string \<times> string) list \<Rightarrow> world \<Rightarrow> world" where
  "console_info ev d w = w\<lparr>w_console := w_console w @ [(ev, d)]\<rparr>"

lemma date_now_trace [world_simps, simp]: "w_trace (snd (date_now R w)) = w_trace w"
  by (simp add: date_now_def)

lemma perf_now_trace [world_simps, simp]: "w_trace (snd (perf_now R w)) = w_trace w"
  by (simp add: perf_now_def)

lemma send_gql_trace [world_simps, simp]: "w_trace (snd (send_gql R q w)) = w_trace w @ [Call_gql q]"
  by (simp add: send_gql_def)

lemma send_http_trace [world_simps, simp]: "w_trace (snd (send_http R u w)) = w_trace w @ [Call_http u]"
  by (simp add: send_http_def)

lemma send_post_trace [world_simps, simp]: "w_trace (snd (send_post R u b w)) = w_trace w @ [Call_post u b]"
  by (simp add: send_post_def)

lemma console_info_trace [world_simps, simp]: "w_trace (console_info ev d w) = w_trace w"
  by (simp add: console_info_def)

section \<open>Bounded logs\<close>

text \<open>\<open>xs.slice(-n)\<close> for \<open>n > 0\<close>: the last \<open>n\<close> elements.\<close>

definition last_n :: "nat \<Rightarrow> 'a list \<Rightarrow> 'a list" where
  "last_n n xs = drop (length xs - n) xs"

lemma length_last_n [simp]: "length (last_n n xs) = min n (length xs)"
  by (simp add: last_n_def)

lemma last_n_all: "length xs \<le> n \<Longrightarrow> last_n n xs = xs"
  by (simp add: last_n_def)

lemma last_n_append_last_n: "last_n n (last_n n xs @ ys) = last_n n (xs @ ys)"
proof (cases "length xs \<le> n")
  case True
  then show ?thesis by (simp add: last_n_all)
next
  case False
  then show ?thesis by (auto simp: last_n_def min_def add.commute)
qed

text \<open>
  The interface of a log that keeps the newest \<open>cap\<close> entries: what a reader sees after a
  push is the old view with the entry added, cut from the front.
\<close>

locale bounded_log =
  fixes push :: "'e \<Rightarrow> 's \<Rightarrow> 's" and view :: "'s \<Rightarrow> 'e list" and cap :: nat
  assumes view_push: "view (push e s) = last_n cap (view s @ [e])"
    and cap_pos: "0 < cap"
begin

lemma length_view_push: "length (view (push e s)) \<le> cap"
  by (simp add: view_push)

lemma push_keeps_newest: "view (push e s) \<noteq> [] \<and> last (view (push e s)) = e"
  using cap_pos by (simp add: view_push last_n_def)

lemma view_push_all: "view (fold push es s) = (if es = [] then view s else last_n cap (view s @ es))"
proof (induction es arbitrary: s)
  case (Cons e es)
  then show ?case
    using last_n_append_last_n [of cap "view s @ [e]" es] by (auto simp: view_push)
qed simp

lemma view_push_all_bounded:
  "length (view s) \<le> cap \<Longrightarrow> view (fold push es s) = last_n cap (view s @ es)"
  by (simp add: view_push_all last_n_all)

end

end
