(* ===== verification/SetupEnv.thy ===== *)
theory SetupEnv
  imports ApiWorld
begin

text \<open>
  The environment of the provisioning script (\<open>setup-railway.js\<close>): the optional file
  \<open>.env.railway.setup\<close>, and the token for log ingestion, which is generated and saved in that file when there is
  none. The two regular expressions that look for the token in the file are modelled with their multi-line
  flag, where \<open>\s*\<close> also runs over line ends. Messages on the console are not modelled.
\<close>

section \<open>The file\<close>

type_synonym env = "string \<Rightarrow> string option"

definition newline :: char where "newline = CHR 0x0A"
definition carriage :: char where "carriage = CHR 0x0D"

text \<open>\<open>text.split(/\r?\n/)\<close>.\<close>

definition split_lines :: "string \<Rightarrow> string list" where
  "split_lines text =
     (let ps = js_split newline text in map (strip_one_trailing carriage) (butlast ps) @ [last ps])"

definition quoted_by :: "char \<Rightarrow> string \<Rightarrow> bool" where
  "quoted_by q v \<longleftrightarrow> v \<noteq> [] \<and> hd v = q \<and> last v = q"

definition unquote :: "string \<Rightarrow> string" where
  "unquote v = (if quoted_by (CHR 0x22) v \<or> quoted_by (CHR 0x27) v then butlast (tl v) else v)"

text \<open>One line: the key before the first equals sign and the value after it, if it is a setting.\<close>

definition env_line :: "string \<Rightarrow> (string \<times> string) option" where
  "env_line line =
     (let s = js_trim line; before = takeWhile (\<lambda>c. c \<noteq> CHR ''='') s; rest = dropWhile (\<lambda>c. c \<noteq> CHR ''='') s
      in if s = [] \<or> hd s = CHR ''#'' then None
         else if rest = [] \<or> before = [] then None
         else Some (js_trim before, unquote (js_trim (tl rest))))"

definition env_lines :: "string \<Rightarrow> (string \<times> string) list" where
  "env_lines text = List.map_filter env_line (split_lines text)"

definition set_if_unset :: "string \<times> string \<Rightarrow> env \<Rightarrow> env" where
  "set_if_unset kv env = (if env (fst kv) = None then env(fst kv \<mapsto> snd kv) else env)"

definition loadOptionalEnvFile :: "string option \<Rightarrow> env \<Rightarrow> env" where
  "loadOptionalEnvFile file env =
     (case file of None \<Rightarrow> env | Some text \<Rightarrow> fold set_if_unset (env_lines text) env)"

text \<open>\<open>process.env[k] === "1" || process.env[k] === "true"\<close>, and \<open>(process.env[k] || "").trim()\<close>.\<close>

definition env_flag :: "env \<Rightarrow> string \<Rightarrow> bool" where
  "env_flag env k \<longleftrightarrow> env k = Some ''1'' \<or> env k = Some ''true''"

definition env_text :: "env \<Rightarrow> string \<Rightarrow> string" where
  "env_text env k = js_trim (coalesce (env k) [])"

section \<open>The token for log ingestion\<close>

definition TOKEN_KEY :: string where "TOKEN_KEY = ''LOG_INGEST_TOKEN''"

definition first_token :: "(string \<times> string) list \<Rightarrow> string" where
  "first_token kvs =
     (case filter (\<lambda>kv. fst kv = TOKEN_KEY \<and> js_trim (snd kv) \<noteq> []) kvs of [] \<Rightarrow> [] | kv # rest \<Rightarrow> js_trim (snd kv))"

definition readLogIngestTokenFromFile :: "string option \<Rightarrow> string" where
  "readLogIngestTokenFromFile file = (case file of None \<Rightarrow> [] | Some text \<Rightarrow> first_token (env_lines text))"

text \<open>
  Where \<open>^\<close> matches with the \<open>m\<close> flag: at the start of the text and after a line end. The pairs are what stands
  before and after.
\<close>

fun line_starts :: "bool \<Rightarrow> string \<Rightarrow> string \<Rightarrow> (string \<times> string) list" where
  "line_starts at_start pre [] = (if at_start then [(pre, [])] else [])"
| "line_starts at_start pre (c # s) =
     (if at_start then [(pre, c # s)] else []) @ line_starts (c = newline \<or> c = carriage) (pre @ [c]) s"

text \<open>\<open>\s*LOG_INGEST_TOKEN\s*=\<close> at the start of a string: what stands after it.\<close>

definition after_token_key :: "string \<Rightarrow> string option" where
  "after_token_key s =
     (let a = dropWhile is_ws s
      in if js_startsWith a TOKEN_KEY
         then (case dropWhile is_ws (drop (length TOKEN_KEY) a) of
                 [] \<Rightarrow> None
               | c # d \<Rightarrow> if c = CHR ''='' then Some d else None)
         else None)"

text \<open>The tests \<open>/^\s*LOG_INGEST_TOKEN\s*=\s*\S/m\<close> and \<open>/^\s*LOG_INGEST_TOKEN\s*=/m\<close>.\<close>

definition has_token_value :: "string \<Rightarrow> bool" where
  "has_token_value text \<longleftrightarrow>
     list_ex (\<lambda>p. case after_token_key (snd p) of None \<Rightarrow> False | Some d \<Rightarrow> dropWhile is_ws d \<noteq> [])
       (line_starts True [] text)"

definition has_token_line :: "string \<Rightarrow> bool" where
  "has_token_line text \<longleftrightarrow> list_ex (\<lambda>p. after_token_key (snd p) \<noteq> None) (line_starts True [] text)"

text \<open>\<open>text.replace(/^(\s*LOG_INGEST_TOKEN\s*=\s*).*$/m, `$1${t}`)\<close>: at the first match.\<close>

definition replace_token_line :: "string \<Rightarrow> string \<Rightarrow> string" where
  "replace_token_line t text =
     (case find (\<lambda>p. after_token_key (snd p) \<noteq> None) (line_starts True [] text) of
        None \<Rightarrow> text
      | Some (pre, s) \<Rightarrow>
          (let r = dropWhile is_ws (the (after_token_key s))
           in pre @ take (length s - length r) s @ t @ dropWhile (\<lambda>c. c \<noteq> newline \<and> c \<noteq> carriage) r))"

definition appended_token :: "string \<Rightarrow> string \<Rightarrow> string" where
  "appended_token t text =
     text @ [newline] @ ''# HTTP log ingest '' @ u_arrow @ '' dashboard-backend /api/ingest (no Kafka)'' @ [newline]
       @ TOKEN_KEY @ ''='' @ t @ [newline]"

definition fresh_setup_text :: string where
  "fresh_setup_text = ''# Railway setup '' @ u_emdash @ '' see RAILWAY.md'' @ [newline] @ ''RAILWAY_API_TOKEN='' @ [newline]"

record setup_files =
  sf_setup :: "string option"
  sf_example :: "string option"

text \<open>
  \<open>ensureLogIngestTokenForHttpIngest\<close>: \<open>names\<close> are the services of the project, \<open>t\<close> is the fresh random
  token; the file that is missing is created from the example first.
\<close>

definition setup_text :: "setup_files \<Rightarrow> string" where
  "setup_text fs = coalesce (sf_setup fs) (coalesce (sf_example fs) fresh_setup_text)"

definition save_token :: "string \<Rightarrow> env \<Rightarrow> setup_files \<Rightarrow> env \<times> setup_files" where
  "save_token t env fs =
     (let text = setup_text fs; env1 = env(TOKEN_KEY \<mapsto> t)
      in if has_token_value text
         then (let f = readLogIngestTokenFromFile (Some text)
               in (if f \<noteq> [] then env1(TOKEN_KEY \<mapsto> f) else env1, fs\<lparr>sf_setup := Some text\<rparr>))
         else if has_token_line text
         then (env1, fs\<lparr>sf_setup := Some (replace_token_line t text)\<rparr>)
         else (env1, fs\<lparr>sf_setup := Some (appended_token t text)\<rparr>))"

definition ensureLogIngestTokenForHttpIngest ::
  "string list \<Rightarrow> string option \<Rightarrow> string \<Rightarrow> env \<Rightarrow> setup_files \<Rightarrow> env \<times> setup_files" where
  "ensureLogIngestTokenForHttpIngest names kafka t env fs =
     (if truthy kafka then (env, fs)
      else if env_flag env ''SKIP_LOG_INGEST_AUTO_TOKEN'' then (env, fs)
      else if ''dashboard-backend'' \<notin> set names \<or> ''url-shortener-a'' \<notin> set names then (env, fs)
      else (let f = readLogIngestTokenFromFile (sf_setup fs);
                env1 = (if env_text env TOKEN_KEY = [] \<and> f \<noteq> [] then env(TOKEN_KEY \<mapsto> f) else env)
            in if env_text env1 TOKEN_KEY \<noteq> [] then (env1, fs) else save_token t env1 fs))"

section \<open>Lemmas\<close>

lemma fold_set_if_unset: "fold set_if_unset kvs env k = (case env k of Some v \<Rightarrow> Some v | None \<Rightarrow> map_of kvs k)"
  by (induction kvs arbitrary: env) (auto simp: set_if_unset_def split: option.split)

lemma dropWhile_split: "x \<in> set xs \<Longrightarrow> \<not> P x \<Longrightarrow> dropWhile P (xs @ ys) = dropWhile P xs @ ys"
  by (induction xs) auto

lemma js_trim_parts: "\<exists>a b. s = a @ js_trim s @ b \<and> (\<forall>c \<in> set a \<union> set b. is_ws c)"
proof -
  define u where "u = dropWhile is_ws s"
  have "rev u = takeWhile is_ws (rev u) @ dropWhile is_ws (rev u)" by simp
  then have "u = rev (dropWhile is_ws (rev u)) @ rev (takeWhile is_ws (rev u))" by (metis rev_append rev_rev_ident)
  then have "u = js_trim s @ rev (takeWhile is_ws (rev u))" by (simp add: js_trim_def u_def)
  moreover have "s = takeWhile is_ws s @ u" by (simp add: u_def)
  ultimately have "s = takeWhile is_ws s @ js_trim s @ rev (takeWhile is_ws (rev u))" by simp
  moreover have "\<forall>c \<in> set (takeWhile is_ws s) \<union> set (rev (takeWhile is_ws (rev u))). is_ws c"
    by (auto dest: set_takeWhileD)
  ultimately show ?thesis by blast
qed

text \<open>Carriage returns at the end of a line are trimmed off, so the lines can be read without removing them first.\<close>

lemma js_trim_snoc_ws:
  assumes "is_ws c"
  shows "js_trim (s @ [c]) = js_trim s"
proof (cases "\<forall>x \<in> set s. is_ws x")
  case True
  then have "dropWhile is_ws s = []" "dropWhile is_ws (s @ [c]) = []" using assms by simp_all
  then show ?thesis unfolding js_trim_def by (simp only:)
next
  case False
  then show ?thesis using assms by (auto simp: js_trim_def dropWhile_split)
qed

lemma js_trim_strip: "js_trim (strip_one_trailing carriage s) = js_trim s"
proof (cases "s \<noteq> [] \<and> last s = carriage")
  case True
  then have "s = butlast s @ [carriage]" by (metis append_butlast_last_id)
  moreover have "is_ws carriage" by (simp add: is_ws_def carriage_def)
  ultimately show ?thesis using True js_trim_snoc_ws [of carriage "butlast s"] by (simp add: strip_one_trailing_def)
qed (auto simp: strip_one_trailing_def)

lemma env_line_strip: "env_line (strip_one_trailing carriage s) = env_line s"
  by (simp add: env_line_def js_trim_strip)

lemma map_filter_append [simp]: "List.map_filter f (xs @ ys) = List.map_filter f xs @ List.map_filter f ys"
  by (simp add: List.map_filter_def)

lemma env_lines_split: "env_lines text = List.map_filter env_line (js_split newline text)"
proof -
  define ls where "ls = js_split newline text"
  have strip: "List.map_filter env_line (map (strip_one_trailing carriage) xs) = List.map_filter env_line xs" for xs
    by (induction xs) (simp_all add: List.map_filter_simps env_line_strip split: option.split)
  have "env_lines text = List.map_filter env_line (butlast ls) @ List.map_filter env_line [last ls]"
    unfolding env_lines_def split_lines_def Let_def map_filter_append strip ls_def by (rule refl)
  also have "\<dots> = List.map_filter env_line (butlast ls @ [last ls])" by (rule map_filter_append [symmetric])
  also have "butlast ls @ [last ls] = ls" by (simp add: ls_def)
  finally show ?thesis by (simp add: ls_def)
qed

lemma js_split_append_sep: "js_split c (a @ c # b) = js_split c a @ js_split c b"
proof (induction a)
  case (Cons x a)
  then show ?case by (auto simp: neq_Nil_conv split: list.split)
qed simp

lemma env_lines_append: "env_lines (a @ newline # b) = env_lines a @ env_lines b"
  by (simp add: env_lines_split js_split_append_sep List.map_filter_def)

section \<open>Properties\<close>

text \<open>
  the file never overrides the shell. A variable that is set, even to the empty text, keeps its value;
  any other gets the value of the first line of the file that sets it, without surrounding blanks and quotes.
\<close>

theorem env_file_fills_gaps:
  "loadOptionalEnvFile file env k =
     (case env k of Some v \<Rightarrow> Some v | None \<Rightarrow> (case file of None \<Rightarrow> None | Some text \<Rightarrow> map_of (env_lines text) k))"
  by (auto simp: loadOptionalEnvFile_def fold_set_if_unset split: option.split)

text \<open>A setup file with an empty token line and a setting after it.\<close>

definition empty_token_files :: setup_files where
  "empty_token_files =
     \<lparr>sf_setup = Some (TOKEN_KEY @ ''='' @ [newline] @ ''RAILWAY_BRANCH=main'' @ [newline]), sf_example = None\<rparr>"

text \<open>
  an empty token line makes every run use another token. When the setup file holds the line
  \<open>LOG_INGEST_TOKEN=\<close> with settings after it, the first test runs over the line end and takes the next
  setting for the token's value: the generated token is used but not saved, so that the next run generates another.
\<close>

theorem empty_token_line_is_not_filled:
  "ensureLogIngestTokenForHttpIngest [''dashboard-backend'', ''url-shortener-a''] None t (\<lambda>_. None) empty_token_files =
     ([TOKEN_KEY \<mapsto> t], empty_token_files)"
proof -
  have test: "has_token_value (the (sf_setup empty_token_files))" by code_simp
  have read: "readLogIngestTokenFromFile (sf_setup empty_token_files) = []" by code_simp
  have body: "setup_text empty_token_files = the (sf_setup empty_token_files)" "empty_token_files\<lparr>sf_setup := Some (the (sf_setup empty_token_files))\<rparr> = empty_token_files"
    "Some (the (sf_setup empty_token_files)) = sf_setup empty_token_files"
    by (simp_all add: empty_token_files_def setup_text_def)
  show ?thesis
    by (simp add: ensureLogIngestTokenForHttpIngest_def save_token_def Let_def env_flag_def env_text_def read body test)
qed

text \<open>The last line of a file: an empty token line.\<close>

definition bare_token_text :: string where
  "bare_token_text = TOKEN_KEY @ ''='' @ [newline]"

definition bare_token_files :: setup_files where
  "bare_token_files = \<lparr>sf_setup = Some bare_token_text, sf_example = None\<rparr>"

lemma env_lines_no_eq: "CHR ''='' \<notin> set s \<Longrightarrow> env_lines s = []"
proof -
  assume none: "CHR ''='' \<notin> set s"
  have line: "env_line l = None" if "CHR ''='' \<notin> set l" for l
  proof -
    obtain a b where "l = a @ js_trim l @ b" using js_trim_parts [of l] by auto
    then have "CHR ''='' \<notin> set (js_trim l)" using that by (metis Un_iff set_append)
    then have "dropWhile (\<lambda>c. c \<noteq> CHR ''='') (js_trim l) = []" by auto
    then show ?thesis by (simp only: env_line_def Let_def simp_thms if_True if_cancel split: if_split)
  qed
  have "set l \<subseteq> set s" if "l \<in> set (js_split newline s)" for l
    using that
  proof (induction s arbitrary: l)
    case (Cons x s)
    then show ?case by (fastforce split: if_splits list.splits)
  qed simp
  then have "env_line l = None" if "l \<in> set (js_split newline s)" for l using line none that by blast
  then show ?thesis by (simp add: env_lines_split List.map_filter_def filter_empty_conv)
qed

text \<open>
  with nothing after the empty token line, the replacement puts the token on the line below it, where it is
  not the value of the key: reading the file back finds no token, for every token without an equals sign.
\<close>

theorem token_below_its_line:
  "if CHR ''='' \<in> set t then True
   else readLogIngestTokenFromFile (sf_setup (snd (save_token t env bare_token_files))) = []"
proof -
  let ?bare = bare_token_text
  have body: "setup_text bare_token_files = ?bare" by (simp add: setup_text_def bare_token_files_def)
  have tests: "\<not> has_token_value ?bare" "has_token_line ?bare" by code_simp+
  have "find (\<lambda>p. after_token_key (snd p) \<noteq> None) (line_starts True [] ?bare) = Some ([], ?bare)" by code_simp
  moreover have "after_token_key ?bare = Some [newline]" by code_simp
  moreover have "is_ws newline" by code_simp
  ultimately have "replace_token_line t ?bare = ?bare @ t" by (simp add: replace_token_line_def)
  then have saved: "sf_setup (snd (save_token t env bare_token_files)) = Some (?bare @ t)"
    by (simp add: save_token_def Let_def body tests)
  have first: "env_lines (TOKEN_KEY @ ''='') = [(TOKEN_KEY, [])]" by code_simp
  have "?bare @ t = (TOKEN_KEY @ ''='') @ newline # t" by (simp add: bare_token_text_def)
  then have "env_lines (?bare @ t) = env_lines (TOKEN_KEY @ ''='') @ env_lines t" by (simp only: env_lines_append)
  then show ?thesis
    unfolding saved by (simp add: readLogIngestTokenFromFile_def env_lines_no_eq first first_token_def)
qed

section \<open>A generated token is found again\<close>

definition token_chars :: "string \<Rightarrow> bool" where
  "token_chars t \<longleftrightarrow> t \<noteq> [] \<and> list_all (\<lambda>c. is_digit c \<or> c \<in> set ''abcdef'') t"

lemma line_starts_suffix:
  "(b \<longrightarrow> (pre, s) \<in> set (line_starts b pre s)) \<and>
   (s = u @ newline # v \<longrightarrow> (pre @ u @ [newline], v) \<in> set (line_starts b pre s))"
proof (induction b pre s arbitrary: u rule: line_starts.induct)
  case (2 b pre c s)
  have "(pre @ u @ [newline], v) \<in> set (line_starts b pre (c # s))" if "c # s = u @ newline # v"
  proof (cases u)
    case Nil
    with that have "c = newline" "s = v" by simp_all
    then show ?thesis using "2.IH" [of "[]"] Nil by simp
  next
    case (Cons x u')
    with that have "c = x" "s = u' @ newline # v" by simp_all
    then show ?thesis using "2.IH" [of u'] Cons by simp
  qed
  then show ?case by simp
qed simp

lemma split_line_starts: "l \<in> set (js_split newline s) \<Longrightarrow> \<exists>pre r. (pre, l @ r) \<in> set (line_starts True [] s)"
proof -
  assume l: "l \<in> set (js_split newline s)"
  have "(\<exists>r. s = l @ r) \<or> (\<exists>u r. s = u @ newline # l @ r)"
    using l
  proof (induction s arbitrary: l)
    case (Cons x s)
    show ?case
    proof (cases "x = newline")
      case True
      with Cons.prems have "l = [] \<or> l \<in> set (js_split newline s)" by simp
      then show ?thesis
      proof
        assume "l \<in> set (js_split newline s)"
        then consider r where "s = l @ r" | u r where "s = u @ newline # l @ r" using Cons.IH by blast
        then show ?thesis
        proof cases
          case 1
          then have "x # s = [] @ newline # l @ r" using True by simp
          then show ?thesis by blast
        next
          case 2
          then have "x # s = (newline # u) @ newline # l @ r" using True by simp
          then show ?thesis by blast
        qed
      qed simp
    next
      case False
      obtain w ws where ws: "js_split newline s = w # ws" by (meson js_split_not_Nil neq_Nil_conv)
      from False Cons.prems ws have "l = x # w \<or> l \<in> set ws" by simp
      then show ?thesis
      proof
        assume "l = x # w"
        moreover have "s = w \<or> (\<exists>r. s = w @ newline # r)"
          using js_split_join [of newline s] ws by (cases ws) auto
        ultimately show ?thesis by auto
      next
        assume "l \<in> set ws"
        then obtain a b where "ws = a @ l # b" by (meson split_list)
        then have "s = w @ newline # js_join [newline] (a @ l # b)"
          using js_split_join [of newline s] ws by (cases a) auto
        moreover have "\<exists>u r. newline # js_join [newline] (a @ l # b) = u @ newline # l @ r"
        proof (induction a)
          case Nil
          show ?case by (cases b) (auto intro: exI [of _ "[]"])
        next
          case (Cons y a)
          then obtain u r where "newline # js_join [newline] (a @ l # b) = u @ newline # l @ r" by blast
          then have "newline # js_join [newline] ((y # a) @ l # b) = (newline # y @ u) @ newline # l @ r"
            by (cases a) auto
          then show ?case by blast
        qed
        ultimately show ?thesis by (metis append_Cons append_assoc)
      qed
    qed
  qed simp
  then show ?thesis
    using line_starts_suffix [of True "[]" s] by fastforce
qed

lemma env_line_token: "env_line l = Some (TOKEN_KEY, v) \<Longrightarrow> after_token_key (l @ r) \<noteq> None"
proof -
  assume line: "env_line l = Some (TOKEN_KEY, v)"
  define s where "s = js_trim l"
  define before where "before = takeWhile (\<lambda>c. c \<noteq> CHR ''='') s"
  have parts: "dropWhile (\<lambda>c. c \<noteq> CHR ''='') s \<noteq> []" "js_trim before = TOKEN_KEY" "s \<noteq> []" "before \<noteq> []"
    using line by (auto simp: env_line_def Let_def s_def before_def split: if_splits)
  obtain d where d: "s = before @ CHR ''='' # d"
    using parts(1) hd_dropWhile_not [of "\<lambda>c. c \<noteq> CHR ''=''" s]
    by (metis (mono_tags, lifting) before_def list.collapse takeWhile_dropWhile_id)
  obtain a b where ab: "l = a @ s @ b" "\<forall>c \<in> set a. is_ws c" using js_trim_parts [of l] s_def by auto
  have "\<not> is_ws (hd s)" using trimmed_js_trim [of l] parts(3) by (simp add: trimmed_def s_def)
  then have hd: "\<not> is_ws (hd before)" using d parts(4) by (cases before) simp_all
  obtain a' b' where "before = a' @ TOKEN_KEY @ b'" "\<forall>c \<in> set a' \<union> set b'. is_ws c"
    using js_trim_parts [of before] parts(2) by metis
  then have before: "before = TOKEN_KEY @ b'" "\<forall>c \<in> set b'. is_ws c" using hd by (cases a'; simp)+
  have ws: "dropWhile is_ws (w @ c # x) = c # x" if "\<forall>c \<in> set w. is_ws c" "\<not> is_ws c" for w c x
    using that by (induction w) auto
  have "s = hd s # tl s" using parts(3) by simp
  then have "dropWhile is_ws (l @ r) = s @ b @ r"
    using ws [OF ab(2) \<open>\<not> is_ws (hd s)\<close>, of "tl s @ b @ r"] ab(1) by (metis append_Cons append_assoc)
  moreover have "s @ b @ r = TOKEN_KEY @ b' @ CHR ''='' # (d @ b @ r)" using d before by simp
  moreover have "dropWhile is_ws (b' @ CHR ''='' # (d @ b @ r)) = CHR ''='' # (d @ b @ r)"
    by (rule ws [OF before(2)]) (simp add: is_ws_def)
  ultimately show ?thesis by (simp add: after_token_key_def Let_def js_startsWith_def)
qed

lemma no_token_line_no_setting: "\<not> has_token_line s \<Longrightarrow> kv \<in> set (env_lines s) \<Longrightarrow> fst kv \<noteq> TOKEN_KEY"
proof
  assume none: "\<not> has_token_line s" and kv: "kv \<in> set (env_lines s)" and key: "fst kv = TOKEN_KEY"
  obtain l where l: "l \<in> set (js_split newline s)" "env_line l = Some kv"
    using kv by (auto simp: env_lines_split List.map_filter_def)
  obtain pre r where "(pre, l @ r) \<in> set (line_starts True [] s)" using split_line_starts [OF l(1)] by blast
  moreover have "after_token_key (l @ r) \<noteq> None"
    by (rule env_line_token [of l "snd kv"]) (use l(2) key in \<open>metis prod.collapse\<close>)
  ultimately show False using none by (force simp: has_token_line_def list_ex_iff)
qed

lemma token_safe:
  "token_chars t \<Longrightarrow> c \<in> set t \<Longrightarrow> \<not> is_ws c \<and> c \<noteq> newline \<and> c \<noteq> CHR 0x22 \<and> c \<noteq> CHR 0x27"
  by (auto simp: token_chars_def list_all_iff is_ws_def is_digit_def newline_def)

lemma token_trimmed: "token_chars t \<Longrightarrow> trimmed t \<and> t \<noteq> []"
  using token_safe by (auto simp: trimmed_def token_chars_def)

lemma token_line_read:
  assumes "token_chars t"
  shows "env_line (TOKEN_KEY @ ''='' @ t) = Some (TOKEN_KEY, t)" and "newline \<notin> set (TOKEN_KEY @ ''='' @ t)"
proof -
  note safe = token_safe [OF assms]
  have key: "newline \<notin> set TOKEN_KEY" "CHR ''='' \<notin> set TOKEN_KEY" "js_trim TOKEN_KEY = TOKEN_KEY" by code_simp+
  show "newline \<notin> set (TOKEN_KEY @ ''='' @ t)" using key safe by (auto simp: newline_def)
  have t: "trimmed t" "t \<noteq> []" using token_trimmed [OF assms] by simp_all
  have "unquote t = t" using safe t(2) by (simp add: unquote_def quoted_by_def)
  moreover have "trimmed (TOKEN_KEY @ ''='' @ t)"
    using t by (auto simp: trimmed_def TOKEN_KEY_def is_ws_def)
  moreover have "takeWhile (\<lambda>c. c \<noteq> CHR ''='') (TOKEN_KEY @ CHR ''='' # t) = TOKEN_KEY"
    "dropWhile (\<lambda>c. c \<noteq> CHR ''='') (TOKEN_KEY @ CHR ''='' # t) = CHR ''='' # t"
    by (simp_all add: TOKEN_KEY_def)
  ultimately show "env_line (TOKEN_KEY @ ''='' @ t) = Some (TOKEN_KEY, t)"
    using key(3) by (simp add: env_line_def js_trim_trimmed t Let_def) (simp add: TOKEN_KEY_def)
qed

lemma first_token_append: "\<forall>kv \<in> set a. fst kv \<noteq> TOKEN_KEY \<Longrightarrow> first_token (a @ b) = first_token b"
  by (simp add: first_token_def filter_empty_conv)

lemma value_has_line: "has_token_value text \<Longrightarrow> has_token_line text"
  by (auto simp: has_token_value_def has_token_line_def list_ex_iff split: option.splits)

lemma appended_lines:
  assumes "token_chars t"
  shows "env_lines (appended_token t body) = env_lines body @ [(TOKEN_KEY, t)]"
proof -
  let ?comment = "''# HTTP log ingest '' @ u_arrow @ '' dashboard-backend /api/ingest (no Kafka)''"
  have comment: "env_lines ?comment = []" by code_simp
  have line: "env_lines (TOKEN_KEY @ ''='' @ t) = [(TOKEN_KEY, t)]"
    unfolding env_lines_split js_split_single [OF token_line_read(2) [OF assms]]
    by (simp only: List.map_filter_simps token_line_read(1) [OF assms] option.case)
  have empty: "env_lines [] = []" by code_simp
  have "appended_token t body = body @ newline # (?comment @ newline # ((TOKEN_KEY @ ''='' @ t) @ newline # []))"
    by (simp add: appended_token_def)
  then show ?thesis by (simp only: env_lines_append comment line empty append_Nil append_Nil2)
qed

text \<open>Without a line for the token a file gives none; after the append it gives the token, however it is read.\<close>

lemma no_line_no_token: "\<not> has_token_line body \<Longrightarrow> first_token (env_lines body) = []"
  using no_token_line_no_setting [of body] by (auto simp: first_token_def filter_empty_conv split: list.split)

lemma appended_reads:
  assumes "token_chars t" and "\<not> has_token_line body"
  shows "first_token (env_lines (appended_token t body)) = t"
    and "map_of (env_lines (appended_token t body)) TOKEN_KEY = Some t"
proof -
  have t: "trimmed t" "t \<noteq> []" using token_trimmed [OF assms(1)] by simp_all
  have none: "\<forall>kv \<in> set (env_lines body). fst kv \<noteq> TOKEN_KEY"
    using no_token_line_no_setting [OF assms(2)] by blast
  show "first_token (env_lines (appended_token t body)) = t"
    unfolding appended_lines [OF assms(1)] by (subst first_token_append [OF none]) (simp add: first_token_def js_trim_trimmed t)
  have "map_of (env_lines body) TOKEN_KEY = None" using none by (auto simp: map_of_eq_None_iff)
  then show "map_of (env_lines (appended_token t body)) TOKEN_KEY = Some t"
    unfolding appended_lines [OF assms(1)] by (simp add: map_add_def)
qed

text \<open>C33: A generated token is stable. Take a run of \<open>ensureLogIngestTokenForHttpIngest\<close> that has to make a token
  (no Kafka, not switched off, both services there, none in the environment) while the setup file, or the example it is
  copied from, or the text it is created with, has no line for the token; let \<open>t\<close> be the random text, of hexadecimal
  digits. The run uses \<open>t\<close> and appends it to the file, whose other settings stay. The next run starts from any
  environment without a token, fills it from the file, and then uses \<open>t\<close> again, whatever random text it could draw, and
  leaves the files as they are (no Kafka and not switched off then either).
\<close>

theorem generated_token_is_stable:
  assumes "\<not> has_token_line (setup_text fs)" and "token_chars t"
    and "\<not> truthy kafka" and "\<not> env_flag env ''SKIP_LOG_INGEST_AUTO_TOKEN''" and "env_text env TOKEN_KEY = []"
    and "{''dashboard-backend'', ''url-shortener-a''} \<subseteq> set names"
    and "ensureLogIngestTokenForHttpIngest names kafka t env fs = (env1, fs1)"
    and "env_text start TOKEN_KEY = []" and "loadOptionalEnvFile (sf_setup fs1) start = env2"
    and "\<not> env_flag env2 ''SKIP_LOG_INGEST_AUTO_TOKEN''"
  shows "env1 = env(TOKEN_KEY \<mapsto> t)
    \<and> env_lines (coalesce (sf_setup fs1) []) = env_lines (setup_text fs) @ [(TOKEN_KEY, t)]
    \<and> ensureLogIngestTokenForHttpIngest names kafka t2 env2 fs1 = (env2(TOKEN_KEY \<mapsto> t), fs1)"
proof -
  let ?text = "appended_token t (setup_text fs)"
  have t: "trimmed t" "t \<noteq> []" using token_trimmed [OF assms(2)] by simp_all
  have unread: "readLogIngestTokenFromFile (sf_setup fs) = []"
    using no_line_no_token [OF assms(1)]
    by (cases "sf_setup fs") (simp_all add: readLogIngestTokenFromFile_def setup_text_def)
  have "ensureLogIngestTokenForHttpIngest names kafka t env fs = save_token t env fs"
    using assms(3-6) by (simp add: ensureLogIngestTokenForHttpIngest_def unread)
  also have "\<dots> = (env(TOKEN_KEY \<mapsto> t), fs\<lparr>sf_setup := Some ?text\<rparr>)"
    using assms(1) value_has_line [of "setup_text fs"] by (auto simp: save_token_def Let_def)
  finally have first: "env1 = env(TOKEN_KEY \<mapsto> t)" "fs1 = fs\<lparr>sf_setup := Some ?text\<rparr>"
    using assms(7) by simp_all
  have saved: "readLogIngestTokenFromFile (sf_setup fs1) = t"
    using appended_reads(1) [OF assms(2,1)] by (simp add: first readLogIngestTokenFromFile_def)
  have "env2 TOKEN_KEY = (case start TOKEN_KEY of Some v \<Rightarrow> Some v | None \<Rightarrow> Some t)"
    using appended_reads(2) [OF assms(2,1)] assms(9)
    by (auto simp: first loadOptionalEnvFile_def fold_set_if_unset split: option.split)
  then have env2: "env_text env2 TOKEN_KEY = [] \<or> env2 TOKEN_KEY = Some t"
    using assms(8) by (auto simp: env_text_def split: option.splits)
  then have "ensureLogIngestTokenForHttpIngest names kafka t2 env2 fs1 = (env2(TOKEN_KEY \<mapsto> t), fs1)"
  proof
    assume "env2 TOKEN_KEY = Some t"
    then have "env_text env2 TOKEN_KEY = t" "env2(TOKEN_KEY \<mapsto> t) = env2"
      using t by (auto simp: env_text_def js_trim_trimmed)
    then show ?thesis
      using assms(3,6,10) t(2) by (simp add: ensureLogIngestTokenForHttpIngest_def Let_def)
  next
    assume "env_text env2 TOKEN_KEY = []"
    moreover have "env_text (env2(TOKEN_KEY \<mapsto> t)) TOKEN_KEY = t" using t by (simp add: env_text_def js_trim_trimmed)
    ultimately show ?thesis
      using assms(3,6,10) t(2) by (simp add: ensureLogIngestTokenForHttpIngest_def saved Let_def)
  qed
  then show ?thesis using appended_lines [OF assms(2)] by (simp add: first)
qed

theorem generated_token_is_stable_witness:
  "let run = ensureLogIngestTokenForHttpIngest [''dashboard-backend'', ''url-shortener-a''] None;
       fs1 = snd (run ''ab12'' (\<lambda>_. None) \<lparr>sf_setup = None, sf_example = None\<rparr>)
   in fst (run ''cd34'' (loadOptionalEnvFile (sf_setup fs1) (\<lambda>_. None)) fs1) TOKEN_KEY = Some ''ab12''"
proof -
  let ?fs = "\<lparr>sf_setup = None, sf_example = None\<rparr> :: setup_files"
  let ?names = "[''dashboard-backend'', ''url-shortener-a'']"
  define run1 where "run1 = ensureLogIngestTokenForHttpIngest ?names None ''ab12'' (\<lambda>_. None) ?fs"
  have fs: "\<not> has_token_line (setup_text ?fs)" "token_chars ''ab12''" by code_simp+
  have off: "\<not> env_flag (loadOptionalEnvFile (sf_setup (snd run1)) (\<lambda>_. None)) ''SKIP_LOG_INGEST_AUTO_TOKEN''"
    unfolding run1_def by code_simp
  from generated_token_is_stable [OF fs, of None "\<lambda>_. None" ?names "fst run1" "snd run1" "\<lambda>_. None", OF _ _ _ _ _ _ refl off,
      of "''cd34''"]
  show ?thesis by (simp add: run1_def env_flag_def env_text_def truthy_def Let_def)
qed

end
