(* ===== verification/SetupVariables.thy ===== *)
theory SetupVariables
  imports SetupEnv "HOL-Library.Sublist"
begin

text \<open>
  The variables that the provisioning script gives to every service (\<open>syncInternalDatabaseVariables\<close> in
  \<open>setup-railway.js\<close>): which plugins it finds in the project, the references between services, and the plan of
  variables per service in the order in which they are sent. Objects are association lists in the order of
  their members; a project is the list of its service names in the order of the \<open>Map\<close>.
\<close>

section \<open>Finding the plugins\<close>

text \<open>\<open>/word/i.test(name)\<close> for a word in lower case.\<close>

definition named_like :: "string \<Rightarrow> string \<Rightarrow> bool" where
  "named_like word name \<longleftrightarrow> js_includes (js_lower name) word"

text \<open>The name from the environment if there is such a service, else one of the usual names, else one like it.\<close>

definition find_plugin :: "string \<Rightarrow> string list \<Rightarrow> (string \<Rightarrow> bool) \<Rightarrow> string list \<Rightarrow> string option" where
  "find_plugin explicit usual like names =
     (if explicit \<noteq> [] \<and> explicit \<in> set names then Some explicit
      else (case find (\<lambda>c. c \<in> set names) usual of
              Some c \<Rightarrow> Some c
            | None \<Rightarrow> find like names))"

definition findPostgresServiceName :: "env \<Rightarrow> string list \<Rightarrow> string option" where
  "findPostgresServiceName env names =
     find_plugin (env_text env ''RAILWAY_POSTGRES_SERVICE_NAME'') [''Postgres'', ''postgres'', ''PostgreSQL'', ''postgresql'']
       (named_like ''postgres'') names"

definition findRedisServiceName :: "env \<Rightarrow> string list \<Rightarrow> string option" where
  "findRedisServiceName env names =
     find_plugin (env_text env ''RAILWAY_REDIS_SERVICE_NAME'') [''Redis'', ''redis'']
       (\<lambda>n. js_lower n = ''redis'' \<or> named_like ''redis'' n) names"

definition findKafkaServiceName :: "env \<Rightarrow> string list \<Rightarrow> string option" where
  "findKafkaServiceName env names =
     find_plugin (env_text env ''RAILWAY_KAFKA_SERVICE_NAME'') [''Kafka'', ''kafka'', ''Redpanda'', ''redpanda'']
       (\<lambda>n. named_like ''kafka'' n \<or> named_like ''redpanda'' n) names"

definition findDashboardPostgresServiceName :: "env \<Rightarrow> string list \<Rightarrow> string \<Rightarrow> string option" where
  "findDashboardPostgresServiceName env names primary =
     (let explicit = env_text env ''RAILWAY_DASHBOARD_POSTGRES_SERVICE_NAME''
      in if explicit \<noteq> [] \<and> explicit \<in> set names then Some explicit
         else (case find (\<lambda>n. n \<noteq> primary \<and> named_like ''dashboard'' n \<and> named_like ''postgres'' n) names of
                 Some n \<Rightarrow> Some n
               | None \<Rightarrow>
                   (case filter (\<lambda>n. named_like ''postgres'' n \<and> n \<noteq> primary) names of
                      [n] \<Rightarrow> Some n
                    | _ \<Rightarrow> None)))"

section \<open>References\<close>

text \<open>A value is text with references to variables of services in it; \<open>render\<close> is what is sent.\<close>

datatype value_part = Lit string | Ref string string

definition varRef :: "string \<Rightarrow> string \<Rightarrow> string" where
  "varRef service variable = ''${{ '' @ service @ ''.'' @ variable @ '' }}''"

fun render_part :: "value_part \<Rightarrow> string" where
  "render_part (Lit s) = s"
| "render_part (Ref service variable) = varRef service variable"

definition render :: "value_part list \<Rightarrow> string" where
  "render ps = concat (map render_part ps)"

type_synonym vars = "(string \<times> value_part list) list"

text \<open>The services that the values of a set of variables refer to, and those whose \<open>PORT\<close> they take.\<close>

fun part_refs :: "value_part list \<Rightarrow> string list" where
  "part_refs [] = []"
| "part_refs (Lit s # ps) = part_refs ps"
| "part_refs (Ref s v # ps) = s # part_refs ps"

fun part_ports :: "value_part list \<Rightarrow> string list" where
  "part_ports [] = []"
| "part_ports (Lit s # ps) = part_ports ps"
| "part_ports (Ref s v # ps) = (if v = ''PORT'' then s # part_ports ps else part_ports ps)"

fun refs_of :: "vars \<Rightarrow> string list" where
  "refs_of [] = []"
| "refs_of ((k, ps) # vs) = part_refs ps @ refs_of vs"

fun ports_of :: "vars \<Rightarrow> string list" where
  "ports_of [] = []"
| "ports_of ((k, ps) # vs) = part_ports ps @ ports_of vs"

definition kafkaBootstrapRef :: "env \<Rightarrow> string \<Rightarrow> value_part list" where
  "kafkaBootstrapRef env kafka =
     [Ref kafka (str_or (js_trim (str_or (coalesce (env ''RAILWAY_KAFKA_BOOTSTRAP_VAR'') []) ''KAFKA_URL'')) ''KAFKA_URL'')]"

definition private_url :: "string \<Rightarrow> string \<Rightarrow> value_part list" where
  "private_url service ending =
     [Lit ''http://'', Ref service ''RAILWAY_PRIVATE_DOMAIN'', Lit '':'', Ref service ''PORT''] @ (if ending = [] then [] else [Lit ending])"

definition public_url :: "string \<Rightarrow> string \<Rightarrow> value_part list" where
  "public_url service ending =
     [Lit ''https://'', Ref service ''RAILWAY_PUBLIC_DOMAIN''] @ (if ending = [] then [] else [Lit ending])"

section \<open>The variables of each service\<close>

text \<open>What the function computes before the first variable is sent.\<close>

record sync_facts =
  sy_env :: env
  sy_names :: "string list"
  sy_project :: string
  sy_environment :: string
  sy_pg :: string
  sy_pgDashboard :: string
  sy_redis :: "string option"
  sy_kafka :: "string option"

definition dbUrlKey :: "env \<Rightarrow> string" where
  "dbUrlKey env = (if env_flag env ''SYNC_VARIABLES_USE_PUBLIC_DATABASE_URL'' then ''DATABASE_PUBLIC_URL'' else ''DATABASE_URL'')"

definition logIngestToken :: "sync_facts \<Rightarrow> string" where
  "logIngestToken f = env_text (sy_env f) TOKEN_KEY"

definition logIngestUrl :: "sync_facts \<Rightarrow> value_part list option" where
  "logIngestUrl f =
     (if ''dashboard-backend'' \<in> set (sy_names f) \<and> \<not> truthy (sy_kafka f) \<and> logIngestToken f \<noteq> []
      then Some (if env_flag (sy_env f) ''LOG_INGEST_USE_PRIVATE_URL'' then private_url ''dashboard-backend'' ''/api/ingest''
                 else public_url ''dashboard-backend'' ''/api/ingest'')
      else None)"

definition loadTestBypass :: "env \<Rightarrow> string" where
  "loadTestBypass env = str_or (env_text env ''LOAD_TEST_BYPASS_TOKEN'') ''pe-hackathon-k6-edge-bypass''"

definition kafka_vars :: "sync_facts \<Rightarrow> vars" where
  "kafka_vars f =
     (case sy_kafka f of Some k \<Rightarrow> if k = [] then [] else [(''KAFKA_BOOTSTRAP_SERVERS'', kafkaBootstrapRef (sy_env f) k)] | None \<Rightarrow> [])"

definition urlShortenerBase :: "sync_facts \<Rightarrow> vars" where
  "urlShortenerBase f =
     [(''PORT'', [Lit ''8080'']),
      (''DATABASE_URL'', [Ref (sy_pg f) (dbUrlKey (sy_env f))]),
      (''FLASK_DEBUG'', [Lit ''false'']),
      (''KAFKA_LOG_TOPIC'', [Lit ''app-logs'']),
      (''RATE_LIMIT_STORAGE'', (case sy_redis f of Some r \<Rightarrow> if r = [] then [Lit ''memory://''] else [Ref r ''REDIS_URL''] | None \<Rightarrow> [Lit ''memory://'']))]
     @ kafka_vars f
     @ (case logIngestUrl f of Some u \<Rightarrow> [(''LOG_INGEST_URL'', u), (TOKEN_KEY, [Lit (logIngestToken f)])] | None \<Rightarrow> [])
     @ [(''LOAD_TEST_BYPASS_TOKEN'', [Lit (loadTestBypass (sy_env f))])]"

definition url_shortener_vars :: "sync_facts \<Rightarrow> string \<Rightarrow> vars" where
  "url_shortener_vars f instance_id = urlShortenerBase f @ [(''INSTANCE_ID'', [Lit instance_id])]"

definition load_balancer_vars :: "sync_facts \<Rightarrow> vars" where
  "load_balancer_vars f =
     [(''URL_SHORTENER_A_HOST'', [Ref ''url-shortener-a'' ''RAILWAY_PRIVATE_DOMAIN'']),
      (''URL_SHORTENER_B_HOST'', [Ref ''url-shortener-b'' ''RAILWAY_PRIVATE_DOMAIN'']),
      (''URL_SHORTENER_A_PORT'', [Ref ''url-shortener-a'' ''PORT'']),
      (''URL_SHORTENER_B_PORT'', [Ref ''url-shortener-b'' ''PORT'']),
      (''LOAD_TEST_BYPASS_TOKEN'', [Lit (loadTestBypass (sy_env f))])]"

text \<open>The load balancer if there is one, else the first replica.\<close>

definition load_target_vars :: "sync_facts \<Rightarrow> string \<Rightarrow> vars" where
  "load_target_vars f key =
     (if ''load-balancer'' \<in> set (sy_names f) then [(key, public_url ''load-balancer'' [])]
      else if ''url-shortener-a'' \<in> set (sy_names f) then [(key, public_url ''url-shortener-a'' [])]
      else [])"

definition dashboard_backend_vars :: "sync_facts \<Rightarrow> vars" where
  "dashboard_backend_vars f =
     [(''PORT'', [Lit ''8080'']),
      (''DASHBOARD_DATABASE_URL'', [Ref (sy_pgDashboard f) (dbUrlKey (sy_env f))]),
      (''DASHBOARD_DB_NAME'', [Lit ''dashboard_db'']),
      (''KAFKA_LOG_TOPIC'', [Lit ''app-logs'']),
      (''CACHE_MAX_ENTRIES'', [Lit ''1000'']),
      (''DB_FLUSH_INTERVAL'', [Lit ''30'']),
      (''LOAD_TEST_BYPASS_TOKEN'', [Lit (loadTestBypass (sy_env f))])]
     @ load_target_vars f ''LOAD_TEST_TARGET_URL''
     @ kafka_vars f
     @ (if logIngestToken f = [] then [] else [(TOKEN_KEY, [Lit (logIngestToken f)])])"

text \<open>\<open>(process.env[k] ?? "1").trim()\<close> read as a switch.\<close>

definition switch_on :: "env \<Rightarrow> string \<Rightarrow> bool" where
  "switch_on env k =
     (let raw = js_trim (coalesce (env k) ''1'')
      in raw = [] \<or> raw = ''1'' \<or> js_lower raw = ''true'' \<or> js_lower raw = ''yes'' \<or> js_lower raw = ''on'')"

definition switch_text :: "env \<Rightarrow> string \<Rightarrow> string" where
  "switch_text env k = (if switch_on env k then ''1'' else ''0'')"

definition poll_vars :: "env \<Rightarrow> vars" where
  "poll_vars env =
     (let p = env_text env ''RAILWAY_WATCHDOG_POLL_SEC'' in if p = [] then [] else [(''RAILWAY_WATCHDOG_POLL_SEC'', [Lit p])])"

definition token_vars :: "env \<Rightarrow> vars" where
  "token_vars env =
     (let pt = env_text env ''DASHBOARD_RAILWAY_PROJECT_TOKEN''; acct = env_text env ''DASHBOARD_RAILWAY_API_TOKEN''
      in if pt \<noteq> [] then [(''RAILWAY_PROJECT_TOKEN'', [Lit pt])]
         else if acct \<noteq> [] then [(''RAILWAY_API_TOKEN'', [Lit acct])] else [])"

definition railway_watchdog_vars :: "sync_facts \<Rightarrow> vars" where
  "railway_watchdog_vars f =
     [(''PORT'', [Lit ''8080'']),
      (''RAILWAY_PROJECT_ID'', [Lit (sy_project f)]),
      (''RAILWAY_ENVIRONMENT_ID'', [Lit (sy_environment f)]),
      (''RAILWAY_WATCHDOG_AUTO_RECOVER'', [Lit (switch_text (sy_env f) ''RAILWAY_WATCHDOG_AUTO_RECOVER'')]),
      (''RAILWAY_HEARTBEAT_INTERNAL_PORT'', [Lit ''8080''])]
     @ poll_vars (sy_env f) @ token_vars (sy_env f)"

definition dashboard_vars :: "sync_facts \<Rightarrow> vars" where
  "dashboard_vars f =
     [(''DASHBOARD_BACKEND_URL'', private_url ''dashboard-backend'' [])]
     @ (if ''railway-watchdog'' \<in> set (sy_names f) then [(''WATCHDOG_SERVICE_URL'', private_url ''railway-watchdog'' [])] else [])
     @ load_target_vars f ''NEXT_PUBLIC_LOAD_TEST_TARGET_URL''
     @ [(''VISIBILITY_COMPOSE_PROJECT'', [Lit ''pe-hackathon-2026'']),
        (''RAILWAY_PROJECT_ID'', [Lit (sy_project f)]),
        (''RAILWAY_ENVIRONMENT_ID'', [Lit (sy_environment f)]),
        (''VISIBILITY_ALERTMANAGER_DISABLED'', [Lit ''1'']),
        (''CHAOS_KILL_ENABLED'', [Lit (switch_text (sy_env f) ''CHAOS_KILL_ENABLED'')]),
        (''RAILWAY_WATCHDOG_AUTO_RECOVER'', [Lit (switch_text (sy_env f) ''RAILWAY_WATCHDOG_AUTO_RECOVER'')])]
     @ poll_vars (sy_env f) @ token_vars (sy_env f)
     @ (let a = env_text (sy_env f) ''CHAOS_ALLOWED_SERVICES'' in if a = [] then [] else [(''CHAOS_ALLOWED_SERVICES'', [Lit a])])"

definition user_frontend_vars :: "sync_facts \<Rightarrow> vars" where
  "user_frontend_vars f =
     (let explicit = strip_trailing (CHR ''/'') (env_text (sy_env f) ''USER_FRONTEND_BACKEND_URL'')
      in [(''BACKEND_URL'',
           if explicit \<noteq> [] then [Lit explicit]
           else if ''load-balancer'' \<in> set (sy_names f) then public_url ''load-balancer'' []
           else public_url ''url-shortener-a'' [])])"

text \<open>The calls of \<open>upsert\<close>, in order.\<close>

definition sync_plan :: "sync_facts \<Rightarrow> (string \<times> vars) list" where
  "sync_plan f =
     (let has = (\<lambda>n. n \<in> set (sy_names f))
      in [(''url-shortener-a'', url_shortener_vars f ''1''), (''url-shortener-b'', url_shortener_vars f ''2'')]
         @ (if has ''load-balancer'' \<and> has ''url-shortener-a'' \<and> has ''url-shortener-b''
            then [(''load-balancer'', load_balancer_vars f)] else [])
         @ [(''dashboard-backend'', dashboard_backend_vars f)]
         @ (if has ''railway-watchdog'' then [(''railway-watchdog'', railway_watchdog_vars f)] else [])
         @ (if has ''dashboard'' then [(''dashboard'', dashboard_vars f)] else [])
         @ (if has ''user-frontend'' then [(''user-frontend'', user_frontend_vars f)] else []))"

text \<open>\<open>a || b\<close> on a possibly missing name.\<close>

fun name_or :: "string option \<Rightarrow> string \<Rightarrow> string" where
  "name_or None d = d"
| "name_or (Some n) d = str_or n d"

definition sync_facts_of :: "env \<Rightarrow> string \<Rightarrow> string \<Rightarrow> string list \<Rightarrow> string \<Rightarrow> sync_facts" where
  "sync_facts_of env project environment names pg =
     \<lparr>sy_env = env, sy_names = names, sy_project = project, sy_environment = environment, sy_pg = pg,
      sy_pgDashboard = name_or (findDashboardPostgresServiceName env names pg) pg,
      sy_redis = findRedisServiceName env names, sy_kafka = findKafkaServiceName env names\<rparr>"

section \<open>What the plan guarantees\<close>

lemma find_plugin_exists: "find_plugin e usual like names = Some n \<Longrightarrow> n \<in> set names"
  by (auto simp: find_plugin_def find_Some_iff split: if_splits option.splits)

lemma findPostgres_exists: "findPostgresServiceName env names = Some n \<Longrightarrow> n \<in> set names"
  by (simp add: findPostgresServiceName_def find_plugin_exists)

lemma findRedis_exists: "findRedisServiceName env names = Some n \<Longrightarrow> n \<in> set names"
  by (simp add: findRedisServiceName_def find_plugin_exists)

lemma findKafka_exists: "findKafkaServiceName env names = Some n \<Longrightarrow> n \<in> set names"
  by (simp add: findKafkaServiceName_def find_plugin_exists)

lemma findDashboardPostgres_exists:
  assumes "findDashboardPostgresServiceName env names pg = Some n"
  shows "n \<in> set names"
proof -
  have "n \<in> set names" if "filter P names = [n]" for P
  proof -
    have "n \<in> set (filter P names)" by (simp add: that)
    then show ?thesis by simp
  qed
  with assms show ?thesis
    by (auto simp: findDashboardPostgresServiceName_def Let_def find_Some_iff split: if_splits option.splits list.splits)
qed

lemma refs_of_append [simp]: "refs_of (xs @ ys) = refs_of xs @ refs_of ys"
  by (induction xs rule: refs_of.induct) auto

lemma ports_of_append [simp]: "ports_of (xs @ ys) = ports_of xs @ ports_of ys"
  by (induction xs rule: ports_of.induct) auto

lemma part_refs_append [simp]: "part_refs (xs @ ys) = part_refs xs @ part_refs ys"
  by (induction xs rule: part_refs.induct) auto

text \<open>The facts of a run: the plugins were looked up among the services of the project.\<close>

definition facts_found :: "sync_facts \<Rightarrow> bool" where
  "facts_found f \<longleftrightarrow>
     sy_pg f \<in> set (sy_names f) \<and> sy_pgDashboard f \<in> set (sy_names f)
     \<and> pred_option (\<lambda>r. r \<in> set (sy_names f)) (sy_redis f) \<and> pred_option (\<lambda>k. k \<in> set (sy_names f)) (sy_kafka f)"

lemma sync_facts_found:
  assumes "findPostgresServiceName env names = Some pg"
  shows "facts_found (sync_facts_of env project environment names pg)"
proof -
  have "name_or (findDashboardPostgresServiceName env names pg) pg \<in> set names"
    using findPostgres_exists [OF assms] findDashboardPostgres_exists [of env names pg]
    by (cases "findDashboardPostgresServiceName env names pg") (auto simp: str_or_def)
  then show ?thesis
    using findPostgres_exists [OF assms]
    by (simp add: facts_found_def sync_facts_of_def findRedis_exists findKafka_exists option.pred_set split: option.split)
qed

lemmas vars_defs = url_shortener_vars_def urlShortenerBase_def kafka_vars_def kafkaBootstrapRef_def logIngestUrl_def
  load_balancer_vars_def dashboard_backend_vars_def load_target_vars_def railway_watchdog_vars_def dashboard_vars_def
  user_frontend_vars_def poll_vars_def token_vars_def private_url_def public_url_def

lemma refs_url_shortener: "facts_found f \<Longrightarrow> set (refs_of (url_shortener_vars f i)) \<subseteq> set (sy_names f)"
  by (auto simp: facts_found_def vars_defs split: option.splits if_splits)

lemma refs_dashboard_backend: "facts_found f \<Longrightarrow> set (refs_of (dashboard_backend_vars f)) \<subseteq> set (sy_names f)"
  by (auto simp: facts_found_def vars_defs split: option.splits if_splits)

lemma refs_load_balancer: "set (refs_of (load_balancer_vars f)) = {''url-shortener-a'', ''url-shortener-b''}"
  by (auto simp: vars_defs)

lemma refs_watchdog: "refs_of (railway_watchdog_vars f) = []"
  by (auto simp: vars_defs Let_def)

lemma refs_dashboard: "set (refs_of (dashboard_vars f)) \<subseteq> insert ''dashboard-backend'' (set (sy_names f))"
  by (auto simp: vars_defs Let_def split: if_splits)

lemma refs_user_frontend: "set (refs_of (user_frontend_vars f)) \<subseteq> insert ''url-shortener-a'' (set (sy_names f))"
  by (auto simp: vars_defs Let_def split: if_splits)

text \<open>The entries of the plan.\<close>

lemma plan_all:
  assumes "P ''url-shortener-a'' (url_shortener_vars f ''1'')" "P ''url-shortener-b'' (url_shortener_vars f ''2'')"
    and "''url-shortener-a'' \<in> set (sy_names f) \<Longrightarrow> ''url-shortener-b'' \<in> set (sy_names f) \<Longrightarrow> P ''load-balancer'' (load_balancer_vars f)"
    and "P ''dashboard-backend'' (dashboard_backend_vars f)" "P ''railway-watchdog'' (railway_watchdog_vars f)"
    and "P ''dashboard'' (dashboard_vars f)" "P ''user-frontend'' (user_frontend_vars f)"
  shows "list_all (\<lambda>e. P (fst e) (snd e)) (sync_plan f)"
  using assms by (simp add: sync_plan_def Let_def)

text \<open>A reference of an entry is to a service of the project, or one of the two that are not checked.\<close>

definition ref_known :: "string list \<Rightarrow> string \<Rightarrow> string \<Rightarrow> bool" where
  "ref_known names service r \<longleftrightarrow>
     r \<in> set names \<or> service = ''dashboard'' \<and> r = ''dashboard-backend'' \<or> service = ''user-frontend'' \<and> r = ''url-shortener-a''"

lemma refs_known:
  assumes "facts_found f"
  shows "list_all (\<lambda>e. \<forall>r \<in> set (refs_of (snd e)). ref_known (sy_names f) (fst e) r) (sync_plan f)"
proof (rule plan_all [where P = "\<lambda>s vs. \<forall>r \<in> set (refs_of vs). ref_known (sy_names f) s r"])
  show "\<forall>r \<in> set (refs_of (dashboard_vars f)). ref_known (sy_names f) ''dashboard'' r"
    using refs_dashboard [of f] by (auto simp: ref_known_def)
  show "\<forall>r \<in> set (refs_of (user_frontend_vars f)). ref_known (sy_names f) ''user-frontend'' r"
    using refs_user_frontend [of f] by (auto simp: ref_known_def)
qed (use refs_url_shortener [OF assms] refs_dashboard_backend [OF assms] in
    \<open>auto simp: ref_known_def refs_load_balancer refs_watchdog\<close>)

text \<open>C30: The plan of variables refers to services of the project only. The plugins are found among the services,
  so a plan entry can name a service that does not exist in two places only: the dashboard's reference to
  \<open>dashboard-backend\<close> and the user frontend's reference to \<open>url-shortener-a\<close>.
\<close>

lemma only_two_references_dangle:
  "case findPostgresServiceName env names of
     None \<Rightarrow> True
   | Some pg \<Rightarrow>
       list_all (\<lambda>e. list_all (ref_known names (fst e)) (refs_of (snd e)))
         (sync_plan (sync_facts_of env project environment names pg))"
proof (cases "findPostgresServiceName env names")
  case (Some pg)
  from refs_known [OF sync_facts_found [OF Some], of project environment] show ?thesis
    by (simp add: Some sync_facts_of_def list.pred_set)
qed simp

text \<open>The service is given the fixed port by the plan.\<close>

definition port_pinned :: "sync_facts \<Rightarrow> string \<Rightarrow> bool" where
  "port_pinned f service =
     (case map_of (sync_plan f) service of Some vs \<Rightarrow> map_of vs ''PORT'' = Some [Lit ''8080''] | None \<Rightarrow> False)"

definition not_broker :: "vars \<Rightarrow> vars" where
  "not_broker vs = filter (\<lambda>kv. fst kv \<noteq> ''KAFKA_BOOTSTRAP_SERVERS'') vs"

lemma not_broker_simps [simp]:
  "not_broker [] = []"
  "not_broker ((k, v) # vs) = (if k = ''KAFKA_BOOTSTRAP_SERVERS'' then not_broker vs else (k, v) # not_broker vs)"
  "not_broker (vs @ ws) = not_broker vs @ not_broker ws"
  by (simp_all add: not_broker_def)

lemma map_of_fixed_part:
  "map_of (sync_plan f) ''url-shortener-a'' = Some (url_shortener_vars f ''1'')"
  "map_of (sync_plan f) ''url-shortener-b'' = Some (url_shortener_vars f ''2'')"
  "map_of (sync_plan f) ''dashboard-backend'' = Some (dashboard_backend_vars f)"
  "''railway-watchdog'' \<in> set (sy_names f) \<Longrightarrow> map_of (sync_plan f) ''railway-watchdog'' = Some (railway_watchdog_vars f)"
  by (simp_all add: sync_plan_def Let_def map_add_def)

lemma pinned:
  "port_pinned f ''url-shortener-a''" "port_pinned f ''url-shortener-b''" "port_pinned f ''dashboard-backend''"
  "''railway-watchdog'' \<in> set (sy_names f) \<Longrightarrow> port_pinned f ''railway-watchdog''"
  by (simp_all add: port_pinned_def map_of_fixed_part url_shortener_vars_def urlShortenerBase_def dashboard_backend_vars_def
      railway_watchdog_vars_def)

lemma db_key_not_port: "dbUrlKey env \<noteq> ''PORT''"
  by (simp add: dbUrlKey_def)

lemma ports_of_services:
  "ports_of (not_broker (url_shortener_vars f i)) \<in> {[], [''dashboard-backend'']}"
  "ports_of (not_broker (load_balancer_vars f)) = [''url-shortener-a'', ''url-shortener-b'']"
  "ports_of (not_broker (dashboard_backend_vars f)) = []"
  "ports_of (not_broker (railway_watchdog_vars f)) = []"
  "ports_of (not_broker (user_frontend_vars f)) = []"
  by (simp_all add: vars_defs db_key_not_port TOKEN_KEY_def Let_def split: option.split)

text \<open>
  Every reference to the port of another service is answered by the same plan: a service whose \<open>PORT\<close> is
  referred to (the replicas by the balancer, the log receiver by the replicas, the backend and the watchdog by
  the dashboard) is given an explicit \<open>PORT\<close> among its own variables. The broker's address is left out: its variable is
  the operator's choice.
\<close>

lemma referenced_ports_are_pinned:
  "list_all (\<lambda>e. list_all (port_pinned f) (ports_of (not_broker (snd e)))) (sync_plan f)"
proof (rule plan_all [where P = "\<lambda>s vs. list_all (port_pinned f) (ports_of (not_broker vs))"])
  have replica: "list_all (port_pinned f) (ports_of (not_broker (url_shortener_vars f i)))" for i
    using ports_of_services(1) [of f i] by (auto simp: pinned)
  show "list_all (port_pinned f) (ports_of (not_broker (url_shortener_vars f ''1'')))" by (rule replica)
  show "list_all (port_pinned f) (ports_of (not_broker (url_shortener_vars f ''2'')))" by (rule replica)
next
  show "list_all (port_pinned f) (ports_of (not_broker (dashboard_vars f)))"
    by (simp add: dashboard_vars_def load_target_vars_def poll_vars_def token_vars_def private_url_def public_url_def pinned Let_def)
qed (simp_all add: pinned ports_of_services)

text \<open>Log shipping is configured at both ends or not at all. When the replicas are given an address for their logs,
  the receiver exists, there is no broker, and the token that the replicas send is the one that the receiver is
  given; without an address they are given no token.
\<close>

lemma log_shipping_is_paired:
  "case map_of (url_shortener_vars f i) ''LOG_INGEST_URL'' of
     None \<Rightarrow> map_of (url_shortener_vars f i) ''LOG_INGEST_TOKEN'' = None
   | Some u \<Rightarrow>
       ''dashboard-backend'' \<in> set (sy_names f) \<and> map_of (url_shortener_vars f i) ''KAFKA_BOOTSTRAP_SERVERS'' = None
       \<and> map_of (url_shortener_vars f i) ''LOG_INGEST_TOKEN'' = Some [Lit (logIngestToken f)]
       \<and> map_of (dashboard_backend_vars f) ''LOG_INGEST_TOKEN'' = Some [Lit (logIngestToken f)] \<and> logIngestToken f \<noteq> []"
  by (cases "sy_kafka f")
     (auto simp: url_shortener_vars_def urlShortenerBase_def dashboard_backend_vars_def logIngestUrl_def kafka_vars_def
       load_target_vars_def TOKEN_KEY_def map_add_def split: option.splits)

section \<open>The shape of what is sent\<close>

definition key_char :: "char \<Rightarrow> bool" where
  "key_char c \<longleftrightarrow> c = CHR ''_'' \<or> c \<in> set ''ABCDEFGHIJKLMNOPQRSTUVWXYZ''"

definition is_key :: "string \<Rightarrow> bool" where
  "is_key k \<longleftrightarrow> k \<noteq> [] \<and> list_all key_char k"

text \<open>An object of variables that the API accepts as it is: no member twice, names of variables, no empty value.\<close>

definition well_formed_vars :: "vars \<Rightarrow> bool" where
  "well_formed_vars vs \<longleftrightarrow>
     distinct (map fst vs) \<and> list_all is_key (map fst vs) \<and> list_all (\<lambda>ps. render ps \<noteq> []) (map snd vs)"

lemma is_key_used:
  "list_all is_key
     [''PORT'', ''DATABASE_URL'', ''FLASK_DEBUG'', ''KAFKA_LOG_TOPIC'', ''RATE_LIMIT_STORAGE'', ''KAFKA_BOOTSTRAP_SERVERS'',
      ''LOG_INGEST_URL'', ''LOG_INGEST_TOKEN'', ''LOAD_TEST_BYPASS_TOKEN'', ''INSTANCE_ID'', ''URL_SHORTENER_A_HOST'',
      ''URL_SHORTENER_B_HOST'', ''URL_SHORTENER_A_PORT'', ''URL_SHORTENER_B_PORT'', ''DASHBOARD_DATABASE_URL'', ''DASHBOARD_DB_NAME'',
      ''CACHE_MAX_ENTRIES'', ''DB_FLUSH_INTERVAL'', ''LOAD_TEST_TARGET_URL'', ''RAILWAY_PROJECT_ID'', ''RAILWAY_ENVIRONMENT_ID'',
      ''RAILWAY_WATCHDOG_AUTO_RECOVER'', ''RAILWAY_HEARTBEAT_INTERNAL_PORT'', ''RAILWAY_WATCHDOG_POLL_SEC'', ''RAILWAY_PROJECT_TOKEN'',
      ''RAILWAY_API_TOKEN'', ''DASHBOARD_BACKEND_URL'', ''WATCHDOG_SERVICE_URL'', ''NEXT_PUBLIC_LOAD_TEST_TARGET_URL'',
      ''VISIBILITY_COMPOSE_PROJECT'', ''VISIBILITY_ALERTMANAGER_DISABLED'', ''CHAOS_KILL_ENABLED'', ''CHAOS_ALLOWED_SERVICES'',
      ''BACKEND_URL'']"
  by code_simp

lemmas is_key_facts [simp] = is_key_used [simplified list.pred_inject simp_thms]

lemma render_simps [simp]:
  "render [] = []" "render (Lit s # ps) = s @ render ps" "render (Ref a b # ps) = varRef a b @ render ps"
  by (simp_all add: render_def)

lemma varRef_not_empty [simp]: "varRef a b \<noteq> []"
  by (simp add: varRef_def)

text \<open>
  The names of a service's variables are a subsequence of a fixed list: each optional group either contributes its
  names or nothing.
\<close>

lemma well_formed_varsI:
  assumes "subseq (map fst vs) ks" and "distinct ks" and "list_all is_key ks"
    and "list_all (\<lambda>ps. render ps \<noteq> []) (map snd vs)"
  shows "well_formed_vars vs"
proof -
  obtain N where "map fst vs = nths ks N" using assms(1) by (auto simp: subseq_conv_nths)
  with assms(2-4) show ?thesis
    by (auto simp: well_formed_vars_def list.pred_set dest: in_set_nthsD)
qed

lemma kafka_keys: "subseq (map fst (kafka_vars f)) [''KAFKA_BOOTSTRAP_SERVERS'']"
  by (simp add: kafka_vars_def split: option.split)

lemma load_target_keys: "subseq (map fst (load_target_vars f k)) [k]"
  by (simp add: load_target_vars_def)

lemma poll_keys: "subseq (map fst (poll_vars env)) [''RAILWAY_WATCHDOG_POLL_SEC'']"
  by (simp add: poll_vars_def Let_def)

lemma token_keys: "subseq (map fst (token_vars env)) [''RAILWAY_PROJECT_TOKEN'', ''RAILWAY_API_TOKEN'']"
  by (simp add: token_vars_def Let_def)

lemma group_values [simp]:
  "list_all (\<lambda>ps. render ps \<noteq> []) (map snd (kafka_vars f))"
  "list_all (\<lambda>ps. render ps \<noteq> []) (map snd (load_target_vars f k))"
  "list_all (\<lambda>ps. render ps \<noteq> []) (map snd (poll_vars env))"
  "list_all (\<lambda>ps. render ps \<noteq> []) (map snd (token_vars env))"
  "render (public_url n e) \<noteq> []" "render (private_url n e) \<noteq> []"
  by (simp_all add: kafka_vars_def kafkaBootstrapRef_def load_target_vars_def poll_vars_def token_vars_def
      public_url_def private_url_def Let_def split: option.split)

lemma logIngestUrl_values: "logIngestUrl f = Some u \<Longrightarrow> render u \<noteq> [] \<and> logIngestToken f \<noteq> []"
  by (auto simp: logIngestUrl_def split: if_splits)

lemma well_formed_replica:
  assumes "i \<noteq> []" shows "well_formed_vars (url_shortener_vars f i)"
proof (rule well_formed_varsI)
  show "subseq (map fst (url_shortener_vars f i))
     (([''PORT'', ''DATABASE_URL'', ''FLASK_DEBUG'', ''KAFKA_LOG_TOPIC'', ''RATE_LIMIT_STORAGE''] @ [''KAFKA_BOOTSTRAP_SERVERS'']
       @ [''LOG_INGEST_URL'', ''LOG_INGEST_TOKEN''] @ [''LOAD_TEST_BYPASS_TOKEN'']) @ [''INSTANCE_ID''])"
    unfolding url_shortener_vars_def urlShortenerBase_def map_append TOKEN_KEY_def
    by (intro list_emb_append_mono kafka_keys) (simp_all split: option.split)
  show "list_all (\<lambda>ps. render ps \<noteq> []) (map snd (url_shortener_vars f i))"
    using assms by (simp add: url_shortener_vars_def urlShortenerBase_def loadTestBypass_def logIngestUrl_values split: option.split)
qed (simp_all)

lemma well_formed_balancer: "well_formed_vars (load_balancer_vars f)"
  by (simp add: well_formed_vars_def load_balancer_vars_def loadTestBypass_def)

lemma well_formed_backend: "well_formed_vars (dashboard_backend_vars f)"
proof (rule well_formed_varsI)
  show "subseq (map fst (dashboard_backend_vars f))
     ([''PORT'', ''DASHBOARD_DATABASE_URL'', ''DASHBOARD_DB_NAME'', ''KAFKA_LOG_TOPIC'', ''CACHE_MAX_ENTRIES'', ''DB_FLUSH_INTERVAL'',
       ''LOAD_TEST_BYPASS_TOKEN''] @ [''LOAD_TEST_TARGET_URL''] @ [''KAFKA_BOOTSTRAP_SERVERS''] @ [''LOG_INGEST_TOKEN''])"
    unfolding dashboard_backend_vars_def map_append TOKEN_KEY_def
    by (intro list_emb_append_mono kafka_keys load_target_keys) simp_all
  show "list_all (\<lambda>ps. render ps \<noteq> []) (map snd (dashboard_backend_vars f))"
    by (simp add: dashboard_backend_vars_def loadTestBypass_def)
qed (simp_all)

lemma switch_text_not_empty [simp]: "switch_text env k \<noteq> []"
  by (simp add: switch_text_def)

lemma well_formed_watchdog:
  assumes "sy_project f \<noteq> []" and "sy_environment f \<noteq> []"
  shows "well_formed_vars (railway_watchdog_vars f)"
proof (rule well_formed_varsI)
  show "subseq (map fst (railway_watchdog_vars f))
     ([''PORT'', ''RAILWAY_PROJECT_ID'', ''RAILWAY_ENVIRONMENT_ID'', ''RAILWAY_WATCHDOG_AUTO_RECOVER'', ''RAILWAY_HEARTBEAT_INTERNAL_PORT'']
      @ [''RAILWAY_WATCHDOG_POLL_SEC''] @ [''RAILWAY_PROJECT_TOKEN'', ''RAILWAY_API_TOKEN''])"
    unfolding railway_watchdog_vars_def map_append
    by (intro list_emb_append_mono poll_keys token_keys) simp_all
  show "list_all (\<lambda>ps. render ps \<noteq> []) (map snd (railway_watchdog_vars f))"
    using assms by (simp add: railway_watchdog_vars_def)
qed (simp_all)

lemma well_formed_dashboard:
  assumes "sy_project f \<noteq> []" and "sy_environment f \<noteq> []"
  shows "well_formed_vars (dashboard_vars f)"
proof (rule well_formed_varsI)
  show "subseq (map fst (dashboard_vars f))
     ([''DASHBOARD_BACKEND_URL''] @ [''WATCHDOG_SERVICE_URL''] @ [''NEXT_PUBLIC_LOAD_TEST_TARGET_URL'']
      @ [''VISIBILITY_COMPOSE_PROJECT'', ''RAILWAY_PROJECT_ID'', ''RAILWAY_ENVIRONMENT_ID'', ''VISIBILITY_ALERTMANAGER_DISABLED'',
         ''CHAOS_KILL_ENABLED'', ''RAILWAY_WATCHDOG_AUTO_RECOVER'']
      @ [''RAILWAY_WATCHDOG_POLL_SEC''] @ [''RAILWAY_PROJECT_TOKEN'', ''RAILWAY_API_TOKEN''] @ [''CHAOS_ALLOWED_SERVICES''])"
    unfolding dashboard_vars_def map_append Let_def
    by (intro list_emb_append_mono poll_keys token_keys load_target_keys) simp_all
  show "list_all (\<lambda>ps. render ps \<noteq> []) (map snd (dashboard_vars f))"
    using assms by (simp add: dashboard_vars_def Let_def)
qed (simp_all)

lemma well_formed_frontend: "well_formed_vars (user_frontend_vars f)"
  by (simp add: well_formed_vars_def user_frontend_vars_def Let_def)

text \<open>C31: What is sent to a service is an object of variables as the API takes it: every name is an upper-case
  identifier, no name occurs twice among the merged groups, and no value is empty, whichever optional parts the
  environment switches on. The ids of the project and of the environment are not empty: the configuration is refused
  without them.
\<close>

lemma plan_is_well_formed:
  assumes "sy_project f \<noteq> []" and "sy_environment f \<noteq> []"
  shows "list_all (\<lambda>e. well_formed_vars (snd e)) (sync_plan f)"
  by (rule plan_all [where P = "\<lambda>s vs. well_formed_vars vs"])
     (simp_all add: well_formed_replica well_formed_balancer well_formed_backend well_formed_frontend
       well_formed_watchdog [OF assms] well_formed_dashboard [OF assms])

definition sample_facts :: sync_facts where
  "sample_facts = sync_facts_of (\<lambda>k. None) ''p1'' ''e1'' [''Postgres'', ''dashboard'', ''user-frontend''] ''Postgres''"

lemma plan_is_well_formed_witness:
  "sy_project sample_facts = ''p1'' \<and> list_all (\<lambda>e. well_formed_vars (snd e)) (sync_plan sample_facts)"
  using plan_is_well_formed [of sample_facts] by (simp add: sample_facts_def sync_facts_of_def)

text \<open>
  Two references are not checked: in a project with a database, a dashboard and a user frontend only, the
  dashboard is given the address of \<open>dashboard-backend\<close> and the frontend the address of \<open>url-shortener-a\<close>, and
  neither service is there, though the addresses of the optional watchdog and load target are left out for the
  same reason.
\<close>

lemma dangling_references_are_sent:
  "map_of (dashboard_vars sample_facts) ''DASHBOARD_BACKEND_URL''
     = Some [Lit ''http://'', Ref ''dashboard-backend'' ''RAILWAY_PRIVATE_DOMAIN'', Lit '':'', Ref ''dashboard-backend'' ''PORT'']
   \<and> map_of (user_frontend_vars sample_facts) ''BACKEND_URL'' = Some [Lit ''https://'', Ref ''url-shortener-a'' ''RAILWAY_PUBLIC_DOMAIN'']
   \<and> ''dashboard-backend'' \<notin> set (sy_names sample_facts) \<and> ''url-shortener-a'' \<notin> set (sy_names sample_facts)
   \<and> map_of (dashboard_vars sample_facts) ''WATCHDOG_SERVICE_URL'' = None
   \<and> map (\<lambda>e. fst e \<in> set (sy_names sample_facts)) (sync_plan sample_facts) = [False, False, False, True, True]"
  by (simp add: sample_facts_def sync_facts_of_def dashboard_vars_def user_frontend_vars_def load_target_vars_def poll_vars_def
      token_vars_def private_url_def public_url_def env_text_def strip_trailing_def sync_plan_def Let_def)

end
