(* ===== verification/SetupApi.thy ===== *)
theory SetupApi
  imports SetupVariables "HOL-Library.Multiset"
begin

text \<open>
  The requests of the provisioning script (\<open>setup-railway.js\<close>), the way it reads their answers, and the comparisons
  it makes between what a service has and what it should have. A run is a function of the state (environment, the two
  setup files, the requests sent so far) that returns an error's message or a value. The API is a parameter: its answer
  to a request is any function of the requests sent up to it.
\<close>

section \<open>Runs\<close>

text \<open>What the code reads of the answers of the API; \<open>None\<close> is a member that is missing or null.\<close>

record trigger =
  tr_id :: string
  tr_branch :: "string option"
  tr_repository :: "string option"
  tr_environmentId :: "string option"

record project_service =
  ps_id :: string
  ps_name :: "string option"
  ps_repoTriggers :: "trigger list option"

record service_instance =
  si_rootDirectory :: "string option"
  si_preDeployCommand :: "string list option"
  si_railwayConfigFile :: "string option"
  si_watchPatterns :: "string list option"

record instance_input =
  in_rootDirectory :: "string option"
  in_preDeployCommand :: "string list option"
  in_railwayConfigFile :: "string option"
  in_watchPatterns :: "string list option"

datatype setup_request =
    Q_PROJECT string
  | Q_SERVICE_INSTANCE string string
  | M_SERVICE_CREATE (cr_project: string) (cr_environment: string) (cr_name: string) (cr_branch: string) (cr_repo: string)
  | M_SERVICE_CONNECT (co_id: string) (co_repo: string) (co_branch: string)
  | M_DEPLOY_TRIGGER_CREATE (tc_project: string) (tc_environment: string) (tc_service: string) (tc_branch: string)
      (tc_repository: string) (tc_provider: string) (tc_rootDirectory: string)
  | M_TRIGGER_UPDATE (tu_id: string) (tu_branch: string) (tu_repository: string) (tu_rootDirectory: string)
  | M_INSTANCE_UPDATE (iu_environment: string) (iu_service: string) (iu_input: instance_input)
  | M_SERVICE_INSTANCE_DEPLOY (de_environment: string) (de_service: string) (de_latestCommit: bool)
  | M_VARIABLE_COLLECTION_UPSERT (up_project: string) (up_environment: string) (up_service: string) (up_replace: bool)
      (up_skipDeploys: bool) (up_variables: vars)

fun is_setup_query :: "setup_request \<Rightarrow> bool" where
  "is_setup_query (Q_PROJECT p) \<longleftrightarrow> True"
| "is_setup_query (Q_SERVICE_INSTANCE e s) \<longleftrightarrow> True"
| "is_setup_query _ \<longleftrightarrow> False"

text \<open>
  \<open>Absent w\<close> is a body whose \<open>data\<close> is null or undefined (\<open>w\<close> says which). \<open>Rejected\<close> stands for a fetch or a reading of the
  body that rejects, with the message of the error.
\<close>

datatype setup_data =
    Absent string
  | Project_data "project_service option list option"
  | Instance_data "service_instance option"
  | Mutated

datatype setup_answer =
    Rejected string
  | Answered (an_ok: bool) (an_status: int) (an_text: string) (an_errors: "string list") (an_data: setup_data)

type_synonym auth_header = "string \<times> string"
type_synonym setup_api = "(auth_header \<times> setup_request) list \<Rightarrow> setup_answer"

record setup_state =
  sx_env :: env
  sx_files :: setup_files
  sx_sent :: "(auth_header \<times> setup_request) list"

type_synonym 'a run = "setup_state \<Rightarrow> (string + 'a) \<times> setup_state"

definition done_with :: "'a \<Rightarrow> 'a run" where
  "done_with x st = (Inr x, st)"

definition throw_error :: "string \<Rightarrow> 'a run" where
  "throw_error e st = (Inl e, st)"

definition and_then :: "'a run \<Rightarrow> ('a \<Rightarrow> 'b run) \<Rightarrow> 'b run" where
  "and_then m f st = (case m st of (Inl e, st1) \<Rightarrow> (Inl e, st1) | (Inr x, st1) \<Rightarrow> f x st1)"

text \<open>\<open>try\<close> around one step: the error becomes a value.\<close>

definition try_run :: "'a run \<Rightarrow> (string + 'a) run" where
  "try_run m st = (case m st of (r, st1) \<Rightarrow> (Inr r, st1))"

definition asking :: "(setup_state \<Rightarrow> 'a) \<Rightarrow> 'a run" where
  "asking q st = (Inr (q st), st)"

fun for_each :: "('a \<Rightarrow> unit run) \<Rightarrow> 'a list \<Rightarrow> unit run" where
  "for_each f [] = done_with ()"
| "for_each f (x # xs) = and_then (f x) (\<lambda>_. for_each f xs)"

fun carry :: "('a \<Rightarrow> 'b \<Rightarrow> 'b run) \<Rightarrow> 'a list \<Rightarrow> 'b \<Rightarrow> 'b run" where
  "carry f [] b = done_with b"
| "carry f (x # xs) b = and_then (f x b) (carry f xs)"

section \<open>Requests\<close>

definition getAuthHeaders :: "env \<Rightarrow> string + auth_header" where
  "getAuthHeaders env =
     (let account = str_or (coalesce (env ''RAILWAY_API_TOKEN'') []) (coalesce (env ''RAILWAY_TOKEN'') []);
          project = coalesce (env ''RAILWAY_PROJECT_TOKEN'') []
      in if account \<noteq> [] then Inr (''Authorization'', ''Bearer '' @ account)
         else if project \<noteq> [] then Inr (''Project-Access-Token'', project)
         else Inl ''Set RAILWAY_API_TOKEN (or RAILWAY_TOKEN) to an account token from https://railway.com/account/tokens'')"

text \<open>The body of the answer, or the message of the error that is thrown for it.\<close>

fun read_answer :: "setup_answer \<Rightarrow> string + setup_data" where
  "read_answer (Rejected e) = Inl e"
| "read_answer (Answered ok status body errors d) =
     (if \<not> ok then Inl (''HTTP '' @ show_int status @ '': '' @ body)
      else if errors \<noteq> [] then Inl (js_join ''; '' errors)
      else Inr d)"

definition gql :: "setup_api \<Rightarrow> setup_request \<Rightarrow> setup_data run" where
  "gql api req st =
     (case getAuthHeaders (sx_env st) of
        Inl e \<Rightarrow> (Inl e, st)
      | Inr h \<Rightarrow>
          (let st1 = st\<lparr>sx_sent := sx_sent st @ [(h, req)]\<rparr> in (read_answer (api (sx_sent st1)), st1)))"

text \<open>A mutation whose answer is not used.\<close>

definition mutate :: "setup_api \<Rightarrow> setup_request \<Rightarrow> unit run" where
  "mutate api req = and_then (gql api req) (\<lambda>_. done_with ())"

definition no_member :: "string \<Rightarrow> string \<Rightarrow> string" where
  "no_member what member_name = ''Cannot read properties of '' @ what @ '' (reading '' @ [CHR 0x27] @ member_name @ [CHR 0x27] @ '')''"

section \<open>The services of a project\<close>

record setup_service =
  ss_id :: string
  ss_name :: string
  ss_triggers :: "trigger list"

type_synonym services = "(string \<times> setup_service) list"

definition service_of_node :: "project_service option \<Rightarrow> setup_service option" where
  "service_of_node n =
     (case n of
        None \<Rightarrow> None
      | Some p \<Rightarrow>
          (case ps_name p of
             None \<Rightarrow> None
           | Some name \<Rightarrow>
               if name = [] then None
               else Some \<lparr>ss_id = ps_id p, ss_name = name, ss_triggers = coalesce (ps_repoTriggers p) []\<rparr>))"

text \<open>\<open>byName.set\<close>: a later service of the same name replaces the earlier one in its place.\<close>

definition services_of :: "project_service option list \<Rightarrow> services" where
  "services_of edges = fold (\<lambda>s. AList.update (ss_name s) s) (List.map_filter service_of_node edges) []"

definition fetchServicesMap :: "setup_api \<Rightarrow> string \<Rightarrow> services run" where
  "fetchServicesMap api project =
     and_then (gql api (Q_PROJECT project))
       (\<lambda>d. case d of
              Absent w \<Rightarrow> throw_error (no_member w ''project'')
            | Project_data (Some edges) \<Rightarrow> done_with (services_of edges)
            | _ \<Rightarrow> done_with [])"

section \<open>Comparisons\<close>

definition normRailwayConfigPath :: "string option \<Rightarrow> string" where
  "normRailwayConfigPath p =
     (let s = js_trim (coalesce p []) in if s = [] then [] else if js_startsWith s ''/'' then s else ''/'' @ s)"

definition watchPatternsEqual :: "string list option \<Rightarrow> string list option \<Rightarrow> bool" where
  "watchPatternsEqual current wanted =
     (let a = sort (map js_trim (coalesce current [])); b = sort (map js_trim (coalesce wanted []))
      in length a = length b \<and> list_all (\<lambda>i. a ! i = b ! i) [0..<length a])"

text \<open>
  \<open>/github\.com[:/]([^/]+\/[^/]+?)(?:\.git)?$/i\<close> at the start of a string: exactly two non-empty parts follow, and an ending
  \<open>.git\<close> is left out unless it is the whole second part.
\<close>

definition drop_git :: "string \<Rightarrow> string" where
  "drop_git n = (if 4 < length n \<and> js_lower (drop (length n - 4) n) = ''.git'' then take (length n - 4) n else n)"

fun owner_and_repo :: "string list \<Rightarrow> string option" where
  "owner_and_repo [owner_name, repo] = (if owner_name \<noteq> [] \<and> repo \<noteq> [] then Some (owner_name @ ''/'' @ drop_git repo) else None)"
| "owner_and_repo _ = None"

definition github_here :: "string \<Rightarrow> string option" where
  "github_here s =
     (if js_lower (take 10 s) = ''github.com''
      then (case drop 10 s of
              [] \<Rightarrow> None
            | c # rest \<Rightarrow> if c = CHR '':'' \<or> c = CHR ''/'' then owner_and_repo (js_split (CHR ''/'') rest) else None)
      else None)"

fun github_match :: "string \<Rightarrow> string option" where
  "github_match [] = None"
| "github_match (c # s) = (case github_here (c # s) of Some m \<Rightarrow> Some m | None \<Rightarrow> github_match s)"

definition normalizeRepo :: "string option \<Rightarrow> string" where
  "normalizeRepo s = (let t = js_trim (coalesce s []) in case github_match t of Some m \<Rightarrow> m | None \<Rightarrow> t)"

section \<open>Steps that keep a relation\<close>

text \<open>
  A relation between the state before a step and after it that is reflexive and transitive is kept by every
  combination of steps that keep it.
\<close>

locale effect =
  fixes R :: "setup_state \<Rightarrow> setup_state \<Rightarrow> bool"
  assumes effect_refl: "R st st"
    and effect_trans: "R st st1 \<Longrightarrow> R st1 st2 \<Longrightarrow> R st st2"
begin

definition kept :: "'a run \<Rightarrow> bool" where
  "kept m \<longleftrightarrow> (\<forall>st. R st (snd (m st)))"

lemma keptD: "kept m \<Longrightarrow> R st (snd (m st))"
  by (simp add: kept_def)

lemma kept_done: "kept (done_with x)"
  by (simp add: kept_def done_with_def effect_refl)

lemma kept_throw: "kept (throw_error e)"
  by (simp add: kept_def throw_error_def effect_refl)

lemma kept_asking: "kept (asking q)"
  by (simp add: kept_def asking_def effect_refl)

lemma kept_and_then:
  assumes "kept m" and "\<And>x. kept (f x)" shows "kept (and_then m f)"
  unfolding kept_def
proof
  fix st
  show "R st (snd (and_then m f st))"
  proof (cases "m st")
    case (Pair r st1)
    then have "R st st1" using keptD [OF assms(1), of st] by simp
    then show ?thesis
      using Pair keptD [OF assms(2), of st1] effect_trans by (auto simp: and_then_def split: sum.split)
  qed
qed

lemma kept_try: "kept m \<Longrightarrow> kept (try_run m)"
  by (simp add: kept_def try_run_def case_prod_beta)

lemma kept_for_each: "(\<And>x. x \<in> set xs \<Longrightarrow> kept (f x)) \<Longrightarrow> kept (for_each f xs)"
  by (induction xs) (auto intro!: kept_done kept_and_then)

lemma kept_carry: "(\<And>x b. x \<in> set xs \<Longrightarrow> kept (f x b)) \<Longrightarrow> kept (carry f xs b)"
proof (induction xs arbitrary: b)
  case Nil
  show ?case by (simp add: kept_done)
next
  case (Cons x xs)
  have "kept (carry f xs b1)" for b1 by (rule Cons.IH) (simp add: Cons.prems)
  then show ?case using Cons.prems by (simp add: kept_and_then)
qed

lemmas kept_steps = kept_done kept_throw kept_asking kept_and_then kept_try kept_for_each kept_carry

end

text \<open>
  A step sends requests of the kind \<open>P\<close> only, each with the header of the environment, and changes no variable of the
  environment but the log token.
\<close>

definition same_but_token :: "env \<Rightarrow> env \<Rightarrow> bool" where
  "same_but_token env env1 \<longleftrightarrow> (\<forall>k. k \<noteq> TOKEN_KEY \<longrightarrow> env1 k = env k)"

definition sends :: "(setup_request \<Rightarrow> bool) \<Rightarrow> setup_state \<Rightarrow> setup_state \<Rightarrow> bool" where
  "sends P st st1 \<longleftrightarrow>
     same_but_token (sx_env st) (sx_env st1)
     \<and> (\<exists>new. sx_sent st1 = sx_sent st @ new
            \<and> list_all (\<lambda>hr. getAuthHeaders (sx_env st) = Inr (fst hr) \<and> P (snd hr)) new)"

lemma same_token_auth: "same_but_token env env1 \<Longrightarrow> getAuthHeaders env1 = getAuthHeaders env"
  by (simp add: same_but_token_def getAuthHeaders_def TOKEN_KEY_def)

interpretation sends: effect "sends P" for P
proof
  show "sends P st st" for st
    by (simp add: sends_def same_but_token_def)
next
  fix st st1 st2 assume a: "sends P st st1" and b: "sends P st1 st2"
  from a obtain xs where xs: "sx_sent st1 = sx_sent st @ xs"
    "list_all (\<lambda>hr. getAuthHeaders (sx_env st) = Inr (fst hr) \<and> P (snd hr)) xs" and e: "same_but_token (sx_env st) (sx_env st1)"
    by (auto simp: sends_def)
  from b obtain ys where ys: "sx_sent st2 = sx_sent st1 @ ys"
    "list_all (\<lambda>hr. getAuthHeaders (sx_env st) = Inr (fst hr) \<and> P (snd hr)) ys" and e1: "same_but_token (sx_env st1) (sx_env st2)"
    by (auto simp: sends_def same_token_auth [OF e])
  show "sends P st st2"
    unfolding sends_def using xs ys e e1 by (auto simp: same_but_token_def intro!: exI [of _ "xs @ ys"])
qed

text \<open>A step leaves the environment and the files as they are.\<close>

definition leaves_files :: "setup_state \<Rightarrow> setup_state \<Rightarrow> bool" where
  "leaves_files st st1 \<longleftrightarrow> sx_env st1 = sx_env st \<and> sx_files st1 = sx_files st"

interpretation files: effect leaves_files
  by unfold_locales (auto simp: leaves_files_def)

lemma gql_sends: "P req \<Longrightarrow> sends.kept P (gql api req)"
  by (auto simp: sends.kept_def gql_def sends_def same_but_token_def Let_def split: sum.split)

lemma gql_leaves_files: "files.kept (gql api req)"
  by (auto simp: files.kept_def gql_def leaves_files_def Let_def split: sum.split)

lemma mutate_sends: "P req \<Longrightarrow> sends.kept P (mutate api req)"
  by (simp add: mutate_def gql_sends sends.kept_steps)

lemma mutate_leaves_files: "files.kept (mutate api req)"
  by (simp add: mutate_def gql_leaves_files files.kept_steps)

lemma fetch_sends: "(\<And>p. P (Q_PROJECT p)) \<Longrightarrow> sends.kept P (fetchServicesMap api project)"
  unfolding fetchServicesMap_def
  by (intro sends.kept_and_then gql_sends) (auto intro: sends.kept_steps split: setup_data.split option.split)

lemma fetch_leaves_files: "files.kept (fetchServicesMap api project)"
  unfolding fetchServicesMap_def
  by (intro files.kept_and_then gql_leaves_files) (auto intro: files.kept_steps split: setup_data.split option.split)

section \<open>What the comparisons mean\<close>

lemma sort_eq_iff: "sort xs = sort ys \<longleftrightarrow> mset xs = mset ys"
proof
  assume "sort xs = sort ys"
  then have "mset (sort xs) = mset (sort ys)" by simp
  then show "mset xs = mset ys" by simp
next
  assume "mset xs = mset ys"
  then show "sort xs = sort ys" by (intro properties_for_sort) simp_all
qed

text \<open>
  Two lists of watch patterns are equal for the script exactly when they hold the same patterns the same number
  of times, blanks around a pattern and the order left aside; a missing list is the empty one.
\<close>

lemma watch_patterns_equal_iff:
  "watchPatternsEqual a b \<longleftrightarrow> mset (map js_trim (coalesce a [])) = mset (map js_trim (coalesce b []))"
proof -
  have "watchPatternsEqual a b \<longleftrightarrow> sort (map js_trim (coalesce a [])) = sort (map js_trim (coalesce b []))"
    unfolding watchPatternsEqual_def Let_def list.pred_set list_eq_iff_nth_eq by auto
  then show ?thesis by (simp add: sort_eq_iff)
qed

lemma github_here_none:
  assumes "CHR '':'' \<notin> set s" and "count_list s (CHR ''/'') \<le> 1"
  shows "github_here s = None"
proof (cases "drop 10 s")
  case (Cons c rest)
  have s: "s = take 10 s @ c # rest" by (metis Cons append_take_drop_id)
  have "c \<noteq> CHR '':''" using assms(1) s by (metis in_set_conv_decomp)
  moreover have "owner_and_repo (js_split (CHR ''/'') rest) = None" if slash: "c = CHR ''/''"
  proof -
    have "count_list s (CHR ''/'') = count_list (take 10 s) (CHR ''/'') + (1 + count_list rest (CHR ''/''))"
      by (subst s) (simp add: slash)
    with assms(2) have "count_list rest (CHR ''/'') = 0" by linarith
    then show ?thesis by (simp add: count_list_0_iff js_split_single)
  qed
  ultimately show ?thesis by (simp add: github_here_def Cons)
qed (simp add: github_here_def)

lemma github_match_none: "CHR '':'' \<notin> set s \<Longrightarrow> count_list s (CHR ''/'') \<le> 1 \<Longrightarrow> github_match s = None"
proof (induction s)
  case (Cons c s)
  then have "count_list s (CHR ''/'') \<le> 1" by (simp split: if_splits)
  with Cons github_here_none [of "c # s"] show ?case by simp
qed simp

text \<open>A name of an owner or of a repository on GitHub.\<close>

definition slug :: "string \<Rightarrow> bool" where
  "slug s \<longleftrightarrow> s \<noteq> [] \<and> list_all (\<lambda>c. \<not> is_ws c \<and> c \<noteq> CHR '':'' \<and> c \<noteq> CHR ''/'') s"

definition repo_spellings :: "string \<Rightarrow> string \<Rightarrow> string list" where
  "repo_spellings o1 n =
     [o1 @ ''/'' @ n, ''https://github.com/'' @ o1 @ ''/'' @ n, ''https://github.com/'' @ o1 @ ''/'' @ n @ ''.git'',
      ''git@github.com:'' @ o1 @ ''/'' @ n @ ''.git'', ''GitHub.com/'' @ o1 @ ''/'' @ n]"

lemma slug_facts:
  assumes "slug s"
  shows "s \<noteq> []" "CHR '':'' \<notin> set s" "CHR ''/'' \<notin> set s" "\<not> is_ws (hd s)" "\<not> is_ws (last s)"
  using assms by (auto simp: slug_def list.pred_set)

lemma lower_letters:
  "lower_char (CHR ''h'') = CHR ''h''"
  "lower_char (CHR ''t'') = CHR ''t''"
  "lower_char (CHR ''p'') = CHR ''p''"
  "lower_char (CHR ''s'') = CHR ''s''"
  "lower_char (CHR '':'') = CHR '':''"
  "lower_char (CHR ''/'') = CHR ''/''"
  "lower_char (CHR ''g'') = CHR ''g''"
  "lower_char (CHR ''i'') = CHR ''i''"
  "lower_char (CHR ''u'') = CHR ''u''"
  "lower_char (CHR ''b'') = CHR ''b''"
  "lower_char (CHR ''.'') = CHR ''.''"
  "lower_char (CHR ''c'') = CHR ''c''"
  "lower_char (CHR ''o'') = CHR ''o''"
  "lower_char (CHR ''m'') = CHR ''m''"
  "lower_char (CHR ''@'') = CHR ''@''"
  by (simp_all add: lower_char_def)

lemma lower_capitals:
  "lower_char (CHR ''G'') = CHR ''g''"
  "lower_char (CHR ''H'') = CHR ''h''"
  "lower_char (CHR ''C'') = CHR ''c''"
  by code_simp+

lemma drop_git_suffix: "n \<noteq> [] \<Longrightarrow> drop_git (n @ ''.git'') = n"
  by (simp add: drop_git_def js_lower_def lower_letters)

text \<open>
  The spellings of a repository agree: the short name, the web address, the clone addresses with and without
  \<open>.git\<close> and in any case of the host name are all read as the short name, so a trigger that was created through the
  web interface is recognised as the wanted one.
\<close>

lemma repo_spellings_agree:
  assumes "slug o1" and "slug n" and "drop_git n = n"
  shows "list_all (\<lambda>s. normalizeRepo (Some s) = o1 @ ''/'' @ n) (repo_spellings o1 n)"
proof -
  note o1 = slug_facts [OF assms(1)] and n = slug_facts [OF assms(2)]
  have plain: "js_split (CHR ''/'') (o1 @ CHR ''/'' # n) = [o1, n]"
    using o1 n by (simp add: js_split_append js_split_single)
  have git: "js_split (CHR ''/'') (o1 @ CHR ''/'' # n @ ''.git'') = [o1, n @ ''.git'']"
    using o1 n by (simp add: js_split_append js_split_single)
  have short: "github_match (o1 @ CHR ''/'' # n) = None"
    using o1 n by (intro github_match_none) (simp_all add: count_list_0_iff)
  have trim: "js_trim (p @ o1 @ CHR ''/'' # n @ e) = p @ o1 @ CHR ''/'' # n @ e"
    if ok: "\<not> is_ws (hd (p @ o1))" "\<not> is_ws (last (n @ e))" for p e
    using ok o1 n by (intro js_trim_trimmed) (auto simp: trimmed_def hd_append last_append split: if_splits)
  note here = github_here_def js_lower_def lower_letters lower_capitals
  show ?thesis
    using o1 n trim [of "[]" "[]"] trim [of "''https://github.com/''" "[]"] trim [of "''https://github.com/''" "''.git''"]
      trim [of "''git@github.com:''" "''.git''"] trim [of "''GitHub.com/''" "[]"]
    by (simp add: repo_spellings_def normalizeRepo_def Let_def here plain git short drop_git_suffix assms(3) is_ws_def)
qed

lemma repo_spellings_agree_witness:
  "repo_spellings ''nathan-nw'' ''PE'' ! 3 = ''git@github.com:nathan-nw/PE.git''
   \<and> list_all (\<lambda>s. normalizeRepo (Some s) = ''nathan-nw/PE'') (repo_spellings ''nathan-nw'' ''PE'')"
  using repo_spellings_agree [of "''nathan-nw''" "''PE''"]
  by (simp add: slug_def is_ws_def drop_git_def repo_spellings_def)

end
