(* ===== verification/SetupRailway.thy ===== *)
theory SetupRailway
  imports SetupApi
begin

text \<open>
  The provisioning script (\<open>setup-railway.js\<close>): one pass over the services that the repository deploys (create, link
  to the repository, set the branch, bring the instance's settings in line), then a new deployment of each, then the
  variables. The messages it prints are not part of the model.
\<close>

section \<open>The services to provision\<close>

record service_spec =
  sc_name :: string
  sc_rootDirectory :: string
  sc_railwayConfigFile :: string
  sc_watchPatterns :: "string list"

definition spec :: "string \<Rightarrow> string \<Rightarrow> string \<Rightarrow> string list \<Rightarrow> service_spec" where
  "spec name dir config patterns =
     \<lparr>sc_name = name, sc_rootDirectory = dir, sc_railwayConfigFile = config, sc_watchPatterns = patterns\<rparr>"

definition SERVICE_SPECS :: "service_spec list" where
  "SERVICE_SPECS =
     [spec ''url-shortener-a'' ''url-shortener'' ''/url-shortener/railway.toml'' [''/url-shortener/**''],
      spec ''url-shortener-b'' ''url-shortener'' ''/url-shortener/railway.toml'' [''/url-shortener/**''],
      spec ''load-balancer'' ''load-balancer'' ''/load-balancer/railway.toml'' [''/load-balancer/**''],
      spec ''user-frontend'' ''user-frontend'' ''/user-frontend/railway.toml'' [''/user-frontend/**''],
      spec ''dashboard'' ''dashboard'' ''/dashboard/railway.toml'' [''/dashboard/**''],
      spec ''dashboard-backend'' ''dashboard/backend'' ''/dashboard/backend/railway.toml'' [''/dashboard/backend/**''],
      spec ''railway-watchdog'' ''.'' ''/watchdog-service/railway.toml'' [''/**'', ''/*'', ''/.*'']]"

text \<open>What \<open>main\<close> computes before the first request, and \<open>loadRailwayConfig\<close>.\<close>

record setup_run =
  ru_dry :: bool
  ru_repo :: string
  ru_branch :: string
  ru_project :: string
  ru_environment :: string

datatype config_file = Unreadable string | Config "string option" "string option"

fun loadRailwayConfig :: "string \<Rightarrow> config_file \<Rightarrow> string + string \<times> string" where
  "loadRailwayConfig path (Unreadable e) = Inl e"
| "loadRailwayConfig path (Config project environment) =
     (if truthy project \<and> truthy environment then Inr (the project, the environment)
      else Inl (path @ '' must include projectId and environmentId''))"

section \<open>One service\<close>

text \<open>The service, created when it is missing; \<open>None\<close> is the \<open>continue\<close> of a dry run.\<close>

definition ensure_service :: "setup_api \<Rightarrow> setup_run \<Rightarrow> service_spec \<Rightarrow> services \<Rightarrow> (services \<times> setup_service option) run" where
  "ensure_service api ru sc byName =
     (case map_of byName (sc_name sc) of
        Some svc \<Rightarrow> done_with (byName, Some svc)
      | None \<Rightarrow>
          if ru_dry ru then done_with (byName, None)
          else and_then (mutate api (M_SERVICE_CREATE (ru_project ru) (ru_environment ru) (sc_name sc) (ru_branch ru) (ru_repo ru)))
                 (\<lambda>_. and_then (fetchServicesMap api (ru_project ru))
                   (\<lambda>b. case map_of b (sc_name sc) of
                          None \<Rightarrow> throw_error (''Service '' @ sc_name sc @ '' not found after create'')
                        | Some svc \<Rightarrow> done_with (b, Some svc))))"

text \<open>The triggers of the wanted repository that belong to the environment, or to none.\<close>

definition own_trigger :: "setup_run \<Rightarrow> trigger \<Rightarrow> bool" where
  "own_trigger ru t \<longleftrightarrow>
     normalizeRepo (tr_repository t) = ru_repo ru \<and> (\<not> truthy (tr_environmentId t) \<or> tr_environmentId t = Some (ru_environment ru))"

definition own_triggers :: "setup_run \<Rightarrow> setup_service \<Rightarrow> trigger list" where
  "own_triggers ru svc = filter (own_trigger ru) (ss_triggers svc)"

definition update_trigger :: "setup_api \<Rightarrow> setup_run \<Rightarrow> service_spec \<Rightarrow> trigger \<Rightarrow> unit run" where
  "update_trigger api ru sc tr = mutate api (M_TRIGGER_UPDATE (tr_id tr) (ru_branch ru) (ru_repo ru) (sc_rootDirectory sc))"

definition connect_service :: "setup_api \<Rightarrow> setup_run \<Rightarrow> service_spec \<Rightarrow> setup_service \<Rightarrow> unit run" where
  "connect_service api ru sc svc =
     and_then (try_run (mutate api (M_SERVICE_CONNECT (ss_id svc) (ru_repo ru) (ru_branch ru))))
       (\<lambda>r. case r of
              Inr _ \<Rightarrow> done_with ()
            | Inl e \<Rightarrow> mutate api (M_DEPLOY_TRIGGER_CREATE (ru_project ru) (ru_environment ru) (ss_id svc) (ru_branch ru) (ru_repo ru)
                         ''GITHUB'' (sc_rootDirectory sc)))"

text \<open>
  A service whose triggers are all of another repository or another environment is left as it is; the two cases differ in what is printed.
\<close>

definition link_service ::
  "setup_api \<Rightarrow> setup_run \<Rightarrow> service_spec \<Rightarrow> services \<Rightarrow> setup_service \<Rightarrow> (services \<times> setup_service option) run" where
  "link_service api ru sc byName svc =
     (if own_triggers ru svc = []
      then (if ss_triggers svc \<noteq> [] \<or> ru_dry ru then done_with (byName, Some svc)
            else and_then (connect_service api ru sc svc)
                   (\<lambda>_. and_then (fetchServicesMap api (ru_project ru)) (\<lambda>b. done_with (b, map_of b (sc_name sc)))))
      else and_then
             (for_each (\<lambda>tr. if tr_branch tr = Some (ru_branch ru) \<and> normalizeRepo (tr_repository tr) = ru_repo ru then done_with ()
                             else if ru_dry ru then done_with () else update_trigger api ru sc tr)
               (own_triggers ru svc))
             (\<lambda>_. done_with (byName, Some svc)))"

definition set_branches ::
  "setup_api \<Rightarrow> setup_run \<Rightarrow> service_spec \<Rightarrow> services \<Rightarrow> setup_service option \<Rightarrow> (services \<times> setup_service option) run" where
  "set_branches api ru sc byName svc =
     (if ru_dry ru then done_with (byName, svc)
      else and_then (fetchServicesMap api (ru_project ru))
             (\<lambda>b. case map_of b (sc_name sc) of
                    None \<Rightarrow> done_with (b, None)
                  | Some s \<Rightarrow>
                      and_then (for_each (\<lambda>tr. if tr_branch tr \<noteq> Some (ru_branch ru) then update_trigger api ru sc tr else done_with ())
                                 (own_triggers ru s))
                        (\<lambda>_. done_with (b, Some s))))"

text \<open>The settings of an instance that differ from the wanted ones; \<open>None\<close> when nothing is to be sent.\<close>

definition no_instance :: service_instance where
  "no_instance = \<lparr>si_rootDirectory = None, si_preDeployCommand = None, si_railwayConfigFile = None, si_watchPatterns = None\<rparr>"

definition instance_changes :: "bool \<Rightarrow> service_spec \<Rightarrow> service_instance \<Rightarrow> instance_input option" where
  "instance_changes force sc si =
     (let rootOk = coalesce (si_rootDirectory si) [] = sc_rootDirectory sc;
          mustClearPre = force \<or> 0 < length (coalesce (si_preDeployCommand si) []);
          configOk = normRailwayConfigPath (si_railwayConfigFile si) = normRailwayConfigPath (Some (sc_railwayConfigFile sc));
          watchOk = watchPatternsEqual (si_watchPatterns si) (Some (sc_watchPatterns sc))
      in if \<not> (\<not> rootOk \<or> mustClearPre \<or> \<not> configOk \<or> \<not> watchOk) then None
         else Some \<lparr>in_rootDirectory = (if rootOk then None else Some (sc_rootDirectory sc)),
                    in_preDeployCommand = (if mustClearPre then Some [] else None),
                    in_railwayConfigFile = (if configOk then None else Some (sc_railwayConfigFile sc)),
                    in_watchPatterns = (if watchOk then None else Some (sc_watchPatterns sc))\<rparr>)"

fun instance_of :: "setup_data \<Rightarrow> service_instance run" where
  "instance_of (Absent w) = throw_error (no_member w ''serviceInstance'')"
| "instance_of (Instance_data si) = done_with (coalesce si no_instance)"
| "instance_of _ = done_with no_instance"

definition configure_instance :: "setup_api \<Rightarrow> setup_run \<Rightarrow> service_spec \<Rightarrow> setup_service option \<Rightarrow> unit run" where
  "configure_instance api ru sc svc =
     (case svc of
        None \<Rightarrow> throw_error (no_member ''undefined'' ''id'')
      | Some s \<Rightarrow>
          and_then (gql api (Q_SERVICE_INSTANCE (ru_environment ru) (ss_id s)))
            (\<lambda>d. and_then (instance_of d)
              (\<lambda>si. and_then (asking (\<lambda>st. env_flag (sx_env st) ''FORCE_CLEAR_PREDEPLOY''))
                (\<lambda>force. case instance_changes force sc si of
                           None \<Rightarrow> done_with ()
                         | Some input \<Rightarrow>
                             if ru_dry ru then done_with ()
                             else mutate api (M_INSTANCE_UPDATE (ru_environment ru) (ss_id s) input)))))"

definition provision_service :: "setup_api \<Rightarrow> setup_run \<Rightarrow> service_spec \<Rightarrow> services \<Rightarrow> services run" where
  "provision_service api ru sc byName =
     and_then (ensure_service api ru sc byName)
       (\<lambda>(b, found). case found of
          None \<Rightarrow> done_with b
        | Some svc \<Rightarrow>
            and_then (link_service api ru sc b svc)
              (\<lambda>(b1, s1). and_then (set_branches api ru sc b1 s1)
                (\<lambda>(b2, s2). and_then (configure_instance api ru sc s2) (\<lambda>_. done_with b2))))"

section \<open>Deployments and variables\<close>

text \<open>A deployment that fails is reported and the next one is tried.\<close>

definition redeploy :: "setup_api \<Rightarrow> setup_run \<Rightarrow> unit run" where
  "redeploy api ru =
     and_then (fetchServicesMap api (ru_project ru))
       (\<lambda>byName. for_each
          (\<lambda>sc. case map_of byName (sc_name sc) of
                  None \<Rightarrow> done_with ()
                | Some svc \<Rightarrow>
                    and_then (try_run (gql api (M_SERVICE_INSTANCE_DEPLOY (ru_environment ru) (ss_id svc) True))) (\<lambda>_. done_with ()))
          SERVICE_SPECS)"

definition skipDeployOnVarSync :: "env \<Rightarrow> bool" where
  "skipDeployOnVarSync env \<longleftrightarrow>
     env ''SKIP_DEPLOY_ON_VARIABLE_SYNC'' \<noteq> Some ''0'' \<and> env ''SKIP_DEPLOY_ON_VARIABLE_SYNC'' \<noteq> Some ''false''"

definition upsert :: "setup_api \<Rightarrow> setup_run \<Rightarrow> services \<Rightarrow> bool \<Rightarrow> string \<times> vars \<Rightarrow> unit run" where
  "upsert api ru byName skip sv =
     (case map_of byName (fst sv) of
        None \<Rightarrow> done_with ()
      | Some svc \<Rightarrow>
          if ru_dry ru then done_with ()
          else mutate api (M_VARIABLE_COLLECTION_UPSERT (ru_project ru) (ru_environment ru) (ss_id svc) False skip (snd sv)))"

text \<open>\<open>t\<close> is the random token that is drawn when there is none.\<close>

definition ensure_token :: "string \<Rightarrow> string list \<Rightarrow> string option \<Rightarrow> unit run" where
  "ensure_token t names kafka st =
     (let r = ensureLogIngestTokenForHttpIngest names kafka t (sx_env st) (sx_files st)
      in (Inr (), st\<lparr>sx_env := fst r, sx_files := snd r\<rparr>))"

definition syncInternalDatabaseVariables :: "setup_api \<Rightarrow> string \<Rightarrow> setup_run \<Rightarrow> services \<Rightarrow> unit run" where
  "syncInternalDatabaseVariables api t ru byName =
     (let names = map fst byName
      in and_then (asking (\<lambda>st. findPostgresServiceName (sx_env st) names))
           (\<lambda>found. if \<not> truthy found then done_with ()
             else and_then (asking sx_env)
               (\<lambda>env. and_then (if ru_dry ru then done_with () else ensure_token t names (findKafkaServiceName env names))
                 (\<lambda>_. and_then (asking (\<lambda>st. sync_facts_of (sx_env st) (ru_project ru) (ru_environment ru) names (the found)))
                   (\<lambda>f. for_each (upsert api ru byName (skipDeployOnVarSync env)) (sync_plan f))))))"

section \<open>The script\<close>

definition run_setup :: "setup_api \<Rightarrow> string \<Rightarrow> setup_run \<Rightarrow> unit run" where
  "run_setup api t ru =
     and_then (fetchServicesMap api (ru_project ru))
       (\<lambda>b. and_then (carry (provision_service api ru) SERVICE_SPECS b)
         (\<lambda>_. and_then (asking (\<lambda>st. env_flag (sx_env st) ''SKIP_REDEPLOY''))
           (\<lambda>skipRedeploy. and_then (if \<not> ru_dry ru \<and> \<not> skipRedeploy then redeploy api ru else done_with ())
             (\<lambda>_. and_then (asking (\<lambda>st. env_flag (sx_env st) ''SYNC_VARIABLES''))
               (\<lambda>syncVariables. if \<not> syncVariables then done_with ()
                 else and_then (fetchServicesMap api (ru_project ru)) (syncInternalDatabaseVariables api t ru))))))"

definition DEFAULT_REPO :: string where "DEFAULT_REPO = ''nathan-nw/PE-Hackathon-2026''"
definition DEFAULT_BRANCH :: string where "DEFAULT_BRANCH = ''staging''"

definition run_of :: "env \<Rightarrow> string \<Rightarrow> string \<Rightarrow> setup_run" where
  "run_of env project environment =
     \<lparr>ru_dry = env_flag env ''DRY_RUN'',
      ru_repo = normalizeRepo (Some (str_or (coalesce (env ''RAILWAY_REPO'') []) DEFAULT_REPO)),
      ru_branch = js_trim (str_or (coalesce (env ''RAILWAY_BRANCH'') []) DEFAULT_BRANCH),
      ru_project = project, ru_environment = environment\<rparr>"

text \<open>The state at the start: the environment of the process, with the gaps filled from the setup file.\<close>

definition setup_start :: "env \<Rightarrow> setup_files \<Rightarrow> setup_state" where
  "setup_start env fs = \<lparr>sx_env = loadOptionalEnvFile (sf_setup fs) env, sx_files = fs, sx_sent = []\<rparr>"

definition setup_main :: "setup_api \<Rightarrow> string \<Rightarrow> string \<Rightarrow> config_file \<Rightarrow> env \<Rightarrow> setup_files \<Rightarrow> (string + unit) \<times> setup_state" where
  "setup_main api t path config env fs =
     (let st = setup_start env fs
      in case getAuthHeaders (sx_env st) of
           Inl e \<Rightarrow> (Inl e, st)
         | Inr h \<Rightarrow>
             (case loadRailwayConfig path config of
                Inl e \<Rightarrow> (Inl e, st)
              | Inr (project, environment) \<Rightarrow> run_setup api t (run_of (sx_env st) project environment) st))"

text \<open>The exit code of the process.\<close>

definition exit_code :: "string + unit \<Rightarrow> int" where
  "exit_code r = (case r of Inl e \<Rightarrow> 1 | Inr _ \<Rightarrow> 0)"

section \<open>What a step can send\<close>

lemmas setup_steps = ensure_service_def link_service_def connect_service_def set_branches_def update_trigger_def
  configure_instance_def provision_service_def redeploy_def upsert_def syncInternalDatabaseVariables_def

lemma sends_mono: "sends.kept P m \<Longrightarrow> (\<And>r. P r \<Longrightarrow> Q r) \<Longrightarrow> sends.kept Q m"
  by (fastforce simp: sends.kept_def sends_def elim: list.pred_mono_strong)

text \<open>The requests of each phase.\<close>

fun configures :: "setup_request \<Rightarrow> bool" where
  "configures (M_SERVICE_INSTANCE_DEPLOY e s l) \<longleftrightarrow> False"
| "configures (M_VARIABLE_COLLECTION_UPSERT p e s r k vs) \<longleftrightarrow> False"
| "configures _ \<longleftrightarrow> True"

fun deploys :: "setup_request \<Rightarrow> bool" where
  "deploys (M_SERVICE_INSTANCE_DEPLOY e s l) \<longleftrightarrow> True"
| "deploys r \<longleftrightarrow> is_setup_query r"

fun sets_variables :: "setup_request \<Rightarrow> bool" where
  "sets_variables (M_VARIABLE_COLLECTION_UPSERT p e s r k vs) \<longleftrightarrow> True"
| "sets_variables r \<longleftrightarrow> is_setup_query r"

lemma instance_of_sends: "sends.kept P (instance_of d)"
  by (cases d) (simp_all add: sends.kept_steps)

lemma instance_of_leaves_files: "files.kept (instance_of d)"
  by (cases d) (simp_all add: files.kept_steps)

text \<open>Provisioning sends what the two sides of the dry-run switch allow.\<close>

lemma provision_sends:
  assumes query: "\<And>r. is_setup_query r \<Longrightarrow> P r" and other: "\<And>r. \<not> ru_dry ru \<Longrightarrow> configures r \<Longrightarrow> P r"
  shows "sends.kept P (provision_service api ru sc b)"
proof -
  have m: "sends.kept P (mutate api r)" if "\<not> ru_dry ru" "configures r" for r
    by (rule mutate_sends) (rule other [OF that])
  have q: "sends.kept P (gql api (Q_SERVICE_INSTANCE e s))" for e s
    by (rule gql_sends) (simp add: query)
  have f: "sends.kept P (fetchServicesMap api p)" for p
    by (rule fetch_sends) (simp add: query)
  have ensure: "sends.kept P (ensure_service api ru sc b)" for b
    by (auto simp: ensure_service_def intro!: sends.kept_steps m f split: option.split)
  have connect: "sends.kept P (connect_service api ru sc svc)" if "\<not> ru_dry ru" for svc
    unfolding connect_service_def
    by (intro sends.kept_and_then sends.kept_try m [OF that]) (auto intro: sends.kept_done m [OF that] split: sum.split)
  have link: "sends.kept P (link_service api ru sc b svc)" for b svc
    by (auto simp: link_service_def update_trigger_def intro!: sends.kept_steps connect m f)
  have branches: "sends.kept P (set_branches api ru sc b s)" for b s
    by (auto simp: set_branches_def update_trigger_def intro!: sends.kept_steps m f split: option.split)
  have inst: "sends.kept P (configure_instance api ru sc s)" for s
    by (auto simp: configure_instance_def intro!: sends.kept_steps m q instance_of_sends split: option.split)
  show ?thesis
    unfolding provision_service_def
    by (auto intro!: sends.kept_and_then ensure link branches inst sends.kept_done split: option.split)
qed

lemma redeploy_sends: "sends.kept deploys (redeploy api ru)"
  unfolding redeploy_def
  by (auto intro!: sends.kept_steps fetch_sends gql_sends split: option.split)

text \<open>Only the log token is ever written into the environment.\<close>

lemma save_token_env: "k \<noteq> TOKEN_KEY \<Longrightarrow> fst (save_token t env fs) k = env k"
  by (simp add: save_token_def Let_def)

lemma ensure_token_env: "k \<noteq> TOKEN_KEY \<Longrightarrow> fst (ensureLogIngestTokenForHttpIngest names kafka t env fs) k = env k"
  by (simp add: ensureLogIngestTokenForHttpIngest_def Let_def save_token_env)

lemma ensure_token_sends: "sends.kept P (ensure_token t names kafka)"
  by (simp add: sends.kept_def ensure_token_def sends_def same_but_token_def ensure_token_env Let_def)

lemma sync_sends:
  assumes "\<And>r. \<not> ru_dry ru \<Longrightarrow> sets_variables r \<Longrightarrow> P r"
  shows "sends.kept P (syncInternalDatabaseVariables api t ru b)"
  unfolding syncInternalDatabaseVariables_def Let_def upsert_def
  by (auto intro!: sends.kept_steps ensure_token_sends mutate_sends assms split: option.split)

section \<open>Dry runs\<close>

lemma provision_leaves_files: "files.kept (provision_service api ru sc b)"
  unfolding provision_service_def ensure_service_def link_service_def connect_service_def set_branches_def update_trigger_def
    configure_instance_def
  by (auto intro!: files.kept_steps mutate_leaves_files gql_leaves_files fetch_leaves_files instance_of_leaves_files
      split: option.split sum.split)

lemma redeploy_leaves_files: "files.kept (redeploy api ru)"
  unfolding redeploy_def
  by (auto intro!: files.kept_steps fetch_leaves_files gql_leaves_files split: option.split)

lemma sync_leaves_files: "ru_dry ru \<Longrightarrow> files.kept (syncInternalDatabaseVariables api t ru b)"
  unfolding syncInternalDatabaseVariables_def Let_def upsert_def
  by (auto intro!: files.kept_steps split: option.split)

lemma run_sends:
  assumes "\<And>r. is_setup_query r \<Longrightarrow> P r" and "\<And>r. \<not> ru_dry ru \<Longrightarrow> P r"
  shows "sends.kept P (run_setup api t ru)"
proof -
  have f: "sends.kept P (fetchServicesMap api p)" for p
    by (rule fetch_sends) (simp add: assms(1))
  have d: "sends.kept P (redeploy api ru)" if "\<not> ru_dry ru"
    by (rule sends_mono [OF redeploy_sends]) (simp add: assms(2) [OF that])
  have p: "sends.kept P (provision_service api ru sc b)" for sc b
    by (rule provision_sends) (simp_all add: assms)
  have v: "sends.kept P (syncInternalDatabaseVariables api t ru b)" for b
    by (rule sync_sends) (simp add: assms)
  show ?thesis
    unfolding run_setup_def by (auto intro!: sends.kept_steps f d p v)
qed

lemma dry_run_leaves_files: "ru_dry ru \<Longrightarrow> files.kept (run_setup api t ru)"
  unfolding run_setup_def
  by (auto intro!: files.kept_steps fetch_leaves_files provision_leaves_files sync_leaves_files)

text \<open>C14: A dry run changes nothing. With \<open>DRY_RUN\<close> set in the environment or in the setup file, every request of the
  whole run is a query, whatever the API answers and whichever other switches are set; the setup file keeps its text
  and no token is put into the environment.
\<close>

lemma dry_run_changes_nothing:
  "let st = setup_start env fs; st1 = snd (setup_main api t path config env fs)
   in if env_flag (sx_env st) ''DRY_RUN''
      then list_all (\<lambda>hr. is_setup_query (snd hr)) (sx_sent st1) \<and> sx_files st1 = fs \<and> sx_env st1 = sx_env st
      else True"
proof -
  let ?st = "setup_start env fs"
  have "list_all (\<lambda>hr. is_setup_query (snd hr)) (sx_sent (snd (run_setup api t (run_of (sx_env ?st) p e) ?st)))
      \<and> leaves_files ?st (snd (run_setup api t (run_of (sx_env ?st) p e) ?st))"
    if dry: "env_flag (sx_env ?st) ''DRY_RUN''" for p e
  proof -
    have ru: "ru_dry (run_of (sx_env ?st) p e)" using dry by (simp add: run_of_def)
    have "sends.kept is_setup_query (run_setup api t (run_of (sx_env ?st) p e))"
      by (rule run_sends) (simp_all add: ru)
    moreover have "files.kept (run_setup api t (run_of (sx_env ?st) p e))"
      by (rule dry_run_leaves_files) (rule ru)
    ultimately show ?thesis
      using sends.keptD [of is_setup_query _ ?st] files.keptD [of _ ?st]
      by (auto simp: sends_def setup_start_def list.pred_set)
  qed
  then show ?thesis
    by (auto simp: setup_main_def Let_def leaves_files_def setup_start_def split: sum.split)
qed

section \<open>The order of the phases\<close>

fun phase :: "setup_request \<Rightarrow> nat" where
  "phase (M_SERVICE_INSTANCE_DEPLOY e s l) = 1"
| "phase (M_VARIABLE_COLLECTION_UPSERT p e s r k vs) = 2"
| "phase _ = 0"

definition mutations :: "setup_state \<Rightarrow> setup_request list" where
  "mutations st = filter (\<lambda>r. \<not> is_setup_query r) (map snd (sx_sent st))"

definition up_to :: "nat \<Rightarrow> setup_state \<Rightarrow> bool" where
  "up_to n st \<longleftrightarrow> sorted (map phase (mutations st)) \<and> list_all (\<lambda>r. phase r \<le> n) (mutations st)"

definition leads :: "(setup_state \<Rightarrow> bool) \<Rightarrow> 'a run \<Rightarrow> (setup_state \<Rightarrow> bool) \<Rightarrow> bool" where
  "leads A m B \<longleftrightarrow> (\<forall>st. A st \<longrightarrow> B (snd (m st)))"

lemma leads_and_then:
  assumes "leads A m B" and "\<And>x. leads B (f x) C" and "\<And>st. B st \<Longrightarrow> C st"
  shows "leads A (and_then m f) C"
  unfolding leads_def
proof (intro allI impI)
  fix st assume "A st"
  then have "B (snd (m st))" using assms(1) by (simp add: leads_def)
  then show "C (snd (and_then m f st))"
    using assms(2,3) by (auto simp: and_then_def leads_def split: sum.split prod.split)
qed

lemma leads_state: "(\<And>st. A st \<Longrightarrow> B st) \<Longrightarrow> leads A (done_with x) B" "(\<And>st. A st \<Longrightarrow> B st) \<Longrightarrow> leads A (asking q) B"
  by (simp_all add: leads_def done_with_def asking_def)

lemma up_to_mono: "up_to n st \<Longrightarrow> n \<le> k \<Longrightarrow> up_to k st"
  by (auto simp: up_to_def list.pred_set intro: order_trans)

lemma sorted_constant: "list_all (\<lambda>r. f r = (k :: nat)) xs \<Longrightarrow> sorted (map f xs)"
  by (induction xs) (auto simp: list.pred_set)

lemma leads_up_to:
  assumes "sends.kept P m" and "\<And>r. P r \<Longrightarrow> is_setup_query r \<or> phase r = k" and "n \<le> k"
  shows "leads (up_to n) m (up_to k)"
  unfolding leads_def
proof (intro allI impI)
  fix st assume "up_to n st"
  then have up: "up_to k st" by (rule up_to_mono) (rule assms(3))
  from sends.keptD [OF assms(1), of st] obtain new where new: "sx_sent (snd (m st)) = sx_sent st @ new"
    "list_all (\<lambda>hr. P (snd hr)) new" by (auto simp: sends_def list.pred_set)
  have "list_all (\<lambda>r. phase r = k) (filter (\<lambda>r. \<not> is_setup_query r) (map snd new))"
    using new(2) assms(2) by (auto simp: list.pred_set)
  moreover from this have "sorted (map phase (filter (\<lambda>r. \<not> is_setup_query r) (map snd new)))"
    by (rule sorted_constant)
  ultimately show "up_to k (snd (m st))"
    using up by (auto simp: up_to_def mutations_def new(1) sorted_append list.pred_set)
qed

text \<open>C18: The phases of a run follow one another: no deployment is requested before the last change of a service's
  configuration, and no variable is sent before the last request of a deployment, whatever the API answers and
  wherever the run stops.
\<close>

theorem phases_in_order:
  "sorted (map phase (mutations (snd (setup_main api t path config env fs))))"
proof -
  have "leads (up_to 0) (run_setup api t ru) (up_to 2)" for ru
  proof -
    have f: "leads (up_to n) (fetchServicesMap api p) (up_to n)" for n p
      by (rule leads_up_to [OF fetch_sends [of is_setup_query]]) simp_all
    have p: "sends.kept (\<lambda>r. is_setup_query r \<or> phase r = 0) (carry (provision_service api ru) SERVICE_SPECS b)" for b
      by (intro sends.kept_carry provision_sends) (auto elim: configures.elims)
    have d: "leads (up_to 0) (redeploy api ru) (up_to 1)"
      by (rule leads_up_to [OF redeploy_sends]) (auto elim: deploys.elims)
    have v: "sends.kept sets_variables (syncInternalDatabaseVariables api t ru b)" for b
      by (rule sync_sends)
    have v2: "leads (up_to 1) (syncInternalDatabaseVariables api t ru b) (up_to 2)" for b
      by (rule leads_up_to [OF v]) (auto elim: sets_variables.elims)
    have variables: "leads (up_to 1) (and_then (asking q)
        (\<lambda>on. if \<not> on then done_with () else and_then (fetchServicesMap api (ru_project ru)) (syncInternalDatabaseVariables api t ru)))
        (up_to 2)" for q
      by (rule leads_and_then [where B = "up_to 1"])
         (auto intro: up_to_mono intro!: leads_state leads_and_then [where B = "up_to 1"] f v2)
    have deployments: "leads (up_to 0) (if \<not> ru_dry ru \<and> \<not> skip then redeploy api ru else done_with ()) (up_to 1)" for skip
      using d by (auto intro!: leads_state intro: up_to_mono)
    have rest: "leads (up_to 0) (and_then (asking q1) (\<lambda>skip. and_then (if \<not> ru_dry ru \<and> \<not> skip then redeploy api ru else done_with ())
        (\<lambda>_. and_then (asking q2) (\<lambda>on. if \<not> on then done_with ()
          else and_then (fetchServicesMap api (ru_project ru)) (syncInternalDatabaseVariables api t ru)))))
        (up_to 2)" for q1 q2
      by (rule leads_and_then [where B = "up_to 0"], rule leads_state, assumption,
          rule leads_and_then [OF deployments variables]) (auto intro: up_to_mono)
    have "leads (up_to 0) (carry (provision_service api ru) SERVICE_SPECS b) (up_to 0)" for b
      by (rule leads_up_to [OF p]) simp_all
    then show ?thesis
      unfolding run_setup_def
      by (intro leads_and_then [OF f] leads_and_then [where B = "up_to 0", OF _ rest]) (auto intro: up_to_mono)
  qed
  then show ?thesis
    by (auto simp: setup_main_def setup_start_def Let_def leads_def up_to_def mutations_def split: sum.split)
qed

text \<open>
  A run acts under one identity. Every request carries the header that the environment and the setup file give at
  the start, the generated token included; without any of the three credentials no request is sent.
\<close>

lemma one_identity_per_run:
  "list_all (\<lambda>hr. getAuthHeaders (sx_env (setup_start env fs)) = Inr (fst hr)) (sx_sent (snd (setup_main api t path config env fs)))"
proof -
  let ?st = "setup_start env fs"
  have start: "sx_sent ?st = []" by (simp add: setup_start_def)
  have sent: "list_all (\<lambda>hr. getAuthHeaders (sx_env ?st) = Inr (fst hr)) (sx_sent (snd (run_setup api t ru ?st)))" for ru
    using sends.keptD [OF run_sends [of "\<lambda>r. True" ru api t], of ?st] by (auto simp: sends_def list.pred_set start)
  show ?thesis
  proof (cases "getAuthHeaders (sx_env ?st)")
    case (Inr h)
    then have "list_all (\<lambda>hr. h = fst hr) (sx_sent (snd (run_setup api t ru ?st)))" for ru
      using sent [of ru] by simp
    then show ?thesis
      by (simp add: setup_main_def Let_def start Inr split: sum.split prod.split)
  qed (simp add: setup_main_def Let_def start)
qed

section \<open>Deployments\<close>

lemma gql_sent:
  "getAuthHeaders (sx_env st) = Inr h \<Longrightarrow>
   gql api r st = (read_answer (api (sx_sent st @ [(h, r)])), st\<lparr>sx_sent := sx_sent st @ [(h, r)]\<rparr>)"
  by (simp add: gql_def Let_def)

text \<open>The services of a project that the script deploys, in the order of the script.\<close>

definition deployed_ids :: "services \<Rightarrow> service_spec list \<Rightarrow> string list" where
  "deployed_ids byName scs = map ss_id (List.map_filter (\<lambda>sc. map_of byName (sc_name sc)) scs)"

lemma deploy_each:
  assumes "getAuthHeaders (sx_env st) = Inr h"
  shows "for_each
      (\<lambda>sc. case map_of byName (sc_name sc) of
              None \<Rightarrow> done_with ()
            | Some svc \<Rightarrow> and_then (try_run (gql api (M_SERVICE_INSTANCE_DEPLOY e (ss_id svc) True))) (\<lambda>_. done_with ())) scs st
    = (Inr (), st\<lparr>sx_sent := sx_sent st @ map (\<lambda>i. (h, M_SERVICE_INSTANCE_DEPLOY e i True)) (deployed_ids byName scs)\<rparr>)"
  using assms
proof (induction scs arbitrary: st)
  case (Cons sc scs)
  then show ?case
    by (auto simp: deployed_ids_def List.map_filter_simps and_then_def try_run_def done_with_def gql_sent split: option.split)
qed (simp add: done_with_def deployed_ids_def List.map_filter_simps)

text \<open>C32: Every service of the repository that is in the project is asked for a deployment exactly once, in the order of
  the script, whatever was answered for the ones before it: a deployment that fails ends neither the loop nor the run.
  Only the lookup of the services can stop it.
\<close>

lemma every_service_is_deployed:
  "case getAuthHeaders (sx_env st) of
     Inl e \<Rightarrow> redeploy api ru st = (Inl e, st)
   | Inr h \<Rightarrow>
       (case fetchServicesMap api (ru_project ru) st of
          (Inl e, st1) \<Rightarrow> redeploy api ru st = (Inl e, st1)
        | (Inr byName, st1) \<Rightarrow>
            redeploy api ru st =
              (Inr (), st1\<lparr>sx_sent := sx_sent st1
                 @ map (\<lambda>i. (h, M_SERVICE_INSTANCE_DEPLOY (ru_environment ru) i True)) (deployed_ids byName SERVICE_SPECS)\<rparr>))"
proof (cases "getAuthHeaders (sx_env st)")
  case (Inl e)
  then show ?thesis by (simp add: redeploy_def and_then_def fetchServicesMap_def gql_def)
next
  case (Inr h)
  have "same_but_token (sx_env st) (sx_env (snd (fetchServicesMap api (ru_project ru) st)))"
    using sends.keptD [OF fetch_sends [of is_setup_query], of st api "ru_project ru"] by (simp add: sends_def)
  then have "getAuthHeaders (sx_env (snd (fetchServicesMap api (ru_project ru) st))) = Inr h"
    using Inr by (simp add: same_token_auth)
  then show ?thesis
    by (auto simp: redeploy_def Inr and_then_def deploy_each split: sum.split prod.split)
qed

section \<open>Settings\<close>

text \<open>The settings of an instance are the wanted ones.\<close>

definition instance_matches :: "service_spec \<Rightarrow> service_instance \<Rightarrow> bool" where
  "instance_matches sc si \<longleftrightarrow>
     coalesce (si_rootDirectory si) [] = sc_rootDirectory sc
     \<and> coalesce (si_preDeployCommand si) [] = []
     \<and> normRailwayConfigPath (si_railwayConfigFile si) = normRailwayConfigPath (Some (sc_railwayConfigFile sc))
     \<and> mset (map js_trim (coalesce (si_watchPatterns si) [])) = mset (map js_trim (sc_watchPatterns sc))"

text \<open>A setting that is sent replaces the one that was there.\<close>

definition applied :: "instance_input \<Rightarrow> service_instance \<Rightarrow> service_instance" where
  "applied input si =
     \<lparr>si_rootDirectory = (case in_rootDirectory input of None \<Rightarrow> si_rootDirectory si | Some v \<Rightarrow> Some v),
      si_preDeployCommand = (case in_preDeployCommand input of None \<Rightarrow> si_preDeployCommand si | Some v \<Rightarrow> Some v),
      si_railwayConfigFile = (case in_railwayConfigFile input of None \<Rightarrow> si_railwayConfigFile si | Some v \<Rightarrow> Some v),
      si_watchPatterns = (case in_watchPatterns input of None \<Rightarrow> si_watchPatterns si | Some v \<Rightarrow> Some v)\<rparr>"

lemma instance_changes_none: "instance_changes force sc si = None \<longleftrightarrow> \<not> force \<and> instance_matches sc si"
  by (auto simp: instance_changes_def instance_matches_def Let_def watch_patterns_equal_iff)

text \<open>
  The settings converge in one step: nothing is sent for an instance exactly when it matches and no clearing is
  forced, and what is sent makes the instance match, so that the next run sends nothing for it. Blanks and the order
  of the watch patterns and a missing slash before the configuration file are no difference.
\<close>

lemma settings_converge:
  "case instance_changes force sc si of
     None \<Rightarrow> \<not> force \<and> instance_matches sc si
   | Some input \<Rightarrow> (force \<or> \<not> instance_matches sc si) \<and> instance_matches sc (applied input si)
        \<and> instance_changes False sc (applied input si) = None"
proof (cases "instance_changes force sc si")
  case None
  moreover from None have "\<not> force \<and> instance_matches sc si"
    using instance_changes_none [of force sc si] by simp
  ultimately show ?thesis by simp
next
  case (Some input)
  then have "instance_matches sc (applied input si)"
    by (auto simp: instance_changes_def instance_matches_def applied_def Let_def watch_patterns_equal_iff split: if_splits)
  moreover have "force \<or> \<not> instance_matches sc si"
    using Some instance_changes_none [of force sc si] by auto
  ultimately show ?thesis by (simp add: Some instance_changes_none)
qed

section \<open>A project that is set up\<close>

text \<open>
  An API that answers the queries from one fixed project: its services and, for each service, the settings of its
  instance. What it answers to anything else is \<open>other\<close>.
\<close>

definition answers_of ::
  "project_service option list \<Rightarrow> (string \<Rightarrow> service_instance) \<Rightarrow> (setup_request \<Rightarrow> setup_answer) \<Rightarrow> setup_request \<Rightarrow> setup_answer" where
  "answers_of edges insts other r =
     (case r of
        Q_PROJECT p \<Rightarrow> Answered True 200 [] [] (Project_data (Some edges))
      | Q_SERVICE_INSTANCE e s \<Rightarrow> Answered True 200 [] [] (Instance_data (Some (insts s)))
      | _ \<Rightarrow> other r)"

definition project_api ::
  "project_service option list \<Rightarrow> (string \<Rightarrow> service_instance) \<Rightarrow> (setup_request \<Rightarrow> setup_answer) \<Rightarrow> setup_api" where
  "project_api edges insts other trace = answers_of edges insts other (snd (last trace))"

text \<open>A service is in the project, linked to the repository on the branch, and its instance matches.\<close>

definition settled :: "setup_run \<Rightarrow> services \<Rightarrow> (string \<Rightarrow> service_instance) \<Rightarrow> service_spec \<Rightarrow> bool" where
  "settled ru byName insts sc \<longleftrightarrow>
     (case map_of byName (sc_name sc) of
        None \<Rightarrow> False
      | Some svc \<Rightarrow>
          own_triggers ru svc \<noteq> [] \<and> list_all (\<lambda>t. tr_branch t = Some (ru_branch ru)) (own_triggers ru svc)
          \<and> instance_matches sc (insts (ss_id svc)))"

text \<open>A state in which a request can be sent and no clearing is forced; the queries of \<open>rs\<close> are sent in it.\<close>

definition calm :: "auth_header \<Rightarrow> setup_state \<Rightarrow> bool" where
  "calm h st \<longleftrightarrow> getAuthHeaders (sx_env st) = Inr h \<and> \<not> env_flag (sx_env st) ''FORCE_CLEAR_PREDEPLOY''"

definition asked :: "auth_header \<Rightarrow> setup_request list \<Rightarrow> setup_state \<Rightarrow> setup_state" where
  "asked h rs st = st\<lparr>sx_sent := sx_sent st @ map (Pair h) rs\<rparr>"

lemma calm_asked [simp]: "calm h (asked h1 rs st) = calm h st"
  by (simp add: calm_def asked_def)

lemma asked_asked [simp]: "asked h rs (asked h rs1 st) = asked h (rs1 @ rs) st"
  by (simp add: asked_def)

lemma asked_Nil [simp]: "asked h [] st = st"
  by (simp add: asked_def)

lemma fetch_project:
  "calm h st \<Longrightarrow> fetchServicesMap (project_api edges insts other) p st = (Inr (services_of edges), asked h [Q_PROJECT p] st)"
  by (simp add: fetchServicesMap_def and_then_def gql_sent calm_def project_api_def answers_of_def done_with_def asked_def)

lemma query_instance:
  "calm h st \<Longrightarrow> gql (project_api edges insts other) (Q_SERVICE_INSTANCE e s) st
     = (Inr (Instance_data (Some (insts s))), asked h [Q_SERVICE_INSTANCE e s] st)"
  by (simp add: gql_sent calm_def project_api_def answers_of_def asked_def)

lemma for_each_nothing: "list_all (\<lambda>x. f x = done_with ()) xs \<Longrightarrow> for_each f xs = done_with ()"
  by (induction xs) (auto simp: and_then_def done_with_def fun_eq_iff)

text \<open>The pass over a settled service asks for the services once more and for its instance, and sends nothing else.\<close>

definition pass_queries :: "setup_run \<Rightarrow> services \<Rightarrow> service_spec \<Rightarrow> setup_request list" where
  "pass_queries ru byName sc =
     (case map_of byName (sc_name sc) of
        None \<Rightarrow> []
      | Some svc \<Rightarrow>
          (if ru_dry ru then [] else [Q_PROJECT (ru_project ru)]) @ [Q_SERVICE_INSTANCE (ru_environment ru) (ss_id svc)])"

lemma provision_settled:
  assumes "settled ru (services_of edges) insts sc" and "calm h st"
  shows "provision_service (project_api edges insts other) ru sc (services_of edges) st
    = (Inr (services_of edges), asked h (pass_queries ru (services_of edges) sc) st)"
proof -
  obtain svc where svc: "map_of (services_of edges) (sc_name sc) = Some svc" "own_triggers ru svc \<noteq> []"
    "list_all (\<lambda>t. tr_branch t = Some (ru_branch ru)) (own_triggers ru svc)" "instance_matches sc (insts (ss_id svc))"
    using assms(1) by (auto simp: settled_def split: option.splits)
  let ?api = "project_api edges insts other"
  have own: "list_all (\<lambda>t. normalizeRepo (tr_repository t) = ru_repo ru) (own_triggers ru svc)"
    by (auto simp: own_triggers_def own_trigger_def list.pred_set)
  have link: "link_service ?api ru sc b svc = done_with (b, Some svc)" for b
    using svc(2,3) own
    by (auto simp: link_service_def for_each_nothing list.pred_set and_then_def done_with_def fun_eq_iff)
  have update: "for_each (\<lambda>tr. if tr_branch tr \<noteq> Some (ru_branch ru) then update_trigger ?api ru sc tr else done_with ()) (own_triggers ru svc)
      = done_with ()"
    using svc(3) by (auto simp: for_each_nothing list.pred_set)
  have branches: "set_branches ?api ru sc (services_of edges) (Some svc) st
      = (Inr (services_of edges, Some svc), asked h (if ru_dry ru then [] else [Q_PROJECT (ru_project ru)]) st)"
    by (simp add: set_branches_def and_then_def fetch_project [OF assms(2)] svc(1) update done_with_def)
  have force: "\<not> env_flag (sx_env (asked h rs st)) ''FORCE_CLEAR_PREDEPLOY''" for rs
    using assms(2) by (simp add: calm_def asked_def)
  have inst: "configure_instance ?api ru sc (Some svc) (asked h rs st)
      = (Inr (), asked h (rs @ [Q_SERVICE_INSTANCE (ru_environment ru) (ss_id svc)]) st)" for rs
    using assms(2) svc(4) force [of "rs @ [Q_SERVICE_INSTANCE (ru_environment ru) (ss_id svc)]"]
      instance_changes_none [of False sc "insts (ss_id svc)"]
    by (simp add: configure_instance_def and_then_def query_instance asking_def done_with_def)
  show ?thesis
    using inst
    by (simp add: provision_service_def ensure_service_def and_then_def svc(1) link branches done_with_def pass_queries_def)
qed

lemma carry_settled:
  assumes "list_all (settled ru (services_of edges) insts) scs" and "calm h st"
  shows "carry (provision_service (project_api edges insts other) ru) scs (services_of edges) st
    = (Inr (services_of edges), asked h (concat (map (pass_queries ru (services_of edges)) scs)) st)"
  using assms
proof (induction scs arbitrary: st)
  case (Cons sc scs)
  then show ?case by (simp add: and_then_def provision_settled)
qed (simp add: done_with_def)

text \<open>C15: A project that is set up is left alone. When a credential is there and \<open>FORCE_CLEAR_PREDEPLOY\<close> is off (with it
  on, every run clears the pre-deploy command of every service anew), and when every service is there, linked to the
  repository on the wanted branch in every trigger that counts, with settings that match, then the pass over the
  services ends normally and has sent queries only: per service one for its instance, and before it, unless the run is
  a dry run, one for the services. What it knows of the services is what it knew before, and of the rest of its state,
  files and environment, nothing has changed: so the pass can be repeated without effect.
\<close>

lemma settled_project_is_left_alone:
  assumes "list_all (settled ru (services_of edges) insts) SERVICE_SPECS"
    and "getAuthHeaders (sx_env st) = Inr h" and "\<not> env_flag (sx_env st) ''FORCE_CLEAR_PREDEPLOY''"
  shows "carry (provision_service (project_api edges insts other) ru) SERVICE_SPECS (services_of edges) st
      = (Inr (services_of edges), st\<lparr>sx_sent := sx_sent st @ map (Pair h) (concat (map (\<lambda>sc.
           (if ru_dry ru then [] else [Q_PROJECT (ru_project ru)]) @
           [Q_SERVICE_INSTANCE (ru_environment ru) (ss_id (the (map_of (services_of edges) (sc_name sc))))]) SERVICE_SPECS))\<rparr>)"
proof -
  let ?asks = "\<lambda>sc. (if ru_dry ru then [] else [Q_PROJECT (ru_project ru)]) @
      [Q_SERVICE_INSTANCE (ru_environment ru) (ss_id (the (map_of (services_of edges) (sc_name sc))))]"
  have "pass_queries ru (services_of edges) sc = ?asks sc" if "sc \<in> set SERVICE_SPECS" for sc
    using assms(1) that by (auto simp: list_all_iff settled_def pass_queries_def split: option.splits)
  then have eq: "map (pass_queries ru (services_of edges)) SERVICE_SPECS = map ?asks SERVICE_SPECS"
    by (intro map_cong refl)
  have "calm h st" using assms(2,3) by (simp add: calm_def)
  from carry_settled [OF assms(1) this] show ?thesis unfolding asked_def eq .
qed

definition sample_run :: setup_run where
  "sample_run = run_of (\<lambda>k. None) ''p1'' ''e1''"

definition sample_edges :: "project_service option list" where
  "sample_edges =
     map (\<lambda>sc. Some \<lparr>ps_id = sc_name sc, ps_name = Some (sc_name sc),
        ps_repoTriggers = Some [\<lparr>tr_id = ''t1'', tr_branch = Some ''staging'', tr_repository = Some ''nathan-nw/PE-Hackathon-2026'',
                                 tr_environmentId = None\<rparr>]\<rparr>) SERVICE_SPECS"

definition sample_instance :: "string \<Rightarrow> service_instance" where
  "sample_instance i =
     (case find (\<lambda>sc. sc_name sc = i) SERVICE_SPECS of
        None \<Rightarrow> no_instance
      | Some sc \<Rightarrow> \<lparr>si_rootDirectory = Some (sc_rootDirectory sc), si_preDeployCommand = None,
                    si_railwayConfigFile = Some (drop 1 (sc_railwayConfigFile sc)), si_watchPatterns = Some (rev (sc_watchPatterns sc))\<rparr>)"

definition sample_state :: setup_state where
  "sample_state = \<lparr>sx_env = [''RAILWAY_API_TOKEN'' \<mapsto> ''a1''], sx_files = \<lparr>sf_setup = None, sf_example = None\<rparr>, sx_sent = []\<rparr>"

definition sample_trigger :: trigger where
  "sample_trigger = \<lparr>tr_id = ''t1'', tr_branch = Some ''staging'', tr_repository = Some ''nathan-nw/PE-Hackathon-2026'',
     tr_environmentId = None\<rparr>"

definition sample_service :: "service_spec \<Rightarrow> setup_service" where
  "sample_service sc = \<lparr>ss_id = sc_name sc, ss_name = sc_name sc, ss_triggers = [sample_trigger]\<rparr>"

lemma default_repo_normal: "normalizeRepo (Some ''nathan-nw/PE-Hackathon-2026'') = ''nathan-nw/PE-Hackathon-2026''"
  by (simp add: normalizeRepo_def Let_def github_match_none js_trim_trimmed trimmed_def is_ws_def del: github_match.simps)

lemma sample_run_fields: "sample_run = \<lparr>ru_dry = False, ru_repo = ''nathan-nw/PE-Hackathon-2026'', ru_branch = ''staging'',
    ru_project = ''p1'', ru_environment = ''e1''\<rparr>"
  by (simp add: sample_run_def run_of_def DEFAULT_REPO_def DEFAULT_BRANCH_def default_repo_normal env_flag_def js_trim_trimmed
      trimmed_def is_ws_def)

lemma sample_trigger_own: "own_trigger sample_run sample_trigger"
  by (simp add: own_trigger_def default_repo_normal sample_run_fields sample_trigger_def)

lemma sample_services: "services_of sample_edges = map (\<lambda>sc. (sc_name sc, sample_service sc)) SERVICE_SPECS"
  by (simp add: services_of_def sample_edges_def SERVICE_SPECS_def spec_def service_of_node_def List.map_filter_simps
      sample_service_def sample_trigger_def)

lemma sample_lookup:
  "list_all (\<lambda>sc. map_of (map (\<lambda>sc. (sc_name sc, sample_service sc)) SERVICE_SPECS) (sc_name sc) = Some (sample_service sc)) SERVICE_SPECS"
  by (simp add: SERVICE_SPECS_def spec_def)

lemma sample_instances: "list_all (\<lambda>sc. instance_matches sc (sample_instance (sc_name sc))) SERVICE_SPECS"
  by (simp add: instance_matches_def sample_instance_def SERVICE_SPECS_def spec_def normRailwayConfigPath_def js_trim_def is_ws_def
      js_startsWith_def)

lemma sample_settled: "list_all (settled sample_run (services_of sample_edges) sample_instance) SERVICE_SPECS"
  using sample_lookup sample_instances
  by (auto simp: list.pred_set settled_def sample_services sample_service_def own_triggers_def sample_trigger_own)
     (simp_all add: sample_trigger_def sample_run_fields)

lemma sample_calm: "calm (''Authorization'', ''Bearer a1'') sample_state"
  by (simp add: calm_def sample_state_def getAuthHeaders_def env_flag_def)

lemma settled_project_is_left_alone_witness:
  "fst (carry (provision_service (project_api sample_edges sample_instance (\<lambda>r. Rejected ''down'')) sample_run) SERVICE_SPECS
      (services_of sample_edges) sample_state) = Inr (services_of sample_edges)
   \<and> length (services_of sample_edges) = 7"
  using settled_project_is_left_alone [OF sample_settled sample_calm [unfolded calm_def, THEN conjunct1]
      sample_calm [unfolded calm_def, THEN conjunct2], of "\<lambda>r. Rejected ''down''"]
  by (simp add: sample_services SERVICE_SPECS_def)

end
