(* ===== verification/RuntimeEnv.thy ===== *)
theory RuntimeEnv
  imports ApiWorld
begin

text \<open>
  \<^verbatim>\<open>dashboard/src/lib/watchdog-core/server-runtime-env.ts\<close>: parsing of
  \<^verbatim>\<open>/proc/self/environ\<close> and its cache, the fuzzy lookup of settings, the credentials for
  the Railway API and the diagnostic snapshot. JavaScript objects are association lists in the
  order in which their keys are enumerated; texts are their UTF-8 bytes.
\<close>

section \<open>The process\<close>

text \<open>
  \<open>h_process_env\<close> is \<open>process.env\<close>, \<^const>\<open>None\<close> where there is no \<open>process\<close>;
  \<open>h_environ\<close> is the content of \<^verbatim>\<open>/proc/self/environ\<close>, \<^const>\<open>None\<close> where reading
  it throws.
\<close>

record host =
  h_platform :: string
  h_environ :: "string option"
  h_process_env :: "(string \<times> string) list option"

section \<open>Parsing the environment block\<close>

abbreviation NUL :: char where "NUL \<equiv> CHR 0x00"

text \<open>
  \<open>buf.toString("utf8")\<close>: bytes that are not UTF-8 become U+FFFD, one for each longest start of a
  character. First the number of bytes that follow a leading byte and the bounds of the first of
  them, then these bytes and the rest of the input.
\<close>

definition utf8_lead :: "char \<Rightarrow> (nat \<times> nat \<times> nat) option" where
  "utf8_lead c =
     (let n = of_char c :: nat
      in if n < 0x80 then Some (0, 0x80, 0xBF)
         else if 0xC2 \<le> n \<and> n \<le> 0xDF then Some (1, 0x80, 0xBF)
         else if n = 0xE0 then Some (2, 0xA0, 0xBF)
         else if n = 0xED then Some (2, 0x80, 0x9F)
         else if 0xE1 \<le> n \<and> n \<le> 0xEF then Some (2, 0x80, 0xBF)
         else if n = 0xF0 then Some (3, 0x90, 0xBF)
         else if 0xF1 \<le> n \<and> n \<le> 0xF3 then Some (3, 0x80, 0xBF)
         else if n = 0xF4 then Some (3, 0x80, 0x8F)
         else None)"

fun utf8_rest :: "nat \<Rightarrow> nat \<Rightarrow> nat \<Rightarrow> string \<Rightarrow> string option \<times> string" where
  "utf8_rest 0 lo hi s = (Some [], s)"
| "utf8_rest (Suc n) lo hi [] = (None, [])"
| "utf8_rest (Suc n) lo hi (c # s) =
     (if lo \<le> of_char c \<and> of_char c \<le> hi
      then (case utf8_rest n 0x80 0xBF s of (y, r) \<Rightarrow> (map_option (Cons c) y, r))
      else (None, c # s))"

lemma utf8_rest_length: "utf8_rest n lo hi s = (y, r) \<Longrightarrow> length r \<le> length s"
  by (induction n lo hi s arbitrary: y r rule: utf8_rest.induct) (auto split: if_splits prod.splits intro: le_SucI)

definition u_replacement :: string where
  "u_replacement = [CHR 0xEF, CHR 0xBF, CHR 0xBD]"

function utf8_text :: "string \<Rightarrow> string" where
  "utf8_text [] = []"
| "utf8_text (c # s) =
     (case utf8_lead c of
        None \<Rightarrow> u_replacement @ utf8_text s
      | Some (n, lo, hi) \<Rightarrow>
          (case utf8_rest n lo hi s of
             (Some y, r) \<Rightarrow> c # y @ utf8_text r
           | (None, r) \<Rightarrow> u_replacement @ utf8_text r))"
  by pat_completeness auto
termination
  by (relation "measure length") (auto dest: utf8_rest_length [OF sym] simp: less_Suc_eq_le)

lemma utf8_text_ascii: "list_all (\<lambda>c. (of_char c :: nat) < 0x80) s \<Longrightarrow> utf8_text s = s"
  by (induction s) (simp_all add: utf8_lead_def Let_def)

text \<open>
  \<open>out[key] = value\<close> on a plain object: \<open>__proto__\<close> is not a property of its own, keys that are array
  indices come first and in ascending order, the others in the order of insertion.
\<close>

definition array_index :: "string \<Rightarrow> bool" where
  "array_index k \<longleftrightarrow>
     k \<noteq> [] \<and> list_all is_digit k \<and> (hd k \<noteq> CHR ''0'' \<or> tl k = []) \<and> read_digits k < 4294967295"

definition own_put :: "string \<Rightarrow> string \<Rightarrow> (string \<times> string) list \<Rightarrow> (string \<times> string) list" where
  "own_put k v out =
     (let before = (\<lambda>e. array_index (fst e) \<and> read_digits (fst e) < read_digits k)
      in if k = ''__proto__'' then out
         else if k \<in> fst ` set out then AList.update k v out
         else if array_index k then takeWhile before out @ (k, v) # dropWhile before out
         else out @ [(k, v)])"

text \<open>One line \<open>KEY=value\<close>; \<open>indexOf("=") > 0\<close> asks for a non-empty key.\<close>

definition add_environ_line :: "string \<Rightarrow> (string \<times> string) list \<Rightarrow> (string \<times> string) list" where
  "add_environ_line bytes out =
     (let line = utf8_text bytes; key = takeWhile (\<lambda>c. c \<noteq> CHR ''='') line
      in if key \<noteq> [] \<and> CHR ''='' \<in> set line
         then own_put key (drop (Suc (length key)) line) out
         else out)"

text \<open>The byte loop: \<open>for (let i = 0; i <= buf.length; i++)\<close> with the start of the line.\<close>

function environ_loop ::
  "string \<Rightarrow> nat \<Rightarrow> nat \<Rightarrow> (string \<times> string) list \<Rightarrow> (string \<times> string) list" where
  "environ_loop buf i start out =
     (if i \<le> length buf
      then if i = length buf \<or> buf ! i = NUL
           then environ_loop buf (Suc i) (Suc i)
                  (if start < i then add_environ_line (take (i - start) (drop start buf)) out else out)
           else environ_loop buf (Suc i) start out
      else out)"
  by pat_completeness auto
termination
  by (relation "measure (\<lambda>(buf, i, start, out). Suc (length buf) - i)") auto

declare environ_loop.simps [simp del]

definition parse_environ :: "string \<Rightarrow> (string \<times> string) list" where
  "parse_environ buf = environ_loop buf 0 0 []"

text \<open>
  The module-level cache: \<^const>\<open>None\<close> is \<open>undefined\<close>, an inner \<^const>\<open>None\<close> is \<open>null\<close>.
\<close>

type_synonym environ_cache = "(string \<times> string) list option option"

definition parseLinuxEnviron ::
  "host \<Rightarrow> environ_cache \<Rightarrow> (string \<times> string) list option \<times> environ_cache" where
  "parseLinuxEnviron h cache =
     (case cache of
        Some v \<Rightarrow> (v, cache)
      | None \<Rightarrow>
          (if h_process_env h = None \<or> h_platform h = ''win32'' then (None, Some None)
           else (case h_environ h of
                   None \<Rightarrow> (None, Some None)
                 | Some buf \<Rightarrow> (let out = parse_environ buf in (Some out, Some (Some out))))))"

section \<open>Looking up a setting\<close>

definition normalizeEnvValue :: "string \<Rightarrow> string" where
  "normalizeEnvValue v =
     (let s = js_trim v;
          t = (if 2 \<le> length s \<and> (hd s = CHR 0x22 \<or> hd s = CHR 0x27) \<and> last s = hd s
               then butlast (tl s) else s)
      in js_trim t)"

text \<open>The value a raw entry stands for, when it is usable at all.\<close>

definition usable_value :: "string \<Rightarrow> string option" where
  "usable_value raw =
     (if raw = [] then None
      else let n = normalizeEnvValue raw in if n = [] then None else Some n)"

fun scan_entries :: "(string \<times> string) list \<Rightarrow> string \<Rightarrow> string option" where
  "scan_entries [] want = None"
| "scan_entries ((k, v) # es) want =
     (if js_trim k = want
      then (case usable_value v of Some n \<Rightarrow> Some n | None \<Rightarrow> scan_entries es want)
      else scan_entries es want)"

text \<open>First the exact key, then the first usable entry whose trimmed name is the wanted one.\<close>

definition lookup_entries :: "(string \<times> string) list \<Rightarrow> string \<Rightarrow> string option" where
  "lookup_entries es key =
     (case Option.bind (map_of es key) usable_value of
        Some n \<Rightarrow> Some n
      | None \<Rightarrow> scan_entries es (js_trim key))"

definition runtimeEnv_from ::
  "(string \<times> string) list option \<Rightarrow> (string \<times> string) list option \<Rightarrow> string \<Rightarrow> string option" where
  "runtimeEnv_from fromProc penv key =
     (case Option.bind fromProc (\<lambda>es. lookup_entries es key) of
        Some n \<Rightarrow> Some n
      | None \<Rightarrow> Option.bind penv (\<lambda>es. lookup_entries es key))"

definition runtimeEnv_cached :: "host \<Rightarrow> environ_cache \<Rightarrow> string \<Rightarrow> string option \<times> environ_cache" where
  "runtimeEnv_cached h cache key =
     (let (fromProc, cache') = parseLinuxEnviron h cache
      in (runtimeEnv_from fromProc (h_process_env h) key, cache'))"

text \<open>
  The lookup without the cache; \<open>runtimeEnv_cached_eq\<close> below shows that the cached one
  agrees with it. The components use this one.
\<close>

definition fromProc :: "host \<Rightarrow> (string \<times> string) list option" where
  "fromProc h = fst (parseLinuxEnviron h None)"

definition runtimeEnv :: "host \<Rightarrow> string \<Rightarrow> string option" where
  "runtimeEnv h key = runtimeEnv_from (fromProc h) (h_process_env h) key"

section \<open>Credentials\<close>

definition PROJECT_ACCESS_TOKEN_KEYS :: "string list" where
  "PROJECT_ACCESS_TOKEN_KEYS = [''RAILWAY_PROJECT_TOKEN'', ''DASHBOARD_RAILWAY_PROJECT_TOKEN'']"

definition ACCOUNT_BEARER_TOKEN_KEYS :: "string list" where
  "ACCOUNT_BEARER_TOKEN_KEYS =
     [''RAILWAY_API_TOKEN'', ''RAILWAY_TOKEN'', ''DASHBOARD_RAILWAY_API_TOKEN'']"

definition ALL_TOKEN_KEYS :: "string list" where
  "ALL_TOKEN_KEYS = PROJECT_ACCESS_TOKEN_KEYS @ ACCOUNT_BEARER_TOKEN_KEYS"

definition debugEnvEnabled :: "host \<Rightarrow> bool" where
  "debugEnvEnabled h \<longleftrightarrow>
     runtimeEnv h ''DASHBOARD_DEBUG_ENV'' = Some ''1'' \<or>
     runtimeEnv h ''DASHBOARD_DEBUG_ENV'' = Some ''true''"

definition hasRailwayGraphqlCredential :: "host \<Rightarrow> bool" where
  "hasRailwayGraphqlCredential h \<longleftrightarrow>
     list_ex (\<lambda>k. truthy (runtimeEnv h k)) PROJECT_ACCESS_TOKEN_KEYS \<or>
     list_ex (\<lambda>k. truthy (runtimeEnv h k)) ACCOUNT_BEARER_TOKEN_KEYS"

text \<open>\<open>logRailwayEnvDebugOnce\<close>: whether this call logs, and the module flag afterwards.\<close>

definition logRailwayEnvDebugOnce :: "host \<Rightarrow> bool \<Rightarrow> bool \<times> bool" where
  "logRailwayEnvDebugOnce h loggedOnce =
     (if \<not> debugEnvEnabled h \<or> loggedOnce then (False, loggedOnce) else (True, True))"

fun first_setting :: "host \<Rightarrow> string list \<Rightarrow> string option" where
  "first_setting h [] = None"
| "first_setting h (k # ks) =
     (case runtimeEnv h k of
        Some v \<Rightarrow> if v \<noteq> [] then Some v else first_setting h ks
      | None \<Rightarrow> first_setting h ks)"

definition getRailwayGraphqlAuthHeaders :: "host \<Rightarrow> thrown + (string \<times> string) list" where
  "getRailwayGraphqlAuthHeaders h =
     (case first_setting h PROJECT_ACCESS_TOKEN_KEYS of
        Some v \<Rightarrow> Inr [(''Project-Access-Token'', v)]
      | None \<Rightarrow>
          (case first_setting h ACCOUNT_BEARER_TOKEN_KEYS of
             Some v \<Rightarrow> Inr [(''Authorization'', ''Bearer '' @ v)]
           | None \<Rightarrow>
               Inl (new_Error ''Set RAILWAY_PROJECT_TOKEN or RAILWAY_API_TOKEN for Railway visibility'')))"

section \<open>The diagnostic snapshot\<close>

record token_info =
  ti_present :: bool
  ti_valueLength :: nat
  ti_rawKeyMatched :: "string option"

record env_snapshot =
  sn_platform :: string
  sn_linuxProcParsed :: bool
  sn_rawProcKeyCount :: nat
  sn_relevantKeys :: "string list"
  sn_tokens :: "(string \<times> token_info) list"
  sn_hasCredential :: bool
  sn_backendConfigured :: bool
  sn_backendLength :: nat

definition relevant_name :: "string \<Rightarrow> bool" where
  "relevant_name t \<longleftrightarrow>
     js_includes t ''RAILWAY'' \<or> js_includes t ''DASHBOARD'' \<or> js_includes t ''VISIBILITY''"

definition display_name :: "string \<Rightarrow> string" where
  "display_name k =
     (if k \<noteq> js_trim k then js_trim k @ '' (variable name had leading/trailing spaces)'' else js_trim k)"

fun collectKeys :: "string list \<Rightarrow> string list \<Rightarrow> string list \<Rightarrow> string list \<times> string list" where
  "collectKeys [] seen acc = (seen, acc)"
| "collectKeys (k # ks) seen acc =
     (let t = js_trim k
      in if relevant_name t \<and> t \<notin> set seen
         then collectKeys ks (t # seen) (acc @ [display_name k])
         else collectKeys ks seen acc)"

definition keys_of :: "(string \<times> string) list option \<Rightarrow> string list" where
  "keys_of es = (case es of None \<Rightarrow> [] | Some xs \<Rightarrow> map fst xs)"

text \<open>
  The raw value the snapshot reports on and the key it was found under, first in the
  parsed block, then (when there was none) in \<open>process.env\<close>.
\<close>

definition find_entry :: "(string \<times> string) list \<Rightarrow> string \<Rightarrow> (string \<times> string) option" where
  "find_entry es name =
     (case map_of es name of
        Some v \<Rightarrow> Some (name, v)
      | None \<Rightarrow> find (\<lambda>(k, v). js_trim k = name) es)"

definition token_entry :: "host \<Rightarrow> string \<Rightarrow> (string \<times> string) option" where
  "token_entry h name =
     (case Option.bind (fromProc h) (\<lambda>es. find_entry es name) of
        Some e \<Rightarrow> Some e
      | None \<Rightarrow> Option.bind (h_process_env h) (\<lambda>es. find_entry es name))"

definition token_info_of :: "host \<Rightarrow> string \<Rightarrow> token_info" where
  "token_info_of h name =
     (let val = (case token_entry h name of Some (k, v) \<Rightarrow> v | None \<Rightarrow> []);
          normalized = (if val \<noteq> [] then normalizeEnvValue val else [])
      in \<lparr>ti_present = normalized \<noteq> [],
          ti_valueLength = length normalized,
          ti_rawKeyMatched =
            (case token_entry h name of
               Some (k, v) \<Rightarrow> if k \<noteq> [] \<and> k \<noteq> name then Some k else None
             | None \<Rightarrow> None)\<rparr>)"

definition getRailwayEnvDebugSnapshot :: "host \<Rightarrow> env_snapshot" where
  "getRailwayEnvDebugSnapshot h =
     (let (seen, ks) = collectKeys (keys_of (fromProc h)) [] [];
          (seen', ks') = collectKeys (keys_of (h_process_env h)) seen ks;
          tokens = map (\<lambda>name. (name, token_info_of h name)) ALL_TOKEN_KEYS;
          dashBack = runtimeEnv h ''DASHBOARD_BACKEND_URL'';
          dashBackNorm = (case dashBack of None \<Rightarrow> [] | Some d \<Rightarrow> if d \<noteq> [] then normalizeEnvValue d else [])
      in \<lparr>sn_platform = (if h_process_env h = None then ''unknown'' else h_platform h),
          sn_linuxProcParsed = (fromProc h \<noteq> None),
          sn_rawProcKeyCount = (case fromProc h of None \<Rightarrow> 0 | Some es \<Rightarrow> length es),
          sn_relevantKeys = sort ks',
          sn_tokens = tokens,
          sn_hasCredential = list_ex (\<lambda>k. ti_present (token_info_of h k)) ALL_TOKEN_KEYS,
          sn_backendConfigured = dashBackNorm \<noteq> [],
          sn_backendLength = length dashBackNorm\<rparr>)"

section \<open>Boolean settings\<close>

text \<open>
  The boolean settings of every component read \<open>(v ?? d).trim().toLowerCase()\<close> and
  compare it with these words.
\<close>

definition flag_text :: "string option \<Rightarrow> string \<Rightarrow> string" where
  "flag_text v d = js_lower (js_trim (coalesce v d))"

definition is_on :: "string \<Rightarrow> bool" where
  "is_on t \<longleftrightarrow> t = ''1'' \<or> t = ''true'' \<or> t = ''yes'' \<or> t = ''on''"

definition is_off :: "string \<Rightarrow> bool" where
  "is_off t \<longleftrightarrow> t = ''0'' \<or> t = ''false'' \<or> t = ''no'' \<or> t = ''off''"

lemma on_not_off: "is_on t \<Longrightarrow> \<not> is_off t"
  by (auto simp: is_on_def is_off_def)

text \<open>
  What the components rely on when they read settings: a value that is found is trimmed
  and not empty.
\<close>

locale setting_source =
  fixes lookup :: "string \<Rightarrow> string option"
  assumes lookup_usable: "lookup k = Some v \<Longrightarrow> v \<noteq> [] \<and> trimmed v"
begin

lemma truthy_lookup: "truthy (lookup k) \<longleftrightarrow> lookup k \<noteq> None"
  using lookup_usable by (cases "lookup k") auto

lemma trim_lookup: "lookup k = Some v \<Longrightarrow> js_trim v = v"
  using lookup_usable by (simp add: js_trim_trimmed)

lemma flag_text_lookup: "trimmed d \<Longrightarrow> flag_text (lookup k) d = js_lower (coalesce (lookup k) d)"
  by (cases "lookup k") (simp_all add: flag_text_def js_trim_trimmed trim_lookup)

lemma flag_text_empty_iff: "flag_text (lookup k) [] = [] \<longleftrightarrow> lookup k = None"
  using lookup_usable
  by (cases "lookup k") (auto simp: flag_text_def js_lower_def trim_lookup)

end

lemma usable_value_Some: "usable_value raw = Some n \<Longrightarrow> n \<noteq> [] \<and> trimmed n"
  by (auto simp: usable_value_def normalizeEnvValue_def Let_def split: if_splits)

lemma scan_entries_Some: "scan_entries es want = Some n \<Longrightarrow> n \<noteq> [] \<and> trimmed n"
  by (induction es want rule: scan_entries.induct)
    (auto split: if_splits option.splits dest: usable_value_Some)

lemma lookup_entries_Some: "lookup_entries es key = Some n \<Longrightarrow> n \<noteq> [] \<and> trimmed n"
  by (auto simp: lookup_entries_def bind_eq_Some_conv split: option.splits
      dest: usable_value_Some scan_entries_Some)

lemma runtimeEnv_usable: "runtimeEnv h key = Some n \<Longrightarrow> n \<noteq> [] \<and> trimmed n"
  by (auto simp: runtimeEnv_def runtimeEnv_from_def bind_eq_Some_conv split: option.splits
      dest: lookup_entries_Some)

interpretation env: setting_source "runtimeEnv h" for h
  by unfold_locales (rule runtimeEnv_usable)

section \<open>The cache\<close>

text \<open>A cache is coherent when it is unset or holds the first parse.\<close>

definition coherent :: "host \<Rightarrow> environ_cache \<Rightarrow> bool" where
  "coherent h cache \<longleftrightarrow> cache = None \<or> cache = Some (fromProc h)"

lemma parseLinuxEnviron_coherent:
  "coherent h cache \<Longrightarrow> parseLinuxEnviron h cache = (fromProc h, Some (fromProc h))"
  by (auto simp: coherent_def fromProc_def parseLinuxEnviron_def Let_def split: option.splits)

text \<open>A process that looks up a list of settings one after the other.\<close>

fun lookup_run :: "host \<Rightarrow> environ_cache \<Rightarrow> string list \<Rightarrow> string option list \<times> environ_cache" where
  "lookup_run h cache [] = ([], cache)"
| "lookup_run h cache (k # ks) =
     (let (v, c1) = runtimeEnv_cached h cache k; (vs, c2) = lookup_run h c1 ks in (v # vs, c2))"

lemma runtimeEnv_cached_eq:
  "coherent h cache \<Longrightarrow> runtimeEnv_cached h cache k = (runtimeEnv h k, Some (fromProc h))"
  by (simp add: runtimeEnv_cached_def runtimeEnv_def parseLinuxEnviron_coherent)

lemma lookup_run_eq: "coherent h cache \<Longrightarrow> fst (lookup_run h cache ks) = map (runtimeEnv h) ks"
proof (induction ks arbitrary: cache)
  case (Cons k ks)
  have "coherent h (Some (fromProc h))" by (simp add: coherent_def)
  from Cons.IH [OF this] Cons.prems show ?case
    by (auto simp: runtimeEnv_cached_eq split: prod.splits)
qed simp

section \<open>The byte loop and its reference definition\<close>

text \<open>Split at NUL, then read the segments that are not empty in order.\<close>

definition add_segment :: "string \<Rightarrow> (string \<times> string) list \<Rightarrow> (string \<times> string) list" where
  "add_segment seg out = (if seg = [] then out else add_environ_line seg out)"

lemma environ_loop_split:
  assumes "start \<le> i" and "i \<le> length buf" and "NUL \<notin> set (take (i - start) (drop start buf))"
  shows "environ_loop buf i start out = fold add_segment (js_split NUL (drop start buf)) out"
  using assms
proof (induction buf i start out rule: environ_loop.induct)
  case (1 buf i start out)
  let ?seg = "take (i - start) (drop start buf)"
  have seg_Nil: "?seg = [] \<longleftrightarrow> i = start" using "1.prems" by auto
  consider (fin) "i = length buf" | (nul) "i < length buf" "buf ! i = NUL"
    | (char) "i < length buf" "buf ! i \<noteq> NUL"
    using "1.prems" by linarith
  then show ?case
  proof cases
    case fin
    then have "?seg = drop start buf" by simp
    with "1.prems" have "js_split NUL (drop start buf) = [?seg]" by (simp add: js_split_single)
    moreover have "environ_loop buf (Suc i) (Suc i) r = r" for r
      using fin by (subst environ_loop.simps) simp
    ultimately show ?thesis
      using fin "1.prems" seg_Nil by (subst environ_loop.simps) (auto simp: add_segment_def)
  next
    case nul
    have "drop start buf = ?seg @ drop i buf"
      using "1.prems" by (metis append_take_drop_id drop_drop le_add_diff_inverse2)
    also have "drop i buf = NUL # drop (Suc i) buf" using nul by (simp add: Cons_nth_drop_Suc [symmetric])
    finally have "js_split NUL (drop start buf) = ?seg # js_split NUL (drop (Suc i) buf)"
      using "1.prems" by (metis js_split_append)
    moreover have "environ_loop buf (Suc i) (Suc i) r
        = fold add_segment (js_split NUL (drop (Suc i) buf)) r"
      if "r = (if start < i then add_environ_line ?seg out else out)" for r
      using "1.IH"(1) nul "1.prems" that by simp
    ultimately show ?thesis
      using nul "1.prems" seg_Nil by (subst environ_loop.simps) (auto simp: add_segment_def)
  next
    case char
    have "Suc i - start = Suc (i - start)" using "1.prems" by simp
    then have "take (Suc i - start) (drop start buf) = ?seg @ [buf ! i]"
      using char "1.prems" by (simp add: take_Suc_conv_app_nth)
    with "1.IH"(2) char "1.prems" show ?thesis by (subst environ_loop.simps) simp
  qed
qed

lemma parse_environ_split: "parse_environ buf = fold add_segment (js_split NUL buf) []"
  by (simp add: parse_environ_def environ_loop_split)

text \<open>The block the kernel presents: every entry \<open>KEY=value\<close> is ended by NUL.\<close>

definition render_environ :: "(string \<times> string) list \<Rightarrow> string" where
  "render_environ kvs = concat (map (\<lambda>(k, v). k @ CHR ''='' # v @ [NUL]) kvs)"

definition good_entry :: "string \<times> string \<Rightarrow> bool" where
  "good_entry kv \<longleftrightarrow>
     fst kv \<noteq> [] \<and> CHR ''='' \<notin> set (fst kv) \<and> NUL \<notin> set (fst kv) \<and> NUL \<notin> set (snd kv) \<and>
     fst kv \<noteq> ''__proto__'' \<and> \<not> array_index (fst kv) \<and>
     utf8_text (fst kv @ CHR ''='' # snd kv) = fst kv @ CHR ''='' # snd kv"

lemma split_render:
  "list_all good_entry kvs \<Longrightarrow>
     js_split NUL (render_environ kvs) = map (\<lambda>(k, v). k @ CHR ''='' # v) kvs @ [[]]"
proof (induction kvs)
  case (Cons kv kvs)
  obtain k v where kv: "kv = (k, v)" by force
  with Cons.prems have "NUL \<notin> set (k @ CHR ''='' # v)" by (simp add: good_entry_def)
  from js_split_append [OF this] Cons kv show ?case by (simp add: render_environ_def)
qed (simp add: render_environ_def)

lemma takeWhile_key: "CHR ''='' \<notin> set k \<Longrightarrow> takeWhile (\<lambda>c. c \<noteq> CHR ''='') (k @ CHR ''='' # v) = k"
  by (induction k) auto

lemma add_segment_entry:
  "good_entry (k, v) \<Longrightarrow> k \<notin> fst ` set out \<Longrightarrow>
     add_segment (k @ CHR ''='' # v) out = out @ [(k, v)]"
  by (simp add: add_segment_def add_environ_line_def good_entry_def takeWhile_key own_put_def)

lemma fold_add_segment:
  "list_all good_entry kvs \<Longrightarrow> distinct (map fst (out @ kvs)) \<Longrightarrow>
     fold add_segment (map (\<lambda>(k, v). k @ CHR ''='' # v) kvs) out = out @ kvs"
proof (induction kvs arbitrary: out)
  case (Cons kv kvs)
  obtain k v where kv: "kv = (k, v)" by force
  with Cons.prems have "add_segment (k @ CHR ''='' # v) out = out @ [(k, v)]"
    by (intro add_segment_entry) auto
  with Cons kv show ?case by simp
qed simp

lemma parse_render:
  "list_all good_entry kvs \<Longrightarrow> distinct (map fst kvs) \<Longrightarrow> parse_environ (render_environ kvs) = kvs"
  using fold_add_segment [of kvs "[]"]
  by (simp add: parse_environ_split split_render add_segment_def)

section \<open>What the snapshot reveals\<close>

text \<open>
  Two token values look alike to the snapshot when they are both empty or not and have the
  same length once normalised; two entries are alike when they have the same key and, unless
  the key names a token, the same value.
\<close>

definition alike_values :: "string \<Rightarrow> string \<Rightarrow> bool" where
  "alike_values v v' \<longleftrightarrow>
     (v = [] \<longleftrightarrow> v' = []) \<and> length (normalizeEnvValue v) = length (normalizeEnvValue v')"

definition alike_entries :: "string \<times> string \<Rightarrow> string \<times> string \<Rightarrow> bool" where
  "alike_entries e e' \<longleftrightarrow>
     fst e = fst e' \<and>
     (if js_trim (fst e) \<in> set ALL_TOKEN_KEYS then alike_values (snd e) (snd e') else snd e = snd e')"

definition alike_envs :: "(string \<times> string) list option \<Rightarrow> (string \<times> string) list option \<Rightarrow> bool" where
  "alike_envs = rel_option (list_all2 alike_entries)"

lemma alike_keys: "list_all2 alike_entries es es' \<Longrightarrow> map fst es = map fst es'"
  by (induction rule: list_all2_induct) (auto simp: alike_entries_def)

lemma alike_envs_keys: "alike_envs es es' \<Longrightarrow> keys_of es = keys_of es'"
  by (cases es; cases es') (auto simp: alike_envs_def keys_of_def dest: alike_keys)

lemma alike_scan:
  "list_all2 alike_entries es es' \<Longrightarrow> want \<notin> set ALL_TOKEN_KEYS \<Longrightarrow>
     scan_entries es want = scan_entries es' want"
  by (induction rule: list_all2_induct)
    (auto simp: alike_entries_def split: option.splits if_splits)

lemma alike_map_of:
  "list_all2 alike_entries es es' \<Longrightarrow> js_trim key \<notin> set ALL_TOKEN_KEYS \<Longrightarrow>
     map_of es key = map_of es' key"
  by (induction rule: list_all2_induct) (auto simp: alike_entries_def split: if_splits)

lemma alike_lookup:
  "list_all2 alike_entries es es' \<Longrightarrow> js_trim key \<notin> set ALL_TOKEN_KEYS \<Longrightarrow>
     lookup_entries es key = lookup_entries es' key"
  using alike_map_of [of es es' key] alike_scan [of es es' "js_trim key"]
  by (simp add: lookup_entries_def cong: option.case_cong)

lemma alike_runtimeEnv:
  assumes "alike_envs (fromProc h) (fromProc h')"
    and "alike_envs (h_process_env h) (h_process_env h')"
    and "js_trim key \<notin> set ALL_TOKEN_KEYS"
  shows "runtimeEnv h key = runtimeEnv h' key"
proof -
  have bind: "Option.bind e (\<lambda>es. lookup_entries es key) = Option.bind e' (\<lambda>es. lookup_entries es key)"
    if "alike_envs e e'" for e e'
    using that alike_lookup [OF _ assms(3)] by (cases e; cases e') (auto simp: alike_envs_def)
  show ?thesis
    using bind [OF assms(1)] bind [OF assms(2)]
    by (simp add: runtimeEnv_def runtimeEnv_from_def cong: option.case_cong)
qed

lemma token_key_trimmed: "name \<in> set ALL_TOKEN_KEYS \<Longrightarrow> js_trim name = name"
  by (auto simp: ALL_TOKEN_KEYS_def PROJECT_ACCESS_TOKEN_KEYS_def ACCOUNT_BEARER_TOKEN_KEYS_def
      js_trim_def is_ws_def)

text \<open>Entries found under the same key whose values are alike.\<close>

definition alike_found :: "(string \<times> string) option \<Rightarrow> (string \<times> string) option \<Rightarrow> bool" where
  "alike_found = rel_option (\<lambda>e e'. fst e = fst e' \<and> alike_values (snd e) (snd e'))"

lemma alike_map_of_token:
  "list_all2 alike_entries es es' \<Longrightarrow> name \<in> set ALL_TOKEN_KEYS \<Longrightarrow>
     rel_option alike_values (map_of es name) (map_of es' name)"
proof (induction rule: list_all2_induct)
  case (Cons e es e' es')
  show ?case
  proof (cases "fst e = name")
    case True
    then have "js_trim (fst e) \<in> set ALL_TOKEN_KEYS" using Cons.prems token_key_trimmed by simp
    with True Cons.hyps show ?thesis by (cases e; cases e') (simp add: alike_entries_def)
  next
    case False
    with Cons show ?thesis by (cases e; cases e') (simp add: alike_entries_def)
  qed
qed simp

lemma alike_find_token:
  "list_all2 alike_entries es es' \<Longrightarrow> name \<in> set ALL_TOKEN_KEYS \<Longrightarrow>
     alike_found (find (\<lambda>(k, v). js_trim k = name) es) (find (\<lambda>(k, v). js_trim k = name) es')"
proof (induction rule: list_all2_induct)
  case (Cons e es e' es')
  then show ?case
    by (cases e; cases e'; cases "js_trim (fst e) = name") (simp_all add: alike_found_def alike_entries_def)
qed (simp add: alike_found_def)

lemma alike_find_entry:
  assumes "list_all2 alike_entries es es'" and "name \<in> set ALL_TOKEN_KEYS"
  shows "alike_found (find_entry es name) (find_entry es' name)"
  using alike_map_of_token [OF assms] alike_find_token [OF assms]
  by (cases "map_of es name"; cases "map_of es' name")
    (auto simp: find_entry_def alike_found_def)

lemma alike_token_entry:
  assumes "alike_envs (fromProc h) (fromProc h')"
    and "alike_envs (h_process_env h) (h_process_env h')"
    and "name \<in> set ALL_TOKEN_KEYS"
  shows "alike_found (token_entry h name) (token_entry h' name)"
proof -
  have bind: "alike_found (Option.bind e (\<lambda>es. find_entry es name)) (Option.bind e' (\<lambda>es. find_entry es name))"
    if "alike_envs e e'" for e e'
    using that alike_find_entry [OF _ assms(3)]
    by (cases e; cases e') (auto simp: alike_envs_def alike_found_def)
  show ?thesis
    using bind [OF assms(1)] bind [OF assms(2)]
    by (cases "Option.bind (fromProc h) (\<lambda>es. find_entry es name)";
        cases "Option.bind (fromProc h') (\<lambda>es. find_entry es name)")
      (auto simp: token_entry_def alike_found_def)
qed

lemma alike_values_normalized:
  "alike_values v v' \<Longrightarrow> normalizeEnvValue v = [] \<longleftrightarrow> normalizeEnvValue v' = []"
  unfolding alike_values_def by (metis length_0_conv)

lemma alike_token_info:
  assumes "alike_found (token_entry h name) (token_entry h' name)"
  shows "token_info_of h name = token_info_of h' name"
  using assms
  by (cases "token_entry h name"; cases "token_entry h' name")
    (auto simp: token_info_of_def alike_found_def Let_def alike_values_def
      dest: arg_cong [where f = length])

section \<open>Credentials and headers\<close>

lemma first_setting_None: "first_setting h ks = None \<longleftrightarrow> (\<forall>k \<in> set ks. runtimeEnv h k = None)"
  by (induction ks) (auto split: option.splits dest: runtimeEnv_usable)

lemma has_credential_iff:
  "hasRailwayGraphqlCredential h \<longleftrightarrow>
     first_setting h PROJECT_ACCESS_TOKEN_KEYS \<noteq> None \<or> first_setting h ACCOUNT_BEARER_TOKEN_KEYS \<noteq> None"
  unfolding hasRailwayGraphqlCredential_def first_setting_None list_ex_iff env.truthy_lookup by auto

lemma auth_headers_iff: "(\<exists>hs. getRailwayGraphqlAuthHeaders h = Inr hs) \<longleftrightarrow> hasRailwayGraphqlCredential h"
  by (auto simp: getRailwayGraphqlAuthHeaders_def has_credential_iff split: option.splits)

section \<open>Properties\<close>

text \<open>A setting that \<open>runtimeEnv\<close> returns is never empty and has no white space at its
  ends, whatever the raw environment holds (so the \<open>.trim()\<close> calls of its callers change nothing).\<close>

theorem runtimeEnv_returns_usable:
  "runtimeEnv h key = Some v \<Longrightarrow> v \<noteq> [] \<and> js_trim v = v"
  using runtimeEnv_usable js_trim_trimmed by blast

definition padded_host :: host where
  "padded_host = \<lparr>h_platform = ''linux'', h_environ = None,
     h_process_env = Some [('' RAILWAY_TOKEN '', [CHR 0x20, CHR 0x22, CHR ''k'', CHR 0x22])]\<rparr>"

theorem runtimeEnv_returns_usable_witness:
  "runtimeEnv padded_host ''RAILWAY_TOKEN'' = Some ''k'' \<and> ''k'' \<noteq> [] \<and> js_trim ''k'' = ''k''"
proof -
  have h: "runtimeEnv padded_host ''RAILWAY_TOKEN'' = Some ''k''" by code_simp
  show ?thesis using h runtimeEnv_returns_usable [OF h] by simp
qed

text \<open>The module-level cache of the parsed environment block is invisible: a process that
  looks up any list of settings one after the other, starting with the unset cache, gets what
  uncached lookups would give it.\<close>

theorem environ_cache_transparent: "fst (lookup_run h None ks) = map (runtimeEnv h) ks"
  by (rule lookup_run_eq) (simp add: coherent_def)

text \<open>The byte loop over \<^verbatim>\<open>/proc/self/environ\<close> (index, start of line, end-of-buffer case)
  computes the reference: split the block at NUL and read the non-empty segments in order.\<close>

theorem environ_loop_is_split:
  "environ_loop buf 0 0 [] = fold add_segment (js_split NUL buf) []"
  by (simp add: environ_loop_split)

text \<open>C36: Round trip of the environment block. Take entries with distinct names, each non-empty, without
  \<open>=\<close>, not \<open>__proto__\<close> and not an array index (names that a plain object treats in its own way), whose
  lines are UTF-8, no NUL anywhere. The block rendered from them, every line ended by NUL, parses back
  to these entries, in order.\<close>

theorem environ_round_trip:
  assumes "distinct (map fst kvs)"
    and "\<forall>(k, v) \<in> set kvs. k \<noteq> [] \<and> CHR ''='' \<notin> set k \<and> NUL \<notin> set k \<and> NUL \<notin> set v \<and>
           k \<noteq> ''__proto__'' \<and> \<not> array_index k \<and> utf8_text (k @ CHR ''='' # v) = k @ CHR ''='' # v"
  shows "parse_environ (concat (map (\<lambda>(k, v). k @ CHR ''='' # v @ [NUL]) kvs)) = kvs"
proof -
  have "list_all good_entry kvs" using assms(2) by (auto simp: list_all_iff good_entry_def)
  from parse_render [OF this assms(1)] show ?thesis by (simp add: render_environ_def)
qed

theorem environ_round_trip_witness:
  "parse_environ (concat (map (\<lambda>(k, v). k @ CHR ''='' # v @ [NUL]) [(''A'', ''1=2''), (''B'', []), (''C'', [CHR 0xC3, CHR 0xA9])]))
     = [(''A'', ''1=2''), (''B'', []), (''C'', [CHR 0xC3, CHR 0xA9])]"
proof (rule environ_round_trip)
  have "utf8_text ''A=1=2'' = ''A=1=2'' \<and> utf8_text ''B='' = ''B='' \<and>
      utf8_text [CHR ''C'', CHR ''='', CHR 0xC3, CHR 0xA9] = [CHR ''C'', CHR ''='', CHR 0xC3, CHR 0xA9]"
    by code_simp
  then show "\<forall>(k, v) \<in> set [(''A'', ''1=2''), (''B'', []), (''C'', [CHR 0xC3, CHR 0xA9])].
      k \<noteq> [] \<and> CHR ''='' \<notin> set k \<and> NUL \<notin> set k \<and> NUL \<notin> set v \<and> k \<noteq> ''__proto__'' \<and> \<not> array_index k \<and>
      utf8_text (k @ CHR ''='' # v) = k @ CHR ''='' # v"
    by (simp add: array_index_def is_digit_def)
qed simp

text \<open>What the parser does with lines outside these bounds.\<close>

lemma environ_examples:
  "add_environ_line [CHR ''A'', CHR ''='', CHR 0xFF, CHR 0xE2, CHR 0x82] [] = [(''A'', u_replacement @ u_replacement)]"
  "add_environ_line ''__proto__=x'' [(''A'', [])] = [(''A'', [])]"
  "add_environ_line ''7=x'' [(''10'', []), (''A'', [])] = [(''7'', ''x''), (''10'', []), (''A'', [])]"
  by code_simp+

text \<open>
  The snapshot reveals no secret: two processes whose environments differ only in the values of
  token variables, with the same normalised lengths, have equal snapshots.
\<close>

lemma alike_snapshot:
  assumes "alike_envs (fromProc h) (fromProc h')"
    and "alike_envs (h_process_env h) (h_process_env h')"
    and "h_platform h = h_platform h'"
  shows "getRailwayEnvDebugSnapshot h = getRailwayEnvDebugSnapshot h'"
proof -
  have tokens: "token_info_of h name = token_info_of h' name" if "name \<in> set ALL_TOKEN_KEYS" for name
    by (rule alike_token_info) (rule alike_token_entry [OF assms(1,2) that])
  have "js_trim ''DASHBOARD_BACKEND_URL'' \<notin> set ALL_TOKEN_KEYS" by code_simp
  note url = alike_runtimeEnv [OF assms(1,2) this]
  have null: "(h_process_env h = None) = (h_process_env h' = None)"
      "(fromProc h = None) = (fromProc h' = None)"
    using assms(1,2) by (cases "h_process_env h"; cases "h_process_env h'"; cases "fromProc h";
        cases "fromProc h'"; simp add: alike_envs_def)+
  have count: "(case fromProc h of None \<Rightarrow> 0 | Some es \<Rightarrow> length es)
      = (case fromProc h' of None \<Rightarrow> 0 | Some es \<Rightarrow> length es)"
    using assms(1) by (cases "fromProc h"; cases "fromProc h'")
      (auto simp: alike_envs_def dest: list_all2_lengthD)
  have cred: "list_ex (\<lambda>k. ti_present (token_info_of h k)) ALL_TOKEN_KEYS
      = list_ex (\<lambda>k. ti_present (token_info_of h' k)) ALL_TOKEN_KEYS"
    using tokens by (auto simp: list_ex_iff)
  have toks: "map (\<lambda>name. (name, token_info_of h name)) ALL_TOKEN_KEYS
      = map (\<lambda>name. (name, token_info_of h' name)) ALL_TOKEN_KEYS"
    using tokens by simp
  show ?thesis
    unfolding getRailwayEnvDebugSnapshot_def Let_def count cred toks url null assms(3)
      alike_envs_keys [OF assms(1)] alike_envs_keys [OF assms(2)] ..
qed

definition token_host :: "string \<Rightarrow> host" where
  "token_host v = \<lparr>h_platform = ''linux'', h_environ = Some (render_environ [(''RAILWAY_TOKEN'', v)]),
     h_process_env = Some [(''PORT'', ''80'')]\<rparr>"

lemma token_host_proc:
  assumes "list_all (\<lambda>c. c \<noteq> NUL \<and> (of_char c :: nat) < 0x80) v"
  shows "fromProc (token_host v) = Some [(''RAILWAY_TOKEN'', v)]"
proof -
  have "utf8_text (''RAILWAY_TOKEN'' @ CHR ''='' # v) = ''RAILWAY_TOKEN'' @ CHR ''='' # v"
    using assms by (intro utf8_text_ascii) (simp add: list_all_iff)
  then have "good_entry (''RAILWAY_TOKEN'', v)"
    using assms by (simp add: good_entry_def array_index_def is_digit_def list_all_iff del: utf8_text.simps) auto
  then show ?thesis
    using parse_render [of "[(''RAILWAY_TOKEN'', v)]"]
    by (simp add: fromProc_def parseLinuxEnviron_def token_host_def Let_def)
qed

lemma alike_token_hosts:
  "alike_envs (fromProc (token_host ''abc'')) (fromProc (token_host ''xyz''))"
  "alike_envs (h_process_env (token_host ''abc'')) (h_process_env (token_host ''xyz''))"
  "h_platform (token_host ''abc'') = h_platform (token_host ''xyz'')"
proof -
  have "alike_entries (''RAILWAY_TOKEN'', ''abc'') (''RAILWAY_TOKEN'', ''xyz'')" by code_simp
  then show "alike_envs (fromProc (token_host ''abc'')) (fromProc (token_host ''xyz''))"
    by (simp add: token_host_proc alike_envs_def)
qed (simp_all add: token_host_def alike_envs_def alike_entries_def alike_values_def)

text \<open>The authentication headers exist exactly when a credential is reported, the project
  token is preferred over any account token, and otherwise the documented error is thrown.\<close>

theorem auth_headers_agree_with_credential:
  "(case getRailwayGraphqlAuthHeaders h of
      Inr hs \<Rightarrow> hasRailwayGraphqlCredential h \<and>
        (\<forall>v. runtimeEnv h ''RAILWAY_PROJECT_TOKEN'' = Some v \<longrightarrow> hs = [(''Project-Access-Token'', v)])
    | Inl e \<Rightarrow> \<not> hasRailwayGraphqlCredential h \<and>
        e = new_Error ''Set RAILWAY_PROJECT_TOKEN or RAILWAY_API_TOKEN for Railway visibility'')"
  using runtimeEnv_usable [of h "''RAILWAY_PROJECT_TOKEN''"]
  by (auto simp: getRailwayGraphqlAuthHeaders_def has_credential_iff PROJECT_ACCESS_TOKEN_KEYS_def
      split: option.splits if_splits)

theorem auth_headers_agree_with_credential_witness:
  "runtimeEnv (token_host ''abc'') ''RAILWAY_PROJECT_TOKEN'' = None \<and>
   getRailwayGraphqlAuthHeaders (token_host ''abc'') = Inr [(''Authorization'', ''Bearer abc'')] \<and>
   hasRailwayGraphqlCredential (token_host ''abc'')"
proof -
  have h: "getRailwayGraphqlAuthHeaders (token_host ''abc'') = Inr [(''Authorization'', ''Bearer abc'')]"
    by code_simp
  have n: "runtimeEnv (token_host ''abc'') ''RAILWAY_PROJECT_TOKEN'' = None" by code_simp
  show ?thesis using h n auth_headers_agree_with_credential [of "token_host ''abc''"] by simp
qed

definition blank_exact_host :: host where
  "blank_exact_host = \<lparr>h_platform = ''linux'',
     h_environ = Some (render_environ [(''RAILWAY_TOKEN'', []), (''RAILWAY_TOKEN '', ''k'')]),
     h_process_env = Some []\<rparr>"

text \<open>The snapshot can disagree with the credential check: with a blank exact entry in the
  environment block and the token under a padded name, the lookup finds the token while the
  snapshot, which stops at the exact entry, reports no credential.\<close>

theorem snapshot_can_miss_credential:
  "hasRailwayGraphqlCredential blank_exact_host \<and>
   \<not> sn_hasCredential (getRailwayEnvDebugSnapshot blank_exact_host)"
  by code_simp

end
