(* ===== verification/HeartbeatLifecycle.thy ===== *)
theory HeartbeatLifecycle
  imports RuntimeEnv
begin

text \<open>
  \<^verbatim>\<open>dashboard/src/lib/watchdog-core/heartbeat-lifecycle.ts\<close>: the counters that turn repeated
  failures of the HTTP probes of a service into the lifecycle status \<open>exited\<close> and schedule a
  redeploy for the next tick. A JavaScript \<open>Map\<close> keyed by service id is a partial function; an
  absent key is \<^const>\<open>None\<close>.
\<close>

section \<open>Data\<close>

datatype RailwayOnlineStatus = Online | Completed | Deploying | Failed | Skipped | Unknown | Exited

text \<open>\<open>hp_ok\<close> is \<^const>\<open>None\<close> for the \<open>null\<close> of a skipped probe.\<close>

record HeartbeatPingResult =
  hp_serviceId :: string
  hp_service :: string
  hp_probeUrl :: "string option"
  hp_skipped :: bool
  hp_ok :: "bool option"
  hp_statusCode :: "int option"
  hp_latencyMs :: "int option"
  hp_error :: "string option"

record HeartbeatExitLifecycleState =
  consecutiveFails :: "string \<rightharpoonup> int"
  lastDeploymentId :: "string \<rightharpoonup> string"
  lifecycleExited :: "string \<rightharpoonup> bool"
  redeemOnNextTick :: "string \<rightharpoonup> bool"

definition createHeartbeatExitLifecycleState :: HeartbeatExitLifecycleState where
  "createHeartbeatExitLifecycleState =
     \<lparr>consecutiveFails = Map.empty, lastDeploymentId = Map.empty,
      lifecycleExited = Map.empty, redeemOnNextTick = Map.empty\<rparr>"

section \<open>Settings\<close>

definition heartbeatExitFailureThreshold :: "host \<Rightarrow> int" where
  "heartbeatExitFailureThreshold h =
     int_setting (runtimeEnv h ''RAILWAY_HEARTBEAT_EXIT_THRESHOLD'') ''2'' (\<lambda>n. 1 \<le> n) 2"

definition railwayHeartbeatExitRedeployEnabled :: "host \<Rightarrow> bool" where
  "railwayHeartbeatExitRedeployEnabled h =
     (let raw = flag_text (runtimeEnv h ''RAILWAY_HEARTBEAT_EXIT_REDEPLOY'') ''1''
      in if raw = [] \<or> is_on raw then True else if is_off raw then False else True)"

section \<open>Operations\<close>

definition syncHeartbeatExitDeploymentId ::
  "HeartbeatExitLifecycleState \<Rightarrow> string \<Rightarrow> string \<Rightarrow> HeartbeatExitLifecycleState" where
  "syncHeartbeatExitDeploymentId st sid depId =
     (if lastDeploymentId st sid \<noteq> Some depId
      then st\<lparr>lastDeploymentId := (lastDeploymentId st)(sid \<mapsto> depId),
              consecutiveFails := (consecutiveFails st)(sid := None),
              lifecycleExited := (lifecycleExited st)(sid := None),
              redeemOnNextTick := (redeemOnNextTick st)(sid := None)\<rparr>
      else st)"

text \<open>
  \<open>schedule\<close> is \<open>options?.scheduleRedeem\<close>. A heartbeat is absent, skipped, or has a result.
\<close>

definition effectiveRailwayOnlineStatusAfterProbe ::
  "host \<Rightarrow> HeartbeatExitLifecycleState \<Rightarrow> string \<Rightarrow> string \<Rightarrow> RailwayOnlineStatus \<Rightarrow>
     HeartbeatPingResult option \<Rightarrow> bool option \<Rightarrow> RailwayOnlineStatus \<times> HeartbeatExitLifecycleState" where
  "effectiveRailwayOnlineStatusAfterProbe h st0 sid depId base heartbeat schedule =
     (let st = syncHeartbeatExitDeploymentId st0 sid depId
      in if base \<noteq> Online
         then (base, st\<lparr>consecutiveFails := (consecutiveFails st)(sid := None),
                        lifecycleExited := (lifecycleExited st)(sid := None)\<rparr>)
         else (case heartbeat of
             None \<Rightarrow> (base, st)
           | Some hb \<Rightarrow>
               (if hp_skipped hb then (base, st)
                else (case hp_ok hb of
                    None \<Rightarrow> (base, st)
                  | Some True \<Rightarrow>
                      (Online, st\<lparr>consecutiveFails := (consecutiveFails st)(sid \<mapsto> 0),
                                  lifecycleExited := (lifecycleExited st)(sid := None),
                                  redeemOnNextTick := (redeemOnNextTick st)(sid := None)\<rparr>)
                  | Some False \<Rightarrow>
                      (let th = heartbeatExitFailureThreshold h;
                           n = coalesce (consecutiveFails st sid) 0 + 1;
                           st1 = st\<lparr>consecutiveFails := (consecutiveFails st)(sid \<mapsto> n)\<rparr>
                       in if th \<le> n
                          then (let firstExit = (lifecycleExited st1 sid \<noteq> Some True);
                                    st2 = st1\<lparr>lifecycleExited := (lifecycleExited st1)(sid \<mapsto> True)\<rparr>;
                                    st3 = (if firstExit \<and> railwayHeartbeatExitRedeployEnabled h
                                              \<and> schedule = Some True
                                           then st2\<lparr>redeemOnNextTick := (redeemOnNextTick st2)(sid \<mapsto> True)\<rparr>
                                           else st2)
                                in (Exited, st3))
                          else (Online, st1))))))"

definition peekExitLifecycleRedeem :: "HeartbeatExitLifecycleState \<Rightarrow> string \<Rightarrow> bool" where
  "peekExitLifecycleRedeem st sid \<longleftrightarrow> redeemOnNextTick st sid = Some True"

definition clearExitLifecycleRedeemFlag ::
  "HeartbeatExitLifecycleState \<Rightarrow> string \<Rightarrow> HeartbeatExitLifecycleState" where
  "clearExitLifecycleRedeemFlag st sid =
     st\<lparr>redeemOnNextTick := (redeemOnNextTick st)(sid := None)\<rparr>"

definition clearExitLifecycleForService ::
  "HeartbeatExitLifecycleState \<Rightarrow> string \<Rightarrow> HeartbeatExitLifecycleState" where
  "clearExitLifecycleForService st sid =
     st\<lparr>consecutiveFails := (consecutiveFails st)(sid := None),
        lifecycleExited := (lifecycleExited st)(sid := None),
        redeemOnNextTick := (redeemOnNextTick st)(sid := None)\<rparr>"

definition requeueExitLifecycleRedeem ::
  "HeartbeatExitLifecycleState \<Rightarrow> string \<Rightarrow> HeartbeatExitLifecycleState" where
  "requeueExitLifecycleRedeem st sid =
     st\<lparr>redeemOnNextTick := (redeemOnNextTick st)(sid \<mapsto> True)\<rparr>"

lemmas lifecycle_ops =
  syncHeartbeatExitDeploymentId_def peekExitLifecycleRedeem_def clearExitLifecycleRedeemFlag_def
  clearExitLifecycleForService_def requeueExitLifecycleRedeem_def

lemma threshold_pos: "1 \<le> heartbeatExitFailureThreshold h"
  unfolding heartbeatExitFailureThreshold_def by (rule int_setting_ok) simp

section \<open>The abstract machine of one service\<close>

text \<open>
  What a service's part of the state means: the deployment it is about, how many probes failed
  in a row, whether it was shown as exited, and whether a redeploy is scheduled.
\<close>

record service_view =
  v_dep :: "string option"
  v_fails :: int
  v_exited :: bool
  v_redeem :: bool

definition view_of :: "HeartbeatExitLifecycleState \<Rightarrow> string \<Rightarrow> service_view" where
  "view_of st sid =
     \<lparr>v_dep = lastDeploymentId st sid,
      v_fails = coalesce (consecutiveFails st sid) 0,
      v_exited = (lifecycleExited st sid = Some True),
      v_redeem = peekExitLifecycleRedeem st sid\<rparr>"

text \<open>The outcome of a probe as the lifecycle sees it.\<close>

datatype probe = NoProbe | ProbeOk | ProbeFailed

definition probe_of :: "HeartbeatPingResult option \<Rightarrow> probe" where
  "probe_of hb =
     (case hb of None \<Rightarrow> NoProbe
      | Some r \<Rightarrow>
          if hp_skipped r then NoProbe
          else (case hp_ok r of None \<Rightarrow> NoProbe | Some b \<Rightarrow> if b then ProbeOk else ProbeFailed))"

definition new_deployment :: "string \<Rightarrow> service_view \<Rightarrow> service_view" where
  "new_deployment d v =
     (if v_dep v = Some d then v else \<lparr>v_dep = Some d, v_fails = 0, v_exited = False, v_redeem = False\<rparr>)"

text \<open>Parameters: failure threshold, whether a redeploy may be scheduled.\<close>

fun observe :: "int \<Rightarrow> bool \<Rightarrow> probe \<Rightarrow> service_view \<Rightarrow> RailwayOnlineStatus \<times> service_view" where
  "observe th sched NoProbe v = (Online, v)"
| "observe th sched ProbeOk v = (Online, v\<lparr>v_fails := 0, v_exited := False, v_redeem := False\<rparr>)"
| "observe th sched ProbeFailed v =
     (if th \<le> v_fails v + 1
      then (Exited, v\<lparr>v_fails := v_fails v + 1, v_exited := True,
                      v_redeem := v_redeem v \<or> (sched \<and> \<not> v_exited v)\<rparr>)
      else (Online, v\<lparr>v_fails := v_fails v + 1\<rparr>))"

definition lifecycle_spec ::
  "int \<Rightarrow> bool \<Rightarrow> string \<Rightarrow> RailwayOnlineStatus \<Rightarrow> probe \<Rightarrow> service_view \<Rightarrow>
     RailwayOnlineStatus \<times> service_view" where
  "lifecycle_spec th sched d base p v =
     (if base = Online then observe th sched p (new_deployment d v)
      else (base, (new_deployment d v)\<lparr>v_fails := 0, v_exited := False\<rparr>))"

abbreviation sched_of :: "host \<Rightarrow> bool option \<Rightarrow> bool" where
  "sched_of h schedule \<equiv> railwayHeartbeatExitRedeployEnabled h \<and> schedule = Some True"

abbreviation after_probe ::
  "host \<Rightarrow> HeartbeatExitLifecycleState \<Rightarrow> string \<Rightarrow> string \<Rightarrow> RailwayOnlineStatus \<Rightarrow>
     HeartbeatPingResult option \<Rightarrow> bool option \<Rightarrow> HeartbeatExitLifecycleState" where
  "after_probe h st sid d base hb schedule \<equiv>
     snd (effectiveRailwayOnlineStatusAfterProbe h st sid d base hb schedule)"

lemma view_sync: "view_of (syncHeartbeatExitDeploymentId st sid d) sid = new_deployment d (view_of st sid)"
  by (simp add: view_of_def new_deployment_def lifecycle_ops)

lemma lifecycle_refines:
  "lifecycle_spec (heartbeatExitFailureThreshold h) (sched_of h schedule) d base (probe_of hb) (view_of st sid) =
     (fst (effectiveRailwayOnlineStatusAfterProbe h st sid d base hb schedule),
      view_of (after_probe h st sid d base hb schedule) sid)"
proof -
  let ?st = "syncHeartbeatExitDeploymentId st sid d"
  show ?thesis
    unfolding lifecycle_spec_def view_sync [symmetric] effectiveRailwayOnlineStatusAfterProbe_def Let_def
    by (auto simp: probe_of_def view_of_def peekExitLifecycleRedeem_def split: option.splits bool.splits)
qed

lemma fst_effective:
  "fst (effectiveRailwayOnlineStatusAfterProbe h st sid d base hb schedule) =
     fst (lifecycle_spec (heartbeatExitFailureThreshold h) (sched_of h schedule) d base (probe_of hb) (view_of st sid))"
  by (simp add: lifecycle_refines)

lemma view_after_probe:
  "view_of (after_probe h st sid d base hb schedule) sid =
     snd (lifecycle_spec (heartbeatExitFailureThreshold h) (sched_of h schedule) d base (probe_of hb) (view_of st sid))"
  by (simp add: lifecycle_refines)

lemma effective_eta:
  "effectiveRailwayOnlineStatusAfterProbe h st sid d base hb schedule =
     (fst (effectiveRailwayOnlineStatusAfterProbe h st sid d base hb schedule),
      after_probe h st sid d base hb schedule)"
  by simp

lemma sync_other: "sid' \<noteq> sid \<Longrightarrow> view_of (syncHeartbeatExitDeploymentId st sid d) sid' = view_of st sid'"
  by (simp add: view_of_def lifecycle_ops)

lemma after_probe_other:
  assumes "sid' \<noteq> sid"
  shows "view_of (after_probe h st sid d base hb schedule) sid' = view_of st sid'"
proof -
  let ?st = "syncHeartbeatExitDeploymentId st sid d"
  have "view_of (after_probe h st sid d base hb schedule) sid' = view_of ?st sid'"
    using assms unfolding effectiveRailwayOnlineStatusAfterProbe_def Let_def
    by (auto simp: view_of_def peekExitLifecycleRedeem_def split: option.splits bool.splits)
  with assms show ?thesis by (simp add: sync_other)
qed

section \<open>Services do not interfere\<close>

text \<open>
  The contract of an operation on one service of a shared state: it acts on the view of its own
  service as a given step, and leaves every other view alone.
\<close>

locale service_machine =
  fixes op :: "string \<Rightarrow> 's \<Rightarrow> 's"
    and view :: "'s \<Rightarrow> string \<Rightarrow> 'v"
    and step :: "string \<Rightarrow> 'v \<Rightarrow> 'v"
  assumes own: "view (op sid s) sid = step sid (view s sid)"
    and other: "sid' \<noteq> sid \<Longrightarrow> view (op sid s) sid' = view s sid'"
begin

lemma view_op: "view (op sid s) sid' = (if sid' = sid then step sid (view s sid) else view s sid')"
  using own other by simp

lemma view_fold: "view (fold op sids s) sid = (step sid ^^ count_list sids sid) (view s sid)"
  by (induction sids arbitrary: s) (auto simp: view_op funpow_swap1)

lemma view_fold_distinct:
  "distinct sids \<Longrightarrow> view (fold op sids s) sid = (if sid \<in> set sids then step sid (view s sid) else view s sid)"
  by (induction sids arbitrary: s) (auto simp: view_op)

lemma fold_order_irrelevant:
  assumes "distinct sids" and "distinct sids'" and "set sids = set sids'"
  shows "view (fold op sids s) = view (fold op sids' s)"
  using assms by (auto simp: view_fold_distinct)

end

interpretation probe_op: service_machine
  "\<lambda>sid st. after_probe h st sid (d sid) (base sid) (hb sid) schedule" view_of
  "\<lambda>sid v. snd (lifecycle_spec (heartbeatExitFailureThreshold h) (sched_of h schedule) (d sid) (base sid)
             (probe_of (hb sid)) v)"
  for h d base hb schedule
  by unfold_locales (auto simp: view_after_probe after_probe_other)

interpretation clear_flag_op: service_machine
  "\<lambda>sid st. clearExitLifecycleRedeemFlag st sid" view_of "\<lambda>sid v. v\<lparr>v_redeem := False\<rparr>"
  by unfold_locales (auto simp: view_of_def lifecycle_ops)

interpretation clear_service_op: service_machine
  "\<lambda>sid st. clearExitLifecycleForService st sid" view_of
  "\<lambda>sid v. v\<lparr>v_fails := 0, v_exited := False, v_redeem := False\<rparr>"
  by unfold_locales (auto simp: view_of_def lifecycle_ops)

interpretation requeue_op: service_machine
  "\<lambda>sid st. requeueExitLifecycleRedeem st sid" view_of "\<lambda>sid v. v\<lparr>v_redeem := True\<rparr>"
  by unfold_locales (auto simp: view_of_def lifecycle_ops)

section \<open>Runs of probes\<close>

text \<open>
  A service whose deployment stays online is probed again and again: \<open>oks\<close> are the results,
  the run returns the statuses shown.
\<close>

fun probe_run ::
  "host \<Rightarrow> string \<Rightarrow> string \<Rightarrow> bool option \<Rightarrow> HeartbeatPingResult list \<Rightarrow>
     HeartbeatExitLifecycleState \<Rightarrow> RailwayOnlineStatus list \<times> HeartbeatExitLifecycleState" where
  "probe_run h sid d schedule [] st = ([], st)"
| "probe_run h sid d schedule (hb # hbs) st =
     (let (s, st1) = effectiveRailwayOnlineStatusAfterProbe h st sid d Online (Some hb) schedule;
          (ss, st2) = probe_run h sid d schedule hbs st1
      in (s # ss, st2))"

fun trailing_failures :: "int \<Rightarrow> probe list \<Rightarrow> int" where
  "trailing_failures k [] = k"
| "trailing_failures k (NoProbe # ps) = trailing_failures k ps"
| "trailing_failures k (ProbeOk # ps) = trailing_failures 0 ps"
| "trailing_failures k (ProbeFailed # ps) = trailing_failures (k + 1) ps"

text \<open>The status a list of outcomes should show after each probe.\<close>

fun expected_statuses :: "int \<Rightarrow> int \<Rightarrow> probe list \<Rightarrow> RailwayOnlineStatus list" where
  "expected_statuses th k [] = []"
| "expected_statuses th k (p # ps) =
     (if p = ProbeFailed \<and> th \<le> k + 1 then Exited else Online)
     # expected_statuses th (trailing_failures k [p]) ps"

lemma view_probe_step:
  "v_dep (view_of st sid) = Some d \<Longrightarrow>
     view_of (after_probe h st sid d Online (Some hb) schedule) sid =
       snd (observe (heartbeatExitFailureThreshold h) (sched_of h schedule) (probe_of (Some hb)) (view_of st sid))"
  by (simp add: view_after_probe lifecycle_spec_def new_deployment_def)

lemma observe_fails: "v_fails (snd (observe th sched p v)) = trailing_failures (v_fails v) [p]"
  by (cases p) auto

lemma observe_dep [simp]: "v_dep (snd (observe th sched p v)) = v_dep v"
  by (cases p) auto

lemma observe_status: "fst (observe th sched p v) = (if p = ProbeFailed \<and> th \<le> v_fails v + 1 then Exited else Online)"
  by (cases p) auto

lemma trailing_Cons: "trailing_failures k (p # ps) = trailing_failures (trailing_failures k [p]) ps"
  by (cases p) auto

lemma probe_run_spec:
  "v_dep (view_of st sid) = Some d \<Longrightarrow>
     fst (probe_run h sid d schedule hbs st) =
       expected_statuses (heartbeatExitFailureThreshold h) (v_fails (view_of st sid)) (map (probe_of \<circ> Some) hbs) \<and>
     v_fails (view_of (snd (probe_run h sid d schedule hbs st)) sid) =
       trailing_failures (v_fails (view_of st sid)) (map (probe_of \<circ> Some) hbs)"
proof (induction hbs arbitrary: st)
  case (Cons hb hbs)
  let ?st1 = "after_probe h st sid d Online (Some hb) schedule"
  from Cons.prems have v1: "view_of ?st1 sid =
      snd (observe (heartbeatExitFailureThreshold h) (sched_of h schedule) (probe_of (Some hb)) (view_of st sid))"
    by (rule view_probe_step)
  with Cons.prems have "v_dep (view_of ?st1 sid) = Some d" by simp
  note IH = Cons.IH [OF this]
  have "fst (effectiveRailwayOnlineStatusAfterProbe h st sid d Online (Some hb) schedule) =
      (if probe_of (Some hb) = ProbeFailed \<and> heartbeatExitFailureThreshold h \<le> v_fails (view_of st sid) + 1
       then Exited else Online)"
    using Cons.prems by (simp add: fst_effective lifecycle_spec_def new_deployment_def observe_status)
  with IH show ?case
    by (auto simp: v1 observe_fails trailing_Cons [of _ "probe_of (Some hb)" "map (\<lambda>r. probe_of (Some r)) hbs"] comp_def
        simp del: trailing_failures.simps split: prod.splits)
qed simp

section \<open>Invariants of the abstract machine\<close>

text \<open>A service is shown as exited only after \<open>th\<close> failures in a row.\<close>

definition view_ok :: "int \<Rightarrow> service_view \<Rightarrow> bool" where
  "view_ok th v \<longleftrightarrow> 0 \<le> v_fails v \<and> (v_exited v \<longrightarrow> th \<le> v_fails v)"

lemma view_ok_create [simp]: "view_ok th (view_of createHeartbeatExitLifecycleState sid)"
  by (simp add: view_ok_def view_of_def createHeartbeatExitLifecycleState_def)

lemma view_ok_spec: "view_ok th v \<Longrightarrow> view_ok th (snd (lifecycle_spec th sched d base p v))"
  by (cases p) (auto simp: view_ok_def lifecycle_spec_def new_deployment_def)

lemma view_ok_probe:
  "view_ok (heartbeatExitFailureThreshold h) (view_of st sid') \<Longrightarrow>
     view_ok (heartbeatExitFailureThreshold h) (view_of (after_probe h st sid d base hb schedule) sid')"
  by (cases "sid' = sid") (auto simp: view_after_probe after_probe_other view_ok_spec)

text \<open>Only a probe that may schedule sets the flag.\<close>

lemma no_redeem_spec: "\<not> v_redeem v \<Longrightarrow> \<not> v_redeem (snd (lifecycle_spec th False d base p v))"
  by (cases p) (auto simp: lifecycle_spec_def new_deployment_def)

lemma redeem_set_spec:
  "v_redeem (snd (lifecycle_spec th sched d base p v)) \<Longrightarrow> \<not> v_redeem v \<Longrightarrow>
     sched \<and> base = Online \<and> p = ProbeFailed \<and> fst (lifecycle_spec th sched d base p v) = Exited"
  by (cases p) (auto simp: lifecycle_spec_def new_deployment_def split: if_splits)

section \<open>Reachable states\<close>

text \<open>Any interleaving of the operations, on any services, from the created state.\<close>

inductive lifecycle_reach :: "host \<Rightarrow> HeartbeatExitLifecycleState \<Rightarrow> bool" for h where
  created: "lifecycle_reach h createHeartbeatExitLifecycleState"
| probed: "lifecycle_reach h st \<Longrightarrow> lifecycle_reach h (after_probe h st sid d base hb schedule)"
| flag_cleared: "lifecycle_reach h st \<Longrightarrow> lifecycle_reach h (clearExitLifecycleRedeemFlag st sid)"
| service_cleared: "lifecycle_reach h st \<Longrightarrow> lifecycle_reach h (clearExitLifecycleForService st sid)"
| requeued: "lifecycle_reach h st \<Longrightarrow> lifecycle_reach h (requeueExitLifecycleRedeem st sid)"

lemma lifecycle_reach_ok:
  "lifecycle_reach h st \<Longrightarrow> view_ok (heartbeatExitFailureThreshold h) (view_of st sid)"
proof (induction rule: lifecycle_reach.induct)
  case created
  show ?case by simp
next
  case (probed st sid' d base hb schedule)
  then show ?case by (simp add: view_ok_probe)
next
  case (flag_cleared st sid')
  then show ?case by (auto simp: clear_flag_op.view_op view_ok_def)
next
  case (service_cleared st sid')
  then show ?case by (auto simp: clear_service_op.view_op view_ok_def)
next
  case (requeued st sid')
  then show ?case by (auto simp: requeue_op.view_op view_ok_def)
qed

lemma sync_idem: "syncHeartbeatExitDeploymentId (syncHeartbeatExitDeploymentId st sid d) sid d = syncHeartbeatExitDeploymentId st sid d"
  by (simp add: lifecycle_ops)

lemma effective_sync:
  "effectiveRailwayOnlineStatusAfterProbe h (syncHeartbeatExitDeploymentId st sid d) sid d base hb schedule =
     effectiveRailwayOnlineStatusAfterProbe h st sid d base hb schedule"
  by (simp add: effectiveRailwayOnlineStatusAfterProbe_def sync_idem)

lemma probe_run_sync:
  "hbs \<noteq> [] \<Longrightarrow> probe_run h sid d schedule hbs (syncHeartbeatExitDeploymentId st sid d) = probe_run h sid d schedule hbs st"
  by (cases hbs) (simp_all add: effective_sync)

abbreviation fresh_view :: "string \<Rightarrow> service_view" where
  "fresh_view d \<equiv> \<lparr>v_dep = Some d, v_fails = 0, v_exited = False, v_redeem = False\<rparr>"

lemma view_sync_create:
  "view_of (syncHeartbeatExitDeploymentId createHeartbeatExitLifecycleState sid d) sid = fresh_view d"
  by (simp add: view_of_def lifecycle_ops createHeartbeatExitLifecycleState_def)

lemma probe_run_failures:
  assumes "\<forall>hb \<in> set hbs. probe_of (Some hb) = ProbeFailed"
    and "view_of st sid = \<lparr>v_dep = Some d, v_fails = k, v_exited = (th \<le> k), v_redeem = (sc \<and> th \<le> k)\<rparr>"
    and "th = heartbeatExitFailureThreshold h" and "sc = sched_of h schedule"
  shows "view_of (snd (probe_run h sid d schedule hbs st)) sid =
    \<lparr>v_dep = Some d, v_fails = k + int (length hbs), v_exited = (th \<le> k + int (length hbs)),
     v_redeem = (sc \<and> th \<le> k + int (length hbs))\<rparr>"
  using assms(1,2)
proof (induction hbs arbitrary: st k)
  case (Cons hb hbs)
  let ?st1 = "after_probe h st sid d Online (Some hb) schedule"
  have "view_of ?st1 sid = \<lparr>v_dep = Some d, v_fails = k + 1, v_exited = (th \<le> k + 1), v_redeem = (sc \<and> th \<le> k + 1)\<rparr>"
    using Cons.prems assms(3,4) by (auto simp: view_probe_step)
  from Cons.IH [OF _ this] Cons.prems(1) show ?case
    by (simp add: add.assoc split: prod.splits) (metis snd_conv)
qed simp

section \<open>Properties\<close>

definition failed_probe :: "string \<Rightarrow> HeartbeatPingResult" where
  "failed_probe sid = \<lparr>hp_serviceId = sid, hp_service = ''dashboard'', hp_probeUrl = Some ''https://d/api/health'',
     hp_skipped = False, hp_ok = Some False, hp_statusCode = Some 502, hp_latencyMs = Some 12, hp_error = None\<rparr>"

definition plain_host :: host where
  "plain_host = \<lparr>h_platform = ''linux'', h_environ = None, h_process_env = Some []\<rparr>"

lemma plain_host_settings:
  "heartbeatExitFailureThreshold plain_host = 2" "railwayHeartbeatExitRedeployEnabled plain_host"
  by code_simp+

text \<open>C9: The bookkeeping of \<open>effectiveRailwayOnlineStatusAfterProbe\<close> (four maps, deployment
  change, every guard and early return) refines the abstract machine of one service: status
  shown and new view are those of \<open>lifecycle_spec\<close> on the old view.\<close>

theorem lifecycle_refines_spec:
  "(fst (effectiveRailwayOnlineStatusAfterProbe h st sid d base hb schedule),
    view_of (snd (effectiveRailwayOnlineStatusAfterProbe h st sid d base hb schedule)) sid) =
   lifecycle_spec (heartbeatExitFailureThreshold h)
     (railwayHeartbeatExitRedeployEnabled h \<and> schedule = Some True) d base (probe_of hb) (view_of st sid)"
  by (rule lifecycle_refines [symmetric])

text \<open>C10: While a deployment stays online, the status shown after every probe is \<open>exited\<close> exactly
  when the probe failed and completed at least the threshold of failures in a row (skipped
  probes keep the count, a success resets it).\<close>

theorem exited_iff_enough_trailing_failures:
  "fst (probe_run h sid d schedule hbs createHeartbeatExitLifecycleState) =
     expected_statuses (heartbeatExitFailureThreshold h) 0 (map (\<lambda>hb. probe_of (Some hb)) hbs)"
proof (cases "hbs = []")
  case False
  let ?st = "syncHeartbeatExitDeploymentId createHeartbeatExitLifecycleState sid d"
  have "v_dep (view_of ?st sid) = Some d" by (simp add: view_sync_create)
  from probe_run_spec [OF this, of h schedule hbs] False show ?thesis
    by (simp add: probe_run_sync view_sync_create comp_def)
qed simp

text \<open>A run of failed probes schedules the redeploy exactly when it is at least as long as
  the threshold and the exit redeploy is enabled.\<close>

theorem failures_schedule_redeploy:
  assumes "\<forall>hb \<in> set hbs. probe_of (Some hb) = ProbeFailed"
  shows "peekExitLifecycleRedeem (snd (probe_run h sid d (Some True) hbs createHeartbeatExitLifecycleState)) sid \<longleftrightarrow>
    railwayHeartbeatExitRedeployEnabled h \<and> heartbeatExitFailureThreshold h \<le> int (length hbs)"
proof (cases "hbs = []")
  case True
  then show ?thesis using threshold_pos [of h]
    by (simp add: peekExitLifecycleRedeem_def createHeartbeatExitLifecycleState_def)
next
  case False
  let ?st = "syncHeartbeatExitDeploymentId createHeartbeatExitLifecycleState sid d"
  have "view_of ?st sid = \<lparr>v_dep = Some d, v_fails = 0, v_exited = (heartbeatExitFailureThreshold h \<le> 0),
      v_redeem = (sched_of h (Some True) \<and> heartbeatExitFailureThreshold h \<le> 0)\<rparr>"
    using threshold_pos [of h] by (simp add: view_sync_create)
  from probe_run_failures [OF assms this refl refl] False
  have "v_redeem (view_of (snd (probe_run h sid d (Some True) hbs createHeartbeatExitLifecycleState)) sid) \<longleftrightarrow>
      railwayHeartbeatExitRedeployEnabled h \<and> heartbeatExitFailureThreshold h \<le> int (length hbs)"
    by (simp add: probe_run_sync)
  then show ?thesis by (simp add: view_of_def)
qed

theorem failures_schedule_redeploy_witness:
  "peekExitLifecycleRedeem (snd (probe_run plain_host ''s'' ''d'' (Some True)
     [failed_probe ''s'', failed_probe ''s''] createHeartbeatExitLifecycleState)) ''s''"
  by (subst failures_schedule_redeploy) (simp_all add: plain_host_settings failed_probe_def probe_of_def)

text \<open>The dashboard's own lifecycle state (probes with \<open>scheduleRedeem: false\<close>) never schedules
  a redeploy, whatever services, deployments and probe results it sees.\<close>

theorem dashboard_never_schedules:
  "\<not> peekExitLifecycleRedeem
     (fold (\<lambda>(sid, d, base, hb) st. snd (effectiveRailwayOnlineStatusAfterProbe h st sid d base hb (Some False)))
        probes createHeartbeatExitLifecycleState) sid"
proof -
  have "\<not> v_redeem (view_of (fold (\<lambda>(sid, d, base, hb) st. after_probe h st sid d base hb (Some False)) probes st) sid)"
    if "\<not> v_redeem (view_of st sid)" for st
    using that
  proof (induction probes arbitrary: st)
    case (Cons p probes)
    obtain sid' d base hb where p: "p = (sid', d, base, hb)" by (cases p)
    have "\<not> v_redeem (view_of (after_probe h st sid' d base hb (Some False)) sid)"
      using Cons.prems no_redeem_spec
      by (cases "sid = sid'") (simp_all add: view_after_probe after_probe_other)
    from Cons.IH [OF this] show ?case by (simp add: p)
  qed simp
  from this [of createHeartbeatExitLifecycleState] show ?thesis
    by (simp add: view_of_def peekExitLifecycleRedeem_def createHeartbeatExitLifecycleState_def)
qed

text \<open>Services do not interfere: probing a set of services once each gives every service the
  same lifecycle whatever the order of the probes.\<close>

theorem probe_order_irrelevant:
  assumes "distinct sids" and "distinct sids'" and "set sids = set sids'"
  shows "view_of (fold (\<lambda>sid st. snd (effectiveRailwayOnlineStatusAfterProbe h st sid (d sid) (base sid) (hb sid) sch)) sids st)
       = view_of (fold (\<lambda>sid st. snd (effectiveRailwayOnlineStatusAfterProbe h st sid (d sid) (base sid) (hb sid) sch)) sids' st)"
  by (rule probe_op.fold_order_irrelevant [OF assms])

theorem probe_order_irrelevant_witness:
  "view_of (fold (\<lambda>sid st. snd (effectiveRailwayOnlineStatusAfterProbe plain_host st sid ''d'' Online
       (Some (failed_probe sid)) (Some True))) [''a'', ''b''] createHeartbeatExitLifecycleState)
   = view_of (fold (\<lambda>sid st. snd (effectiveRailwayOnlineStatusAfterProbe plain_host st sid ''d'' Online
       (Some (failed_probe sid)) (Some True))) [''b'', ''a''] createHeartbeatExitLifecycleState)"
  by (rule probe_order_irrelevant) auto

text \<open>In every state that any interleaving of the operations reaches, a service marked as exited
  has failed at least the threshold of probes in a row.\<close>

theorem exited_has_failures:
  assumes "lifecycle_reach h st" and "lifecycleExited st sid = Some True"
  shows "\<exists>n. consecutiveFails st sid = Some n \<and> heartbeatExitFailureThreshold h \<le> n"
proof -
  from lifecycle_reach_ok [OF assms(1), of sid] assms(2)
  have "heartbeatExitFailureThreshold h \<le> coalesce (consecutiveFails st sid) 0"
    by (simp add: view_ok_def view_of_def)
  with threshold_pos [of h] show ?thesis by (cases "consecutiveFails st sid") auto
qed

definition two_failures :: HeartbeatExitLifecycleState where
  "two_failures = snd (probe_run plain_host ''s'' ''d'' (Some True)
     [failed_probe ''s'', failed_probe ''s''] createHeartbeatExitLifecycleState)"

lemma two_failures_reach: "lifecycle_reach plain_host two_failures"
  unfolding two_failures_def probe_run.simps
  by (simp add: case_prod_beta Let_def) (intro lifecycle_reach.intros)

theorem exited_has_failures_witness:
  "lifecycleExited two_failures ''s'' = Some True \<and> (\<exists>n. consecutiveFails two_failures ''s'' = Some n \<and> 2 \<le> n)"
proof -
  have ex: "lifecycleExited two_failures ''s'' = Some True" by code_simp
  from exited_has_failures [OF two_failures_reach ex] ex show ?thesis by (simp add: plain_host_settings)
qed

text \<open>A scheduled redeploy outlives the condition that scheduled it: after two failures the
  service leaves \<open>online\<close> (the same deployment is throttled, say), the exited mark is cleared but
  the flag stays, so the next tick that finds it healthy again still redeploys it.\<close>

theorem stale_redeem_flag:
  "let st = snd (effectiveRailwayOnlineStatusAfterProbe plain_host two_failures ''s'' ''d'' Deploying
                  (Some (failed_probe ''s'')) (Some True))
   in lifecycleExited st ''s'' = None \<and> consecutiveFails st ''s'' = None \<and> peekExitLifecycleRedeem st ''s''"
  by code_simp

end
