(* ===== verification/ServiceHeartbeat.thy ===== *)
theory ServiceHeartbeat
  imports HeartbeatLifecycle
begin

text \<open>
  \<^verbatim>\<open>dashboard/src/lib/watchdog-core/service-heartbeat.ts\<close>: which services are probed over
  HTTP, the URL of the probe (public or private mesh), one probe and the probes of a list of
  rows.
\<close>

section \<open>Which path is probed\<close>

definition INTERNAL_HTTP_SERVICES :: "string list" where
  "INTERNAL_HTTP_SERVICES =
     map js_lower
       [''db'', ''dashboard-db'', ''postgres'', ''redis'', ''kafka'', ''zookeeper'',
        ''kafka-log-consumer'', ''prometheus'', ''alertmanager'', ''db-backup'']"

definition heartbeatPathForService :: "string \<Rightarrow> string option" where
  "heartbeatPathForService serviceName =
     (let s = js_lower (js_trim serviceName)
      in if s = [] then None
         else if s \<in> set INTERNAL_HTTP_SERVICES then None
         else if js_includes s ''postgres'' \<and> \<not> js_includes s ''shortener'' then None
         else if s = ''dashboard-backend'' then Some ''/api/health''
         else if s = ''dashboard'' then Some ''/api/health''
         else if s = ''user-frontend'' then Some ''/''
         else if s = ''load-balancer'' \<or> js_startsWith s ''url-shortener'' then Some ''/live''
         else if s = ''railway-watchdog'' then Some ''/health''
         else None)"

definition heartbeatInternalPort :: "host \<Rightarrow> int" where
  "heartbeatInternalPort h =
     int_setting (runtimeEnv h ''RAILWAY_HEARTBEAT_INTERNAL_PORT'') ''8080'' (\<lambda>n. 0 < n \<and> n < 65536) 8080"

definition shouldUsePrivateRailwayHeartbeat :: "host \<Rightarrow> bool" where
  "shouldUsePrivateRailwayHeartbeat h =
     (let explicit = flag_text (runtimeEnv h ''RAILWAY_HEARTBEAT_USE_PRIVATE_URL'') []
      in if is_off explicit then False
         else if is_on explicit then True
         else truthy (map_option js_trim (runtimeEnv h ''RAILWAY_PRIVATE_DOMAIN'')))"

section \<open>The URL of a probe\<close>

text \<open>\<open>replace(/\s+/g, "-")\<close>: every run of white space becomes one dash.\<close>

fun dash_spaces :: "bool \<Rightarrow> string \<Rightarrow> string" where
  "dash_spaces inrun [] = []"
| "dash_spaces inrun (c # s) =
     (if is_ws c then (if inrun then dash_spaces True s else CHR ''-'' # dash_spaces True s)
      else c # dash_spaces False s)"

definition serviceInternalHostname :: "string \<Rightarrow> string" where
  "serviceInternalHostname serviceName = dash_spaces False (js_lower (js_trim serviceName))"

text \<open>\<open>/^https?:\/\//i.test(s)\<close>.\<close>

definition has_http_scheme :: "string \<Rightarrow> bool" where
  "has_http_scheme s \<longleftrightarrow> js_startsWith (js_lower s) ''http://'' \<or> js_startsWith (js_lower s) ''https://''"

definition normalizePublicUrlForFetch :: "string \<Rightarrow> string" where
  "normalizePublicUrlForFetch raw =
     (let s = js_trim raw
      in if s = [] then s
         else if has_http_scheme s then s
         else if js_startsWith s ''//'' then ''https:'' @ s
         else ''https://'' @ s)"

definition buildHeartbeatProbeUrl :: "host \<Rightarrow> string option \<Rightarrow> string \<Rightarrow> string option" where
  "buildHeartbeatProbeUrl h publicUrl serviceName =
     (case heartbeatPathForService serviceName of
        None \<Rightarrow> None
      | Some path \<Rightarrow>
          if shouldUsePrivateRailwayHeartbeat h
          then Some (''http://'' @ serviceInternalHostname serviceName @ ''.railway.internal:''
                     @ show_int (heartbeatInternalPort h) @ path)
          else (let raw = js_trim (coalesce publicUrl [])
                in if raw = [] then None
                   else Some (strip_trailing CHR ''/'' (normalizePublicUrlForFetch raw) @ path)))"

section \<open>Probing\<close>

record ping_outcome =
  po_ok :: bool
  po_statusCode :: "int option"
  po_latencyMs :: int
  po_error :: "string option"

text \<open>
  \<open>pingHeartbeatUrl\<close>: the abort timer makes \<open>fetch\<close> throw, so a timeout is one of the thrown
  outcomes of the remote side.
\<close>

definition pingHeartbeatUrl :: "remote \<Rightarrow> string \<Rightarrow> world \<Rightarrow> ping_outcome \<times> world" where
  "pingHeartbeatUrl R probeUrl w =
     (let (t0, w1) = date_now R w;
          (res, w2) = send_http R probeUrl w1;
          (t1, w3) = date_now R w2
      in (case res of
            Inr r \<Rightarrow> (\<lparr>po_ok = status_ok (hr_status r), po_statusCode = Some (hr_status r),
                       po_latencyMs = t1 - t0, po_error = None\<rparr>, w3)
          | Inl e \<Rightarrow> (\<lparr>po_ok = False, po_statusCode = None, po_latencyMs = t1 - t0,
                       po_error = Some (err_message e)\<rparr>, w3)))"

text \<open>The optional \<open>error\<close> member is spread in only when it is a non-empty string.\<close>

definition nonempty_opt :: "string option \<Rightarrow> string option" where
  "nonempty_opt x = (if truthy x then x else None)"

record heartbeat_row =
  hbr_serviceId :: string
  hbr_service :: string
  hbr_publicUrl :: "string option"

definition skipped_ping :: "heartbeat_row \<Rightarrow> HeartbeatPingResult" where
  "skipped_ping row =
     \<lparr>hp_serviceId = hbr_serviceId row, hp_service = hbr_service row, hp_probeUrl = None,
      hp_skipped = True, hp_ok = None, hp_statusCode = None, hp_latencyMs = None, hp_error = None\<rparr>"

definition ping_result :: "heartbeat_row \<Rightarrow> string \<Rightarrow> ping_outcome \<Rightarrow> HeartbeatPingResult" where
  "ping_result row url r =
     \<lparr>hp_serviceId = hbr_serviceId row, hp_service = hbr_service row, hp_probeUrl = Some url,
      hp_skipped = False, hp_ok = Some (po_ok r), hp_statusCode = po_statusCode r,
      hp_latencyMs = Some (po_latencyMs r), hp_error = nonempty_opt (po_error r)\<rparr>"

text \<open>\<open>if (!probeUrl)\<close>: absent or empty.\<close>

fun pingRailwayServiceHeartbeats ::
  "remote \<Rightarrow> host \<Rightarrow> heartbeat_row list \<Rightarrow> world \<Rightarrow> HeartbeatPingResult list \<times> world" where
  "pingRailwayServiceHeartbeats R h [] w = ([], w)"
| "pingRailwayServiceHeartbeats R h (row # rows) w =
     (let probeUrl = nonempty_opt (buildHeartbeatProbeUrl h (hbr_publicUrl row) (hbr_service row));
          (b, w1) = (case probeUrl of
                       None \<Rightarrow> (skipped_ping row, w)
                     | Some url \<Rightarrow> (let (r, w') = pingHeartbeatUrl R url w in (ping_result row url r, w')));
          (bs, w2) = pingRailwayServiceHeartbeats R h rows w1
      in (b # bs, w2))"

section \<open>Lemmas\<close>

lemma nonempty_opt_eq: "nonempty_opt x = Some v \<longleftrightarrow> x = Some v \<and> v \<noteq> []"
  by (cases x) (auto simp: nonempty_opt_def)

lemma ping_trace [world_simps, simp]:
  "w_trace (snd (pingHeartbeatUrl R url w)) = w_trace w @ [Call_http url]"
  by (simp add: pingHeartbeatUrl_def date_now_def send_http_def Let_def split: sum.splits)

lemma ping_ok_iff:
  "po_ok (fst (pingHeartbeatUrl R url w)) \<longleftrightarrow>
     (\<exists>r. o_http R (w_trace w) url = Inr r \<and> status_ok (hr_status r))"
  by (auto simp: pingHeartbeatUrl_def date_now_def send_http_def Let_def split: sum.splits)

lemma path_not_Nil: "heartbeatPathForService s = Some p \<Longrightarrow> p \<noteq> []"
  by (auto simp: heartbeatPathForService_def Let_def split: if_splits)

lemma probe_url_not_Nil: "buildHeartbeatProbeUrl h u s = Some url \<Longrightarrow> url \<noteq> []"
  by (auto simp: buildHeartbeatProbeUrl_def Let_def dest: path_not_Nil split: option.splits if_splits)

lemma probe_url_nonempty [simp]:
  "nonempty_opt (buildHeartbeatProbeUrl h u s) = buildHeartbeatProbeUrl h u s"
  using probe_url_not_Nil [of h u s]
  by (cases "buildHeartbeatProbeUrl h u s") (auto simp: nonempty_opt_def)

lemma has_http_scheme_https: "has_http_scheme (''https:'' @ s) \<longleftrightarrow> js_startsWith (js_lower s) ''//''"
  by (simp add: has_http_scheme_def js_startsWith_def js_lower_def lower_char_def Let_def)

lemma js_startsWith_iff: "js_startsWith s p \<longleftrightarrow> (\<exists>t. s = p @ t)"
  unfolding js_startsWith_def by (metis append_eq_conv_conj append_take_drop_id)

lemma normalize_has_scheme:
  "js_trim raw \<noteq> [] \<Longrightarrow> has_http_scheme (normalizePublicUrlForFetch raw)"
proof -
  assume ne: "js_trim raw \<noteq> []"
  let ?s = "js_trim raw"
  have slashes: "js_lower (''//'' @ t) = ''//'' @ js_lower t" for t
    by (simp add: js_lower_def lower_char_def)
  have "has_http_scheme (''https://'' @ ?s)"
    using has_http_scheme_https [of "''//'' @ ?s"] slashes [of ?s] by (simp add: js_startsWith_def)
  moreover have "has_http_scheme (''https:'' @ ?s)" if p: "js_startsWith ?s ''//''"
  proof -
    from p obtain t where "?s = ''//'' @ t" by (auto simp: js_startsWith_iff)
    then show ?thesis using has_http_scheme_https [of ?s] slashes [of t] by (simp add: js_startsWith_def)
  qed
  ultimately show ?thesis using ne by (simp add: normalizePublicUrlForFetch_def Let_def)
qed

lemma normalize_trimmed: "trimmed (normalizePublicUrlForFetch raw)"
proof -
  have "trimmed (''https:'' @ s)" if "trimmed s" "s \<noteq> []" for s
    using that by (simp add: trimmed_def is_ws_def)
  moreover have "trimmed (''https://'' @ s)" if "trimmed s" "s \<noteq> []" for s
    using that by (simp add: trimmed_def is_ws_def)
  ultimately show ?thesis
    using trimmed_js_trim [of raw] by (simp add: normalizePublicUrlForFetch_def Let_def trimmed_def [of "[]"])
qed

lemma normalize_idem:
  "normalizePublicUrlForFetch (normalizePublicUrlForFetch raw) = normalizePublicUrlForFetch raw"
proof (cases "js_trim raw = []")
  case True
  then show ?thesis by (simp add: normalizePublicUrlForFetch_def)
next
  case False
  have "js_trim (normalizePublicUrlForFetch raw) = normalizePublicUrlForFetch raw"
    by (rule js_trim_trimmed) (rule normalize_trimmed)
  moreover have "normalizePublicUrlForFetch t = t" if "js_trim t = t" "has_http_scheme t" for t
    using that by (simp add: normalizePublicUrlForFetch_def Let_def)
  ultimately show ?thesis using normalize_has_scheme [OF False] by simp
qed

lemma internal_never_probed:
  "js_lower (js_trim s) \<in> set INTERNAL_HTTP_SERVICES \<Longrightarrow> buildHeartbeatProbeUrl h u s = None"
  by (simp add: buildHeartbeatProbeUrl_def heartbeatPathForService_def Let_def)

text \<open>The probes of a list of rows, against the specification of each result.\<close>

definition heartbeat_calls :: "host \<Rightarrow> heartbeat_row list \<Rightarrow> call list" where
  "heartbeat_calls h rows =
     map Call_http (List.map_filter (\<lambda>row. buildHeartbeatProbeUrl h (hbr_publicUrl row) (hbr_service row)) rows)"

lemma heartbeats_Cons:
  "pingRailwayServiceHeartbeats R h (row # rows) w =
     (case buildHeartbeatProbeUrl h (hbr_publicUrl row) (hbr_service row) of
        None \<Rightarrow> (skipped_ping row # fst (pingRailwayServiceHeartbeats R h rows w),
                 snd (pingRailwayServiceHeartbeats R h rows w))
      | Some url \<Rightarrow>
          (let w1 = snd (pingHeartbeatUrl R url w)
           in (ping_result row url (fst (pingHeartbeatUrl R url w)) # fst (pingRailwayServiceHeartbeats R h rows w1),
               snd (pingRailwayServiceHeartbeats R h rows w1))))"
  by (simp add: Let_def case_prod_beta split: option.splits)

lemma heartbeats_trace:
  "w_trace (snd (pingRailwayServiceHeartbeats R h rows w)) = w_trace w @ heartbeat_calls h rows"
proof (induction rows arbitrary: w)
  case (Cons row rows)
  then show ?case
    by (simp add: heartbeats_Cons heartbeat_calls_def Let_def map_filter_simps
        del: pingRailwayServiceHeartbeats.simps split: option.splits)
qed (simp add: heartbeat_calls_def map_filter_simps)

lemma heartbeats_per_row:
  "list_all2 (\<lambda>row b. hp_serviceId b = hbr_serviceId row \<and> hp_service b = hbr_service row \<and>
       hp_probeUrl b = buildHeartbeatProbeUrl h (hbr_publicUrl row) (hbr_service row) \<and>
       (hp_skipped b \<longleftrightarrow> hp_probeUrl b = None) \<and> (hp_ok b = None \<longleftrightarrow> hp_skipped b))
     rows (fst (pingRailwayServiceHeartbeats R h rows w))"
proof (induction rows arbitrary: w)
  case (Cons row rows)
  then show ?case
    by (simp add: heartbeats_Cons Let_def skipped_ping_def ping_result_def
        del: pingRailwayServiceHeartbeats.simps split: option.splits)
qed simp

section \<open>Properties\<close>

text \<open>A public URL that is not blank becomes one with an HTTP scheme, so \<open>fetch\<close> can parse it,
  and normalising it again changes nothing.\<close>

theorem normalized_url_has_scheme:
  assumes "js_trim raw \<noteq> []"
  shows "has_http_scheme (normalizePublicUrlForFetch raw) \<and>
    normalizePublicUrlForFetch (normalizePublicUrlForFetch raw) = normalizePublicUrlForFetch raw"
  using normalize_has_scheme [OF assms] normalize_idem by simp

theorem normalized_url_has_scheme_witness:
  "has_http_scheme (normalizePublicUrlForFetch '' foo.up.railway.app'') \<and>
   normalizePublicUrlForFetch '' foo.up.railway.app'' = ''https://foo.up.railway.app''"
proof -
  have "js_trim '' foo.up.railway.app'' \<noteq> []" by code_simp
  moreover have "normalizePublicUrlForFetch '' foo.up.railway.app'' = ''https://foo.up.railway.app''"
    by code_simp
  ultimately show ?thesis using normalized_url_has_scheme [of "'' foo.up.railway.app''"] by simp
qed

text \<open>Data and internal services (databases, Kafka, Redis, Prometheus, ...) are never probed,
  in whatever case or padding their name is written and whatever URL they publish.\<close>

theorem internal_services_never_probed:
  assumes "js_lower (js_trim s) \<in> set INTERNAL_HTTP_SERVICES"
  shows "buildHeartbeatProbeUrl h u s = None"
  by (rule internal_never_probed [OF assms])

theorem internal_services_never_probed_witness:
  "buildHeartbeatProbeUrl plain_host (Some ''redis.up.railway.app'') '' Redis '' = None"
  by (rule internal_services_never_probed) code_simp

text \<open>\<open>pingRailwayServiceHeartbeats\<close> gives one result per row, in order and under the row's
  ids; a row is skipped exactly when it has no probe URL; and the only requests sent are the
  probes of the rows that have one, one each.\<close>

theorem heartbeats_one_per_row:
  "list_all2 (\<lambda>row b. hp_serviceId b = hbr_serviceId row \<and> hp_service b = hbr_service row \<and>
       hp_probeUrl b = buildHeartbeatProbeUrl h (hbr_publicUrl row) (hbr_service row) \<and>
       (hp_skipped b \<longleftrightarrow> hp_probeUrl b = None) \<and> (hp_ok b = None \<longleftrightarrow> hp_skipped b))
     rows (fst (pingRailwayServiceHeartbeats R h rows w)) \<and>
   w_trace (snd (pingRailwayServiceHeartbeats R h rows w)) =
     w_trace w @ map Call_http
       (List.map_filter (\<lambda>row. buildHeartbeatProbeUrl h (hbr_publicUrl row) (hbr_service row)) rows)"
  using heartbeats_per_row heartbeats_trace by (simp add: heartbeat_calls_def)

end
