(* ===== verification/RailwayVisibility.thy ===== *)
theory RailwayVisibility
  imports ServiceHeartbeat
begin

text \<open>
  \<^verbatim>\<open>dashboard/src/lib/watchdog-core/railway-visibility.ts\<close>: the GraphQL client, the status
  tables, the visibility rows with their metrics, and the mutations used by the chaos actions
  and the watchdog. Thrown errors are the left side of a sum.
\<close>

section \<open>The GraphQL client\<close>

definition railwayGraphql ::
  "remote \<Rightarrow> host \<Rightarrow> gql_request \<Rightarrow> world \<Rightarrow> (thrown + gql_data) \<times> world" where
  "railwayGraphql R h q w =
     (case getRailwayGraphqlAuthHeaders h of
        Inl e \<Rightarrow> (Inl e, w)
      | Inr headers \<Rightarrow>
          (let (res, w1) = send_gql R q w
           in (case res of
                 Inl e \<Rightarrow> (Inl e, w1)
               | Inr r \<Rightarrow>
                   (case gr_json r of
                      Inl e \<Rightarrow> (Inl e, w1)
                    | Inr body \<Rightarrow>
                        if \<not> status_ok (gr_status r)
                        then (Inl (new_Error (''Railway API HTTP '' @ show_int (gr_status r))), w1)
                        else if coalesce (gb_errors body) [] \<noteq> []
                        then (Inl (new_Error (js_join ''; '' (coalesce (gb_errors body) []))), w1)
                        else (case gb_data body of
                                None \<Rightarrow> (Inl (new_Error ''Railway API returned no data''), w1)
                              | Some d \<Rightarrow> (Inr d, w1))))))"

section \<open>Status tables\<close>

text \<open>The statuses of a deployment in flight, the same list in both tables.\<close>

definition in_flight :: "string \<Rightarrow> bool" where
  "in_flight s \<longleftrightarrow>
     s = ''BUILDING'' \<or> s = ''DEPLOYING'' \<or> s = ''INITIALIZING'' \<or> s = ''NEEDS_APPROVAL'' \<or>
     s = ''QUEUED'' \<or> s = ''WAITING'' \<or> s = ''REMOVING'' \<or> s = ''THROTTLED''"

definition deploymentStatusToState :: "string \<Rightarrow> string \<times> string option" where
  "deploymentStatusToState status =
     (let s = js_upper (js_trim status)
      in if s = [] \<or> s = ''UNKNOWN'' then (''unknown'', None)
         else if s = ''SUCCESS'' then (''running'', Some ''healthy'')
         else if s = ''SLEEPING'' then (''running'', None)
         else if in_flight s then (''running'', Some ''starting'')
         else if s = ''FAILED'' \<or> s = ''CRASHED'' then (''exited'', Some ''unhealthy'')
         else if s = ''REMOVED'' then (''dead'', None)
         else if s = ''STOPPED'' \<or> s = ''CANCELED'' \<or> s = ''CANCELLED'' then (''exited'', None)
         else if s = ''SKIPPED'' then (''skipped'', None)
         else (''unknown'', None))"

definition deploymentStatusToRailwayUi :: "string option \<Rightarrow> bool \<Rightarrow> RailwayOnlineStatus" where
  "deploymentStatusToRailwayUi deploymentStatus hasActiveDeployment =
     (if \<not> hasActiveDeployment then Completed
      else (let s = js_upper (js_trim (coalesce deploymentStatus []))
            in if s = [] \<or> s = ''UNKNOWN'' then Unknown
               else if s = ''SUCCESS'' \<or> s = ''SLEEPING'' then Online
               else if in_flight s then Deploying
               else if s = ''FAILED'' \<or> s = ''CRASHED'' then Failed
               else if s = ''REMOVED'' \<or> s = ''STOPPED'' \<or> s = ''CANCELED'' \<or> s = ''CANCELLED'' then Completed
               else if s = ''SKIPPED'' then Skipped
               else Unknown))"

section \<open>The batch query\<close>

abbreviation nl :: string where "nl \<equiv> [CHR 0x0A]"
abbreviation dq :: string where "dq \<equiv> [CHR 0x22]"

definition alias_key :: "nat \<Rightarrow> string" where
  "alias_key i = CHR ''d'' # show_nat i"

definition batch_part :: "string \<Rightarrow> string \<Rightarrow> nat \<Rightarrow> string \<Rightarrow> string" where
  "batch_part projectId environmentId i sid =
     nl @ ''    '' @ alias_key i @ '': deployments(first: 1, input: { projectId: '' @ dq @ projectId @ dq
     @ '', environmentId: '' @ dq @ environmentId @ dq @ '', serviceId: '' @ dq @ sid @ dq @ '' }) {''
     @ nl @ ''      edges {'' @ nl @ ''        node {'' @ nl @ ''          id'' @ nl @ ''          status''
     @ nl @ ''          createdAt'' @ nl @ ''          url'' @ nl @ ''          staticUrl''
     @ nl @ ''        }'' @ nl @ ''      }'' @ nl @ ''    }''"

definition buildBatchDeploymentsQuery :: "string \<Rightarrow> string \<Rightarrow> string list \<Rightarrow> string \<times> string list" where
  "buildBatchDeploymentsQuery projectId environmentId serviceIds =
     (''query RailwayDeployments { ''
        @ js_join nl (map (\<lambda>(i, sid). batch_part projectId environmentId i sid) (enumerate 0 serviceIds)) @ '' }'',
      map alias_key [0..<length serviceIds])"

section \<open>Rows\<close>

text \<open>\<open>vr_created\<close> is \<^const>\<open>None\<close> when the date did not parse (\<open>NaN\<close>).\<close>

record RailwayVisibilityRow =
  vr_id :: string
  vr_name :: string
  vr_image :: string
  vr_state :: string
  vr_status :: string
  vr_deploymentStatus :: "string option"
  vr_railwayOnlineStatus :: RailwayOnlineStatus
  vr_service :: string
  vr_health :: "string option"
  vr_created :: "int option"
  vr_railwayServiceId :: string
  vr_railwayDeploymentId :: "string option"
  vr_railwayPublicUrl :: "string option"
  vr_cpuPercent :: "rat option"
  vr_memUsage :: "rat option"
  vr_memLimit :: "rat option"

record visibility_result =
  vz_project :: "string option"
  vz_projectId :: "string option"
  vz_containers :: "RailwayVisibilityRow list"
  vz_error :: "string option"

section \<open>Metrics\<close>

record ServiceMetricAcc =
  ma_cpuUsage :: "rat option"
  ma_cpuLimit :: "rat option"
  ma_memUsageGb :: "rat option"
  ma_memLimitGb :: "rat option"

definition empty_acc :: ServiceMetricAcc where
  "empty_acc = \<lparr>ma_cpuUsage = None, ma_cpuLimit = None, ma_memUsageGb = None, ma_memLimitGb = None\<rparr>"

text \<open>\<open>t >= bestT\<close> on times that may be \<open>NaN\<close>.\<close>

fun time_ge :: "int option \<Rightarrow> int option \<Rightarrow> bool" where
  "time_ge (Some a) (Some b) \<longleftrightarrow> b \<le> a"
| "time_ge _ _ \<longleftrightarrow> False"

fun latest_loop :: "(string \<Rightarrow> int option) \<Rightarrow> metric_value list \<Rightarrow> metric_value \<Rightarrow> int option \<Rightarrow> metric_value" where
  "latest_loop date [] best bestT = best"
| "latest_loop date (v # vs) best bestT =
     (let t = date (mv_ts v)
      in if time_ge t bestT then latest_loop date vs v t else latest_loop date vs best bestT)"

definition latestMetricValue :: "(string \<Rightarrow> int option) \<Rightarrow> metric_value list option \<Rightarrow> rat option" where
  "latestMetricValue date values =
     (case values of
        None \<Rightarrow> None
      | Some [] \<Rightarrow> None
      | Some (v # vs) \<Rightarrow> mv_value (latest_loop date vs v (date (mv_ts v))))"

definition record_metric :: "string \<Rightarrow> rat \<Rightarrow> ServiceMetricAcc \<Rightarrow> ServiceMetricAcc" where
  "record_metric m v acc =
     (if m = ''CPU_USAGE'' then acc\<lparr>ma_cpuUsage := Some v\<rparr>
      else if m = ''CPU_LIMIT'' then acc\<lparr>ma_cpuLimit := Some v\<rparr>
      else if m = ''MEMORY_USAGE_GB'' then acc\<lparr>ma_memUsageGb := Some v\<rparr>
      else if m = ''MEMORY_LIMIT_GB'' then acc\<lparr>ma_memLimitGb := Some v\<rparr>
      else acc)"

definition add_metric_row ::
  "(string \<Rightarrow> int option) \<Rightarrow> metric_row \<Rightarrow> (string \<rightharpoonup> ServiceMetricAcc) \<Rightarrow> (string \<rightharpoonup> ServiceMetricAcc)" where
  "add_metric_row date row out =
     (if \<not> truthy (mr_serviceId row) then out
      else (let sid = the (mr_serviceId row);
                acc = coalesce (out sid) empty_acc
            in (case latestMetricValue date (mr_values row) of
                  None \<Rightarrow> out(sid \<mapsto> acc)
                | Some v \<Rightarrow> out(sid \<mapsto> record_metric (mr_measurement row) v acc))))"

definition fetchRailwayServiceMetricsByServiceId ::
  "remote \<Rightarrow> host \<Rightarrow> string option \<Rightarrow> world \<Rightarrow> (string \<rightharpoonup> ServiceMetricAcc) \<times> world" where
  "fetchRailwayServiceMetricsByServiceId R h environmentId w =
     (let (now, w1) = date_now R w;
          (r, w2) = railwayGraphql R h (Gql_EnvMetrics environmentId (js_toISOString (now - 20 * 60 * 1000))) w1
      in (case r of
            Inl e \<Rightarrow> (Map.empty, w2)
          | Inr d \<Rightarrow> (fold (add_metric_row (o_date R)) (coalesce (gd_metrics d) []) Map.empty, w2)))"

definition apply_metrics :: "(string \<rightharpoonup> ServiceMetricAcc) \<Rightarrow> RailwayVisibilityRow \<Rightarrow> RailwayVisibilityRow" where
  "apply_metrics byService row =
     (case byService (vr_railwayServiceId row) of
        None \<Rightarrow> row
      | Some acc \<Rightarrow>
          (let gb = 1024 ^ 3;
               cpu = (case (ma_cpuUsage acc, ma_cpuLimit acc) of
                        (Some u, Some l) \<Rightarrow> if 0 < l then Some (u / l * 100) else None
                      | _ \<Rightarrow> None);
               mem = map_option (\<lambda>x. x * gb) (ma_memUsageGb acc);
               lim = map_option (\<lambda>x. x * gb) (ma_memLimitGb acc)
           in row\<lparr>vr_cpuPercent := (case cpu of None \<Rightarrow> vr_cpuPercent row | Some c \<Rightarrow> Some c),
                  vr_memUsage := (case mem of None \<Rightarrow> vr_memUsage row | Some c \<Rightarrow> Some c),
                  vr_memLimit := (case lim of None \<Rightarrow> vr_memLimit row | Some c \<Rightarrow> Some c)\<rparr>))"

definition applyRailwayMetricsToRows ::
  "RailwayVisibilityRow list \<Rightarrow> (string \<rightharpoonup> ServiceMetricAcc) \<Rightarrow> RailwayVisibilityRow list" where
  "applyRailwayMetricsToRows rows byService = map (apply_metrics byService) rows"

section \<open>Configuration\<close>

definition railwayIdsConfigured :: "host \<Rightarrow> bool" where
  "railwayIdsConfigured h \<longleftrightarrow>
     truthy (runtimeEnv h ''RAILWAY_PROJECT_ID'') \<and> truthy (runtimeEnv h ''RAILWAY_ENVIRONMENT_ID'')"

definition railwayVisibilityConfigured :: "host \<Rightarrow> bool" where
  "railwayVisibilityConfigured h \<longleftrightarrow> railwayIdsConfigured h \<and> hasRailwayGraphqlCredential h"

section \<open>Fetching the rows\<close>

text \<open>\<open>a || b || undefined\<close> on values that may be \<open>null\<close>.\<close>

definition first_url :: "deployment_node \<Rightarrow> string option" where
  "first_url dep =
     (if truthy (dn_staticUrl dep) then dn_staticUrl dep
      else if truthy (dn_url dep) then dn_url dep else None)"

definition no_deployment_row :: "(string \<rightharpoonup> string) \<Rightarrow> string \<Rightarrow> RailwayVisibilityRow" where
  "no_deployment_row byId sid =
     \<lparr>vr_id = ''service:'' @ sid, vr_name = str_or (coalesce (byId sid) []) sid, vr_image = ''Railway'',
      vr_state = ''exited'', vr_status = ''No active deployment'', vr_deploymentStatus = None,
      vr_railwayOnlineStatus = deploymentStatusToRailwayUi None False,
      vr_service = coalesce (byId sid) [], vr_health = None, vr_created = Some 0,
      vr_railwayServiceId = sid, vr_railwayDeploymentId = None, vr_railwayPublicUrl = None,
      vr_cpuPercent = None, vr_memUsage = None, vr_memLimit = None\<rparr>"

definition deployment_row ::
  "(string \<Rightarrow> int option) \<Rightarrow> (string \<rightharpoonup> string) \<Rightarrow> string \<Rightarrow> deployment_node \<Rightarrow> RailwayVisibilityRow" where
  "deployment_row date byId sid dep =
     (let status = coalesce (dn_status dep) ''UNKNOWN'';
          (state, health) = deploymentStatusToState status;
          publicUrl = first_url dep
      in \<lparr>vr_id = dn_id dep, vr_name = str_or (coalesce (byId sid) []) sid, vr_image = ''Railway'',
          vr_state = state,
          vr_status = status @ (case publicUrl of None \<Rightarrow> [] | Some u \<Rightarrow> '' '' @ u_middot @ '' '' @ u),
          vr_deploymentStatus = Some status,
          vr_railwayOnlineStatus = deploymentStatusToRailwayUi (Some status) True,
          vr_service = coalesce (byId sid) [], vr_health = health,
          vr_created = (if truthy (dn_createdAt dep)
                        then map_option (\<lambda>t. t div 1000) (date (the (dn_createdAt dep))) else Some 0),
          vr_railwayServiceId = sid, vr_railwayDeploymentId = Some (dn_id dep),
          vr_railwayPublicUrl = publicUrl,
          vr_cpuPercent = None, vr_memUsage = None, vr_memLimit = None\<rparr>)"

text \<open>\<open>batch[key]?.edges?.[0]?.node\<close>.\<close>

definition first_deployment :: "gql_data \<Rightarrow> string \<Rightarrow> deployment_node option" where
  "first_deployment batch key =
     (case map_of (gd_conns batch) key of
        Some (Some (n # ns)) \<Rightarrow> n
      | _ \<Rightarrow> None)"

definition service_row ::
  "(string \<Rightarrow> int option) \<Rightarrow> (string \<rightharpoonup> string) \<Rightarrow> gql_data \<Rightarrow> string \<Rightarrow> string \<Rightarrow> RailwayVisibilityRow" where
  "service_row date byId batch sid key =
     (case first_deployment batch key of
        None \<Rightarrow> no_deployment_row byId sid
      | Some dep \<Rightarrow> deployment_row date byId sid dep)"

definition services_by_id :: "service_node list \<Rightarrow> string \<rightharpoonup> string" where
  "services_by_id services = map_of (rev (map (\<lambda>s. (sn_id s, sn_name s)) services))"

definition batch_rows ::
  "(string \<Rightarrow> int option) \<Rightarrow> service_node list \<Rightarrow> gql_data \<Rightarrow> string list \<Rightarrow> RailwayVisibilityRow list" where
  "batch_rows date services batch aliasKeys =
     map2 (service_row date (services_by_id services) batch) (map sn_id services) aliasKeys"

text \<open>\<open>(edges || []).map((e) => e.node).filter(Boolean)\<close>.\<close>

definition project_services :: "project_node \<Rightarrow> service_node list" where
  "project_services p = List.map_filter id (coalesce (pn_edges p) [])"

definition visibility_error ::
  "string option \<Rightarrow> string option \<Rightarrow> string \<Rightarrow> visibility_result" where
  "visibility_error project projectId msg =
     \<lparr>vz_project = project, vz_projectId = projectId, vz_containers = [], vz_error = Some msg\<rparr>"

definition visibility_rows ::
  "string option \<Rightarrow> string option \<Rightarrow> RailwayVisibilityRow list \<Rightarrow> visibility_result" where
  "visibility_rows project projectId rows =
     \<lparr>vz_project = project, vz_projectId = projectId, vz_containers = rows, vz_error = None\<rparr>"

text \<open>
  In a template literal an undefined id reads \<open>undefined\<close>. \<open>fetch_batch\<close> is the part after
  the services are known and not empty.
\<close>

definition fetch_batch ::
  "remote \<Rightarrow> host \<Rightarrow> bool \<Rightarrow> string option \<Rightarrow> string option \<Rightarrow> string option \<Rightarrow> service_node list \<Rightarrow>
     world \<Rightarrow> visibility_result \<times> world" where
  "fetch_batch R h includeStats projectName projectId environmentId services w =
     (let (query, aliasKeys) =
            buildBatchDeploymentsQuery (coalesce projectId ''undefined'') (coalesce environmentId ''undefined'')
              (map sn_id services);
          (r, w1) = railwayGraphql R h (Gql_DeploymentsBatch query) w
      in (case r of
            Inl e \<Rightarrow> (visibility_error projectName projectId
                       (err_message_or ''Railway deployments query failed'' e), w1)
          | Inr batch \<Rightarrow>
              (let rows = batch_rows (o_date R) services batch aliasKeys
               in if includeStats \<and> rows \<noteq> []
                  then (let (byService, w2) = fetchRailwayServiceMetricsByServiceId R h environmentId w1
                        in (visibility_rows projectName projectId (applyRailwayMetricsToRows rows byService), w2))
                  else (visibility_rows projectName projectId rows, w1))))"

definition fetchRailwayVisibilityRows ::
  "remote \<Rightarrow> host \<Rightarrow> bool \<Rightarrow> world \<Rightarrow> visibility_result \<times> world" where
  "fetchRailwayVisibilityRows R h includeStats w =
     (let projectId = runtimeEnv h ''RAILWAY_PROJECT_ID'';
          environmentId = runtimeEnv h ''RAILWAY_ENVIRONMENT_ID'';
          (r, w1) = railwayGraphql R h (Gql_ProjectServices projectId) w
      in (case r of
            Inl e \<Rightarrow> (visibility_error projectId projectId
                       (err_message_or ''Railway project query failed'' e), w1)
          | Inr d \<Rightarrow>
              (case gd_project d of
                 None \<Rightarrow> (visibility_error projectId projectId
                            ''Railway project not found (check RAILWAY_PROJECT_ID)'', w1)
               | Some p \<Rightarrow>
                   (let projectName = (if pn_name p \<noteq> [] then Some (pn_name p) else projectId);
                        services = project_services p
                    in if services = [] then (visibility_rows projectName projectId [], w1)
                       else fetch_batch R h includeStats projectName projectId environmentId services w1))))"

section \<open>Mutations\<close>

text \<open>Reading a boolean field of the reply: \<^const>\<open>None\<close> is \<open>undefined\<close>, an inner one \<open>null\<close>.\<close>

definition flag_field :: "gql_data \<Rightarrow> string \<Rightarrow> bool option option" where
  "flag_field d name = map_of (gd_flags d) name"

definition railwayDeploymentRestart ::
  "remote \<Rightarrow> host \<Rightarrow> string \<Rightarrow> world \<Rightarrow> (thrown + unit) \<times> world" where
  "railwayDeploymentRestart R h deploymentId w =
     (let (r, w1) = railwayGraphql R h (Gql_DeploymentRestart deploymentId) w
      in (case r of
            Inl e \<Rightarrow> (Inl e, w1)
          | Inr d \<Rightarrow>
              if flag_field d ''deploymentRestart'' = Some (Some False)
              then (Inl (new_Error
                     (''Railway deploymentRestart returned false '' @ u_emdash
                      @ '' check token permissions and deployment state.'')), w1)
              else (Inr (), w1)))"

definition railwayServiceInstanceDeployLatest ::
  "remote \<Rightarrow> host \<Rightarrow> string \<Rightarrow> string \<Rightarrow> world \<Rightarrow> (thrown + unit) \<times> world" where
  "railwayServiceInstanceDeployLatest R h environmentId serviceId w =
     (let (r, w1) = railwayGraphql R h (Gql_ServiceInstanceDeploy environmentId serviceId) w
      in (map_sum id (\<lambda>_. ()) r, w1))"

definition railwayChaosLog ::
  "host \<Rightarrow> string \<Rightarrow> (string \<times> string) list \<Rightarrow> world \<Rightarrow> world" where
  "railwayChaosLog h event data w =
     (if runtimeEnv h ''CHAOS_RAILWAY_LOG'' = Some ''0'' then w
      else console_info (''[dashboard][railway-chaos] '' @ event) data w)"

definition show_flag :: "bool option option \<Rightarrow> string" where
  "show_flag f = (case f of None \<Rightarrow> ''undefined'' | Some None \<Rightarrow> ''null''
                  | Some (Some b) \<Rightarrow> if b then ''true'' else ''false'')"

text \<open>\<open>e instanceof Error ? e : new Error(String(e))\<close>.\<close>

definition to_error :: "thrown \<Rightarrow> thrown" where
  "to_error e = (case e of ErrorObject n m c \<Rightarrow> e | OtherValue s \<Rightarrow> new_Error s)"

datatype halt_method = DeploymentStop | DeploymentRemove

text \<open>The second half of the halt, after \<open>deploymentStop\<close> was not confirmed.\<close>

definition halt_remove ::
  "remote \<Rightarrow> host \<Rightarrow> string \<Rightarrow> thrown option \<Rightarrow> bool option option \<Rightarrow> world \<Rightarrow> (thrown + halt_method) \<times> world" where
  "halt_remove R h deploymentId stopErr stopResult w =
     (let idShort = take 10 deploymentId @ u_ellipsis;
          w0 = (if stopResult = Some (Some False)
                then railwayChaosLog h ''halt:deploymentStop_false_try_remove'' [(''deploymentId'', idShort)] w
                else if stopErr = None \<and> stopResult \<noteq> Some (Some True)
                then railwayChaosLog h ''halt:deploymentStop_not_true_try_remove''
                       [(''deploymentId'', idShort), (''deploymentStop'', show_flag stopResult)] w
                else w);
          failed = (\<lambda>msg w'.
            (Inl (new_Error
               (case stopErr of
                  Some se \<Rightarrow> ''Railway halt failed: deploymentStop ('' @ err_message se
                               @ ''); deploymentRemove ('' @ msg @ '')''
                | None \<Rightarrow> ''Railway halt failed: deploymentStop did not return true; deploymentRemove ('' @ msg @ '')'')),
             railwayChaosLog h ''halt:deploymentRemove_error''
               [(''deploymentId'', idShort), (''message'', msg)] w'));
          (r, w1) = railwayGraphql R h (Gql_DeploymentRemove deploymentId) w0
      in (case r of
            Inl e \<Rightarrow> failed (err_message e) w1
          | Inr d \<Rightarrow>
              (let w2 = railwayChaosLog h ''halt:deploymentRemove_response''
                          [(''deploymentId'', idShort),
                           (''deploymentRemove'', show_flag (flag_field d ''deploymentRemove''))] w1
               in if flag_field d ''deploymentRemove'' = Some (Some False)
                  then failed ''deploymentRemove returned false'' w2
                  else (Inr DeploymentRemove, w2))))"

definition railwayChaosHaltDeployment ::
  "remote \<Rightarrow> host \<Rightarrow> string \<Rightarrow> world \<Rightarrow> (thrown + halt_method) \<times> world" where
  "railwayChaosHaltDeployment R h deploymentId w =
     (let idShort = take 10 deploymentId @ u_ellipsis;
          w0 = railwayChaosLog h ''halt:begin'' [(''deploymentId'', idShort)] w;
          (r, w1) = railwayGraphql R h (Gql_DeploymentStop deploymentId) w0
      in (case r of
            Inr d \<Rightarrow>
              (let stopResult = flag_field d ''deploymentStop'';
                   w2 = railwayChaosLog h ''halt:deploymentStop_response''
                          [(''deploymentId'', idShort), (''deploymentStop'', show_flag stopResult)] w1
               in if stopResult = Some (Some True) then (Inr DeploymentStop, w2)
                  else halt_remove R h deploymentId None stopResult w2)
          | Inl e \<Rightarrow>
              (let stopErr = to_error e;
                   w2 = railwayChaosLog h ''halt:deploymentStop_error''
                          [(''deploymentId'', idShort), (''message'', err_message stopErr)] w1
               in halt_remove R h deploymentId (Some stopErr) None w2)))"

definition getRailwayChaosRowForService ::
  "remote \<Rightarrow> host \<Rightarrow> string \<Rightarrow> world \<Rightarrow> RailwayVisibilityRow option \<times> world" where
  "getRailwayChaosRowForService R h railwayServiceId w =
     (let (r, w1) = fetchRailwayVisibilityRows R h False w
      in (if truthy (vz_error r) then None
          else find (\<lambda>c. vr_railwayServiceId c = railwayServiceId) (vz_containers r), w1))"

section \<open>What the GraphQL calls do to the trace\<close>

lemma chaosLog_trace [world_simps, simp]: "w_trace (railwayChaosLog h ev d w) = w_trace w"
  by (simp add: railwayChaosLog_def)

text \<open>A GraphQL operation is sent exactly when there is a credential.\<close>

definition gql_calls :: "host \<Rightarrow> gql_request list \<Rightarrow> call list" where
  "gql_calls h qs = (if hasRailwayGraphqlCredential h then map Call_gql qs else [])"

lemma gql_calls_Nil [simp]: "gql_calls h [] = []"
  by (simp add: gql_calls_def)

lemma gql_calls_append: "gql_calls h (qs @ qs') = gql_calls h qs @ gql_calls h qs'"
  by (simp add: gql_calls_def)

lemma graphql_trace [world_simps, simp]:
  "w_trace (snd (railwayGraphql R h q w)) = w_trace w @ gql_calls h [q]"
  using auth_headers_iff [of h]
  by (auto simp: railwayGraphql_def gql_calls_def send_gql_def Let_def split: sum.splits option.splits)

text \<open>What is answered depends on the calls made so far, not on the clocks or the console.\<close>

lemma graphql_answer: "w_trace w = w_trace w' \<Longrightarrow> fst (railwayGraphql R h q w) = fst (railwayGraphql R h q w')"
  by (auto simp: railwayGraphql_def send_gql_def Let_def case_prod_beta split: sum.splits option.splits)

lemma graphql_no_credential:
  "\<not> hasRailwayGraphqlCredential h \<Longrightarrow> \<exists>e. fst (railwayGraphql R h q w) = Inl e"
  using auth_headers_iff [of h] by (auto simp: railwayGraphql_def split: sum.splits)

lemma graphql_no_credential_eq:
  "\<not> hasRailwayGraphqlCredential h \<Longrightarrow> railwayGraphql R h q w =
     (Inl (new_Error ''Set RAILWAY_PROJECT_TOKEN or RAILWAY_API_TOKEN for Railway visibility''), w)"
  by (simp add: railwayGraphql_def getRailwayGraphqlAuthHeaders_def has_credential_iff)

lemma deploy_trace [world_simps, simp]:
  "w_trace (snd (railwayServiceInstanceDeployLatest R h env sid w)) =
     w_trace w @ gql_calls h [Gql_ServiceInstanceDeploy env sid]"
  by (simp add: railwayServiceInstanceDeployLatest_def case_prod_beta Let_def)

lemma restart_trace [world_simps, simp]:
  "w_trace (snd (railwayDeploymentRestart R h d w)) = w_trace w @ gql_calls h [Gql_DeploymentRestart d]"
  by (simp add: railwayDeploymentRestart_def case_prod_beta Let_def split: sum.splits)

lemma halt_remove_trace:
  "w_trace (snd (halt_remove R h d se sr w)) = w_trace w @ gql_calls h [Gql_DeploymentRemove d]"
  by (simp add: halt_remove_def case_prod_beta Let_def split: sum.splits)

lemma metrics_trace:
  "\<exists>s. w_trace (snd (fetchRailwayServiceMetricsByServiceId R h env w)) = w_trace w @ gql_calls h [Gql_EnvMetrics env s]"
  by (auto simp: fetchRailwayServiceMetricsByServiceId_def date_now_def case_prod_beta Let_def split: sum.splits)

text \<open>Queries, as opposed to the calls that change a deployment or a container.\<close>

fun is_query :: "call \<Rightarrow> bool" where
  "is_query (Call_gql (Gql_ProjectServices p)) \<longleftrightarrow> True"
| "is_query (Call_gql (Gql_DeploymentsBatch q)) \<longleftrightarrow> True"
| "is_query (Call_gql (Gql_EnvMetrics e s)) \<longleftrightarrow> True"
| "is_query (Call_http u) \<longleftrightarrow> True"
| "is_query (Call_docker Dk_list) \<longleftrightarrow> True"
| "is_query (Call_docker (Dk_inspect i)) \<longleftrightarrow> True"
| "is_query (Call_docker (Dk_stats i)) \<longleftrightarrow> True"
| "is_query _ \<longleftrightarrow> False"

lemma gql_calls_query: "is_query (Call_gql q) \<Longrightarrow> list_all is_query (gql_calls h [q])"
  by (simp add: gql_calls_def)

text \<open>The trace of a computation extends the old one with queries only.\<close>

definition only_queries :: "world \<Rightarrow> world \<Rightarrow> bool" where
  "only_queries w w' \<longleftrightarrow> (\<exists>cs. w_trace w' = w_trace w @ cs \<and> list_all is_query cs)"

lemma only_queries_refl [simp]: "only_queries w w"
  by (simp add: only_queries_def)

lemma only_queries_trans: "only_queries w w1 \<Longrightarrow> only_queries w1 w2 \<Longrightarrow> only_queries w w2"
  by (fastforce simp: only_queries_def)

lemma only_queries_graphql: "is_query (Call_gql q) \<Longrightarrow> only_queries w (snd (railwayGraphql R h q w))"
  using gql_calls_query by (auto simp: only_queries_def)

lemma only_queries_metrics: "only_queries w (snd (fetchRailwayServiceMetricsByServiceId R h env w))"
  using metrics_trace [of R h env w] gql_calls_query by (fastforce simp: only_queries_def)

lemmas only_queries_chain =
  only_queries_graphql only_queries_trans [OF only_queries_graphql only_queries_metrics]

lemma only_queries_batch: "only_queries w (snd (fetch_batch R h st pn pid env services w))"
proof -
  obtain query keys where "buildBatchDeploymentsQuery (coalesce pid ''undefined'')
      (coalesce env ''undefined'') (map sn_id services) = (query, keys)" by force
  then show ?thesis
    by (auto simp: fetch_batch_def case_prod_beta Let_def intro!: only_queries_chain split: sum.splits)
qed

lemma only_queries_rows: "only_queries w (snd (fetchRailwayVisibilityRows R h st w))"
  using only_queries_trans [OF only_queries_graphql only_queries_batch]
  by (auto simp: fetchRailwayVisibilityRows_def case_prod_beta Let_def
      intro!: only_queries_graphql split: sum.splits option.splits)

section \<open>Lemmas on rows and metrics\<close>

lemma length_batch_rows [simp]:
  "length keys = length services \<Longrightarrow> length (batch_rows date services batch keys) = length services"
  by (simp add: batch_rows_def)

lemma service_row_id [simp]: "vr_railwayServiceId (service_row date byId batch sid key) = sid"
  by (simp add: service_row_def no_deployment_row_def deployment_row_def Let_def
      split: option.splits prod.splits)

lemma batch_rows_ids:
  "length keys = length services \<Longrightarrow>
     map vr_railwayServiceId (batch_rows date services batch keys) = map sn_id services"
  by (auto simp: batch_rows_def list_eq_iff_nth_eq)

lemma apply_metrics_id [simp]: "vr_railwayServiceId (apply_metrics m row) = vr_railwayServiceId row"
  by (simp add: apply_metrics_def Let_def split: option.splits)

lemma apply_metrics_rows_ids [simp]:
  "map vr_railwayServiceId (applyRailwayMetricsToRows rows m) = map vr_railwayServiceId rows"
  by (simp add: applyRailwayMetricsToRows_def)

lemma fst_batch_ids:
  "vz_error (fst (fetch_batch R h st pn pid env services w)) = None \<Longrightarrow>
     map vr_railwayServiceId (vz_containers (fst (fetch_batch R h st pn pid env services w))) = map sn_id services"
proof -
  obtain query keys where q: "buildBatchDeploymentsQuery (coalesce pid ''undefined'')
      (coalesce env ''undefined'') (map sn_id services) = (query, keys)" by force
  then have "length keys = length services" by (auto simp: buildBatchDeploymentsQuery_def)
  then show "vz_error (fst (fetch_batch R h st pn pid env services w)) = None \<Longrightarrow> ?thesis"
    by (auto simp: fetch_batch_def q case_prod_beta Let_def visibility_error_def visibility_rows_def
        batch_rows_ids split: sum.splits if_splits)
qed

lemma error_no_rows:
  "vz_error (fst (fetchRailwayVisibilityRows R h st w)) \<noteq> None \<Longrightarrow>
     vz_containers (fst (fetchRailwayVisibilityRows R h st w)) = []"
proof -
  have "vz_error (fst (fetch_batch R h st pn pid env services w)) \<noteq> None \<Longrightarrow>
      vz_containers (fst (fetch_batch R h st pn pid env services w)) = []" for pn pid env services w
    by (auto simp: fetch_batch_def case_prod_beta Let_def visibility_error_def visibility_rows_def
        split: sum.splits if_splits)
  then show "vz_error (fst (fetchRailwayVisibilityRows R h st w)) \<noteq> None \<Longrightarrow> ?thesis"
    by (auto simp: fetchRailwayVisibilityRows_def case_prod_beta Let_def visibility_error_def
        visibility_rows_def split: sum.splits option.splits if_splits)
qed

lemma latest_loop_spec:
  assumes "\<And>v. v \<in> set (best # vs) \<Longrightarrow> date (mv_ts v) = Some (f v)"
  shows "\<exists>pre post. best # vs = pre @ latest_loop date vs best (date (mv_ts best)) # post \<and>
    (\<forall>x \<in> set pre. f x \<le> f (latest_loop date vs best (date (mv_ts best)))) \<and>
    (\<forall>x \<in> set post. f x < f (latest_loop date vs best (date (mv_ts best))))"
  using assms
proof (induction vs arbitrary: best)
  case (Cons v vs)
  have tb: "date (mv_ts best) = Some (f best)" and tv: "date (mv_ts v) = Some (f v)"
    using Cons.prems by auto
  show ?case
  proof (cases "f best \<le> f v")
    case True
    let ?r = "latest_loop date vs v (date (mv_ts v))"
    obtain pre post where split: "v # vs = pre @ ?r # post"
      and pre: "\<forall>x \<in> set pre. f x \<le> f ?r" and post: "\<forall>x \<in> set post. f x < f ?r"
      using Cons.IH [of v] Cons.prems by auto
    have "f v \<le> f ?r" using split pre by (cases pre) auto
    with True have "\<forall>x \<in> set (best # pre). f x \<le> f ?r" using pre by auto
    moreover have "best # v # vs = (best # pre) @ ?r # post" using split by simp
    moreover have "latest_loop date (v # vs) best (date (mv_ts best)) = ?r"
      using True by (simp add: tb tv)
    ultimately show ?thesis using post by metis
  next
    case False
    let ?r = "latest_loop date vs best (date (mv_ts best))"
    obtain pre post where split: "best # vs = pre @ ?r # post"
      and pre: "\<forall>x \<in> set pre. f x \<le> f ?r" and post: "\<forall>x \<in> set post. f x < f ?r"
      using Cons.IH [of best] Cons.prems by auto
    have r: "latest_loop date (v # vs) best (date (mv_ts best)) = ?r"
      using False by (simp add: tb tv)
    show ?thesis
    proof (cases pre)
      case Nil
      with split have "best = ?r" and "vs = post" by auto
      then have "best # v # vs = [] @ ?r # v # post" by simp
      moreover have "\<forall>x \<in> set (v # post). f x < f ?r" using False post \<open>best = ?r\<close> by auto
      ultimately show ?thesis unfolding r by (metis empty_iff empty_set)
    next
      case (Cons b pre')
      with split have "b = best" and "vs = pre' @ ?r # post" by auto
      then have "best # v # vs = (best # v # pre') @ ?r # post" by simp
      moreover have "\<forall>x \<in> set (best # v # pre'). f x \<le> f ?r"
        using False pre Cons \<open>b = best\<close> by auto
      ultimately show ?thesis unfolding r using post by blast
    qed
  qed
next
  case Nil
  then show ?case by (intro exI [of _ "[]"]) simp
qed

section \<open>A concrete remote side\<close>

text \<open>
  One service \<open>dashboard\<close> whose only deployment has the given status; every mutation succeeds;
  HTTP probes answer with the given status code; the clock advances by \<open>step\<close> milliseconds at
  every reading, from 100000.
\<close>

definition demo_remote :: "string \<Rightarrow> int \<Rightarrow> int \<Rightarrow> remote" where
  "demo_remote status code step =
     (let ok = (\<lambda>d. Inr \<lparr>gr_status = 200, gr_json = Inr \<lparr>gb_data = Some d, gb_errors = None\<rparr>\<rparr>);
          nothing = \<lparr>gd_project = None, gd_conns = [], gd_metrics = None, gd_flags = []\<rparr>;
          node = \<lparr>dn_id = ''dep1'', dn_status = Some status, dn_createdAt = None,
                  dn_url = Some ''d.up.railway.app'', dn_staticUrl = None\<rparr>
      in \<lparr>o_now = (\<lambda>n. 100000 + step * int n), o_perf = (\<lambda>n. 0), o_date = (\<lambda>s. None),
          o_gql = (\<lambda>tr q. case q of
              Gql_ProjectServices p \<Rightarrow>
                ok (nothing\<lparr>gd_project := Some \<lparr>pn_id = ''p'', pn_name = ''P'',
                      pn_edges = Some [Some \<lparr>sn_id = ''s1'', sn_name = ''dashboard''\<rparr>]\<rparr>\<rparr>)
            | Gql_DeploymentsBatch t \<Rightarrow> ok (nothing\<lparr>gd_conns := [(''d0'', Some [Some node])]\<rparr>)
            | Gql_DeploymentStop d \<Rightarrow> ok (nothing\<lparr>gd_flags := [(''deploymentStop'', None)]\<rparr>)
            | _ \<Rightarrow> ok nothing),
          o_http = (\<lambda>tr u. Inr \<lparr>hr_status = code, hr_json = Inr JNull, hr_text = Inr []\<rparr>),
          o_post = (\<lambda>tr u b. Inr \<lparr>hr_status = code, hr_json = Inr JNull, hr_text = Inr []\<rparr>)\<rparr>)"

definition demo_host :: host where
  "demo_host = \<lparr>h_platform = ''linux'', h_environ = None,
     h_process_env = Some [(''RAILWAY_PROJECT_ID'', ''p''), (''RAILWAY_ENVIRONMENT_ID'', ''e''),
                           (''RAILWAY_API_TOKEN'', ''t'')]\<rparr>"

lemma demo_host_env [simp]:
  "runtimeEnv demo_host ''RAILWAY_PROJECT_ID'' = Some ''p''"
  "runtimeEnv demo_host ''RAILWAY_ENVIRONMENT_ID'' = Some ''e''"
  "hasRailwayGraphqlCredential demo_host"
  by code_simp+

section \<open>Properties\<close>

text \<open>The two status tables agree on every deployment status text: for an active deployment the
  Railway label and the Docker-like state with its health hint determine each other as listed, and
  \<open>exited\<close> is never a label of the table.\<close>

theorem status_tables_agree:
  "let ui = deploymentStatusToRailwayUi (Some s) True; st = deploymentStatusToState s
   in ui \<noteq> Exited \<and>
      (ui = Online \<longleftrightarrow> fst st = ''running'' \<and> snd st \<noteq> Some ''starting'') \<and>
      (ui = Deploying \<longleftrightarrow> fst st = ''running'' \<and> snd st = Some ''starting'') \<and>
      (ui = Failed \<longleftrightarrow> snd st = Some ''unhealthy'') \<and>
      (ui = Completed \<longleftrightarrow> fst st = ''dead'' \<or> fst st = ''exited'' \<and> snd st = None) \<and>
      (ui = Skipped \<longleftrightarrow> fst st = ''skipped'') \<and>
      (ui = Unknown \<longleftrightarrow> fst st = ''unknown'')"
  by (simp add: deploymentStatusToRailwayUi_def deploymentStatusToState_def Let_def in_flight_def)

text \<open>The aliases of the batch query are distinct, one per service, so no service reads the
  deployment of another.\<close>

theorem batch_aliases_distinct:
  "distinct (snd (buildBatchDeploymentsQuery pid eid sids)) \<and>
   length (snd (buildBatchDeploymentsQuery pid eid sids)) = length sids"
  by (simp add: buildBatchDeploymentsQuery_def distinct_map alias_key_def inj_on_def)

text \<open>When the rows are fetched without an error, there is exactly one row per service of the
  project, in the project's order, with or without metrics.\<close>

theorem rows_match_services:
  assumes "fst (railwayGraphql R h (Gql_ProjectServices (runtimeEnv h ''RAILWAY_PROJECT_ID'')) w) = Inr d"
    and "gd_project d = Some p"
    and "vz_error (fst (fetchRailwayVisibilityRows R h st w)) = None"
  shows "map vr_railwayServiceId (vz_containers (fst (fetchRailwayVisibilityRows R h st w)))
    = map sn_id (project_services p)"
  using assms fst_batch_ids
  by (auto simp: fetchRailwayVisibilityRows_def case_prod_beta Let_def visibility_rows_def split: if_splits)

theorem rows_match_services_witness:
  "map vr_railwayServiceId (vz_containers (fst (fetchRailwayVisibilityRows
     (demo_remote ''SUCCESS'' 200 1) demo_host False init_world))) = [''s1'']"
proof -
  define p where "p = \<lparr>pn_id = ''p'', pn_name = ''P'', pn_edges = Some [Some \<lparr>sn_id = ''s1'', sn_name = ''dashboard''\<rparr>]\<rparr>"
  define d where "d = \<lparr>gd_project = Some p, gd_conns = [], gd_metrics = None, gd_flags = []\<rparr>"
  have d: "fst (railwayGraphql (demo_remote ''SUCCESS'' 200 1) demo_host
      (Gql_ProjectServices (runtimeEnv demo_host ''RAILWAY_PROJECT_ID'')) init_world) = Inr d"
    unfolding d_def p_def by code_simp
  have p: "gd_project d = Some p" by (simp add: d_def)
  have e: "vz_error (fst (fetchRailwayVisibilityRows (demo_remote ''SUCCESS'' 200 1) demo_host False init_world)) = None"
    by code_simp
  have "map sn_id (project_services p) = [''s1'']" unfolding p_def by code_simp
  with rows_match_services [OF d p e] show ?thesis by simp
qed

text \<open>\<open>latestMetricValue\<close> returns the value with the greatest time stamp, the last one of those
  with equal time stamps, when all time stamps parse.\<close>

theorem latest_metric_is_latest:
  assumes "\<forall>v \<in> set vals. date (mv_ts v) = Some (f v)" and "vals \<noteq> []"
  shows "\<exists>pre v post. vals = pre @ v # post \<and> latestMetricValue date (Some vals) = mv_value v \<and>
    (\<forall>x \<in> set pre. f x \<le> f v) \<and> (\<forall>x \<in> set post. f x < f v)"
proof (cases vals)
  case (Cons b vs)
  with assms(1) have "\<And>v. v \<in> set (b # vs) \<Longrightarrow> date (mv_ts v) = Some (f v)" by auto
  from latest_loop_spec [of b vs date f, OF this] show ?thesis
    unfolding Cons latestMetricValue_def option.case list.case by blast
next
  case Nil
  with assms(2) show ?thesis by simp
qed

theorem latest_metric_is_latest_witness:
  "latestMetricValue (\<lambda>s. Some (int (length s)))
     (Some [\<lparr>mv_ts = ''11'', mv_value = Some 5\<rparr>, \<lparr>mv_ts = ''22'', mv_value = Some 7\<rparr>,
            \<lparr>mv_ts = ''3'', mv_value = Some 9\<rparr>]) = Some 7"
proof -
  let ?vs = "[\<lparr>mv_ts = ''11'', mv_value = Some (5::rat)\<rparr>, \<lparr>mv_ts = ''22'', mv_value = Some 7\<rparr>,
            \<lparr>mv_ts = ''3'', mv_value = Some 9\<rparr>]"
  from latest_metric_is_latest [of ?vs "\<lambda>s. Some (int (length s))" "\<lambda>v. int (length (mv_ts v))"]
  show ?thesis by (auto simp: Cons_eq_append_conv)
qed

lemma apply_metrics_frame:
  "(apply_metrics m r)\<lparr>vr_cpuPercent := None, vr_memUsage := None, vr_memLimit := None\<rparr> =
     r\<lparr>vr_cpuPercent := None, vr_memUsage := None, vr_memLimit := None\<rparr>"
  by (cases "m (vr_railwayServiceId r)") (simp_all add: apply_metrics_def Let_def)

lemma apply_metrics_empty: "apply_metrics Map.empty r = r"
  by (simp add: apply_metrics_def)

text \<open>Metrics only fill in the CPU and memory columns: every other column of every row, and the
  rows themselves, stay as they were; without metrics the rows are returned unchanged.\<close>

theorem metrics_touch_only_stats:
  "map (\<lambda>r. r\<lparr>vr_cpuPercent := None, vr_memUsage := None, vr_memLimit := None\<rparr>)
       (applyRailwayMetricsToRows rows byService) =
   map (\<lambda>r. r\<lparr>vr_cpuPercent := None, vr_memUsage := None, vr_memLimit := None\<rparr>) rows \<and>
   applyRailwayMetricsToRows rows Map.empty = rows"
  by (simp add: applyRailwayMetricsToRows_def apply_metrics_frame apply_metrics_empty map_idI)

text \<open>C40: A chaos halt asks for \<open>deploymentStop\<close> first. When the answer confirms it with \<open>true\<close>, that
  is all: nothing else is sent and the method reported is \<open>deploymentStop\<close>. When the stop threw, or
  answered false, null or nothing, \<open>deploymentRemove\<close> is sent for the same deployment, and the method
  reported is \<open>deploymentRemove\<close> unless the remove threw or answered \<open>false\<close>; then the halt throws.
  Without a credential nothing is sent and the halt throws.\<close>

theorem halt_stops_then_removes:
  "let (r, w') = railwayChaosHaltDeployment R h d w;
       stop = fst (railwayGraphql R h (Gql_DeploymentStop d) w);
       stopped = (case stop of Inl e \<Rightarrow> False | Inr x \<Rightarrow> flag_field x ''deploymentStop'' = Some (Some True));
       remove = fst (railwayGraphql R h (Gql_DeploymentRemove d)
                       (w\<lparr>w_trace := w_trace w @ [Call_gql (Gql_DeploymentStop d)]\<rparr>));
       removed = (case remove of Inl e \<Rightarrow> False | Inr x \<Rightarrow> flag_field x ''deploymentRemove'' \<noteq> Some (Some False))
   in if \<not> hasRailwayGraphqlCredential h then w_trace w' = w_trace w \<and> isl r
      else if stopped then w_trace w' = w_trace w @ [Call_gql (Gql_DeploymentStop d)] \<and> r = Inr DeploymentStop
      else w_trace w' = w_trace w @ [Call_gql (Gql_DeploymentStop d), Call_gql (Gql_DeploymentRemove d)] \<and>
           (if removed then r = Inr DeploymentRemove else isl r)"
proof -
  let ?w0 = "railwayChaosLog h ''halt:begin'' [(''deploymentId'', take 10 d @ u_ellipsis)] w"
  let ?w1 = "w\<lparr>w_trace := w_trace w @ [Call_gql (Gql_DeploymentStop d)]\<rparr>"
  obtain r1 w1 where g: "railwayGraphql R h (Gql_DeploymentStop d) ?w0 = (r1, w1)" by force
  have stop: "fst (railwayGraphql R h (Gql_DeploymentStop d) w) = r1"
    using graphql_answer [of ?w0 w R h "Gql_DeploymentStop d"] by (simp add: g)
  have t1: "w_trace w1 = w_trace w @ gql_calls h [Gql_DeploymentStop d]"
    using graphql_trace [of R h "Gql_DeploymentStop d" ?w0] by (simp add: g)
  show ?thesis
  proof (cases "hasRailwayGraphqlCredential h")
    case False
    then show ?thesis
      using t1 g by (auto simp: graphql_no_credential_eq halt_remove_def railwayChaosHaltDeployment_def gql_calls_def Let_def)
  next
    case True
    have remove: "case fst (railwayGraphql R h (Gql_DeploymentRemove d) ?w1) of
          Inl e \<Rightarrow> isl (fst (halt_remove R h d se sr w2))
        | Inr x \<Rightarrow> if flag_field x ''deploymentRemove'' = Some (Some False) then isl (fst (halt_remove R h d se sr w2))
                   else fst (halt_remove R h d se sr w2) = Inr DeploymentRemove"
      if "w_trace w2 = w_trace w1" for se sr w2
    proof -
      have "fst (railwayGraphql R h (Gql_DeploymentRemove d) w3) = fst (railwayGraphql R h (Gql_DeploymentRemove d) ?w1)"
        if "w_trace w3 = w_trace w1" for w3
        using that t1 True by (intro graphql_answer) (simp add: gql_calls_def)
      with that show ?thesis
        by (auto simp: halt_remove_def case_prod_beta Let_def split: sum.splits)
    qed
    show ?thesis
      using t1 True remove stop
      by (cases r1) (auto simp: railwayChaosHaltDeployment_def g Let_def case_prod_beta halt_remove_trace gql_calls_def
          split: sum.splits)
  qed
qed

end
