(* ===== verification/ChaosPolicy.thy ===== *)
theory ChaosPolicy
  imports RailwayVisibility
begin

text \<open>
  The chaos actions of the dashboard: \<^verbatim>\<open>lib/docker-chaos-policy.ts\<close> (who may be killed),
  \<^verbatim>\<open>lib/docker-options.ts\<close>, and the routes \<^verbatim>\<open>chaos/config\<close>, \<^verbatim>\<open>chaos/kill\<close> and
  \<^verbatim>\<open>chaos/restart\<close>. The Docker engine (dockerode) is a parameter; its calls are part of the
  trace of the world.
\<close>

section \<open>Policy\<close>

definition process_env :: "host \<Rightarrow> string \<Rightarrow> string option" where
  "process_env h key = Option.bind (h_process_env h) (\<lambda>es. map_of es key)"

definition BLOCKED_SERVICES :: "string list" where
  "BLOCKED_SERVICES = [''dashboard'']"

definition DEFAULT_ALLOWED_SERVICES :: "string list" where
  "DEFAULT_ALLOWED_SERVICES =
     [''db'', ''postgres'', ''redis'', ''zookeeper'', ''kafka'', ''kafka-log-consumer'', ''url-shortener-a'',
      ''url-shortener-b'', ''load-balancer'', ''prometheus'', ''alertmanager'', ''db-backup'', ''dashboard-db'',
      ''dashboard-backend'', ''user-frontend'']"

definition chaosKillEnabled :: "host \<Rightarrow> bool" where
  "chaosKillEnabled h =
     (let raw = js_trim (coalesce (runtimeEnv h ''CHAOS_KILL_ENABLED'') [])
      in if raw = [] then process_env h ''NODE_ENV'' = Some ''development''
         else (let v = js_lower raw in if is_off v then False else is_on v))"

text \<open>\<open>new Set(xs)\<close>: first occurrences, in order.\<close>

definition js_set :: "'a list \<Rightarrow> 'a list" where
  "js_set xs = rev (remdups (rev xs))"

definition parseAllowedServicesOverride :: "host \<Rightarrow> string list option" where
  "parseAllowedServicesOverride h =
     (let raw = js_trim (coalesce (runtimeEnv h ''CHAOS_ALLOWED_SERVICES'') [])
      in if raw = [] then None
         else (let set = js_set (filter (\<lambda>s. s \<noteq> []) (map (\<lambda>s. js_lower (js_trim s)) (js_split CHR '','' raw)))
               in if 0 < length set then Some set else None))"

definition isServiceKillAllowed :: "host \<Rightarrow> string \<Rightarrow> bool" where
  "isServiceKillAllowed h service =
     (let s = js_lower (js_trim service)
      in if s = [] then False
         else if s \<in> set BLOCKED_SERVICES then False
         else (case parseAllowedServicesOverride h of
                 Some override \<Rightarrow> s \<in> set override
               | None \<Rightarrow> s \<in> set DEFAULT_ALLOWED_SERVICES))"

definition blockedServicesList :: "string list" where
  "blockedServicesList = BLOCKED_SERVICES"

text \<open>\<open>sort()\<close> orders by code units, which is the lexicographic order of the byte strings.\<close>

definition listAllowedServicesForUi :: "host \<Rightarrow> string list" where
  "listAllowedServicesForUi h =
     (case parseAllowedServicesOverride h of
        Some o' \<Rightarrow> sort o'
      | None \<Rightarrow> sort DEFAULT_ALLOWED_SERVICES)"

section \<open>The route \<open>chaos/config\<close>\<close>

definition chaos_hint :: "host \<Rightarrow> string option" where
  "chaos_hint h =
     (if railwayIdsConfigured h
      then (if railwayVisibilityConfigured h
            then Some ''Hosted: Kill runs deploymentStop (service stays down until you Reboot or redeploy in Railway). Watchdog auto-redeploy only on CRASHED/FAILED, not after Kill. Set CHAOS_KILL_ENABLED=1 on this service to enable buttons in production.''
            else Some ''Set RAILWAY_PROJECT_TOKEN or RAILWAY_API_TOKEN on the dashboard service so chaos actions and visibility can call the Railway API.'')
      else if chaosKillEnabled h then None
      else Some ''Set CHAOS_KILL_ENABLED=1 on the dashboard service, or run `next dev` locally (enabled by default in development).'')"

definition chaos_config_GET :: "host \<Rightarrow> reply" where
  "chaos_config_GET h = json_reply 200
     [(''killEnabled'', JBool (chaosKillEnabled h)),
      (''supportsDockerKill'', JBool (\<not> railwayIdsConfigured h \<or> railwayVisibilityConfigured h)),
      (''blockedServices'', JArr (map JStr blockedServicesList)),
      (''allowedServices'', JArr (map JStr (listAllowedServicesForUi h))),
      (''hint'', opt_json JStr (chaos_hint h))]"

section \<open>The Docker engine\<close>

text \<open>
  \<open>new URL(s)\<close> is a parameter of \<open>getDockerConnectionOptions\<close>: protocol (with its colon), host
  name and port, or \<^const>\<open>None\<close> where it throws.
\<close>

record url_parts =
  up_protocol :: string
  up_hostname :: string
  up_port :: string

datatype docker_options = Docker_socket string | Docker_tcp string string string

definition tcp_to_http :: "string \<Rightarrow> string" where
  "tcp_to_http s = (if js_startsWith s ''tcp:'' then ''http:'' @ drop 4 s else s)"

definition getDockerConnectionOptions :: "(string \<Rightarrow> url_parts option) \<Rightarrow> host \<Rightarrow> docker_options" where
  "getDockerConnectionOptions parse_url h =
     (let fallback = (if h_platform h = ''win32'' then Docker_socket ''//./pipe/docker_engine''
                      else Docker_socket ''/var/run/docker.sock'')
      in if truthy (process_env h ''DOCKER_SOCKET_PATH'') then Docker_socket (the (process_env h ''DOCKER_SOCKET_PATH''))
         else if truthy (process_env h ''DOCKER_HOST'')
         then (case parse_url (tcp_to_http (the (process_env h ''DOCKER_HOST''))) of
                 Some u \<Rightarrow> Docker_tcp (up_hostname u) (str_or (up_port u) ''2375'')
                            (if up_protocol u = ''https:'' then ''https'' else ''http'')
               | None \<Rightarrow> fallback)
         else fallback)"

record container_state =
  st_status :: "string option"
  st_running :: "bool option"
  st_restarting :: "bool option"
  st_exitCode :: "int option"
  st_startedAt :: "string option"
  st_finishedAt :: "string option"
  st_health :: "string option"

record container_info =
  ci_id :: "string option"
  ci_name :: "string option"
  ci_labels :: "(string \<times> string) list"
  ci_state :: "container_state option"
  ci_restartCount :: "int option"
  ci_restartPolicy :: "string option"

record container_summary =
  cs_id :: string
  cs_names :: "string list option"
  cs_image :: string
  cs_state :: string
  cs_status :: "string option"
  cs_labels :: "(string \<times> string) list"
  cs_created :: int

record cpu_counters =
  cc_total :: int
  cc_system :: int

record container_stats =
  ct_cpu :: "cpu_counters option"
  ct_precpu :: "cpu_counters option"
  ct_online_cpus :: int
  ct_mem_usage :: "int option"
  ct_mem_limit :: "int option"

text \<open>
  The engine's answers may depend on every call made so far. Statistics are \<^const>\<open>None\<close> when the
  answer is not an object with a member \<open>cpu_stats\<close>.
\<close>

record docker =
  dk_list :: "call list \<Rightarrow> thrown + container_summary list"
  dk_inspect :: "call list \<Rightarrow> string \<Rightarrow> thrown + container_info"
  dk_stats :: "call list \<Rightarrow> string \<Rightarrow> thrown + container_stats option"
  dk_kill :: "call list \<Rightarrow> string \<Rightarrow> thrown + unit"
  dk_restart :: "call list \<Rightarrow> string \<Rightarrow> thrown + unit"

definition docker_call :: "(call list \<Rightarrow> 'a) \<Rightarrow> docker_request \<Rightarrow> world \<Rightarrow> 'a \<times> world" where
  "docker_call f q w = (f (w_trace w), w\<lparr>w_trace := w_trace w @ [Call_docker q]\<rparr>)"

definition COMPOSE_SERVICE :: string where "COMPOSE_SERVICE = ''com.docker.compose.service''"

definition COMPOSE_PROJECT :: string where "COMPOSE_PROJECT = ''com.docker.compose.project''"

definition label_of :: "(string \<times> string) list \<Rightarrow> string \<Rightarrow> string" where
  "label_of labels key = coalesce (map_of labels key) []"

text \<open>\<open>runtimeEnv("VISIBILITY_COMPOSE_PROJECT") || "pe-hackathon-2026"\<close>.\<close>

definition compose_project :: "host \<Rightarrow> string" where
  "compose_project h = str_or (coalesce (runtimeEnv h ''VISIBILITY_COMPOSE_PROJECT'') []) ''pe-hackathon-2026''"

section \<open>The routes \<open>chaos/kill\<close> and \<open>chaos/restart\<close>\<close>

record chaos_body =
  cb_containerId :: "string option"
  cb_railwayServiceId :: "string option"
  cb_confirmService :: "string option"

text \<open>\<open>(x ?? "").trim()\<close>.\<close>

definition trim_field :: "string option \<Rightarrow> string" where
  "trim_field x = js_trim (coalesce x [])"

definition confirm_of :: "chaos_body \<Rightarrow> string" where
  "confirm_of b = js_lower (trim_field (cb_confirmService b))"

definition id_prefix :: "string \<Rightarrow> string" where
  "id_prefix sid = take 8 sid @ u_ellipsis"

definition failed_reply :: "thrown \<Rightarrow> reply" where
  "failed_reply e = json_reply 503 [(''error'', JStr (err_message_or ''Unknown error'' e)), (''ok'', JBool False)]"

definition token_missing_reply :: reply where
  "token_missing_reply = error_reply 503
     (''Railway API token missing '' @ u_emdash
      @ '' set RAILWAY_PROJECT_TOKEN or RAILWAY_API_TOKEN on the dashboard service.'')"

definition ids_missing_reply :: reply where
  "ids_missing_reply = error_reply 503 ''RAILWAY_PROJECT_ID and RAILWAY_ENVIRONMENT_ID must be set on the dashboard service (e.g. via setup-railway variable sync).''"

definition row_missing_reply :: reply where
  "row_missing_reply = error_reply 404
     (''Service not found or Railway visibility query failed '' @ u_emdash @ '' refresh the table and try again.'')"

definition not_allowed_kill :: "string \<Rightarrow> string" where
  "not_allowed_kill svc = ''Service '' @ dq @ svc @ dq
     @ '' is not allowed for chaos kill. Blocked or not in the allow list. Override with CHAOS_ALLOWED_SERVICES if needed.''"

definition not_allowed_restart :: "string \<Rightarrow> string" where
  "not_allowed_restart svc = ''Service '' @ dq @ svc @ dq
     @ '' is not allowed. Blocked or not in the allow list. Override with CHAOS_ALLOWED_SERVICES if needed.''"

definition kill_no_deployment :: reply where
  "kill_no_deployment = error_reply 400
     (''No active deployment to stop '' @ u_emdash @ '' deploy the service in Railway first.'')"

definition restart_no_deployment :: reply where
  "restart_no_deployment = error_reply 400
     (''No active deployment to restart '' @ u_emdash @ '' deploy the service in Railway first.'')"

definition kill_ok_railway :: "string \<Rightarrow> halt_method \<Rightarrow> reply" where
  "kill_ok_railway svc m = json_reply 200
     [(''ok'', JBool True), (''service'', JStr svc),
      (''railwayMethod'', JStr (case m of DeploymentStop \<Rightarrow> ''deploymentStop'' | DeploymentRemove \<Rightarrow> ''deploymentRemove'')),
      (''message'', JStr (case m of
         DeploymentStop \<Rightarrow> ''Deployment halted via deploymentStop. Check Railway dashboard / Ops table for status. Redeploy or use Reboot to bring it back.''
       | DeploymentRemove \<Rightarrow> ''Deployment halted via deploymentRemove (deploymentStop did not confirm). Check Railway dashboard / Ops table for status. Redeploy or use Reboot to bring it back.''))]"

definition kill_railway :: "remote \<Rightarrow> host \<Rightarrow> string \<Rightarrow> string \<Rightarrow> world \<Rightarrow> reply \<times> world" where
  "kill_railway R h confirmService railwayServiceId w =
     (let d = [(''confirmService'', confirmService), (''railwayServiceIdPrefix'', id_prefix railwayServiceId)];
          w1 = railwayChaosLog h ''kill:incoming'' d
                 (console_info ''[dashboard][chaos/kill] Railway request'' d w)
      in if \<not> hasRailwayGraphqlCredential h then (token_missing_reply, w1)
         else if \<not> truthy (runtimeEnv h ''RAILWAY_PROJECT_ID'') \<or> \<not> truthy (runtimeEnv h ''RAILWAY_ENVIRONMENT_ID'')
         then (ids_missing_reply, w1)
         else
           (let (found, w2) = getRailwayChaosRowForService R h railwayServiceId w1
            in (case found of
                  None \<Rightarrow> (row_missing_reply, w2)
                | Some row \<Rightarrow>
                    if js_lower (js_trim (vr_service row)) \<noteq> confirmService
                    then (error_reply 400 ''confirmService does not match this Railway service name.'', w2)
                    else if \<not> isServiceKillAllowed h (vr_service row)
                    then (error_reply 403 (not_allowed_kill (vr_service row)), w2)
                    else if \<not> truthy (vr_railwayDeploymentId row) then (kill_no_deployment, w2)
                    else
                      (let depId = the (vr_railwayDeploymentId row);
                           w3 = railwayChaosLog h ''kill:validated''
                                  [(''service'', vr_service row), (''railwayServiceId'', id_prefix railwayServiceId),
                                   (''deploymentId'', id_prefix depId),
                                   (''deploymentStatus'', coalesce (vr_deploymentStatus row) ''unknown'')] w2;
                           (halt, w4) = railwayChaosHaltDeployment R h depId w3
                       in (case halt of
                             Inl e \<Rightarrow> (failed_reply e, w4)
                           | Inr m \<Rightarrow> (kill_ok_railway (vr_service row) m, w4))))))"

definition docker_gate_replies :: "(string \<Rightarrow> string) \<Rightarrow> host \<Rightarrow> string \<Rightarrow> container_info \<Rightarrow> reply option" where
  "docker_gate_replies not_allowed h confirmService info =
     (let svc = label_of (ci_labels info) COMPOSE_SERVICE; proj = label_of (ci_labels info) COMPOSE_PROJECT
      in if proj = [] \<or> proj \<noteq> compose_project h
         then Some (error_reply 403 ''Container is not part of the configured Compose project (check VISIBILITY_COMPOSE_PROJECT).'')
         else if js_lower svc \<noteq> confirmService
         then Some (error_reply 400 ''confirmService does not match this container's Compose service name.'')
         else if \<not> isServiceKillAllowed h svc then Some (error_reply 403 (not_allowed svc))
         else None)"

definition kill_ok_docker :: "string \<Rightarrow> reply" where
  "kill_ok_docker svc = json_reply 200
     [(''ok'', JBool True), (''service'', JStr svc),
      (''message'', JStr (''SIGKILL sent. This endpoint does not start the container '' @ u_emdash
         @ '' compose-watchdog (or the engine restart policy) will bring it back.''))]"

definition kill_docker :: "docker \<Rightarrow> host \<Rightarrow> string \<Rightarrow> string \<Rightarrow> world \<Rightarrow> reply \<times> world" where
  "kill_docker dk h confirmService containerId w =
     (let (insp, w1) = docker_call (\<lambda>tr. dk_inspect dk tr containerId) (Dk_inspect containerId) w
      in (case insp of
            Inl e \<Rightarrow> (failed_reply e, w1)
          | Inr info \<Rightarrow>
              (case docker_gate_replies not_allowed_kill h confirmService info of
                 Some r \<Rightarrow> (r, w1)
               | None \<Rightarrow>
                   (let (res, w2) = docker_call (\<lambda>tr. dk_kill dk tr containerId) (Dk_kill containerId) w1
                    in (case res of
                          Inl e \<Rightarrow> (failed_reply e, w2)
                        | Inr _ \<Rightarrow> (kill_ok_docker (label_of (ci_labels info) COMPOSE_SERVICE), w2))))))"

definition container_required_reply :: reply where
  "container_required_reply = error_reply 400 ''containerId and confirmService are required for Docker chaos''"

definition kill_POST :: "remote \<Rightarrow> docker \<Rightarrow> host \<Rightarrow> thrown + chaos_body \<Rightarrow> world \<Rightarrow> reply \<times> world" where
  "kill_POST R dk h request w =
     (if \<not> chaosKillEnabled h
      then (error_reply 403 ''Chaos kill is disabled. Set CHAOS_KILL_ENABLED=1 (Compose sets this by default), use `next dev` locally, or remove CHAOS_KILL_ENABLED=0.'', w)
      else (case request of
              Inl _ \<Rightarrow> (error_reply 400 ''JSON body required with confirmService and either containerId (Docker) or railwayServiceId (Railway)'', w)
            | Inr body \<Rightarrow>
                if confirm_of body = [] then (error_reply 400 ''confirmService is required'', w)
                else if trim_field (cb_railwayServiceId body) \<noteq> []
                then kill_railway R h (confirm_of body) (trim_field (cb_railwayServiceId body)) w
                else if trim_field (cb_containerId body) = [] then (container_required_reply, w)
                else kill_docker dk h (confirm_of body) (trim_field (cb_containerId body)) w))"

text \<open>Restarting: the same gates, then \<open>deploymentRestart\<close> or \<open>docker restart\<close>.\<close>

definition RESTART_STOP_GRACE_S :: int where "RESTART_STOP_GRACE_S = 10"

definition restart_railway :: "remote \<Rightarrow> host \<Rightarrow> string \<Rightarrow> string \<Rightarrow> world \<Rightarrow> reply \<times> world" where
  "restart_railway R h confirmService railwayServiceId w =
     (let d = [(''confirmService'', confirmService), (''railwayServiceIdPrefix'', id_prefix railwayServiceId)];
          w1 = railwayChaosLog h ''restart:incoming'' d
                 (console_info ''[dashboard][chaos/restart] Railway request'' d w)
      in if \<not> hasRailwayGraphqlCredential h then (token_missing_reply, w1)
         else if \<not> truthy (runtimeEnv h ''RAILWAY_PROJECT_ID'') \<or> \<not> truthy (runtimeEnv h ''RAILWAY_ENVIRONMENT_ID'')
         then (ids_missing_reply, w1)
         else
           (let (found, w2) = getRailwayChaosRowForService R h railwayServiceId w1
            in (case found of
                  None \<Rightarrow> (row_missing_reply, w2)
                | Some row \<Rightarrow>
                    if js_lower (js_trim (vr_service row)) \<noteq> confirmService
                    then (error_reply 400 ''confirmService does not match this Railway service name.'', w2)
                    else if \<not> isServiceKillAllowed h (vr_service row)
                    then (error_reply 403 (not_allowed_restart (vr_service row)), w2)
                    else if \<not> truthy (vr_railwayDeploymentId row) then (restart_no_deployment, w2)
                    else
                      (let (res, w3) = railwayDeploymentRestart R h (the (vr_railwayDeploymentId row)) w2
                       in (case res of
                             Inl e \<Rightarrow> (failed_reply e, w3)
                           | Inr _ \<Rightarrow> (json_reply 200 [(''ok'', JBool True), (''service'', JStr (vr_service row)),
                               (''message'', JStr ''deploymentRestart requested via Railway API (graceful restart of the running deployment).'')], w3))))))"

definition restart_docker :: "docker \<Rightarrow> host \<Rightarrow> string \<Rightarrow> string \<Rightarrow> world \<Rightarrow> reply \<times> world" where
  "restart_docker dk h confirmService containerId w =
     (let (insp, w1) = docker_call (\<lambda>tr. dk_inspect dk tr containerId) (Dk_inspect containerId) w
      in (case insp of
            Inl e \<Rightarrow> (failed_reply e, w1)
          | Inr info \<Rightarrow>
              (case docker_gate_replies not_allowed_restart h confirmService info of
                 Some r \<Rightarrow> (r, w1)
               | None \<Rightarrow>
                   (let (res, w2) = docker_call (\<lambda>tr. dk_restart dk tr containerId)
                                      (Dk_restart containerId RESTART_STOP_GRACE_S) w1
                    in (case res of
                          Inl e \<Rightarrow> (failed_reply e, w2)
                        | Inr _ \<Rightarrow> (json_reply 200 [(''ok'', JBool True),
                            (''service'', JStr (label_of (ci_labels info) COMPOSE_SERVICE)),
                            (''message'', JStr (''docker restart requested (stop grace ''
                               @ show_int RESTART_STOP_GRACE_S @ ''s).''))], w2))))))"

definition restart_POST :: "remote \<Rightarrow> docker \<Rightarrow> host \<Rightarrow> thrown + chaos_body \<Rightarrow> world \<Rightarrow> reply \<times> world" where
  "restart_POST R dk h request w =
     (if \<not> chaosKillEnabled h
      then (error_reply 403 ''Chaos actions are disabled. Set CHAOS_KILL_ENABLED=1 (Compose sets this by default), use `next dev` locally, or remove CHAOS_KILL_ENABLED=0.'', w)
      else (case request of
              Inl _ \<Rightarrow> (error_reply 400 ''JSON body required with confirmService and either containerId (Docker) or railwayServiceId (Railway)'', w)
            | Inr body \<Rightarrow>
                if confirm_of body = [] then (error_reply 400 ''confirmService is required'', w)
                else if trim_field (cb_railwayServiceId body) \<noteq> []
                then restart_railway R h (confirm_of body) (trim_field (cb_railwayServiceId body)) w
                else if trim_field (cb_containerId body) = [] then (container_required_reply, w)
                else restart_docker dk h (confirm_of body) (trim_field (cb_containerId body)) w))"

section \<open>The contract of a chaos route\<close>

text \<open>
  The call \<open>c\<close> acts on the service \<open>svc\<close>: on the deployment of a row fetched for the request,
  or on a container of the compose project whose label names it.
\<close>

definition acts_on :: "remote \<Rightarrow> docker \<Rightarrow> host \<Rightarrow> world \<Rightarrow> string \<Rightarrow> call \<Rightarrow> bool" where
  "acts_on R dk h w svc c \<longleftrightarrow>
     (\<exists>w0 row d. w_trace w0 = w_trace w \<and>
        row \<in> set (vz_containers (fst (fetchRailwayVisibilityRows R h False w0))) \<and>
        vr_service row = svc \<and> vr_railwayDeploymentId row = Some d \<and>
        c \<in> {Call_gql (Gql_DeploymentStop d), Call_gql (Gql_DeploymentRemove d), Call_gql (Gql_DeploymentRestart d)}) \<or>
     (\<exists>info i. dk_inspect dk (w_trace w) i = Inr info \<and>
        label_of (ci_labels info) COMPOSE_PROJECT = compose_project h \<and>
        label_of (ci_labels info) COMPOSE_SERVICE = svc \<and>
        c \<in> {Call_docker (Dk_kill i), Call_docker (Dk_restart i RESTART_STOP_GRACE_S)})"

text \<open>The request asks for this service by name, chaos is enabled and the policy allows it.\<close>

definition approved :: "host \<Rightarrow> thrown + chaos_body \<Rightarrow> string \<Rightarrow> bool" where
  "approved h req svc \<longleftrightarrow>
     chaosKillEnabled h \<and> isServiceKillAllowed h svc \<and>
     (\<exists>b. req = Inr b \<and> confirm_of b = js_lower (js_trim svc))"

text \<open>The calls a step adds: queries, and others that satisfy \<open>P\<close>.\<close>

definition adds_calls :: "(call \<Rightarrow> bool) \<Rightarrow> world \<Rightarrow> world \<Rightarrow> bool" where
  "adds_calls P w w' \<longleftrightarrow> (\<exists>cs. w_trace w' = w_trace w @ cs \<and> (\<forall>c \<in> set cs. is_query c \<or> P c))"

definition mutated :: "world \<Rightarrow> world \<Rightarrow> bool" where
  "mutated w w' \<longleftrightarrow> (\<exists>cs. w_trace w' = w_trace w @ cs \<and> (\<exists>c \<in> set cs. \<not> is_query c))"

locale chaos_route =
  fixes route :: "remote \<Rightarrow> docker \<Rightarrow> host \<Rightarrow> thrown + chaos_body \<Rightarrow> world \<Rightarrow> reply \<times> world"
  assumes effects: "adds_calls (\<lambda>c. rp_status (fst (route R dk h req w)) \<in> {200, 503} \<and>
                      (\<exists>svc. approved h req svc \<and> acts_on R dk h w svc c)) w (snd (route R dk h req w))"
    and success: "rp_status (fst (route R dk h req w)) = 200 \<Longrightarrow> mutated w (snd (route R dk h req w))"
begin

lemma mutation_approved:
  assumes "w_trace (snd (route R dk h req w)) = w_trace w @ cs" and "c \<in> set cs" and "\<not> is_query c"
  shows "\<exists>svc. approved h req svc \<and> acts_on R dk h w svc c"
  using effects [of R dk h req w] assms by (auto simp: adds_calls_def)

lemma never_blocked:
  assumes "w_trace (snd (route R dk h req w)) = w_trace w @ cs" and "c \<in> set cs" and "\<not> is_query c"
  shows "\<exists>svc. acts_on R dk h w svc c \<and> isServiceKillAllowed h svc \<and> js_lower (js_trim svc) \<notin> set BLOCKED_SERVICES"
proof -
  have "js_lower (js_trim svc) \<notin> set BLOCKED_SERVICES" if "isServiceKillAllowed h svc" for svc
    using that by (simp add: isServiceKillAllowed_def Let_def split: if_splits)
  then show ?thesis using mutation_approved [OF assms] unfolding approved_def by blast
qed

lemma refused_inert:
  assumes "rp_status (fst (route R dk h req w)) \<notin> {200, 503}"
  shows "only_queries w (snd (route R dk h req w))"
  using effects [of R dk h req w] assms by (auto simp: adds_calls_def only_queries_def list_all_iff)

lemma disabled_inert:
  assumes "\<not> chaosKillEnabled h"
  shows "only_queries w (snd (route R dk h req w)) \<and> rp_status (fst (route R dk h req w)) \<noteq> 200"
proof
  show oq: "only_queries w (snd (route R dk h req w))"
    using effects [of R dk h req w] assms by (auto simp: adds_calls_def approved_def only_queries_def list_all_iff)
  show "rp_status (fst (route R dk h req w)) \<noteq> 200"
  proof
    assume "rp_status (fst (route R dk h req w)) = 200"
    from success [OF this] oq show False by (auto simp: mutated_def only_queries_def list_all_iff)
  qed
qed

end

section \<open>The two routes satisfy it\<close>

lemma is_ws_lower [simp]: "is_ws (lower_char c) = is_ws c"
proof (cases "65 \<le> (of_char c :: nat) \<and> (of_char c :: nat) \<le> 90")
  case True
  then have "of_char c + 32 < (256 :: nat)" by linarith
  then have "of_char (lower_char c) = (of_char c + 32 :: nat)" using True by (simp add: lower_char_def Let_def)
  moreover have "is_ws d \<Longrightarrow> (of_char d :: nat) \<le> 32" for d by (auto simp: is_ws_def)
  ultimately have "\<not> is_ws c" "\<not> is_ws (lower_char c)" using True by fastforce+
  then show ?thesis by simp
qed (auto simp: lower_char_def Let_def)

lemma dropWhile_lower: "dropWhile is_ws (map lower_char s) = map lower_char (dropWhile is_ws s)"
  by (induction s) simp_all

lemma trim_lower: "js_trim (js_lower s) = js_lower (js_trim s)"
  by (simp add: js_trim_def js_lower_def dropWhile_lower rev_map)

lemma confirm_trimmed: "js_trim (confirm_of b) = confirm_of b"
  by (simp add: confirm_of_def trim_lower trim_field_def)

lemma adds_calls_refl [simp]: "adds_calls P w w"
  by (simp add: adds_calls_def)

lemma adds_calls_same: "w_trace w' = w_trace w \<Longrightarrow> adds_calls P w w'"
  by (simp add: adds_calls_def)

lemma adds_calls_trans: "adds_calls P w w1 \<Longrightarrow> adds_calls P w1 w2 \<Longrightarrow> adds_calls P w w2"
  by (fastforce simp: adds_calls_def)

lemma adds_calls_queries: "only_queries w w' \<Longrightarrow> adds_calls P w w'"
  by (auto simp: only_queries_def adds_calls_def list_all_iff)

lemma halt_calls:
  "\<exists>cs. w_trace (snd (railwayChaosHaltDeployment R h d w)) = w_trace w @ gql_calls h (Gql_DeploymentStop d # cs) \<and>
     set cs \<subseteq> {Gql_DeploymentRemove d}"
proof -
  define w0 where "w0 = railwayChaosLog h ''halt:begin'' [(''deploymentId'', take 10 d @ u_ellipsis)] w"
  have t0: "w_trace (snd (railwayGraphql R h (Gql_DeploymentStop d) w0)) = w_trace w @ gql_calls h [Gql_DeploymentStop d]"
    by (simp add: w0_def)
  have app: "gql_calls h [x] @ gql_calls h [y] = gql_calls h [x, y]" for x y by (simp add: gql_calls_def)
  show ?thesis
  proof (cases "fst (railwayGraphql R h (Gql_DeploymentStop d) w0)")
    case (Inl e)
    then have "w_trace (snd (railwayChaosHaltDeployment R h d w)) =
        w_trace w @ gql_calls h [Gql_DeploymentStop d, Gql_DeploymentRemove d]"
      using t0 by (simp add: railwayChaosHaltDeployment_def w0_def case_prod_beta Let_def halt_remove_trace app del: graphql_trace)
    then show ?thesis by (intro exI [of _ "[Gql_DeploymentRemove d]"]) simp
  next
    case (Inr x)
    show ?thesis
    proof (cases "flag_field x ''deploymentStop'' = Some (Some True)")
      case True
      with Inr have "w_trace (snd (railwayChaosHaltDeployment R h d w)) = w_trace w @ gql_calls h [Gql_DeploymentStop d]"
        using t0 by (simp add: railwayChaosHaltDeployment_def w0_def case_prod_beta Let_def del: graphql_trace)
      then show ?thesis by (intro exI [of _ "[]"]) simp
    next
      case False
      with Inr have "w_trace (snd (railwayChaosHaltDeployment R h d w)) =
          w_trace w @ gql_calls h [Gql_DeploymentStop d, Gql_DeploymentRemove d]"
        using t0 by (simp add: railwayChaosHaltDeployment_def w0_def case_prod_beta Let_def halt_remove_trace app del: graphql_trace)
      then show ?thesis by (intro exI [of _ "[Gql_DeploymentRemove d]"]) simp
    qed
  qed
qed

lemma chaos_row:
  "only_queries w (snd (getRailwayChaosRowForService R h sid w))"
  "fst (getRailwayChaosRowForService R h sid w) = Some row \<Longrightarrow>
     row \<in> set (vz_containers (fst (fetchRailwayVisibilityRows R h False w)))"
  by (auto simp: getRailwayChaosRowForService_def case_prod_beta Let_def only_queries_rows find_Some_iff
      split: if_splits)

text \<open>The Railway half and the Docker half of a route, with their own guards.\<close>

definition railway_target :: "remote \<Rightarrow> host \<Rightarrow> string \<Rightarrow> world \<Rightarrow> call \<Rightarrow> bool" where
  "railway_target R h confirmService w c \<longleftrightarrow>
     (\<exists>w0 row d. w_trace w0 = w_trace w \<and>
        row \<in> set (vz_containers (fst (fetchRailwayVisibilityRows R h False w0))) \<and>
        vr_railwayDeploymentId row = Some d \<and>
        js_lower (js_trim (vr_service row)) = confirmService \<and> isServiceKillAllowed h (vr_service row) \<and>
        c \<in> {Call_gql (Gql_DeploymentStop d), Call_gql (Gql_DeploymentRemove d), Call_gql (Gql_DeploymentRestart d)})"

definition route_effect :: "(call \<Rightarrow> bool) \<Rightarrow> world \<Rightarrow> reply \<times> world \<Rightarrow> bool" where
  "route_effect P w res \<longleftrightarrow>
     adds_calls (\<lambda>c. rp_status (fst res) \<in> {200, 503} \<and> P c) w (snd res) \<and>
     (rp_status (fst res) = 200 \<longrightarrow> mutated w (snd res))"

lemma route_effect_quiet:
  "only_queries w w' \<Longrightarrow> rp_status r \<noteq> 200 \<Longrightarrow> route_effect P w (r, w')"
  by (simp add: route_effect_def adds_calls_queries)

lemma route_effect_act:
  assumes "only_queries w w1" and "w_trace w2 = w_trace w1 @ cs" and "\<forall>c \<in> set cs. P c"
    and "rp_status r \<in> {200, 503}" and "rp_status r = 200 \<longrightarrow> (\<exists>c \<in> set cs. \<not> is_query c)"
  shows "route_effect P w (r, w2)"
proof -
  from assms(1) obtain ds where ds: "w_trace w1 = w_trace w @ ds" "list_all is_query ds"
    by (auto simp: only_queries_def)
  then have "w_trace w2 = w_trace w @ ds @ cs" using assms(2) by simp
  moreover have "\<forall>c \<in> set (ds @ cs). is_query c \<or> P c" using ds(2) assms(3) by (auto simp: list_all_iff)
  moreover have "rp_status r = 200 \<Longrightarrow> \<exists>c \<in> set (ds @ cs). \<not> is_query c" using assms(5) by auto
  ultimately show ?thesis
    using assms(4) by (auto simp: route_effect_def adds_calls_def mutated_def)
qed

lemma failed_status [simp]: "rp_status (failed_reply e) = 503" "rp_status (kill_ok_railway s m) = 200"
  "rp_status (kill_ok_docker s) = 200" "rp_status token_missing_reply = 503" "rp_status ids_missing_reply = 503"
  "rp_status row_missing_reply = 404" "rp_status kill_no_deployment = 400" "rp_status restart_no_deployment = 400"
  "rp_status container_required_reply = 400"
  by (simp_all add: failed_reply_def kill_ok_railway_def kill_ok_docker_def token_missing_reply_def
      ids_missing_reply_def row_missing_reply_def kill_no_deployment_def restart_no_deployment_def
      container_required_reply_def)

lemma only_queries_log: "only_queries w (railwayChaosLog h ev d (console_info ev' d' w))"
  by (simp add: only_queries_def)

lemma kill_railway_effect: "route_effect (railway_target R h confirm w) w (kill_railway R h confirm sid w)"
proof -
  define d where "d = [(''confirmService'', confirm), (''railwayServiceIdPrefix'', id_prefix sid)]"
  define w1 where "w1 = railwayChaosLog h ''kill:incoming'' d (console_info ''[dashboard][chaos/kill] Railway request'' d w)"
  obtain found w2 where f: "getRailwayChaosRowForService R h sid w1 = (found, w2)" by force
  have q1: "only_queries w w1" unfolding w1_def by (rule only_queries_log)
  have q2: "only_queries w w2" using only_queries_trans [OF q1] chaos_row(1) [of w1 R h sid] f by simp
  have t1: "w_trace w1 = w_trace w" by (simp add: w1_def)
  show ?thesis
  proof (cases "hasRailwayGraphqlCredential h \<and> truthy (runtimeEnv h ''RAILWAY_PROJECT_ID'') \<and>
      truthy (runtimeEnv h ''RAILWAY_ENVIRONMENT_ID'')")
    case False
    then show ?thesis
      by (auto simp: kill_railway_def w1_def [symmetric] d_def [symmetric] q1 Let_def intro: route_effect_quiet)
  next
    case ok: True
    show ?thesis
    proof (cases "\<exists>row. found = Some row \<and> js_lower (js_trim (vr_service row)) = confirm \<and>
        isServiceKillAllowed h (vr_service row) \<and> truthy (vr_railwayDeploymentId row)")
      case False
      with ok show ?thesis
        by (auto simp: kill_railway_def w1_def [symmetric] d_def [symmetric] f q2 Let_def
            intro!: route_effect_quiet split: option.split)
    next
      case True
      then obtain row dep where row: "found = Some row" "js_lower (js_trim (vr_service row)) = confirm"
        "isServiceKillAllowed h (vr_service row)" "vr_railwayDeploymentId row = Some dep" "dep \<noteq> []"
        by (auto simp: truthy_def split: option.splits)
      define w3 where "w3 = railwayChaosLog h ''kill:validated''
          [(''service'', vr_service row), (''railwayServiceId'', id_prefix sid), (''deploymentId'', id_prefix dep),
           (''deploymentStatus'', coalesce (vr_deploymentStatus row) ''unknown'')] w2"
      obtain halt w4 where hl: "railwayChaosHaltDeployment R h dep w3 = (halt, w4)" by force
      have res: "kill_railway R h confirm sid w =
          (case halt of Inl e \<Rightarrow> failed_reply e | Inr m \<Rightarrow> kill_ok_railway (vr_service row) m, w4)"
        using ok row by (simp add: kill_railway_def w1_def [symmetric] d_def [symmetric] w3_def [symmetric] f hl
            Let_def split: sum.splits)
      obtain cs where t4: "w_trace w4 = w_trace w3 @ gql_calls h (Gql_DeploymentStop dep # cs)"
        and cs: "set cs \<subseteq> {Gql_DeploymentRemove dep}"
        using halt_calls [of R h dep w3] hl by auto
      have "row \<in> set (vz_containers (fst (fetchRailwayVisibilityRows R h False w1)))"
        using chaos_row(2) [of R h sid w1 row] f row(1) by simp
      then have "\<forall>c \<in> set (gql_calls h (Gql_DeploymentStop dep # cs)). railway_target R h confirm w c"
        using cs row t1 by (fastforce simp: railway_target_def gql_calls_def split: if_splits)
      moreover have "w_trace w3 = w_trace w2" by (simp add: w3_def)
      moreover have "\<exists>c \<in> set (gql_calls h (Gql_DeploymentStop dep # cs)). \<not> is_query c"
        using ok by (simp add: gql_calls_def)
      ultimately show ?thesis
        unfolding res using q2 t4 by (intro route_effect_act [OF q2]) (auto split: sum.splits)
    qed
  qed
qed

lemma restart_railway_effect: "route_effect (railway_target R h confirm w) w (restart_railway R h confirm sid w)"
proof -
  define d where "d = [(''confirmService'', confirm), (''railwayServiceIdPrefix'', id_prefix sid)]"
  define w1 where "w1 = railwayChaosLog h ''restart:incoming'' d (console_info ''[dashboard][chaos/restart] Railway request'' d w)"
  obtain found w2 where f: "getRailwayChaosRowForService R h sid w1 = (found, w2)" by force
  have q1: "only_queries w w1" unfolding w1_def by (rule only_queries_log)
  have q2: "only_queries w w2" using only_queries_trans [OF q1] chaos_row(1) [of w1 R h sid] f by simp
  have t1: "w_trace w1 = w_trace w" by (simp add: w1_def)
  show ?thesis
  proof (cases "hasRailwayGraphqlCredential h \<and> truthy (runtimeEnv h ''RAILWAY_PROJECT_ID'') \<and>
      truthy (runtimeEnv h ''RAILWAY_ENVIRONMENT_ID'') \<and>
      (\<exists>row. found = Some row \<and> js_lower (js_trim (vr_service row)) = confirm \<and>
        isServiceKillAllowed h (vr_service row) \<and> truthy (vr_railwayDeploymentId row))")
    case False
    then show ?thesis
      by (auto simp: restart_railway_def w1_def [symmetric] d_def [symmetric] f q1 q2 Let_def
          intro!: route_effect_quiet split: option.split)
  next
    case True
    then obtain row dep where row: "found = Some row" "js_lower (js_trim (vr_service row)) = confirm"
      "isServiceKillAllowed h (vr_service row)" "vr_railwayDeploymentId row = Some dep" "dep \<noteq> []"
      by (auto simp: truthy_def split: option.splits)
    obtain r w3 where rs: "railwayDeploymentRestart R h dep w2 = (r, w3)" by force
    have t3: "w_trace w3 = w_trace w2 @ gql_calls h [Gql_DeploymentRestart dep]"
      using restart_trace [of R h dep w2] rs by simp
    have "row \<in> set (vz_containers (fst (fetchRailwayVisibilityRows R h False w1)))"
      using chaos_row(2) [of R h sid w1 row] f row(1) by simp
    then have "\<forall>c \<in> set (gql_calls h [Gql_DeploymentRestart dep]). railway_target R h confirm w c"
      using row t1 by (fastforce simp: railway_target_def gql_calls_def split: if_splits)
    moreover have "\<exists>c \<in> set (gql_calls h [Gql_DeploymentRestart dep]). \<not> is_query c"
      using True by (simp add: gql_calls_def)
    ultimately show ?thesis
      using True row t3
      by (auto simp: restart_railway_def w1_def [symmetric] d_def [symmetric] f rs Let_def
          intro!: route_effect_act [OF q2] split: sum.splits)
  qed
qed

definition docker_target :: "docker \<Rightarrow> host \<Rightarrow> string \<Rightarrow> world \<Rightarrow> call \<Rightarrow> bool" where
  "docker_target dk h confirmService w c \<longleftrightarrow>
     (\<exists>info i. dk_inspect dk (w_trace w) i = Inr info \<and>
        label_of (ci_labels info) COMPOSE_PROJECT = compose_project h \<and>
        js_lower (label_of (ci_labels info) COMPOSE_SERVICE) = confirmService \<and>
        isServiceKillAllowed h (label_of (ci_labels info) COMPOSE_SERVICE) \<and>
        c \<in> {Call_docker (Dk_kill i), Call_docker (Dk_restart i RESTART_STOP_GRACE_S)})"

lemma gate_passed:
  "docker_gate_replies na h confirm info = None \<Longrightarrow>
     label_of (ci_labels info) COMPOSE_PROJECT = compose_project h \<and>
     js_lower (label_of (ci_labels info) COMPOSE_SERVICE) = confirm \<and>
     isServiceKillAllowed h (label_of (ci_labels info) COMPOSE_SERVICE)"
  by (simp add: docker_gate_replies_def Let_def split: if_splits)

lemma gate_refused: "docker_gate_replies na h confirm info = Some r \<Longrightarrow> rp_status r \<in> {400, 403}"
  by (auto simp: docker_gate_replies_def Let_def split: if_splits)

lemma inspect_queries: "only_queries w (w\<lparr>w_trace := w_trace w @ [Call_docker (Dk_inspect i)]\<rparr>)"
  by (simp add: only_queries_def)

lemma kill_docker_effect: "route_effect (docker_target dk h confirm w) w (kill_docker dk h confirm i w)"
proof (cases "dk_inspect dk (w_trace w) i")
  case (Inl e)
  then show ?thesis
    by (simp add: kill_docker_def docker_call_def route_effect_quiet inspect_queries)
next
  case (Inr info)
  show ?thesis
  proof (cases "docker_gate_replies not_allowed_kill h confirm info")
    case (Some r)
    with gate_refused [OF Some] Inr show ?thesis
      by (auto simp: kill_docker_def docker_call_def intro!: route_effect_quiet inspect_queries)
  next
    case None
    from gate_passed [OF None] Inr have "docker_target dk h confirm w (Call_docker (Dk_kill i))"
      by (auto simp: docker_target_def)
    with None Inr show ?thesis
      by (auto simp: kill_docker_def docker_call_def Let_def intro!: route_effect_act [OF inspect_queries, of _ _ i "[Call_docker (Dk_kill i)]"]
          split: sum.split)
  qed
qed

lemma restart_docker_effect: "route_effect (docker_target dk h confirm w) w (restart_docker dk h confirm i w)"
proof (cases "dk_inspect dk (w_trace w) i")
  case (Inl e)
  then show ?thesis
    by (simp add: restart_docker_def docker_call_def route_effect_quiet inspect_queries)
next
  case (Inr info)
  show ?thesis
  proof (cases "docker_gate_replies not_allowed_restart h confirm info")
    case (Some r)
    with gate_refused [OF Some] Inr show ?thesis
      by (auto simp: restart_docker_def docker_call_def intro!: route_effect_quiet inspect_queries)
  next
    case None
    from gate_passed [OF None] Inr
    have "docker_target dk h confirm w (Call_docker (Dk_restart i RESTART_STOP_GRACE_S))"
      by (auto simp: docker_target_def)
    with None Inr show ?thesis
      by (auto simp: restart_docker_def docker_call_def Let_def
          intro!: route_effect_act [OF inspect_queries, of _ _ i "[Call_docker (Dk_restart i RESTART_STOP_GRACE_S)]"]
          split: sum.split)
  qed
qed

text \<open>Both halves imply the contract, once the guards of the route itself are passed.\<close>

lemma target_approved:
  assumes "chaosKillEnabled h" and "railway_target R h (confirm_of b) w c \<or> docker_target dk h (confirm_of b) w c"
  shows "\<exists>svc. approved h (Inr b) svc \<and> acts_on R dk h w svc c"
  using assms(2)
proof
  assume "railway_target R h (confirm_of b) w c"
  then show ?thesis using assms(1) by (fastforce simp: railway_target_def approved_def acts_on_def)
next
  assume "docker_target dk h (confirm_of b) w c"
  then obtain info i where i: "dk_inspect dk (w_trace w) i = Inr info"
    "label_of (ci_labels info) COMPOSE_PROJECT = compose_project h"
    "js_lower (label_of (ci_labels info) COMPOSE_SERVICE) = confirm_of b"
    "isServiceKillAllowed h (label_of (ci_labels info) COMPOSE_SERVICE)"
    "c \<in> {Call_docker (Dk_kill i), Call_docker (Dk_restart i RESTART_STOP_GRACE_S)}"
    by (auto simp: docker_target_def)
  have "confirm_of b = js_lower (js_trim (label_of (ci_labels info) COMPOSE_SERVICE))"
    using i(3) confirm_trimmed [of b] trim_lower by metis
  with i assms(1) show ?thesis by (auto simp: approved_def acts_on_def)
qed

lemma route_effect_contract:
  assumes "route_effect P w res" and "\<And>c. P c \<Longrightarrow> \<exists>svc. approved h req svc \<and> acts_on R dk h w svc c"
  shows "adds_calls (\<lambda>c. rp_status (fst res) \<in> {200, 503} \<and> (\<exists>svc. approved h req svc \<and> acts_on R dk h w svc c)) w (snd res)
    \<and> (rp_status (fst res) = 200 \<longrightarrow> mutated w (snd res))"
  using assms by (fastforce simp: route_effect_def adds_calls_def)

lemma kill_contract:
  "adds_calls (\<lambda>c. rp_status (fst (kill_POST R dk h req w)) \<in> {200, 503} \<and>
      (\<exists>svc. approved h req svc \<and> acts_on R dk h w svc c)) w (snd (kill_POST R dk h req w)) \<and>
   (rp_status (fst (kill_POST R dk h req w)) = 200 \<longrightarrow> mutated w (snd (kill_POST R dk h req w)))"
proof (cases "chaosKillEnabled h")
  case True
  show ?thesis
  proof (cases req)
    case (Inr b)
    note r = route_effect_contract [OF kill_railway_effect [of R h "confirm_of b" w "trim_field (cb_railwayServiceId b)"],
        of h req R dk]
    note d = route_effect_contract [OF kill_docker_effect [of dk h "confirm_of b" w "trim_field (cb_containerId b)"],
        of h req R dk]
    show ?thesis
      using True r d target_approved [OF True, of R b w _ dk] Inr by (simp add: kill_POST_def)
  qed (simp add: kill_POST_def True)
qed (simp add: kill_POST_def)

lemma restart_contract:
  "adds_calls (\<lambda>c. rp_status (fst (restart_POST R dk h req w)) \<in> {200, 503} \<and>
      (\<exists>svc. approved h req svc \<and> acts_on R dk h w svc c)) w (snd (restart_POST R dk h req w)) \<and>
   (rp_status (fst (restart_POST R dk h req w)) = 200 \<longrightarrow> mutated w (snd (restart_POST R dk h req w)))"
proof (cases "chaosKillEnabled h")
  case True
  show ?thesis
  proof (cases req)
    case (Inr b)
    note r = route_effect_contract [OF restart_railway_effect [of R h "confirm_of b" w "trim_field (cb_railwayServiceId b)"],
        of h req R dk]
    note d = route_effect_contract [OF restart_docker_effect [of dk h "confirm_of b" w "trim_field (cb_containerId b)"],
        of h req R dk]
    show ?thesis
      using True r d target_approved [OF True, of R b w _ dk] Inr by (simp add: restart_POST_def)
  qed (simp add: restart_POST_def True)
qed (simp add: restart_POST_def)

lemma allowed_not_dashboard: "isServiceKillAllowed h svc \<Longrightarrow> js_lower (js_trim svc) \<noteq> ''dashboard''"
  by (auto simp: isServiceKillAllowed_def BLOCKED_SERVICES_def Let_def split: if_splits)

interpretation kill_route: chaos_route kill_POST
  by unfold_locales (use kill_contract in blast)+

interpretation restart_route: chaos_route restart_POST
  by unfold_locales (use restart_contract in blast)+

section \<open>Properties\<close>

text \<open>C11: Every call of \<open>POST chaos/kill\<close> that changes something acts on a service that the request
  named in \<open>confirmService\<close>, that the policy allows and that is not blocked (so never the
  dashboard), with chaos actions enabled; and the target was looked up by the request itself:
  the deployment of a fetched row or a container of the configured compose project.\<close>

theorem kill_acts_on_confirmed_service:
  assumes "w_trace (snd (kill_POST R dk h req w)) = w_trace w @ cs" and "c \<in> set cs" and "\<not> is_query c"
  shows "\<exists>svc b. acts_on R dk h w svc c \<and> chaosKillEnabled h \<and> isServiceKillAllowed h svc \<and>
    req = Inr b \<and> confirm_of b = js_lower (js_trim svc) \<and> js_lower (js_trim svc) \<noteq> ''dashboard''"
  using kill_route.mutation_approved [OF assms] allowed_not_dashboard unfolding approved_def by blast

text \<open>C12: Every call of \<open>POST chaos/restart\<close> that changes something acts on a service that the request named and
  that the policy allows, with chaos actions enabled, and never on the dashboard; the deployment or container that is
  restarted was looked up by the request itself.\<close>

theorem restart_acts_on_confirmed_service:
  assumes "w_trace (snd (restart_POST R dk h req w)) = w_trace w @ cs" and "c \<in> set cs" and "\<not> is_query c"
  shows "\<exists>svc b. acts_on R dk h w svc c \<and> chaosKillEnabled h \<and> isServiceKillAllowed h svc \<and>
    req = Inr b \<and> confirm_of b = js_lower (js_trim svc) \<and> js_lower (js_trim svc) \<noteq> ''dashboard''"
  using restart_route.mutation_approved [OF assms] allowed_not_dashboard unfolding approved_def by blast

text \<open>C13: A chaos request that is refused (any status but 200 and 503) has changed nothing: only queries
  were sent. With chaos disabled this is every request, and none succeeds.\<close>

theorem refused_chaos_changes_nothing:
  "(rp_status (fst (kill_POST R dk h req w)) \<in> {200, 503} \<or> only_queries w (snd (kill_POST R dk h req w))) \<and>
   (rp_status (fst (restart_POST R dk h req w)) \<in> {200, 503} \<or> only_queries w (snd (restart_POST R dk h req w))) \<and>
   (chaosKillEnabled h \<or>
      only_queries w (snd (kill_POST R dk h req w)) \<and> rp_status (fst (kill_POST R dk h req w)) \<noteq> 200 \<and>
      only_queries w (snd (restart_POST R dk h req w)) \<and> rp_status (fst (restart_POST R dk h req w)) \<noteq> 200)"
  using kill_route.refused_inert [where R = R and dk = dk and h = h and req = req and w = w]
    restart_route.refused_inert [where R = R and dk = dk and h = h and req = req and w = w]
    kill_route.disabled_inert [where R = R and dk = dk and h = h and req = req and w = w]
    restart_route.disabled_inert [where R = R and dk = dk and h = h and req = req and w = w] by blast

text \<open>The list the UI shows as allowed contains a blocked service when the override names it,
  although killing that service is refused.\<close>

theorem ui_list_may_offer_blocked:
  "let h = plain_host\<lparr>h_process_env := Some [(''CHAOS_ALLOWED_SERVICES'', ''Dashboard, redis'')]\<rparr>
   in ''dashboard'' \<in> set (listAllowedServicesForUi h) \<and> \<not> isServiceKillAllowed h ''dashboard''"
  by code_simp

section \<open>Witnesses\<close>

definition chaos_host :: host where
  "chaos_host = plain_host\<lparr>h_process_env := Some [(''CHAOS_KILL_ENABLED'', ''1'')]\<rparr>"

definition redis_docker :: docker where
  "redis_docker =
     \<lparr>dk_list = (\<lambda>tr. Inr []),
      dk_inspect = (\<lambda>tr i. Inr \<lparr>ci_id = Some i, ci_name = None,
        ci_labels = [(COMPOSE_SERVICE, ''redis''), (COMPOSE_PROJECT, ''pe-hackathon-2026'')],
        ci_state = None, ci_restartCount = None, ci_restartPolicy = None\<rparr>),
      dk_stats = (\<lambda>tr i. Inl (OtherValue [])), dk_kill = (\<lambda>tr i. Inr ()), dk_restart = (\<lambda>tr i. Inr ())\<rparr>"

definition redis_request :: "thrown + chaos_body" where
  "redis_request = Inr \<lparr>cb_containerId = Some ''c1'', cb_railwayServiceId = None, cb_confirmService = Some '' Redis''\<rparr>"

theorem kill_acts_on_confirmed_service_witness:
  "\<exists>svc. acts_on (demo_remote ''SUCCESS'' 200 1) redis_docker chaos_host init_world svc (Call_docker (Dk_kill ''c1'')) \<and>
     isServiceKillAllowed chaos_host svc"
proof -
  have "w_trace (snd (kill_POST (demo_remote ''SUCCESS'' 200 1) redis_docker chaos_host redis_request init_world)) =
      w_trace init_world @ [Call_docker (Dk_inspect ''c1''), Call_docker (Dk_kill ''c1'')]" by code_simp
  from kill_acts_on_confirmed_service [OF this, of "Call_docker (Dk_kill ''c1'')"] show ?thesis by auto
qed

theorem restart_acts_on_confirmed_service_witness:
  "\<exists>svc. acts_on (demo_remote ''SUCCESS'' 200 1) redis_docker chaos_host init_world svc (Call_docker (Dk_restart ''c1'' 10)) \<and>
     isServiceKillAllowed chaos_host svc"
proof -
  have "w_trace (snd (restart_POST (demo_remote ''SUCCESS'' 200 1) redis_docker chaos_host redis_request init_world)) =
      w_trace init_world @ [Call_docker (Dk_inspect ''c1''), Call_docker (Dk_restart ''c1'' 10)]" by code_simp
  from restart_acts_on_confirmed_service [OF this, of "Call_docker (Dk_restart ''c1'' 10)"] show ?thesis by auto
qed

end
