(* ===== verification/WatchdogTick.thy ===== *)
theory WatchdogTick
  imports RailwayVisibility "HOL-Library.Sublist"
begin

text \<open>
  \<^verbatim>\<open>dashboard/src/lib/watchdog-core/railway-watchdog-tick.ts\<close> with the types of
  \<^verbatim>\<open>watchdog-types.ts\<close>: one tick of the Railway watchdog, from the poll of the visibility rows
  through the heartbeat probes and the automatic redeploys to the payload. The state that
  survives a tick is \<open>WatchdogPersistentState\<close>; what a tick builds up (that state, the world,
  its events and counters) is the record \<open>tick_acc\<close>, and each block of the loop body is one
  function on it.
\<close>

section \<open>Types\<close>

datatype WatchdogEventKind =
    Recover | Scan | Railway_deploy | Railway_stalled | Railway_rebooting
  | Railway_auto_recover | Heartbeat_recover | Heartbeat_exit_redeploy | Railway_stopped

record WatchdogEvent =
  ev_id :: string
  ev_at :: string
  ev_service :: string
  ev_kind :: WatchdogEventKind
  ev_message :: string

datatype activity_kind = Act_graphql | Act_http

datatype activity_status = StatusCode int | StatusText string

record WatchdogApiActivityEntry =
  ac_at :: string
  ac_kind :: activity_kind
  ac_target :: string
  ac_method :: "string option"
  ac_durationMs :: "int option"
  ac_status :: "activity_status option"
  ac_detail :: "string option"

datatype payload_source = Src_docker | Src_railway | Src_unconfigured | Src_error

record heartbeat_summary =
  hs_enabled :: bool
  hs_probes :: int
  hs_ok :: int
  hs_failed :: int
  hs_skipped :: int

record WatchdogPayload =
  pl_source :: payload_source
  pl_intervalSec :: int
  pl_lastTickAt :: "string option"
  pl_instancesMonitored :: int
  pl_events :: "WatchdogEvent list"
  pl_logTail :: "string list option"
  pl_error :: "string option"
  pl_heartbeat :: "heartbeat_summary option"
  pl_apiActivity :: "WatchdogApiActivityEntry list option"

record WatchdogPrevEntry =
  pe_deploymentStatus :: string
  pe_deploymentId :: string
  pe_onlineStatus :: RailwayOnlineStatus

record HeartbeatRecoverState =
  hb_deploymentId :: string
  hb_deploymentStatus :: string
  hb_consecutiveMisses :: int
  hb_recoveriesUsed :: int
  hb_loggedBudgetExhausted :: bool
  hb_loggedCooldownWait :: "bool option"

record WatchdogPersistentState =
  ws_prev :: "string \<rightharpoonup> WatchdogPrevEntry"
  ws_logTail :: "string list"
  ws_recoverCooldown :: "string \<rightharpoonup> int"
  ws_heartbeatRecoverState :: "string \<rightharpoonup> HeartbeatRecoverState"
  ws_heartbeatLastRecoverAt :: "string \<rightharpoonup> int"
  ws_apiActivity :: "WatchdogApiActivityEntry list"
  ws_heartbeatExitLifecycle :: HeartbeatExitLifecycleState

definition LOG_TAIL_MAX :: nat where "LOG_TAIL_MAX = 40"

definition API_ACTIVITY_MAX :: nat where "API_ACTIVITY_MAX = 48"

definition RECOVER_COOLDOWN_MS :: int where "RECOVER_COOLDOWN_MS = 50000"

definition createEmptyWatchdogState :: WatchdogPersistentState where
  "createEmptyWatchdogState =
     \<lparr>ws_prev = Map.empty, ws_logTail = [], ws_recoverCooldown = Map.empty,
      ws_heartbeatRecoverState = Map.empty, ws_heartbeatLastRecoverAt = Map.empty,
      ws_apiActivity = [], ws_heartbeatExitLifecycle = createHeartbeatExitLifecycleState\<rparr>"

section \<open>The two ring buffers\<close>

text \<open>\<open>a.push(line); if (a.length > max) a = a.slice(-max)\<close>.\<close>

definition push_capped :: "nat \<Rightarrow> 'a \<Rightarrow> 'a list \<Rightarrow> 'a list" where
  "push_capped cap x xs =
     (let ys = xs @ [x] in if cap < length ys then last_n cap ys else ys)"

definition pushLogLine :: "string \<Rightarrow> WatchdogPersistentState \<Rightarrow> WatchdogPersistentState" where
  "pushLogLine line st = st\<lparr>ws_logTail := push_capped LOG_TAIL_MAX line (ws_logTail st)\<rparr>"

text \<open>The caller gives no \<open>at\<close> anywhere, so the time is always read from the clock.\<close>

definition pushActivity ::
  "WatchdogApiActivityEntry \<Rightarrow> WatchdogPersistentState \<Rightarrow> WatchdogPersistentState" where
  "pushActivity entry st =
     st\<lparr>ws_apiActivity := push_capped API_ACTIVITY_MAX entry (ws_apiActivity st)\<rparr>"

lemma push_capped_last_n: "push_capped cap x xs = last_n cap (xs @ [x])"
  by (simp add: push_capped_def Let_def last_n_all)

interpretation log_tail: bounded_log pushLogLine ws_logTail LOG_TAIL_MAX
  by unfold_locales (simp_all add: pushLogLine_def push_capped_last_n LOG_TAIL_MAX_def)

interpretation api_activity: bounded_log pushActivity ws_apiActivity API_ACTIVITY_MAX
  by unfold_locales (simp_all add: pushActivity_def push_capped_last_n API_ACTIVITY_MAX_def)

section \<open>Settings and status predicates\<close>

definition heartbeatMissThreshold :: "host \<Rightarrow> int" where
  "heartbeatMissThreshold h =
     int_setting (runtimeEnv h ''RAILWAY_HEARTBEAT_MISS_THRESHOLD'') ''2'' (\<lambda>n. 1 \<le> n) 2"

definition heartbeatMaxRecoverPerEpoch :: "host \<Rightarrow> int" where
  "heartbeatMaxRecoverPerEpoch h =
     int_setting (runtimeEnv h ''RAILWAY_HEARTBEAT_MAX_RECOVER'') ''1'' (\<lambda>n. 0 \<le> n) 1"

definition heartbeatRecoverCooldownMs :: "host \<Rightarrow> int" where
  "heartbeatRecoverCooldownMs h =
     int_setting (runtimeEnv h ''RAILWAY_HEARTBEAT_RECOVER_COOLDOWN_MS'') ''3600000'' (\<lambda>n. 0 \<le> n) 3600000"

definition isBad :: "string \<Rightarrow> bool" where
  "isBad s \<longleftrightarrow> (let u = js_upper s in u = ''CRASHED'' \<or> u = ''FAILED'')"

definition isDeploying :: "string \<Rightarrow> bool" where
  "isDeploying s \<longleftrightarrow>
     (let u = js_upper s
      in u = ''BUILDING'' \<or> u = ''DEPLOYING'' \<or> u = ''INITIALIZING'' \<or> u = ''QUEUED'' \<or> u = ''WAITING'')"

definition isHealthy :: "string \<Rightarrow> bool" where
  "isHealthy s \<longleftrightarrow> (let u = js_upper s in u = ''SUCCESS'' \<or> u = ''SLEEPING'')"

definition wasCompletedLike :: "RailwayOnlineStatus \<Rightarrow> bool" where
  "wasCompletedLike online \<longleftrightarrow>
     online = Completed \<or> online = Failed \<or> online = Unknown \<or> online = Skipped"

definition needsAutoRecoverTrigger :: "string \<Rightarrow> bool" where
  "needsAutoRecoverTrigger status \<longleftrightarrow>
     (let u = js_upper status in u = ''CRASHED'' \<or> u = ''FAILED'')"

definition railwayWatchdogAutoRecoverEnabled :: "host \<Rightarrow> bool" where
  "railwayWatchdogAutoRecoverEnabled h =
     (let raw = flag_text (runtimeEnv h ''RAILWAY_WATCHDOG_AUTO_RECOVER'') []
      in if raw = [] then True else if is_off raw then False else True)"

definition railwayHeartbeatEnabled :: "host \<Rightarrow> bool" where
  "railwayHeartbeatEnabled h =
     (let raw = flag_text (runtimeEnv h ''RAILWAY_HEARTBEAT_ENABLED'') []
      in if raw = [] then True else if is_off raw then False else True)"

definition railwayHeartbeatRecoverEnabled :: "host \<Rightarrow> bool" where
  "railwayHeartbeatRecoverEnabled h =
     (let raw = flag_text (runtimeEnv h ''RAILWAY_HEARTBEAT_RECOVER'') []
      in if raw = [] then False else is_on raw)"

definition wasActivelyDeployed :: "WatchdogPrevEntry \<Rightarrow> bool" where
  "wasActivelyDeployed prevEntry =
     (let d = js_trim (pe_deploymentId prevEntry)
      in if d = [] then False
         else isHealthy (pe_deploymentStatus prevEntry) \<or> isDeploying (pe_deploymentStatus prevEntry))"

definition isNowStoppedOrNoDeployment :: "string \<Rightarrow> string \<Rightarrow> RailwayVisibilityRow \<Rightarrow> bool" where
  "isNowStoppedOrNoDeployment depId cur row =
     (if js_trim depId = [] then True
      else if js_upper cur \<in> set [''STOPPED'', ''REMOVED'', ''CANCELED'', ''CANCELLED''] then True
      else if js_includes (js_lower (vr_status row)) ''no active deployment'' then True
      else False)"

text \<open>\<open>Math.max(5, parseInt(v ?? "15", 10) || 15)\<close>: \<open>NaN\<close> and \<open>0\<close> are falsy.\<close>

definition railwayWatchdogIntervalSec :: "host \<Rightarrow> int" where
  "railwayWatchdogIntervalSec h =
     max 5 (case js_parseInt (coalesce (runtimeEnv h ''RAILWAY_WATCHDOG_POLL_SEC'') ''15'') of
              None \<Rightarrow> 15
            | Some n \<Rightarrow> if n = 0 then 15 else n)"

section \<open>What a tick builds up\<close>

record tick_cfg =
  cf_now :: string
  cf_environmentId :: string
  cf_autoRecover :: bool
  cf_hbThreshold :: int
  cf_hbMaxRecover :: int
  cf_hbCooldownMs :: int

record tick_acc =
  ta_state :: WatchdogPersistentState
  ta_world :: world
  ta_events :: "WatchdogEvent list"
  ta_probes :: int
  ta_ok :: int
  ta_fail :: int
  ta_skipped :: int

definition read_clock :: "remote \<Rightarrow> tick_acc \<Rightarrow> int \<times> tick_acc" where
  "read_clock R a = (let (t, w) = date_now R (ta_world a) in (t, a\<lparr>ta_world := w\<rparr>))"

definition log_line :: "string \<Rightarrow> tick_acc \<Rightarrow> tick_acc" where
  "log_line line a = a\<lparr>ta_state := pushLogLine line (ta_state a)\<rparr>"

definition emit :: "string \<Rightarrow> string \<Rightarrow> string \<Rightarrow> WatchdogEventKind \<Rightarrow> string \<Rightarrow> tick_acc \<Rightarrow> tick_acc" where
  "emit eid stamp service kind message a =
     a\<lparr>ta_events := ta_events a @
        [\<lparr>ev_id = eid, ev_at = stamp, ev_service = service, ev_kind = kind, ev_message = message\<rparr>]\<rparr>"

text \<open>\<open>pushActivity(state, { kind, target, ... })\<close> with \<open>at = new Date().toISOString()\<close>.\<close>

definition activity ::
  "remote \<Rightarrow> activity_kind \<Rightarrow> string \<Rightarrow> string option \<Rightarrow> int option \<Rightarrow> activity_status option \<Rightarrow>
     string option \<Rightarrow> tick_acc \<Rightarrow> tick_acc" where
  "activity R kind target meth ms status detail a =
     (let (t, a1) = read_clock R a
      in a1\<lparr>ta_state := pushActivity
              \<lparr>ac_at = js_toISOString t, ac_kind = kind, ac_target = target, ac_method = meth,
               ac_durationMs = ms, ac_status = status, ac_detail = detail\<rparr> (ta_state a1)\<rparr>)"

definition on_exit_lifecycle ::
  "(HeartbeatExitLifecycleState \<Rightarrow> HeartbeatExitLifecycleState) \<Rightarrow> tick_acc \<Rightarrow> tick_acc" where
  "on_exit_lifecycle f a =
     a\<lparr>ta_state := (ta_state a)\<lparr>ws_heartbeatExitLifecycle := f (ws_heartbeatExitLifecycle (ta_state a))\<rparr>\<rparr>"

definition on_state :: "(WatchdogPersistentState \<Rightarrow> WatchdogPersistentState) \<Rightarrow> tick_acc \<Rightarrow> tick_acc" where
  "on_state f a = a\<lparr>ta_state := f (ta_state a)\<rparr>"

section \<open>The texts of the events and log lines\<close>

text \<open>The template literals of the tick, in the order of the code.\<close>

definition event_id :: "string \<Rightarrow> string \<Rightarrow> string \<Rightarrow> string" where
  "event_id sid tag x = sid @ ''-'' @ tag @ ''-'' @ x"

definition exit_target :: "string \<Rightarrow> string" where
  "exit_target name = ''serviceInstanceDeploy exit-redeploy ('' @ name @ '')''"

definition exit_message :: "string \<Rightarrow> string" where
  "exit_message name =
     ''Lifecycle was exited (liveness failed); serviceInstanceDeploy(latest) for '' @ name @ ''.''"

definition exit_line :: "string \<Rightarrow> string" where
  "exit_line name = ''watchdog: exit-lifecycle redeploy '' @ name @ '' '' @ u_arrow @ '' serviceInstanceDeploy''"

definition exit_failed_line :: "string \<Rightarrow> string \<Rightarrow> string" where
  "exit_failed_line name msg = ''watchdog: exit-lifecycle redeploy failed '' @ name @ '': '' @ msg"

definition heartbeat_target :: "string \<Rightarrow> string" where
  "heartbeat_target name = ''serviceInstanceDeploy('' @ name @ '')''"

definition budget_text :: "int \<Rightarrow> tick_cfg \<Rightarrow> string" where
  "budget_text used cfg = show_int used @ ''/'' @ show_int (cf_hbMaxRecover cfg)"

definition minutes_text :: "tick_cfg \<Rightarrow> string" where
  "minutes_text cfg = show_int (round_div (cf_hbCooldownMs cfg) 60000)"

definition heartbeat_message :: "tick_cfg \<Rightarrow> string \<Rightarrow> string \<Rightarrow> int \<Rightarrow> string" where
  "heartbeat_message cfg name cur used =
     ''HTTP heartbeat failed '' @ show_int (cf_hbThreshold cfg) @ ''+ time(s) for '' @ name
     @ '' (deployment '' @ cur @ ''); serviceInstanceDeploy(latest) ('' @ budget_text used cfg
     @ '' this deployment id). Next allowed after '' @ minutes_text cfg @ ''m cooldown.''"

definition heartbeat_line :: "tick_cfg \<Rightarrow> string \<Rightarrow> int \<Rightarrow> string" where
  "heartbeat_line cfg name used =
     ''watchdog: heartbeat redeploy '' @ name @ '' (epoch '' @ budget_text used cfg @ '') '' @ u_arrow
     @ '' serviceInstanceDeploy; cooldown '' @ show_int (cf_hbCooldownMs cfg) @ ''ms''"

definition heartbeat_failed_line :: "string \<Rightarrow> string \<Rightarrow> string" where
  "heartbeat_failed_line name msg = ''watchdog: heartbeat redeploy failed '' @ name @ '': '' @ msg"

definition heartbeat_wait_line :: "tick_cfg \<Rightarrow> int \<Rightarrow> string" where
  "heartbeat_wait_line cfg left =
     ''watchdog: heartbeat recover waiting on cooldown ('' @ show_int (round_div left 1000) @ ''s left, ''
     @ minutes_text cfg @ ''m total); RAILWAY_HEARTBEAT_RECOVER_COOLDOWN_MS''"

definition heartbeat_paused_line :: "tick_cfg \<Rightarrow> string \<Rightarrow> string \<Rightarrow> string" where
  "heartbeat_paused_line cfg name depId =
     ''watchdog: heartbeat recover paused for '' @ name @ '' '' @ u_emdash @ '' max ''
     @ show_int (cf_hbMaxRecover cfg) @ '' redeploy(s) for deployment id '' @ str_or depId ''?''
     @ ''; resets when Railway assigns a new deployment.''"

definition skipped_target :: "string \<Rightarrow> string" where
  "skipped_target name = ''heartbeat skipped ('' @ name @ '')''"

definition auto_target :: "string \<Rightarrow> string" where
  "auto_target name = ''serviceInstanceDeploy auto-recover ('' @ name @ '')''"

definition auto_message :: "string \<Rightarrow> string \<Rightarrow> string" where
  "auto_message name cur =
     ''Watchdog triggered serviceInstanceDeploy(latest) for '' @ name @ '' (was '' @ cur @ '').''"

definition auto_line :: "string \<Rightarrow> string \<Rightarrow> string" where
  "auto_line name cur =
     ''watchdog: auto-redeploy '' @ name @ '' ('' @ cur @ '') '' @ u_arrow @ '' serviceInstanceDeploy''"

definition auto_failed_line :: "string \<Rightarrow> string \<Rightarrow> string" where
  "auto_failed_line name msg = ''watchdog: auto-redeploy failed '' @ name @ '': '' @ msg"

definition stopped_message :: "string \<Rightarrow> string \<Rightarrow> string \<Rightarrow> string" where
  "stopped_message name old cur =
     ''Deployment stopped or removed; no active deployment for '' @ name @ '' (was '' @ old @ '', now ''
     @ str_or cur ''none'' @ '').''"

definition stopped_line :: "string \<Rightarrow> string \<Rightarrow> string \<Rightarrow> string" where
  "stopped_line name old cur =
     ''watchdog: '' @ name @ '' railway_stopped ('' @ old @ '' '' @ u_arrow @ '' ''
     @ str_or cur ''no deployment'' @ '')''"

definition rebooting_message :: "string \<Rightarrow> string \<Rightarrow> string" where
  "rebooting_message name cur =
     ''Watchdog: '' @ name @ '' left Completed/stopped and is Deploying (reboot / new deployment). Status: ''
     @ cur @ ''.''"

definition rebooting_line :: "string \<Rightarrow> string \<Rightarrow> string \<Rightarrow> string" where
  "rebooting_line name prevOnline cur =
     ''watchdog: '' @ name @ '' '' @ prevOnline @ '' '' @ u_arrow @ '' deploying ('' @ cur @ '')''"

definition redeploy_message :: "string \<Rightarrow> string \<Rightarrow> string" where
  "redeploy_message name cur =
     ''Watchdog: '' @ name @ '' is Deploying while previously Online ('' @ cur @ '') '' @ u_emdash
     @ '' rolling out a new revision.''"

definition recover_message :: "string \<Rightarrow> string \<Rightarrow> string \<Rightarrow> string" where
  "recover_message name old cur =
     ''Watchdog identified a stalled or crashed deployment ('' @ old @ '') and Railway is recovering ''
     @ name @ '' (now '' @ cur @ '').''"

definition new_deployment_message :: "string \<Rightarrow> string" where
  "new_deployment_message name =
     ''New deployment for '' @ name @ ''; Railway is rolling out a new revision.''"

definition poll_line :: "string \<Rightarrow> nat \<Rightarrow> nat \<Rightarrow> string" where
  "poll_line now n k =
     ''['' @ now @ ''] poll '' @ u_middot @ '' '' @ show_nat n @ '' service(s) ''
     @ u_middot @ '' '' @ show_nat k @ '' new event(s)''"

section \<open>The loop body, block by block\<close>

text \<open>The locals of one iteration.\<close>

definition row_name :: "RailwayVisibilityRow \<Rightarrow> string" where
  "row_name row = str_or (vr_service row) (vr_name row)"

definition row_dep :: "RailwayVisibilityRow \<Rightarrow> string" where
  "row_dep row = coalesce (vr_railwayDeploymentId row) []"

definition row_cur :: "RailwayVisibilityRow \<Rightarrow> string" where
  "row_cur row = js_trim (coalesce (vr_deploymentStatus row) ''UNKNOWN'')"

abbreviation row_sid :: "RailwayVisibilityRow \<Rightarrow> string" where
  "row_sid \<equiv> vr_railwayServiceId"

text \<open>
  The call that all three recovery blocks share: deploy the latest revision and, when that did
  not throw, record the activity. The result is the message of the exception, if any.
\<close>

definition deploy_latest ::
  "remote \<Rightarrow> host \<Rightarrow> tick_cfg \<Rightarrow> string \<Rightarrow> string \<Rightarrow> tick_acc \<Rightarrow> string option \<times> tick_acc" where
  "deploy_latest R h cfg sid target a =
     (let (t0, w1) = perf_now R (ta_world a);
          (r, w2) = railwayServiceInstanceDeployLatest R h (cf_environmentId cfg) sid w1
      in (case r of
            Inl e \<Rightarrow> (Some (err_message e), a\<lparr>ta_world := w2\<rparr>)
          | Inr _ \<Rightarrow>
              (let (t1, w3) = perf_now R w2
               in (None, activity R Act_graphql target (Some ''POST'') (Some (perf_ms t0 t1))
                           (Some (StatusCode 200)) None (a\<lparr>ta_world := w3\<rparr>)))))"

definition exit_redeploy_due :: "host \<Rightarrow> tick_cfg \<Rightarrow> RailwayVisibilityRow \<Rightarrow> tick_acc \<Rightarrow> bool" where
  "exit_redeploy_due h cfg row a \<longleftrightarrow>
     railwayHeartbeatEnabled h \<and> railwayHeartbeatExitRedeployEnabled h \<and> cf_autoRecover cfg \<and>
     cf_environmentId cfg \<noteq> [] \<and>
     peekExitLifecycleRedeem (ws_heartbeatExitLifecycle (ta_state a)) (row_sid row) \<and>
     isHealthy (row_cur row) \<and> \<not> isDeploying (row_cur row) \<and> row_dep row \<noteq> []"

definition exit_redeploy_phase ::
  "remote \<Rightarrow> host \<Rightarrow> tick_cfg \<Rightarrow> RailwayVisibilityRow \<Rightarrow> tick_acc \<Rightarrow> tick_acc" where
  "exit_redeploy_phase R h cfg row a =
     (if exit_redeploy_due h cfg row a
      then
        (let sid = row_sid row; name = row_name row;
             a0 = on_exit_lifecycle (\<lambda>x. clearExitLifecycleRedeemFlag x sid) a;
             (failed, a1) = deploy_latest R h cfg sid (exit_target name) a0
         in (case failed of
               None \<Rightarrow>
                 (let a2 = on_exit_lifecycle (\<lambda>x. clearExitLifecycleForService x sid) a1;
                      (t, a3) = read_clock R a2
                  in log_line (exit_line name)
                      (emit (event_id sid ''exit-redeploy'' (show_int t)) (cf_now cfg) name
                        Heartbeat_exit_redeploy (exit_message name) a3))
             | Some msg \<Rightarrow>
                 log_line (exit_failed_line name msg)
                   (on_exit_lifecycle (\<lambda>x. requeueExitLifecycleRedeem x sid) a1)))
      else a)"

text \<open>
  The heartbeat state of the row. The object of an unchanged deployment is updated in place, so
  the map sees the new status at once; a new object enters the map only after a probe.
\<close>

definition heartbeat_state ::
  "RailwayVisibilityRow \<Rightarrow> tick_acc \<Rightarrow> HeartbeatRecoverState \<times> tick_acc" where
  "heartbeat_state row a =
     (let sid = row_sid row; depId = row_dep row; cur = row_cur row;
          fresh = \<lparr>hb_deploymentId = depId, hb_deploymentStatus = cur, hb_consecutiveMisses = 0,
                   hb_recoveriesUsed = 0, hb_loggedBudgetExhausted = False,
                   hb_loggedCooldownWait = Some False\<rparr>
      in (case ws_heartbeatRecoverState (ta_state a) sid of
            None \<Rightarrow> (fresh, a)
          | Some old \<Rightarrow>
              if hb_deploymentId old \<noteq> depId then (fresh, a)
              else (let s = old\<lparr>hb_deploymentStatus := cur,
                                hb_loggedCooldownWait := Some (coalesce (hb_loggedCooldownWait old) False)\<rparr>
                    in (s, on_state (\<lambda>st. st\<lparr>ws_heartbeatRecoverState :=
                                                (ws_heartbeatRecoverState st)(sid \<mapsto> s)\<rparr>) a))))"

text \<open>
  A failed probe of a service that is healthy for Railway, with heartbeat recovery enabled: the
  redeploy itself, and the choice between it, the two notices and nothing.
\<close>

definition heartbeat_redeploy ::
  "remote \<Rightarrow> host \<Rightarrow> tick_cfg \<Rightarrow> RailwayVisibilityRow \<Rightarrow> HeartbeatRecoverState \<Rightarrow> tick_acc \<Rightarrow>
     HeartbeatRecoverState \<times> tick_acc" where
  "heartbeat_redeploy R h cfg row s a =
     (let sid = row_sid row; name = row_name row;
          (failed, a1) = deploy_latest R h cfg sid (heartbeat_target name) a
      in (case failed of
            None \<Rightarrow>
              (let used = hb_recoveriesUsed s + 1;
                   s1 = s\<lparr>hb_recoveriesUsed := used, hb_consecutiveMisses := 0,
                          hb_loggedBudgetExhausted := False, hb_loggedCooldownWait := Some False\<rparr>;
                   (t2, a2) = read_clock R a1;
                   a3 = on_state (\<lambda>st. st\<lparr>ws_heartbeatLastRecoverAt :=
                                             (ws_heartbeatLastRecoverAt st)(sid \<mapsto> t2)\<rparr>) a2;
                   (t4, a4) = read_clock R a3
               in (s1,
                   log_line (heartbeat_line cfg name used)
                    (emit (event_id sid ''heartbeat'' (show_int t4)) (cf_now cfg) name Heartbeat_recover
                      (heartbeat_message cfg name (row_cur row) used) a4)))
          | Some msg \<Rightarrow> (s, log_line (heartbeat_failed_line name msg) a1)))"

definition heartbeat_recover ::
  "remote \<Rightarrow> host \<Rightarrow> tick_cfg \<Rightarrow> RailwayVisibilityRow \<Rightarrow> HeartbeatRecoverState \<Rightarrow> tick_acc \<Rightarrow>
     HeartbeatRecoverState \<times> tick_acc" where
  "heartbeat_recover R h cfg row s0 a0 =
     (let sid = row_sid row;
          s = s0\<lparr>hb_consecutiveMisses := hb_consecutiveMisses s0 + 1\<rparr>;
          canRecover = (0 < cf_hbMaxRecover cfg \<and> hb_recoveriesUsed s < cf_hbMaxRecover cfg);
          lastHbRecover = coalesce (ws_heartbeatLastRecoverAt (ta_state a0) sid) 0;
          (cooldownOk, a) =
            (if cf_hbCooldownMs cfg = 0 then (True, a0)
             else (let (t, a') = read_clock R a0 in (cf_hbCooldownMs cfg \<le> t - lastHbRecover, a')))
      in if cf_hbThreshold cfg \<le> hb_consecutiveMisses s \<and> canRecover \<and> cooldownOk
         then heartbeat_redeploy R h cfg row s a
         else if cf_hbThreshold cfg \<le> hb_consecutiveMisses s \<and> canRecover \<and> \<not> cooldownOk
                 \<and> \<not> coalesce (hb_loggedCooldownWait s) False
         then
           (let (t1, a1) = read_clock R a
            in (s\<lparr>hb_loggedCooldownWait := Some True\<rparr>,
                log_line (heartbeat_wait_line cfg (cf_hbCooldownMs cfg - (t1 - lastHbRecover))) a1))
         else if cf_hbThreshold cfg \<le> hb_consecutiveMisses s \<and> \<not> canRecover \<and> \<not> hb_loggedBudgetExhausted s
         then
           (s\<lparr>hb_loggedBudgetExhausted := True\<rparr>,
            log_line (heartbeat_paused_line cfg (row_name row) (row_dep row)) a)
         else (s, a))"

definition heartbeat_recover_due :: "host \<Rightarrow> tick_cfg \<Rightarrow> RailwayVisibilityRow \<Rightarrow> bool" where
  "heartbeat_recover_due h cfg row \<longleftrightarrow>
     \<not> railwayHeartbeatExitRedeployEnabled h \<and> railwayHeartbeatRecoverEnabled h \<and> cf_autoRecover cfg \<and>
     isHealthy (row_cur row) \<and> \<not> isDeploying (row_cur row)"

text \<open>What a probe's outcome does to the counters and the heartbeat state.\<close>

definition probe_outcome ::
  "remote \<Rightarrow> host \<Rightarrow> tick_cfg \<Rightarrow> RailwayVisibilityRow \<Rightarrow> bool \<Rightarrow> HeartbeatRecoverState \<Rightarrow> tick_acc \<Rightarrow>
     HeartbeatRecoverState \<times> tick_acc" where
  "probe_outcome R h cfg row ok s a =
     (if ok
      then (s\<lparr>hb_consecutiveMisses := 0, hb_loggedCooldownWait := Some False\<rparr>, a\<lparr>ta_ok := ta_ok a + 1\<rparr>)
      else (let a1 = a\<lparr>ta_fail := ta_fail a + 1\<rparr>
            in if heartbeat_recover_due h cfg row then heartbeat_recover R h cfg row s a1
               else if \<not> isHealthy (row_cur row) then (s\<lparr>hb_consecutiveMisses := 0\<rparr>, a1)
               else (s, a1)))"

definition probe_phase ::
  "remote \<Rightarrow> host \<Rightarrow> tick_cfg \<Rightarrow> RailwayVisibilityRow \<Rightarrow> string \<Rightarrow> HeartbeatRecoverState \<Rightarrow> tick_acc \<Rightarrow> tick_acc" where
  "probe_phase R h cfg row probeUrl s a =
     (let sid = row_sid row;
          (t0, w1) = perf_now R (ta_world a);
          (pr, w2) = pingHeartbeatUrl R probeUrl w1;
          (t1, w3) = perf_now R w2;
          a1 = activity R Act_http probeUrl (Some ''GET'') (Some (perf_ms t0 t1))
                 (Some (case po_statusCode pr of
                          Some c \<Rightarrow> StatusCode c
                        | None \<Rightarrow> if po_ok pr then StatusCode 200 else StatusText ''fail''))
                 (nonempty_opt (po_error pr)) (a\<lparr>ta_world := w3, ta_probes := ta_probes a + 1\<rparr>);
          (s2, a2) = probe_outcome R h cfg row (po_ok pr) s a1;
          hbSynth = \<lparr>hp_serviceId = sid, hp_service = row_name row, hp_probeUrl = Some probeUrl,
                     hp_skipped = False, hp_ok = Some (po_ok pr), hp_statusCode = po_statusCode pr,
                     hp_latencyMs = Some (po_latencyMs pr), hp_error = nonempty_opt (po_error pr)\<rparr>
      in on_state (\<lambda>st. st\<lparr>ws_heartbeatRecoverState := (ws_heartbeatRecoverState st)(sid \<mapsto> s2)\<rparr>)
           (on_exit_lifecycle (\<lambda>x. snd (effectiveRailwayOnlineStatusAfterProbe h x sid (row_dep row)
                                      (vr_railwayOnlineStatus row) (Some hbSynth) (Some True))) a2))"

definition skip_phase ::
  "remote \<Rightarrow> host \<Rightarrow> RailwayVisibilityRow \<Rightarrow> tick_acc \<Rightarrow> tick_acc" where
  "skip_phase R h row a =
     (let a1 = on_state (\<lambda>st. st\<lparr>ws_heartbeatRecoverState := (ws_heartbeatRecoverState st)(row_sid row := None)\<rparr>)
                 (a\<lparr>ta_skipped := ta_skipped a + 1\<rparr>);
          target = skipped_target (row_name row)
      in if truthy (vr_railwayPublicUrl row)
         then activity R Act_http target None None None (Some ''no probe path for service'') a1
         else if \<not> truthy (map_option js_trim (vr_railwayPublicUrl row))
                 \<and> \<not> shouldUsePrivateRailwayHeartbeat h
         then activity R Act_http target None None None (Some ''no public URL'') a1
         else a1)"

definition heartbeat_phase ::
  "remote \<Rightarrow> host \<Rightarrow> tick_cfg \<Rightarrow> RailwayVisibilityRow \<Rightarrow> tick_acc \<Rightarrow> tick_acc" where
  "heartbeat_phase R h cfg row a =
     (let (s, a1) = heartbeat_state row a;
          probeUrl = nonempty_opt (buildHeartbeatProbeUrl h (vr_railwayPublicUrl row) (vr_service row))
      in (case probeUrl of
            Some url \<Rightarrow> if railwayHeartbeatEnabled h then probe_phase R h cfg row url s a1 else a1
          | None \<Rightarrow> if railwayHeartbeatEnabled h then skip_phase R h row a1 else a1))"

text \<open>Redeploy after \<open>CRASHED\<close> or \<open>FAILED\<close>, with its cooldown.\<close>

definition auto_redeploy ::
  "remote \<Rightarrow> host \<Rightarrow> tick_cfg \<Rightarrow> RailwayVisibilityRow \<Rightarrow> tick_acc \<Rightarrow> tick_acc" where
  "auto_redeploy R h cfg row a =
     (let sid = row_sid row; name = row_name row; cur = row_cur row;
          (failed, a2) = deploy_latest R h cfg sid (auto_target name) a
      in (case failed of
            None \<Rightarrow>
              (let (t3, a3) = read_clock R a2;
                   a4 = on_state (\<lambda>st. st\<lparr>ws_recoverCooldown := (ws_recoverCooldown st)(sid \<mapsto> t3)\<rparr>) a3;
                   (t5, a5) = read_clock R a4
               in log_line (auto_line name cur)
                   (emit (event_id sid ''autorecover'' (show_int t5)) (cf_now cfg) name Railway_auto_recover
                     (auto_message name cur) a5))
          | Some msg \<Rightarrow> log_line (auto_failed_line name msg) a2))"

definition auto_recover_phase ::
  "remote \<Rightarrow> host \<Rightarrow> tick_cfg \<Rightarrow> RailwayVisibilityRow \<Rightarrow> tick_acc \<Rightarrow> tick_acc" where
  "auto_recover_phase R h cfg row a0 =
     (let sid = row_sid row; cur = row_cur row;
          a = (if isHealthy cur
               then on_state (\<lambda>st. st\<lparr>ws_recoverCooldown := (ws_recoverCooldown st)(sid := None)\<rparr>) a0 else a0)
      in if cf_autoRecover cfg \<and> needsAutoRecoverTrigger cur \<and> \<not> isDeploying cur
         then
           (let (wait, a1) =
                  (case ws_recoverCooldown (ta_state a) sid of
                     None \<Rightarrow> (False, a)
                   | Some lastAttempt \<Rightarrow>
                       (let (t, a') = read_clock R a in (t - lastAttempt < RECOVER_COOLDOWN_MS, a')))
            in if wait then a1 else auto_redeploy R h cfg row a1)
         else a)"

section \<open>Transitions since the previous tick\<close>

fun online_text :: "RailwayOnlineStatus \<Rightarrow> string" where
  "online_text Online = ''online''"
| "online_text Completed = ''completed''"
| "online_text Deploying = ''deploying''"
| "online_text Failed = ''failed''"
| "online_text Skipped = ''skipped''"
| "online_text Unknown = ''unknown''"
| "online_text Exited = ''exited''"

definition stopped_event ::
  "remote \<Rightarrow> tick_cfg \<Rightarrow> RailwayVisibilityRow \<Rightarrow> WatchdogPrevEntry \<Rightarrow> tick_acc \<Rightarrow> tick_acc" where
  "stopped_event R cfg row prevEntry a =
     (let name = row_name row; cur = row_cur row; old = pe_deploymentStatus prevEntry
      in if wasActivelyDeployed prevEntry \<and> isNowStoppedOrNoDeployment (row_dep row) cur row
         then
           (let (t, a1) = read_clock R a
            in log_line (stopped_line name old cur)
                (emit (event_id (row_sid row) ''stopped'' (show_int t)) (cf_now cfg) name Railway_stopped
                  (stopped_message name old cur) a1))
         else a)"

text \<open>The flag is \<open>emittedLifecycle\<close>.\<close>

definition lifecycle_event ::
  "tick_cfg \<Rightarrow> RailwayVisibilityRow \<Rightarrow> WatchdogPrevEntry \<Rightarrow> tick_acc \<Rightarrow> bool \<times> tick_acc" where
  "lifecycle_event cfg row prevEntry a =
     (let sid = row_sid row; name = row_name row; cur = row_cur row; now = cf_now cfg;
          prevOnline = pe_onlineStatus prevEntry; onlineNow = vr_railwayOnlineStatus row
      in if wasCompletedLike prevOnline \<and> onlineNow = Deploying
         then (True, log_line (rebooting_line name (online_text prevOnline) cur)
                      (emit (event_id sid ''rebooting'' now) now name Railway_rebooting
                        (rebooting_message name cur) a))
         else if prevOnline = Online \<and> onlineNow = Deploying
         then (True, emit (event_id sid ''redeploy'' now) now name Railway_deploy (redeploy_message name cur) a)
         else (False, a))"

definition recovery_event ::
  "tick_cfg \<Rightarrow> RailwayVisibilityRow \<Rightarrow> WatchdogPrevEntry \<Rightarrow> bool \<Rightarrow> tick_acc \<Rightarrow> tick_acc" where
  "recovery_event cfg row prevEntry emittedLifecycle a =
     (let sid = row_sid row; name = row_name row; depId = row_dep row; cur = row_cur row; now = cf_now cfg;
          b = js_upper (pe_deploymentStatus prevEntry); c = js_upper cur
      in if isBad b \<and> (isDeploying c \<or> isHealthy c)
         then emit (event_id sid ''recover'' (now @ ''-'' @ c)) now name Recover
                (recover_message name (pe_deploymentStatus prevEntry) cur) a
         else if \<not> emittedLifecycle \<and> pe_deploymentId prevEntry \<noteq> depId \<and> depId \<noteq> [] \<and> \<not> isBad b
                 \<and> (isDeploying c \<or> isHealthy c)
         then emit (event_id sid ''dep'' (depId @ ''-'' @ now)) now name Railway_deploy
                (new_deployment_message name) a
         else a)"

definition transition_phase ::
  "remote \<Rightarrow> tick_cfg \<Rightarrow> RailwayVisibilityRow \<Rightarrow> WatchdogPrevEntry option \<Rightarrow> tick_acc \<Rightarrow> tick_acc" where
  "transition_phase R cfg row prevEntry a =
     (case prevEntry of
        None \<Rightarrow> a
      | Some b \<Rightarrow>
          (let (emittedLifecycle, a1) = lifecycle_event cfg row b (stopped_event R cfg row b a)
           in recovery_event cfg row b emittedLifecycle a1))"

definition remember_row :: "RailwayVisibilityRow \<Rightarrow> tick_acc \<Rightarrow> tick_acc" where
  "remember_row row =
     on_state (\<lambda>st. st\<lparr>ws_prev := (ws_prev st)(row_sid row \<mapsto>
        \<lparr>pe_deploymentStatus = row_cur row, pe_deploymentId = row_dep row,
         pe_onlineStatus = vr_railwayOnlineStatus row\<rparr>)\<rparr>)"

text \<open>One iteration of the loop over the rows. \<open>prevEntry\<close> is read at its start.\<close>

definition tick_row ::
  "remote \<Rightarrow> host \<Rightarrow> tick_cfg \<Rightarrow> RailwayVisibilityRow \<Rightarrow> tick_acc \<Rightarrow> tick_acc" where
  "tick_row R h cfg row a =
     (let prevEntry = ws_prev (ta_state a) (row_sid row)
      in remember_row row
          (transition_phase R cfg row prevEntry
            (auto_recover_phase R h cfg row
              (heartbeat_phase R h cfg row
                (exit_redeploy_phase R h cfg row a)))))"

section \<open>The tick\<close>

text \<open>The entries of services that are no longer listed are dropped from three of the maps.\<close>

definition prune :: "string set \<Rightarrow> WatchdogPersistentState \<Rightarrow> WatchdogPersistentState" where
  "prune ids st =
     st\<lparr>ws_prev := ws_prev st |` ids,
        ws_heartbeatRecoverState := ws_heartbeatRecoverState st |` ids,
        ws_heartbeatLastRecoverAt := ws_heartbeatLastRecoverAt st |` ids\<rparr>"

definition tick_config :: "remote \<Rightarrow> host \<Rightarrow> string \<Rightarrow> tick_cfg" where
  "tick_config R h now =
     (let environmentId = coalesce (runtimeEnv h ''RAILWAY_ENVIRONMENT_ID'') []
      in \<lparr>cf_now = now, cf_environmentId = environmentId,
          cf_autoRecover = (railwayWatchdogAutoRecoverEnabled h \<and> environmentId \<noteq> []),
          cf_hbThreshold = heartbeatMissThreshold h, cf_hbMaxRecover = heartbeatMaxRecoverPerEpoch h,
          cf_hbCooldownMs = heartbeatRecoverCooldownMs h\<rparr>)"

definition opt_log :: "string list \<Rightarrow> string list option" where
  "opt_log xs = (if 0 < length xs then Some xs else None)"

definition row_label :: "RailwayVisibilityRow \<Rightarrow> string" where
  "row_label r = row_name r @ ''='' @ coalesce (vr_deploymentStatus r) ''?''"

text \<open>From the pruning to the payload.\<close>

definition finish_tick ::
  "host \<Rightarrow> string \<Rightarrow> RailwayVisibilityRow list \<Rightarrow> tick_acc \<Rightarrow> WatchdogPayload \<times> WatchdogPersistentState" where
  "finish_tick h now rows a =
     (let st0 = prune (set (map row_sid rows)) (ta_state a);
          eventsOut = take 30 (ta_events a);
          st1 = pushLogLine (poll_line now (length rows) (length eventsOut)) st0;
          st2 = fold (\<lambda>ev. pushLogLine (''  '' @ ev_message ev)) eventsOut st1;
          bad = filter (\<lambda>r. isBad (js_trim (coalesce (vr_deploymentStatus r) []))) rows;
          st3 = (if 0 < length bad
                 then pushLogLine (''  status: '' @ js_join '', '' (map row_label bad)) st2 else st2)
      in (\<lparr>pl_source = Src_railway, pl_intervalSec = railwayWatchdogIntervalSec h,
           pl_lastTickAt = Some now, pl_instancesMonitored = int (length rows), pl_events = eventsOut,
           pl_logTail = opt_log (ws_logTail st3), pl_error = None,
           pl_heartbeat = Some (if railwayHeartbeatEnabled h
             then \<lparr>hs_enabled = True, hs_probes = ta_probes a, hs_ok = ta_ok a, hs_failed = ta_fail a,
                   hs_skipped = ta_skipped a\<rparr>
             else \<lparr>hs_enabled = False, hs_probes = 0, hs_ok = 0, hs_failed = 0, hs_skipped = 0\<rparr>),
           pl_apiActivity = Some (ws_apiActivity st3)\<rparr>, st3))"

definition start_acc :: "WatchdogPersistentState \<Rightarrow> world \<Rightarrow> tick_acc" where
  "start_acc st w =
     \<lparr>ta_state = st, ta_world = w, ta_events = [], ta_probes = 0, ta_ok = 0, ta_fail = 0, ta_skipped = 0\<rparr>"

text \<open>The poll with its activity entry; the first component is what was fetched.\<close>

definition poll_rows ::
  "remote \<Rightarrow> host \<Rightarrow> WatchdogPersistentState \<Rightarrow> world \<Rightarrow> visibility_result \<times> tick_acc" where
  "poll_rows R h st w =
     (let (t0, w1) = perf_now R w;
          (rows, w2) = fetchRailwayVisibilityRows R h False w1;
          (t1, w3) = perf_now R w2
      in (rows, activity R Act_graphql ''Railway GraphQL (fetchRailwayVisibilityRows)'' (Some ''POST'')
                  (Some (perf_ms t0 t1))
                  (Some (if truthy (vz_error rows) then StatusText ''error'' else StatusCode 200))
                  (nonempty_opt (vz_error rows)) (start_acc st w3)))"

definition runRailwayWatchdogTick ::
  "remote \<Rightarrow> host \<Rightarrow> WatchdogPersistentState \<Rightarrow> world \<Rightarrow> WatchdogPayload \<times> WatchdogPersistentState \<times> world" where
  "runRailwayWatchdogTick R h st w =
     (let (rows, a) = poll_rows R h st w
      in if truthy (vz_error rows)
         then (\<lparr>pl_source = Src_railway, pl_intervalSec = railwayWatchdogIntervalSec h, pl_lastTickAt = None,
                pl_instancesMonitored = 0, pl_events = [], pl_logTail = opt_log (ws_logTail (ta_state a)),
                pl_error = vz_error rows, pl_heartbeat = None,
                pl_apiActivity = Some (ws_apiActivity (ta_state a))\<rparr>, ta_state a, ta_world a)
         else (let (t, a0) = read_clock R a;
                   now = js_toISOString t;
                   a1 = fold (tick_row R h (tick_config R h now)) (vz_containers rows) a0;
                   (payload, st') = finish_tick h now (vz_containers rows) a1
               in (payload, st', ta_world a1)))"

end
