(* ===== verification/TickSafety.thy ===== *)
theory TickSafety
  imports WatchdogTick
begin

text \<open>
  The correctness of the watchdog tick: which redeploys it may send and how often, the bounds of
  its logs and counters, what it remembers, its cooldown, the liveness of a scheduled redeploy,
  and which events it reports. \<open>tick_rows R h w\<close> are the rows the tick at \<open>w\<close> fetches.
\<close>

section \<open>What the blocks change\<close>

lemmas acc_defs =
  read_clock_def log_line_def emit_def activity_def on_exit_lifecycle_def on_state_def
  pushLogLine_def pushActivity_def date_now_def perf_now_def

lemma acc_trace [simp]:
  "w_trace (ta_world (snd (read_clock R a))) = w_trace (ta_world a)"
  "w_trace (ta_world (log_line l a)) = w_trace (ta_world a)"
  "w_trace (ta_world (emit i t s k m a)) = w_trace (ta_world a)"
  "w_trace (ta_world (activity R kd tg mt ms stt dt a)) = w_trace (ta_world a)"
  "w_trace (ta_world (on_exit_lifecycle f a)) = w_trace (ta_world a)"
  "w_trace (ta_world (on_state g a)) = w_trace (ta_world a)"
  by (simp_all add: acc_defs)

lemma acc_events [simp]:
  "ta_events (snd (read_clock R a)) = ta_events a"
  "ta_events (log_line l a) = ta_events a"
  "ta_events (activity R kd tg mt ms stt dt a) = ta_events a"
  "ta_events (on_exit_lifecycle f a) = ta_events a"
  "ta_events (on_state g a) = ta_events a"
  by (simp_all add: acc_defs)

lemma acc_state [simp]:
  "ta_state (snd (read_clock R a)) = ta_state a"
  "ta_state (log_line l a) = pushLogLine l (ta_state a)"
  "ta_state (emit i t s k m a) = ta_state a"
  "ta_state (on_state g a) = g (ta_state a)"
  "ta_state (on_exit_lifecycle f a) = (ta_state a)\<lparr>ws_heartbeatExitLifecycle := f (ws_heartbeatExitLifecycle (ta_state a))\<rparr>"
  by (simp_all add: acc_defs)

text \<open>Everything of the state but the two logs.\<close>

definition core :: "WatchdogPersistentState \<Rightarrow> WatchdogPersistentState" where
  "core st = st\<lparr>ws_logTail := [], ws_apiActivity := []\<rparr>"

lemma core_pushes [simp]:
  "core (pushLogLine l st) = core st" "core (pushActivity e st) = core st"
  by (simp_all add: core_def pushLogLine_def pushActivity_def)

lemma core_activity [simp]: "core (ta_state (activity R kd tg mt ms stt dt a)) = core (ta_state a)"
  by (simp add: core_def acc_defs)

lemma core_eq_sel:
  "core s = core t \<Longrightarrow> ws_prev s = ws_prev t \<and> ws_recoverCooldown s = ws_recoverCooldown t \<and>
     ws_heartbeatRecoverState s = ws_heartbeatRecoverState t \<and>
     ws_heartbeatLastRecoverAt s = ws_heartbeatLastRecoverAt t \<and>
     ws_heartbeatExitLifecycle s = ws_heartbeatExitLifecycle t"
  by (cases s; cases t) (simp add: core_def)

lemma pushLogLine_sel [simp]:
  "ws_prev (pushLogLine l s) = ws_prev s" "ws_recoverCooldown (pushLogLine l s) = ws_recoverCooldown s"
  "ws_heartbeatRecoverState (pushLogLine l s) = ws_heartbeatRecoverState s"
  "ws_heartbeatLastRecoverAt (pushLogLine l s) = ws_heartbeatLastRecoverAt s"
  "ws_heartbeatExitLifecycle (pushLogLine l s) = ws_heartbeatExitLifecycle s"
  "ws_apiActivity (pushLogLine l s) = ws_apiActivity s"
  by (simp_all add: pushLogLine_def)

lemma activity_sel [simp]:
  "ws_prev (ta_state (activity R kd tg mt ms stt dt a)) = ws_prev (ta_state a)"
  "ws_recoverCooldown (ta_state (activity R kd tg mt ms stt dt a)) = ws_recoverCooldown (ta_state a)"
  "ws_heartbeatRecoverState (ta_state (activity R kd tg mt ms stt dt a)) = ws_heartbeatRecoverState (ta_state a)"
  "ws_heartbeatLastRecoverAt (ta_state (activity R kd tg mt ms stt dt a)) = ws_heartbeatLastRecoverAt (ta_state a)"
  "ws_heartbeatExitLifecycle (ta_state (activity R kd tg mt ms stt dt a)) = ws_heartbeatExitLifecycle (ta_state a)"
  "ws_logTail (ta_state (activity R kd tg mt ms stt dt a)) = ws_logTail (ta_state a)"
  by (simp_all add: acc_defs)

lemma acc_counts [simp]:
  "ta_probes (snd (read_clock R a)) = ta_probes a" "ta_ok (snd (read_clock R a)) = ta_ok a"
  "ta_fail (snd (read_clock R a)) = ta_fail a" "ta_skipped (snd (read_clock R a)) = ta_skipped a"
  "ta_probes (log_line l a) = ta_probes a" "ta_ok (log_line l a) = ta_ok a"
  "ta_fail (log_line l a) = ta_fail a" "ta_skipped (log_line l a) = ta_skipped a"
  "ta_probes (emit i t s k m a) = ta_probes a" "ta_ok (emit i t s k m a) = ta_ok a"
  "ta_fail (emit i t s k m a) = ta_fail a" "ta_skipped (emit i t s k m a) = ta_skipped a"
  "ta_probes (activity R kd tg mt ms stt dt a) = ta_probes a" "ta_ok (activity R kd tg mt ms stt dt a) = ta_ok a"
  "ta_fail (activity R kd tg mt ms stt dt a) = ta_fail a" "ta_skipped (activity R kd tg mt ms stt dt a) = ta_skipped a"
  "ta_probes (on_exit_lifecycle f a) = ta_probes a" "ta_ok (on_exit_lifecycle f a) = ta_ok a"
  "ta_fail (on_exit_lifecycle f a) = ta_fail a" "ta_skipped (on_exit_lifecycle f a) = ta_skipped a"
  "ta_probes (on_state g a) = ta_probes a" "ta_ok (on_state g a) = ta_ok a"
  "ta_fail (on_state g a) = ta_fail a" "ta_skipped (on_state g a) = ta_skipped a"
  by (simp_all add: acc_defs)

subsection \<open>The deploy call\<close>

lemma deploy_latest_acc [simp]:
  "ta_events (snd (deploy_latest R h cfg sid tg a)) = ta_events a"
  "ta_probes (snd (deploy_latest R h cfg sid tg a)) = ta_probes a"
  "ta_ok (snd (deploy_latest R h cfg sid tg a)) = ta_ok a"
  "ta_fail (snd (deploy_latest R h cfg sid tg a)) = ta_fail a"
  "ta_skipped (snd (deploy_latest R h cfg sid tg a)) = ta_skipped a"
  "ws_prev (ta_state (snd (deploy_latest R h cfg sid tg a))) = ws_prev (ta_state a)"
  "ws_recoverCooldown (ta_state (snd (deploy_latest R h cfg sid tg a))) = ws_recoverCooldown (ta_state a)"
  "ws_heartbeatRecoverState (ta_state (snd (deploy_latest R h cfg sid tg a))) = ws_heartbeatRecoverState (ta_state a)"
  "ws_heartbeatLastRecoverAt (ta_state (snd (deploy_latest R h cfg sid tg a))) = ws_heartbeatLastRecoverAt (ta_state a)"
  "ws_heartbeatExitLifecycle (ta_state (snd (deploy_latest R h cfg sid tg a))) = ws_heartbeatExitLifecycle (ta_state a)"
  "ws_logTail (ta_state (snd (deploy_latest R h cfg sid tg a))) = ws_logTail (ta_state a)"
  by (simp_all add: deploy_latest_def Let_def case_prod_beta split: sum.splits)

lemma deploy_latest_trace [simp]:
  "w_trace (ta_world (snd (deploy_latest R h cfg sid tg a))) =
     w_trace (ta_world a) @ gql_calls h [Gql_ServiceInstanceDeploy (cf_environmentId cfg) sid]"
  by (simp add: deploy_latest_def Let_def case_prod_beta split: sum.splits)

lemma auto_redeploy_acc [simp]:
  "w_trace (ta_world (auto_redeploy R h cfg row a)) =
     w_trace (ta_world a) @ gql_calls h [Gql_ServiceInstanceDeploy (cf_environmentId cfg) (row_sid row)]"
  "ta_probes (auto_redeploy R h cfg row a) = ta_probes a" "ta_ok (auto_redeploy R h cfg row a) = ta_ok a"
  "ta_fail (auto_redeploy R h cfg row a) = ta_fail a" "ta_skipped (auto_redeploy R h cfg row a) = ta_skipped a"
  "ws_prev (ta_state (auto_redeploy R h cfg row a)) = ws_prev (ta_state a)"
  "ws_heartbeatRecoverState (ta_state (auto_redeploy R h cfg row a)) = ws_heartbeatRecoverState (ta_state a)"
  "ws_heartbeatExitLifecycle (ta_state (auto_redeploy R h cfg row a)) = ws_heartbeatExitLifecycle (ta_state a)"
  unfolding auto_redeploy_def Let_def case_prod_beta by (simp_all split: option.splits)

lemma heartbeat_redeploy_acc [simp]:
  "w_trace (ta_world (snd (heartbeat_redeploy R h cfg row s a))) =
     w_trace (ta_world a) @ gql_calls h [Gql_ServiceInstanceDeploy (cf_environmentId cfg) (row_sid row)]"
  "ta_probes (snd (heartbeat_redeploy R h cfg row s a)) = ta_probes a"
  "ta_ok (snd (heartbeat_redeploy R h cfg row s a)) = ta_ok a"
  "ta_fail (snd (heartbeat_redeploy R h cfg row s a)) = ta_fail a"
  "ta_skipped (snd (heartbeat_redeploy R h cfg row s a)) = ta_skipped a"
  "ws_prev (ta_state (snd (heartbeat_redeploy R h cfg row s a))) = ws_prev (ta_state a)"
  "ws_recoverCooldown (ta_state (snd (heartbeat_redeploy R h cfg row s a))) = ws_recoverCooldown (ta_state a)"
  "ws_heartbeatRecoverState (ta_state (snd (heartbeat_redeploy R h cfg row s a))) = ws_heartbeatRecoverState (ta_state a)"
  "ws_heartbeatExitLifecycle (ta_state (snd (heartbeat_redeploy R h cfg row s a))) = ws_heartbeatExitLifecycle (ta_state a)"
  unfolding heartbeat_redeploy_def Let_def case_prod_beta by (simp_all split: option.splits)

section \<open>The mutations of a tick\<close>

definition muts :: "call list \<Rightarrow> call list" where
  "muts cs = filter (\<lambda>c. \<not> is_query c) cs"

lemma muts_append [simp]: "muts (xs @ ys) = muts xs @ muts ys"
  by (simp add: muts_def)

lemma muts_http [simp]: "muts (Call_http u # cs) = muts cs" "muts [] = []"
  by (simp_all add: muts_def)

lemma muts_queries: "list_all is_query cs \<Longrightarrow> muts cs = []"
  by (induction cs) (simp_all add: muts_def)

lemma muts_deploy:
  "muts (gql_calls h [Gql_ServiceInstanceDeploy env sid]) = gql_calls h [Gql_ServiceInstanceDeploy env sid]"
  by (simp add: muts_def gql_calls_def)

text \<open>The trace grows by calls whose mutations are \<open>ms\<close>.\<close>

definition grows :: "call list \<Rightarrow> tick_acc \<Rightarrow> tick_acc \<Rightarrow> bool" where
  "grows ms a b \<longleftrightarrow> (\<exists>cs. w_trace (ta_world b) = w_trace (ta_world a) @ cs \<and> muts cs = ms)"

lemma grows_same: "w_trace (ta_world b) = w_trace (ta_world a) \<Longrightarrow> grows [] a b"
  by (simp add: grows_def)

lemma grows_trans: "grows xs a b \<Longrightarrow> grows ys b c \<Longrightarrow> grows (xs @ ys) a c"
  by (fastforce simp: grows_def)

lemma grows_trace:
  "w_trace (ta_world b) = w_trace (ta_world a) @ cs \<Longrightarrow> grows (muts cs) a b"
  by (auto simp: grows_def)

abbreviation deploy_call :: "host \<Rightarrow> tick_cfg \<Rightarrow> string \<Rightarrow> call list" where
  "deploy_call h cfg sid \<equiv> gql_calls h [Gql_ServiceInstanceDeploy (cf_environmentId cfg) sid]"

lemma exit_phase_trace:
  "w_trace (ta_world (exit_redeploy_phase R h cfg row a)) =
     w_trace (ta_world a) @ (if exit_redeploy_due h cfg row a then deploy_call h cfg (row_sid row) else [])"
  by (simp add: exit_redeploy_phase_def Let_def case_prod_beta split: option.splits)

definition auto_recover_waits :: "remote \<Rightarrow> string \<Rightarrow> tick_acc \<Rightarrow> bool" where
  "auto_recover_waits R sid a \<longleftrightarrow>
     (case ws_recoverCooldown (ta_state a) sid of
        None \<Rightarrow> False | Some t \<Rightarrow> o_now R (w_dates (ta_world a)) - t < RECOVER_COOLDOWN_MS)"

lemma healthy_not_bad: "isHealthy s \<Longrightarrow> \<not> needsAutoRecoverTrigger s"
  by (auto simp: isHealthy_def needsAutoRecoverTrigger_def Let_def)

lemma healthy_not_deploying: "isHealthy s \<Longrightarrow> \<not> isDeploying s"
  by (auto simp: isHealthy_def isDeploying_def Let_def)

lemma bad_not_deploying: "needsAutoRecoverTrigger s \<Longrightarrow> \<not> isDeploying s"
  by (auto simp: isDeploying_def needsAutoRecoverTrigger_def Let_def)

definition auto_recover_due :: "remote \<Rightarrow> tick_cfg \<Rightarrow> RailwayVisibilityRow \<Rightarrow> tick_acc \<Rightarrow> bool" where
  "auto_recover_due R cfg row a \<longleftrightarrow>
     cf_autoRecover cfg \<and> needsAutoRecoverTrigger (row_cur row) \<and> \<not> auto_recover_waits R (row_sid row) a"

lemma auto_phase_trace:
  "w_trace (ta_world (auto_recover_phase R h cfg row a)) =
     w_trace (ta_world a) @ (if auto_recover_due R cfg row a then deploy_call h cfg (row_sid row) else [])"
  by (auto simp: auto_recover_phase_def auto_recover_due_def auto_recover_waits_def Let_def case_prod_beta
      bad_not_deploying read_clock_def date_now_def dest: healthy_not_bad split: option.splits)

lemma transition_trace [simp]: "w_trace (ta_world (transition_phase R cfg row p a)) = w_trace (ta_world a)"
  by (simp add: transition_phase_def stopped_event_def lifecycle_event_def recovery_event_def Let_def
      case_prod_beta split: option.splits)

lemma remember_trace [simp]: "w_trace (ta_world (remember_row row a)) = w_trace (ta_world a)"
  by (simp add: remember_row_def)

lemma heartbeat_state_acc [simp]:
  "ta_world (snd (heartbeat_state row a)) = ta_world a"
  "ta_events (snd (heartbeat_state row a)) = ta_events a"
  "ta_probes (snd (heartbeat_state row a)) = ta_probes a" "ta_ok (snd (heartbeat_state row a)) = ta_ok a"
  "ta_fail (snd (heartbeat_state row a)) = ta_fail a" "ta_skipped (snd (heartbeat_state row a)) = ta_skipped a"
  "ws_prev (ta_state (snd (heartbeat_state row a))) = ws_prev (ta_state a)"
  "ws_recoverCooldown (ta_state (snd (heartbeat_state row a))) = ws_recoverCooldown (ta_state a)"
  "ws_heartbeatExitLifecycle (ta_state (snd (heartbeat_state row a))) = ws_heartbeatExitLifecycle (ta_state a)"
  "ws_logTail (ta_state (snd (heartbeat_state row a))) = ws_logTail (ta_state a)"
  "ws_apiActivity (ta_state (snd (heartbeat_state row a))) = ws_apiActivity (ta_state a)"
  by (simp_all add: heartbeat_state_def on_state_def Let_def split: option.splits)

lemma skip_acc [simp]:
  "w_trace (ta_world (skip_phase R h row a)) = w_trace (ta_world a)"
  "ta_events (skip_phase R h row a) = ta_events a"
  "ta_probes (skip_phase R h row a) = ta_probes a" "ta_ok (skip_phase R h row a) = ta_ok a"
  "ta_fail (skip_phase R h row a) = ta_fail a" "ta_skipped (skip_phase R h row a) = ta_skipped a + 1"
  "ws_prev (ta_state (skip_phase R h row a)) = ws_prev (ta_state a)"
  "ws_recoverCooldown (ta_state (skip_phase R h row a)) = ws_recoverCooldown (ta_state a)"
  "ws_heartbeatExitLifecycle (ta_state (skip_phase R h row a)) = ws_heartbeatExitLifecycle (ta_state a)"
  "ws_heartbeatRecoverState (ta_state (skip_phase R h row a)) =
     (ws_heartbeatRecoverState (ta_state a))(row_sid row := None)"
  by (simp_all add: skip_phase_def Let_def)

text \<open>The three ways through the heartbeat block.\<close>

lemma heartbeat_phase_cases:
  obtains (off) "\<not> railwayHeartbeatEnabled h" "heartbeat_phase R h cfg row a = snd (heartbeat_state row a)"
  | (skipped) "railwayHeartbeatEnabled h"
      "buildHeartbeatProbeUrl h (vr_railwayPublicUrl row) (vr_service row) = None"
      "heartbeat_phase R h cfg row a = skip_phase R h row (snd (heartbeat_state row a))"
  | (probed) url e ok hb a1 where "railwayHeartbeatEnabled h"
      "ta_state a1 = pushActivity e (ta_state (snd (heartbeat_state row a)))" "ta_events a1 = ta_events a"
      "ta_probes a1 = ta_probes a + 1" "ta_ok a1 = ta_ok a" "ta_fail a1 = ta_fail a" "ta_skipped a1 = ta_skipped a"
      "w_trace (ta_world a1) = w_trace (ta_world a) @ [Call_http url]"
      "probe_of (Some hb) = (if ok then ProbeOk else ProbeFailed)"
      "heartbeat_phase R h cfg row a =
         on_state (\<lambda>st. st\<lparr>ws_heartbeatRecoverState := (ws_heartbeatRecoverState st)(row_sid row \<mapsto>
             fst (probe_outcome R h cfg row ok (fst (heartbeat_state row a)) a1))\<rparr>)
           (on_exit_lifecycle (\<lambda>x. snd (effectiveRailwayOnlineStatusAfterProbe h x (row_sid row) (row_dep row)
                                     (vr_railwayOnlineStatus row) (Some hb) (Some True)))
             (snd (probe_outcome R h cfg row ok (fst (heartbeat_state row a)) a1)))"
proof (cases "railwayHeartbeatEnabled h")
  case False
  then show ?thesis by (intro off) (simp_all add: heartbeat_phase_def Let_def case_prod_beta split: option.splits)
next
  case True
  show ?thesis
  proof (cases "buildHeartbeatProbeUrl h (vr_railwayPublicUrl row) (vr_service row)")
    case None
    with True show ?thesis
      by (intro skipped) (simp_all add: heartbeat_phase_def nonempty_opt_def Let_def case_prod_beta)
  next
    case (Some url)
    have ne: "nonempty_opt (Some url) = Some url"
      using probe_url_not_Nil [OF Some] by (simp add: nonempty_opt_def)
    define a0 where "a0 = snd (heartbeat_state row a)"
    define pr where "pr = pingHeartbeatUrl R url (snd (perf_now R (ta_world a0)))"
    define hb where "hb = \<lparr>hp_serviceId = row_sid row, hp_service = row_name row, hp_probeUrl = Some url,
        hp_skipped = False, hp_ok = Some (po_ok (fst pr)), hp_statusCode = po_statusCode (fst pr),
        hp_latencyMs = Some (po_latencyMs (fst pr)), hp_error = nonempty_opt (po_error (fst pr))\<rparr>"
    define a1 where "a1 = activity R Act_http url (Some ''GET'')
      (Some (perf_ms (fst (perf_now R (ta_world a0))) (fst (perf_now R (snd pr)))))
      (Some (case po_statusCode (fst pr) of Some c \<Rightarrow> StatusCode c
             | None \<Rightarrow> if po_ok (fst pr) then StatusCode 200 else StatusText ''fail''))
      (nonempty_opt (po_error (fst pr)))
      (a0\<lparr>ta_world := snd (perf_now R (snd pr)), ta_probes := ta_probes a0 + 1\<rparr>)"
    have st: "\<exists>e. ta_state a1 = pushActivity e (ta_state a0)"
      by (auto simp: a1_def activity_def Let_def case_prod_beta)
    then obtain e where "ta_state a1 = pushActivity e (ta_state a0)" by blast
    moreover have "w_trace (ta_world a1) = w_trace (ta_world a) @ [Call_http url]"
      by (simp add: a1_def pr_def a0_def)
    moreover have "probe_of (Some hb) = (if po_ok (fst pr) then ProbeOk else ProbeFailed)"
      by (simp add: probe_of_def hb_def)
    moreover have "ta_events a1 = ta_events a" "ta_probes a1 = ta_probes a + 1" "ta_ok a1 = ta_ok a"
      "ta_fail a1 = ta_fail a" "ta_skipped a1 = ta_skipped a"
      by (simp_all add: a1_def a0_def)
    moreover have "heartbeat_phase R h cfg row a =
         on_state (\<lambda>st. st\<lparr>ws_heartbeatRecoverState := (ws_heartbeatRecoverState st)(row_sid row \<mapsto>
             fst (probe_outcome R h cfg row (po_ok (fst pr)) (fst (heartbeat_state row a)) a1))\<rparr>)
           (on_exit_lifecycle (\<lambda>x. snd (effectiveRailwayOnlineStatusAfterProbe h x (row_sid row) (row_dep row)
                                     (vr_railwayOnlineStatus row) (Some hb) (Some True)))
             (snd (probe_outcome R h cfg row (po_ok (fst pr)) (fst (heartbeat_state row a)) a1)))"
      using Some True
      by (simp add: heartbeat_phase_def probe_phase_def hb_def a1_def pr_def a0_def ne Let_def case_prod_beta)
    ultimately show ?thesis using probed True unfolding a0_def by blast
  qed
qed

text \<open>What the outcome of a probe leaves alone.\<close>

lemma hb_recover_acc [simp]:
  "ta_probes (snd (heartbeat_recover R h cfg row s a)) = ta_probes a"
  "ta_ok (snd (heartbeat_recover R h cfg row s a)) = ta_ok a"
  "ta_fail (snd (heartbeat_recover R h cfg row s a)) = ta_fail a"
  "ta_skipped (snd (heartbeat_recover R h cfg row s a)) = ta_skipped a"
  "ws_prev (ta_state (snd (heartbeat_recover R h cfg row s a))) = ws_prev (ta_state a)"
  "ws_recoverCooldown (ta_state (snd (heartbeat_recover R h cfg row s a))) = ws_recoverCooldown (ta_state a)"
  "ws_heartbeatRecoverState (ta_state (snd (heartbeat_recover R h cfg row s a))) = ws_heartbeatRecoverState (ta_state a)"
  "ws_heartbeatExitLifecycle (ta_state (snd (heartbeat_recover R h cfg row s a))) = ws_heartbeatExitLifecycle (ta_state a)"
  unfolding heartbeat_recover_def Let_def case_prod_beta by (simp_all split: option.splits)

lemma outcome_acc [simp]:
  "ta_probes (snd (probe_outcome R h cfg row ok s a)) = ta_probes a"
  "ta_ok (snd (probe_outcome R h cfg row ok s a)) = ta_ok a + (if ok then 1 else 0)"
  "ta_fail (snd (probe_outcome R h cfg row ok s a)) = ta_fail a + (if ok then 0 else 1)"
  "ta_skipped (snd (probe_outcome R h cfg row ok s a)) = ta_skipped a"
  "ws_prev (ta_state (snd (probe_outcome R h cfg row ok s a))) = ws_prev (ta_state a)"
  "ws_recoverCooldown (ta_state (snd (probe_outcome R h cfg row ok s a))) = ws_recoverCooldown (ta_state a)"
  "ws_heartbeatRecoverState (ta_state (snd (probe_outcome R h cfg row ok s a))) = ws_heartbeatRecoverState (ta_state a)"
  "ws_heartbeatExitLifecycle (ta_state (snd (probe_outcome R h cfg row ok s a))) = ws_heartbeatExitLifecycle (ta_state a)"
  by (simp_all add: probe_outcome_def Let_def)

lemma pushActivity_sel [simp]:
  "ws_prev (pushActivity e s) = ws_prev s" "ws_recoverCooldown (pushActivity e s) = ws_recoverCooldown s"
  "ws_heartbeatRecoverState (pushActivity e s) = ws_heartbeatRecoverState s"
  "ws_heartbeatLastRecoverAt (pushActivity e s) = ws_heartbeatLastRecoverAt s"
  "ws_heartbeatExitLifecycle (pushActivity e s) = ws_heartbeatExitLifecycle s"
  "ws_logTail (pushActivity e s) = ws_logTail s"
  by (simp_all add: pushActivity_def)

lemma heartbeat_recover_trace:
  "w_trace (ta_world (snd (heartbeat_recover R h cfg row s a))) = w_trace (ta_world a) \<or>
   w_trace (ta_world (snd (heartbeat_recover R h cfg row s a))) = w_trace (ta_world a) @ deploy_call h cfg (row_sid row)"
  unfolding heartbeat_recover_def Let_def case_prod_beta
  by (simp split: option.splits)

lemma outcome_trace:
  "w_trace (ta_world (snd (probe_outcome R h cfg row ok s a))) = w_trace (ta_world a) \<or>
   heartbeat_recover_due h cfg row \<and>
   w_trace (ta_world (snd (probe_outcome R h cfg row ok s a))) = w_trace (ta_world a) @ deploy_call h cfg (row_sid row)"
  using heartbeat_recover_trace [of R h cfg row s "a\<lparr>ta_fail := ta_fail a + 1\<rparr>"]
  by (auto simp: probe_outcome_def Let_def)

lemma heartbeat_phase_grows:
  "grows [] a (heartbeat_phase R h cfg row a) \<or>
   heartbeat_recover_due h cfg row \<and>
   grows (deploy_call h cfg (row_sid row)) a (heartbeat_phase R h cfg row a)"
proof (cases rule: heartbeat_phase_cases [where R = R and h = h and cfg = cfg and row = row and a = a])
  case (probed url e ok hb a1)
  then show ?thesis
    using outcome_trace [of R h cfg row ok "fst (heartbeat_state row a)" a1]
    by (auto simp: grows_def muts_deploy)
qed (simp_all add: grows_same)

text \<open>A row may be redeployed: healthy for Railway (liveness paths) or failed (auto-recover).\<close>

definition may_redeploy :: "tick_cfg \<Rightarrow> RailwayVisibilityRow \<Rightarrow> bool" where
  "may_redeploy cfg row \<longleftrightarrow>
     cf_autoRecover cfg \<and> (isHealthy (row_cur row) \<or> needsAutoRecoverTrigger (row_cur row))"

lemma tick_row_grows:
  "\<exists>ms. grows ms a (tick_row R h cfg row a) \<and>
     (ms = [] \<or> may_redeploy cfg row \<and> ms = deploy_call h cfg (row_sid row))"
proof -
  define b where "b = exit_redeploy_phase R h cfg row a"
  define c where "c = heartbeat_phase R h cfg row b"
  define d where "d = auto_recover_phase R h cfg row c"
  let ?dep = "deploy_call h cfg (row_sid row)"
  have fin: "grows ms a (tick_row R h cfg row a) \<longleftrightarrow> grows ms a d" for ms
    by (simp add: grows_def tick_row_def b_def c_def d_def Let_def)
  have ab: "grows (if exit_redeploy_due h cfg row a then ?dep else []) a b"
    using grows_trace [OF exit_phase_trace [of R h cfg row a]] by (simp add: b_def muts_deploy split: if_splits)
  have bc: "grows [] b c \<or> heartbeat_recover_due h cfg row \<and> grows ?dep b c"
    using heartbeat_phase_grows by (simp add: c_def)
  have cd: "grows (if auto_recover_due R cfg row c then ?dep else []) c d"
    using grows_trace [OF auto_phase_trace [of R h cfg row c]] by (simp add: d_def muts_deploy split: if_splits)
  have excl: "\<not> (exit_redeploy_due h cfg row a \<and> heartbeat_recover_due h cfg row)"
    "\<not> (exit_redeploy_due h cfg row a \<and> auto_recover_due R cfg row c)"
    "\<not> (heartbeat_recover_due h cfg row \<and> auto_recover_due R cfg row c)"
    by (auto simp: exit_redeploy_due_def heartbeat_recover_due_def auto_recover_due_def dest: healthy_not_bad)
  have may: "exit_redeploy_due h cfg row a \<Longrightarrow> may_redeploy cfg row"
    "heartbeat_recover_due h cfg row \<Longrightarrow> may_redeploy cfg row"
    "auto_recover_due R cfg row c \<Longrightarrow> may_redeploy cfg row"
    by (auto simp: may_redeploy_def exit_redeploy_due_def heartbeat_recover_due_def auto_recover_due_def)
  from bc show ?thesis
  proof
    assume "grows [] b c"
    from grows_trans [OF grows_trans [OF ab this] cd] show ?thesis
      unfolding fin using excl may by (auto split: if_splits)
  next
    assume hb: "heartbeat_recover_due h cfg row \<and> grows ?dep b c"
    then have "grows ?dep b c" ..
    from grows_trans [OF grows_trans [OF ab this] cd] show ?thesis
      unfolding fin using excl may hb by (auto split: if_splits)
  qed
qed

definition redeploys :: "tick_cfg \<Rightarrow> RailwayVisibilityRow list \<Rightarrow> call list" where
  "redeploys cfg rows =
     map (\<lambda>row. Call_gql (Gql_ServiceInstanceDeploy (cf_environmentId cfg) (row_sid row)))
       (filter (may_redeploy cfg) rows)"

lemma rows_grow:
  "\<exists>ms. grows ms a (fold (tick_row R h cfg) rows a) \<and> subseq ms (redeploys cfg rows)"
proof (induction rows arbitrary: a)
  case Nil
  then show ?case by (auto simp: redeploys_def intro: exI [of _ "[]"] grows_same)
next
  case (Cons row rows)
  obtain ms where ms: "grows ms a (tick_row R h cfg row a)"
    "ms = [] \<or> may_redeploy cfg row \<and> ms = deploy_call h cfg (row_sid row)"
    using tick_row_grows by blast
  obtain ns where ns: "grows ns (tick_row R h cfg row a) (fold (tick_row R h cfg) rows (tick_row R h cfg row a))"
    "subseq ns (redeploys cfg rows)"
    using Cons.IH by blast
  have "subseq (ms @ ns) (redeploys cfg (row # rows))"
    using ms(2) ns(2) by (auto simp: redeploys_def gql_calls_def)
  with grows_trans [OF ms(1) ns(1)] show ?case by auto
qed

lemma poll_queries:
  "\<exists>cs. w_trace (ta_world (snd (poll_rows R h st w))) = w_trace w @ cs \<and> muts cs = []"
proof -
  from only_queries_rows [of "snd (perf_now R w)" R h False]
  obtain cs where "w_trace (snd (fetchRailwayVisibilityRows R h False (snd (perf_now R w)))) = w_trace w @ cs"
    and "list_all is_query cs"
    by (auto simp: only_queries_def)
  then show ?thesis by (auto simp: poll_rows_def case_prod_beta Let_def start_acc_def muts_queries)
qed

abbreviation tick_world :: "remote \<Rightarrow> host \<Rightarrow> WatchdogPersistentState \<Rightarrow> world \<Rightarrow> world" where
  "tick_world R h st w \<equiv> snd (snd (runRailwayWatchdogTick R h st w))"

abbreviation tick_state :: "remote \<Rightarrow> host \<Rightarrow> WatchdogPersistentState \<Rightarrow> world \<Rightarrow> WatchdogPersistentState" where
  "tick_state R h st w \<equiv> fst (snd (runRailwayWatchdogTick R h st w))"

abbreviation tick_payload :: "remote \<Rightarrow> host \<Rightarrow> WatchdogPersistentState \<Rightarrow> world \<Rightarrow> WatchdogPayload" where
  "tick_payload R h st w \<equiv> fst (runRailwayWatchdogTick R h st w)"

text \<open>The rows the tick at \<open>w\<close> works on, and its accumulator after the loop.\<close>

abbreviation tick_rows :: "remote \<Rightarrow> host \<Rightarrow> world \<Rightarrow> visibility_result" where
  "tick_rows R h w \<equiv> fst (fetchRailwayVisibilityRows R h False (snd (perf_now R w)))"

definition tick_now :: "remote \<Rightarrow> host \<Rightarrow> WatchdogPersistentState \<Rightarrow> world \<Rightarrow> string" where
  "tick_now R h st w = js_toISOString (fst (read_clock R (snd (poll_rows R h st w))))"

definition tick_loop :: "remote \<Rightarrow> host \<Rightarrow> WatchdogPersistentState \<Rightarrow> world \<Rightarrow> tick_acc" where
  "tick_loop R h st w =
     fold (tick_row R h (tick_config R h (tick_now R h st w))) (vz_containers (tick_rows R h w))
       (snd (read_clock R (snd (poll_rows R h st w))))"

lemma fst_poll_rows [simp]: "fst (poll_rows R h st w) = tick_rows R h w"
  by (simp add: poll_rows_def Let_def case_prod_beta)

lemma tick_ok:
  "\<not> truthy (vz_error (tick_rows R h w)) \<Longrightarrow> runRailwayWatchdogTick R h st w =
     (fst (finish_tick h (tick_now R h st w) (vz_containers (tick_rows R h w)) (tick_loop R h st w)),
      snd (finish_tick h (tick_now R h st w) (vz_containers (tick_rows R h w)) (tick_loop R h st w)),
      ta_world (tick_loop R h st w))"
  by (simp add: runRailwayWatchdogTick_def tick_loop_def tick_now_def Let_def case_prod_beta)

lemma tick_error:
  "truthy (vz_error (tick_rows R h w)) \<Longrightarrow> runRailwayWatchdogTick R h st w =
     (\<lparr>pl_source = Src_railway, pl_intervalSec = railwayWatchdogIntervalSec h, pl_lastTickAt = None,
       pl_instancesMonitored = 0, pl_events = [], pl_logTail = opt_log (ws_logTail (ta_state (snd (poll_rows R h st w)))),
       pl_error = vz_error (tick_rows R h w), pl_heartbeat = None,
       pl_apiActivity = Some (ws_apiActivity (ta_state (snd (poll_rows R h st w))))\<rparr>,
      ta_state (snd (poll_rows R h st w)), ta_world (snd (poll_rows R h st w)))"
  by (simp add: runRailwayWatchdogTick_def Let_def case_prod_beta)

lemma cfg_sel [simp]:
  "cf_environmentId (tick_config R h now) = coalesce (runtimeEnv h ''RAILWAY_ENVIRONMENT_ID'') []"
  "cf_autoRecover (tick_config R h now) \<longleftrightarrow>
     railwayWatchdogAutoRecoverEnabled h \<and> truthy (runtimeEnv h ''RAILWAY_ENVIRONMENT_ID'')"
  "cf_now (tick_config R h now) = now"
  by (auto simp: tick_config_def Let_def truthy_def split: option.splits)

lemma tick_grows:
  "\<exists>cs. w_trace (tick_world R h st w) = w_trace w @ cs \<and>
     subseq (muts cs) (redeploys (tick_config R h (tick_now R h st w)) (vz_containers (tick_rows R h w)))"
proof -
  let ?p = "snd (poll_rows R h st w)"
  obtain cs where cs: "w_trace (ta_world ?p) = w_trace w @ cs" "muts cs = []"
    using poll_queries by blast
  show ?thesis
  proof (cases "truthy (vz_error (tick_rows R h w))")
    case True
    with cs show ?thesis by (auto simp: tick_error)
  next
    case False
    obtain ms where ms: "grows ms (snd (read_clock R ?p)) (tick_loop R h st w)"
      "subseq ms (redeploys (tick_config R h (tick_now R h st w)) (vz_containers (tick_rows R h w)))"
      unfolding tick_loop_def using rows_grow by blast
    then obtain ds where "w_trace (ta_world (tick_loop R h st w)) = w_trace (ta_world ?p) @ ds" "muts ds = ms"
      by (auto simp: grows_def)
    with cs ms(2) show ?thesis by (auto simp: tick_ok [OF False])
  qed
qed

section \<open>Bounds of the logs\<close>

definition logs_ok :: "WatchdogPersistentState \<Rightarrow> bool" where
  "logs_ok st \<longleftrightarrow> length (ws_logTail st) \<le> LOG_TAIL_MAX \<and> length (ws_apiActivity st) \<le> API_ACTIVITY_MAX"

lemma logs_ok_updates [simp]:
  "logs_ok (st\<lparr>ws_prev := x1\<rparr>) = logs_ok st"
  "logs_ok (st\<lparr>ws_recoverCooldown := x2\<rparr>) = logs_ok st"
  "logs_ok (st\<lparr>ws_heartbeatRecoverState := x3\<rparr>) = logs_ok st"
  "logs_ok (st\<lparr>ws_heartbeatLastRecoverAt := x4\<rparr>) = logs_ok st"
  "logs_ok (st\<lparr>ws_heartbeatExitLifecycle := x5\<rparr>) = logs_ok st"
  by (simp_all add: logs_ok_def)

lemma logs_ok_push [simp]: "logs_ok st \<Longrightarrow> logs_ok (pushLogLine l st)"
  using log_tail.length_view_push [of l st] by (simp add: logs_ok_def)

lemma logs_ok_activity [simp]:
  "logs_ok (ta_state a) \<Longrightarrow> logs_ok (ta_state (activity R kd tg mt ms stt dt a))"
  using api_activity.length_view_push by (simp add: logs_ok_def activity_def Let_def case_prod_beta)

lemma logs_ok_deploy [simp]:
  "logs_ok (ta_state a) \<Longrightarrow> logs_ok (ta_state (snd (deploy_latest R h cfg sid tg a)))"
  by (simp add: deploy_latest_def Let_def case_prod_beta split: sum.splits)

lemma logs_ok_exit: "logs_ok (ta_state a) \<Longrightarrow> logs_ok (ta_state (exit_redeploy_phase R h cfg row a))"
  by (simp add: exit_redeploy_phase_def Let_def case_prod_beta split: option.splits)

lemma logs_ok_hb_state: "logs_ok (ta_state a) \<Longrightarrow> logs_ok (ta_state (snd (heartbeat_state row a)))"
  by (simp add: heartbeat_state_def Let_def split: option.splits)

lemma logs_ok_hb_redeploy [simp]:
  "logs_ok (ta_state a) \<Longrightarrow> logs_ok (ta_state (snd (heartbeat_redeploy R h cfg row s a)))"
  unfolding heartbeat_redeploy_def Let_def case_prod_beta by (simp split: option.splits)

lemma logs_ok_auto_redeploy [simp]:
  "logs_ok (ta_state a) \<Longrightarrow> logs_ok (ta_state (auto_redeploy R h cfg row a))"
  unfolding auto_redeploy_def Let_def case_prod_beta by (simp split: option.splits)

lemma logs_ok_hb_recover:
  "logs_ok (ta_state a) \<Longrightarrow> logs_ok (ta_state (snd (heartbeat_recover R h cfg row s a)))"
  unfolding heartbeat_recover_def Let_def case_prod_beta by (simp split: option.splits)

lemma logs_ok_pushActivity [simp]: "logs_ok st \<Longrightarrow> logs_ok (pushActivity e st)"
  using api_activity.length_view_push [of e st] by (simp add: logs_ok_def)

lemma logs_ok_outcome: "logs_ok (ta_state a) \<Longrightarrow> logs_ok (ta_state (snd (probe_outcome R h cfg row ok s a)))"
  by (simp add: probe_outcome_def Let_def logs_ok_hb_recover)

lemma logs_ok_heartbeat:
  assumes "logs_ok (ta_state a)"
  shows "logs_ok (ta_state (heartbeat_phase R h cfg row a))"
proof (cases rule: heartbeat_phase_cases [where R = R and h = h and cfg = cfg and row = row and a = a])
  case skipped
  then show ?thesis using logs_ok_hb_state [OF assms, of row] by (simp add: skip_phase_def Let_def)
qed (use logs_ok_hb_state [OF assms, of row] in \<open>simp_all add: logs_ok_outcome\<close>)

lemma logs_ok_auto: "logs_ok (ta_state a) \<Longrightarrow> logs_ok (ta_state (auto_recover_phase R h cfg row a))"
  by (simp add: auto_recover_phase_def Let_def case_prod_beta split: option.splits)

lemma logs_ok_transition: "logs_ok (ta_state a) \<Longrightarrow> logs_ok (ta_state (transition_phase R cfg row p a))"
  by (simp add: transition_phase_def stopped_event_def lifecycle_event_def recovery_event_def Let_def
      case_prod_beta split: option.splits)

lemma logs_ok_row: "logs_ok (ta_state a) \<Longrightarrow> logs_ok (ta_state (tick_row R h cfg row a))"
  by (simp add: tick_row_def remember_row_def Let_def logs_ok_exit logs_ok_heartbeat logs_ok_auto
      logs_ok_transition)

lemma fold_rows_inv:
  assumes "\<And>row a. row \<in> set rows \<Longrightarrow> P a \<Longrightarrow> P (tick_row R h cfg row a)" and "P a"
  shows "P (fold (tick_row R h cfg) rows a)"
  using assms by (induction rows arbitrary: a) auto

lemma logs_ok_poll: "logs_ok st \<Longrightarrow> logs_ok (ta_state (snd (poll_rows R h st w)))"
  by (simp add: poll_rows_def Let_def case_prod_beta start_acc_def)

lemma logs_ok_loop: "logs_ok st \<Longrightarrow> logs_ok (ta_state (tick_loop R h st w))"
  unfolding tick_loop_def by (rule fold_rows_inv) (auto simp: logs_ok_row logs_ok_poll)

lemma logs_ok_fold_push: "logs_ok st \<Longrightarrow> logs_ok (fold (\<lambda>ev. pushLogLine (f ev)) evs st)"
  by (induction evs arbitrary: st) auto

lemma logs_ok_finish: "logs_ok (ta_state a) \<Longrightarrow> logs_ok (snd (finish_tick h now rows a))"
  by (simp add: finish_tick_def Let_def prune_def logs_ok_fold_push)

lemma logs_ok_tick: "logs_ok st \<Longrightarrow> logs_ok (tick_state R h st w)"
  by (cases "truthy (vz_error (tick_rows R h w))") (simp_all add: tick_error tick_ok logs_ok_poll logs_ok_loop logs_ok_finish)

section \<open>Counters\<close>

definition heartbeat_counts :: "tick_acc \<Rightarrow> int \<times> int \<times> int" where
  "heartbeat_counts a = (ta_probes a, ta_ok a + ta_fail a, ta_probes a + ta_skipped a)"

lemma counts_exit [simp]: "heartbeat_counts (exit_redeploy_phase R h cfg row a) = heartbeat_counts a"
  by (simp add: exit_redeploy_phase_def heartbeat_counts_def Let_def case_prod_beta split: option.splits)

lemma counts_auto [simp]: "heartbeat_counts (auto_recover_phase R h cfg row a) = heartbeat_counts a"
  by (simp add: auto_recover_phase_def heartbeat_counts_def Let_def case_prod_beta split: option.splits)

lemma counts_transition [simp]: "heartbeat_counts (remember_row row (transition_phase R cfg row p a)) = heartbeat_counts a"
proof -
  have "heartbeat_counts (stopped_event R cfg row e b) = heartbeat_counts b"
    "heartbeat_counts (snd (lifecycle_event cfg row e b)) = heartbeat_counts b"
    "heartbeat_counts (recovery_event cfg row e f b) = heartbeat_counts b"
    "heartbeat_counts (remember_row row b) = heartbeat_counts b" for e f b
    by (simp_all add: stopped_event_def lifecycle_event_def recovery_event_def remember_row_def heartbeat_counts_def
        Let_def case_prod_beta)
  then show ?thesis by (simp add: transition_phase_def Let_def case_prod_beta split: option.splits)
qed

lemma counts_heartbeat:
  assumes "heartbeat_counts a = (p, p, t)"
  shows "\<exists>p'. heartbeat_counts (heartbeat_phase R h cfg row a) =
    (p', p', if railwayHeartbeatEnabled h then t + 1 else t)"
  by (cases rule: heartbeat_phase_cases [where R = R and h = h and cfg = cfg and row = row and a = a])
    (use assms in \<open>auto simp: heartbeat_counts_def\<close>)

lemma counts_rows:
  assumes "heartbeat_counts a = (p, p, t)"
  shows "\<exists>p'. heartbeat_counts (fold (tick_row R h cfg) rows a) =
    (p', p', if railwayHeartbeatEnabled h then t + int (length rows) else t)"
  using assms
proof (induction rows arbitrary: a p t)
  case (Cons row rows)
  let ?a1 = "tick_row R h cfg row a"
  have "heartbeat_counts (exit_redeploy_phase R h cfg row a) = (p, p, t)" using Cons.prems by simp
  from counts_heartbeat [OF this, of R h cfg row]
  obtain p' where "heartbeat_counts ?a1 = (p', p', if railwayHeartbeatEnabled h then t + 1 else t)"
    by (auto simp: tick_row_def Let_def)
  from Cons.IH [OF this] show ?case by (auto simp: algebra_simps split: if_splits)
qed simp

lemma counts_loop:
  "\<exists>p. heartbeat_counts (tick_loop R h st w) =
    (p, p, if railwayHeartbeatEnabled h then int (length (vz_containers (tick_rows R h w))) else 0)"
  using counts_rows [of "snd (read_clock R (snd (poll_rows R h st w)))" 0 0]
  by (simp add: tick_loop_def heartbeat_counts_def poll_rows_def start_acc_def Let_def case_prod_beta)

section \<open>What a tick remembers\<close>

definition row_entry :: "RailwayVisibilityRow \<Rightarrow> WatchdogPrevEntry" where
  "row_entry row = \<lparr>pe_deploymentStatus = row_cur row, pe_deploymentId = row_dep row,
                    pe_onlineStatus = vr_railwayOnlineStatus row\<rparr>"

lemma prev_exit [simp]: "ws_prev (ta_state (exit_redeploy_phase R h cfg row a)) = ws_prev (ta_state a)"
  by (simp add: exit_redeploy_phase_def Let_def case_prod_beta split: option.splits)

lemma prev_heartbeat [simp]: "ws_prev (ta_state (heartbeat_phase R h cfg row a)) = ws_prev (ta_state a)"
  by (cases rule: heartbeat_phase_cases [where R = R and h = h and cfg = cfg and row = row and a = a]) simp_all

lemma prev_auto [simp]: "ws_prev (ta_state (auto_recover_phase R h cfg row a)) = ws_prev (ta_state a)"
  by (simp add: auto_recover_phase_def Let_def case_prod_beta split: option.splits)

lemma transition_core [simp]: "core (ta_state (transition_phase R cfg row p a)) = core (ta_state a)"
proof -
  have "core (ta_state (stopped_event R cfg row e b)) = core (ta_state b)"
    "core (ta_state (snd (lifecycle_event cfg row e b))) = core (ta_state b)"
    "core (ta_state (recovery_event cfg row e f b)) = core (ta_state b)" for e f b
    unfolding stopped_event_def lifecycle_event_def recovery_event_def Let_def by (simp_all add: case_prod_beta)
  then show ?thesis by (simp add: transition_phase_def Let_def case_prod_beta split: option.splits)
qed

lemmas transition_sel [simp] = core_eq_sel [OF transition_core, THEN conjunct1]
  core_eq_sel [OF transition_core, THEN conjunct2, THEN conjunct1]
  core_eq_sel [OF transition_core, THEN conjunct2, THEN conjunct2, THEN conjunct1]
  core_eq_sel [OF transition_core, THEN conjunct2, THEN conjunct2, THEN conjunct2, THEN conjunct1]
  core_eq_sel [OF transition_core, THEN conjunct2, THEN conjunct2, THEN conjunct2, THEN conjunct2]

lemma remember_sel [simp]:
  "ws_prev (ta_state (remember_row row a)) = (ws_prev (ta_state a))(row_sid row \<mapsto> row_entry row)"
  "ws_recoverCooldown (ta_state (remember_row row a)) = ws_recoverCooldown (ta_state a)"
  "ws_heartbeatRecoverState (ta_state (remember_row row a)) = ws_heartbeatRecoverState (ta_state a)"
  "ws_heartbeatLastRecoverAt (ta_state (remember_row row a)) = ws_heartbeatLastRecoverAt (ta_state a)"
  "ws_heartbeatExitLifecycle (ta_state (remember_row row a)) = ws_heartbeatExitLifecycle (ta_state a)"
  by (simp_all add: remember_row_def row_entry_def)

lemma prev_row: "ws_prev (ta_state (tick_row R h cfg row a)) = (ws_prev (ta_state a))(row_sid row \<mapsto> row_entry row)"
  by (simp add: tick_row_def Let_def)

lemma prev_rows:
  "ws_prev (ta_state (fold (tick_row R h cfg) rows a)) =
     ws_prev (ta_state a) ++ map_of (rev (map (\<lambda>r. (row_sid r, row_entry r)) rows))"
  by (induction rows arbitrary: a) (simp_all add: prev_row)

lemma fold_push_sel [simp]:
  "ws_prev (fold (\<lambda>ev. pushLogLine (f ev)) evs st) = ws_prev st"
  "ws_recoverCooldown (fold (\<lambda>ev. pushLogLine (f ev)) evs st) = ws_recoverCooldown st"
  "ws_heartbeatRecoverState (fold (\<lambda>ev. pushLogLine (f ev)) evs st) = ws_heartbeatRecoverState st"
  "ws_heartbeatLastRecoverAt (fold (\<lambda>ev. pushLogLine (f ev)) evs st) = ws_heartbeatLastRecoverAt st"
  "ws_heartbeatExitLifecycle (fold (\<lambda>ev. pushLogLine (f ev)) evs st) = ws_heartbeatExitLifecycle st"
  "ws_apiActivity (fold (\<lambda>ev. pushLogLine (f ev)) evs st) = ws_apiActivity st"
  by (induction evs arbitrary: st) simp_all

lemma finish_sel [simp]:
  "ws_prev (snd (finish_tick h now rows a)) = ws_prev (ta_state a) |` set (map row_sid rows)"
  "ws_recoverCooldown (snd (finish_tick h now rows a)) = ws_recoverCooldown (ta_state a)"
  "ws_heartbeatRecoverState (snd (finish_tick h now rows a)) =
     ws_heartbeatRecoverState (ta_state a) |` set (map row_sid rows)"
  "ws_heartbeatLastRecoverAt (snd (finish_tick h now rows a)) =
     ws_heartbeatLastRecoverAt (ta_state a) |` set (map row_sid rows)"
  "ws_heartbeatExitLifecycle (snd (finish_tick h now rows a)) = ws_heartbeatExitLifecycle (ta_state a)"
  "ws_apiActivity (snd (finish_tick h now rows a)) = ws_apiActivity (ta_state a)"
  by (simp_all add: finish_tick_def Let_def prune_def)

lemma restrict_add_map_of:
  "(m ++ map_of (rev (map (\<lambda>r. (f r, g r)) rows))) |` set (map f rows) = map_of (rev (map (\<lambda>r. (f r, g r)) rows))"
proof
  fix k
  have "map_of (rev (map (\<lambda>r. (f r, g r)) rows)) k = None \<longleftrightarrow> k \<notin> set (map f rows)"
    by (simp add: map_of_eq_None_iff image_image)
  then show "((m ++ map_of (rev (map (\<lambda>r. (f r, g r)) rows))) |` set (map f rows)) k =
      map_of (rev (map (\<lambda>r. (f r, g r)) rows)) k"
    by (auto simp: restrict_map_def map_add_def split: option.splits)
qed

lemma prev_tick:
  "\<not> truthy (vz_error (tick_rows R h w)) \<Longrightarrow> ws_prev (tick_state R h st w) =
     map_of (rev (map (\<lambda>r. (row_sid r, row_entry r)) (vz_containers (tick_rows R h w))))"
  using restrict_add_map_of [of _ row_sid row_entry]
  by (simp add: tick_ok tick_loop_def prev_rows)

section \<open>The budget of heartbeat redeploys\<close>

definition hb_ok :: "int \<Rightarrow> HeartbeatRecoverState \<Rightarrow> bool" where
  "hb_ok mx s \<longleftrightarrow> 0 \<le> hb_recoveriesUsed s \<and> hb_recoveriesUsed s \<le> mx \<and> 0 \<le> hb_consecutiveMisses s"

definition budget_ok :: "int \<Rightarrow> WatchdogPersistentState \<Rightarrow> bool" where
  "budget_ok mx st \<longleftrightarrow> (\<forall>sid s. ws_heartbeatRecoverState st sid = Some s \<longrightarrow> hb_ok mx s)"

lemma max_recover_nonneg [simp]: "0 \<le> heartbeatMaxRecoverPerEpoch h"
  unfolding heartbeatMaxRecoverPerEpoch_def by (rule int_setting_ok) simp

lemma hb_redeploy_ok:
  "hb_ok mx s \<Longrightarrow> hb_recoveriesUsed s < mx \<Longrightarrow> hb_ok mx (fst (heartbeat_redeploy R h cfg row s a))"
  unfolding heartbeat_redeploy_def Let_def case_prod_beta by (simp add: hb_ok_def split: option.splits)

lemma hb_recover_ok: "hb_ok (cf_hbMaxRecover cfg) s \<Longrightarrow> hb_ok (cf_hbMaxRecover cfg) (fst (heartbeat_recover R h cfg row s a))"
  using hb_redeploy_ok [of "cf_hbMaxRecover cfg" "s\<lparr>hb_consecutiveMisses := hb_consecutiveMisses s + 1\<rparr>"]
  by (simp add: heartbeat_recover_def Let_def case_prod_beta) (simp add: hb_ok_def)

lemma hbmap_exit [simp]:
  "ws_heartbeatRecoverState (ta_state (exit_redeploy_phase R h cfg row a)) = ws_heartbeatRecoverState (ta_state a)"
  by (simp add: exit_redeploy_phase_def Let_def case_prod_beta split: option.splits)

lemma hbmap_auto [simp]:
  "ws_heartbeatRecoverState (ta_state (auto_recover_phase R h cfg row a)) = ws_heartbeatRecoverState (ta_state a)"
  by (simp add: auto_recover_phase_def Let_def case_prod_beta split: option.splits)

lemma budget_hb_state:
  "0 \<le> mx \<Longrightarrow> budget_ok mx (ta_state a) \<Longrightarrow>
     hb_ok mx (fst (heartbeat_state row a)) \<and> budget_ok mx (ta_state (snd (heartbeat_state row a)))"
  by (auto simp: heartbeat_state_def budget_ok_def hb_ok_def Let_def split: option.splits if_splits)

lemma budget_set:
  "budget_ok mx st \<Longrightarrow> hb_ok mx s \<Longrightarrow>
     budget_ok mx (st\<lparr>ws_heartbeatRecoverState := (ws_heartbeatRecoverState st)(sid \<mapsto> s)\<rparr>)"
  by (simp add: budget_ok_def)

lemma outcome_ok: "hb_ok (cf_hbMaxRecover cfg) s \<Longrightarrow> hb_ok (cf_hbMaxRecover cfg) (fst (probe_outcome R h cfg row ok s a))"
  using hb_recover_ok [of cfg s] by (simp add: probe_outcome_def Let_def) (simp add: hb_ok_def)

lemma budget_heartbeat:
  assumes "budget_ok (cf_hbMaxRecover cfg) (ta_state a)" and "0 \<le> cf_hbMaxRecover cfg"
  shows "budget_ok (cf_hbMaxRecover cfg) (ta_state (heartbeat_phase R h cfg row a))"
proof (cases rule: heartbeat_phase_cases [where R = R and h = h and cfg = cfg and row = row and a = a])
  case (probed url e ok hb a1)
  then show ?thesis
    using budget_hb_state [OF assms(2,1), of row] outcome_ok [of cfg "fst (heartbeat_state row a)" R h row ok a1]
    by (simp add: budget_ok_def)
qed (use budget_hb_state [OF assms(2,1), of row] in \<open>simp_all add: budget_ok_def\<close>)

lemma budget_row:
  "budget_ok (cf_hbMaxRecover cfg) (ta_state a) \<Longrightarrow> 0 \<le> cf_hbMaxRecover cfg \<Longrightarrow>
     budget_ok (cf_hbMaxRecover cfg) (ta_state (tick_row R h cfg row a))"
  using budget_heartbeat [of cfg "exit_redeploy_phase R h cfg row a" R h row]
  by (simp add: tick_row_def Let_def budget_ok_def)

lemma budget_tick:
  assumes "budget_ok (heartbeatMaxRecoverPerEpoch h) st"
  shows "budget_ok (heartbeatMaxRecoverPerEpoch h) (tick_state R h st w)"
proof -
  let ?cfg = "tick_config R h (tick_now R h st w)"
  have mx: "cf_hbMaxRecover ?cfg = heartbeatMaxRecoverPerEpoch h" by (simp add: tick_config_def Let_def)
  have poll: "ws_heartbeatRecoverState (ta_state (snd (poll_rows R h st w))) = ws_heartbeatRecoverState st"
    by (simp add: poll_rows_def Let_def case_prod_beta start_acc_def)
  have "budget_ok (cf_hbMaxRecover ?cfg) (ta_state (tick_loop R h st w))"
    unfolding tick_loop_def
  proof (rule fold_rows_inv)
    show "budget_ok (cf_hbMaxRecover ?cfg) (ta_state (snd (read_clock R (snd (poll_rows R h st w)))))"
      using assms poll by (simp add: mx budget_ok_def)
  next
    show "budget_ok (cf_hbMaxRecover ?cfg) (ta_state (tick_row R h ?cfg row a))"
      if "budget_ok (cf_hbMaxRecover ?cfg) (ta_state a)" for row a
      using budget_row [OF that] by (simp add: mx)
  qed
  then show ?thesis
    using assms poll
    by (cases "truthy (vz_error (tick_rows R h w))")
      (auto simp: tick_error tick_ok mx budget_ok_def restrict_map_def split: if_splits)
qed

section \<open>The exit lifecycle of other services\<close>

abbreviation exit_view :: "tick_acc \<Rightarrow> string \<Rightarrow> service_view" where
  "exit_view a sid \<equiv> view_of (ws_heartbeatExitLifecycle (ta_state a)) sid"

lemma exit_view_exit: "sid \<noteq> row_sid row \<Longrightarrow> exit_view (exit_redeploy_phase R h cfg row a) sid = exit_view a sid"
  by (simp add: exit_redeploy_phase_def Let_def case_prod_beta clear_flag_op.other clear_service_op.other
      requeue_op.other split: option.splits)

lemma exit_view_heartbeat:
  assumes "sid \<noteq> row_sid row"
  shows "exit_view (heartbeat_phase R h cfg row a) sid = exit_view a sid"
  by (cases rule: heartbeat_phase_cases [where R = R and h = h and cfg = cfg and row = row and a = a]) (use assms in \<open>simp_all add: after_probe_other\<close>)

lemma exit_auto [simp]:
  "ws_heartbeatExitLifecycle (ta_state (auto_recover_phase R h cfg row a)) = ws_heartbeatExitLifecycle (ta_state a)"
  by (simp add: auto_recover_phase_def Let_def case_prod_beta split: option.splits)

lemma exit_view_row: "sid \<noteq> row_sid row \<Longrightarrow> exit_view (tick_row R h cfg row a) sid = exit_view a sid"
  by (simp add: tick_row_def Let_def exit_view_heartbeat exit_view_exit)

lemma exit_view_rows:
  "sid \<notin> set (map row_sid rows) \<Longrightarrow> exit_view (fold (tick_row R h cfg) rows a) sid = exit_view a sid"
  by (induction rows arbitrary: a) (auto simp: exit_view_row)

lemma trace_prefix_fold:
  "\<exists>cs. w_trace (ta_world (fold (tick_row R h cfg) rows a)) = w_trace (ta_world a) @ cs"
  using rows_grow [of a R h cfg rows] by (auto simp: grows_def)

lemma exit_due_sent:
  assumes "exit_redeploy_due h cfg row a"
  shows "\<exists>cs. w_trace (ta_world (tick_row R h cfg row a)) = w_trace (ta_world a) @ deploy_call h cfg (row_sid row) @ cs"
proof -
  let ?b = "exit_redeploy_phase R h cfg row a"
  obtain cs where "w_trace (ta_world (heartbeat_phase R h cfg row ?b)) = w_trace (ta_world ?b) @ cs"
    using heartbeat_phase_grows [of ?b R h cfg row] by (auto simp: grows_def)
  with assms show ?thesis
    by (simp add: tick_row_def Let_def auto_phase_trace exit_phase_trace)
qed

lemma scheduled_redeploy_sent:
  assumes "row \<in> set rows" and "distinct (map row_sid rows)"
    and "\<And>b. peekExitLifecycleRedeem (ws_heartbeatExitLifecycle (ta_state b)) (row_sid row) \<Longrightarrow>
           exit_redeploy_due h cfg row b"
    and "peekExitLifecycleRedeem (ws_heartbeatExitLifecycle (ta_state a)) (row_sid row)"
  shows "\<exists>cs ds. w_trace (ta_world (fold (tick_row R h cfg) rows a)) =
    w_trace (ta_world a) @ cs @ deploy_call h cfg (row_sid row) @ ds"
proof -
  from assms(1) obtain pre post where rows: "rows = pre @ row # post" by (auto dest: split_list)
  let ?b = "fold (tick_row R h cfg) pre a"
  have "row_sid row \<notin> set (map row_sid pre)" using assms(2) rows by simp
  from exit_view_rows [OF this, of R h cfg a] assms(4)
  have "peekExitLifecycleRedeem (ws_heartbeatExitLifecycle (ta_state ?b)) (row_sid row)"
    by (simp add: view_of_def)
  from exit_due_sent [OF assms(3) [OF this], of R]
  obtain c1 where "w_trace (ta_world (tick_row R h cfg row ?b)) = w_trace (ta_world ?b) @ deploy_call h cfg (row_sid row) @ c1"
    by blast
  moreover obtain c0 where "w_trace (ta_world ?b) = w_trace (ta_world a) @ c0"
    using trace_prefix_fold by blast
  moreover obtain c2 where "w_trace (ta_world (fold (tick_row R h cfg) post (tick_row R h cfg row ?b))) =
      w_trace (ta_world (tick_row R h cfg row ?b)) @ c2"
    using trace_prefix_fold by blast
  ultimately show ?thesis by (auto simp: rows)
qed

section \<open>The cooldown of automatic redeploys\<close>

lemma cooldown_exit [simp]:
  "ws_recoverCooldown (ta_state (exit_redeploy_phase R h cfg row a)) = ws_recoverCooldown (ta_state a)"
  by (simp add: exit_redeploy_phase_def Let_def case_prod_beta split: option.splits)

lemma cooldown_heartbeat [simp]:
  "ws_recoverCooldown (ta_state (heartbeat_phase R h cfg row a)) = ws_recoverCooldown (ta_state a)"
  by (cases rule: heartbeat_phase_cases [where R = R and h = h and cfg = cfg and row = row and a = a]) simp_all

lemma cooldown_redeploy_other [simp]:
  "sid \<noteq> row_sid row \<Longrightarrow>
     ws_recoverCooldown (ta_state (auto_redeploy R h cfg row a)) sid = ws_recoverCooldown (ta_state a) sid"
  unfolding auto_redeploy_def Let_def case_prod_beta by (simp split: option.splits)

lemma cooldown_auto_other:
  "sid \<noteq> row_sid row \<Longrightarrow>
     ws_recoverCooldown (ta_state (auto_recover_phase R h cfg row a)) sid = ws_recoverCooldown (ta_state a) sid"
  by (simp add: auto_recover_phase_def Let_def case_prod_beta split: option.splits)

lemma cooldown_auto_kept:
  "\<not> isHealthy (row_cur row) \<Longrightarrow> \<not> auto_recover_due R cfg row a \<Longrightarrow>
     ws_recoverCooldown (ta_state (auto_recover_phase R h cfg row a)) = ws_recoverCooldown (ta_state a)"
  by (auto simp: auto_recover_phase_def auto_recover_due_def auto_recover_waits_def Let_def case_prod_beta
      read_clock_def date_now_def split: option.splits)

text \<open>The service waits: its cooldown has not run out at any reading of the clock.\<close>

definition cooling :: "remote \<Rightarrow> string \<Rightarrow> tick_acc \<Rightarrow> bool" where
  "cooling R sid a \<longleftrightarrow> (\<exists>t. ws_recoverCooldown (ta_state a) sid = Some t \<and> (\<forall>n. o_now R n - t < RECOVER_COOLDOWN_MS))"

lemma cooling_waits: "cooling R sid a \<Longrightarrow> auto_recover_waits R sid a"
  by (auto simp: cooling_def auto_recover_waits_def)

lemma cooldown_row_other:
  "sid \<noteq> row_sid row \<Longrightarrow>
     ws_recoverCooldown (ta_state (tick_row R h cfg row a)) sid = ws_recoverCooldown (ta_state a) sid"
  by (simp add: tick_row_def Let_def cooldown_auto_other)

lemma cooling_row:
  assumes "cooling R sid a" and "row_sid row = sid \<longrightarrow> \<not> isHealthy (row_cur row)"
  shows "cooling R sid (tick_row R h cfg row a) \<and>
    (\<exists>ms. grows ms a (tick_row R h cfg row a) \<and>
      Call_gql (Gql_ServiceInstanceDeploy (cf_environmentId cfg) sid) \<notin> set ms)"
proof (cases "row_sid row = sid")
  case True
  define b where "b = exit_redeploy_phase R h cfg row a"
  define c where "c = heartbeat_phase R h cfg row b"
  have nh: "\<not> isHealthy (row_cur row)" using True assms(2) by simp
  have cc: "cooling R sid c" using assms(1) by (simp add: cooling_def c_def b_def)
  then have nd: "\<not> auto_recover_due R cfg row c"
    using cooling_waits True by (simp add: auto_recover_due_def)
  have "cooling R sid (tick_row R h cfg row a)"
    using cc nd nh True by (simp add: cooling_def tick_row_def Let_def b_def c_def cooldown_auto_kept)
  moreover have "grows [] a c"
    using heartbeat_phase_grows [of b R h cfg row] nh
    by (auto simp: heartbeat_recover_due_def c_def b_def grows_def exit_phase_trace exit_redeploy_due_def)
  then have "grows [] a (tick_row R h cfg row a)"
    using nd by (simp add: grows_def tick_row_def Let_def b_def c_def auto_phase_trace)
  ultimately show ?thesis by force
next
  case False
  have "cooling R sid (tick_row R h cfg row a)"
    using assms(1) False by (simp add: cooling_def cooldown_row_other)
  moreover obtain ms where "grows ms a (tick_row R h cfg row a)"
    "ms = [] \<or> may_redeploy cfg row \<and> ms = deploy_call h cfg (row_sid row)"
    using tick_row_grows by blast
  ultimately show ?thesis using False by (force simp: gql_calls_def)
qed

lemma cooling_rows:
  assumes "cooling R sid a" and "\<forall>row \<in> set rows. row_sid row = sid \<longrightarrow> \<not> isHealthy (row_cur row)"
  shows "\<exists>ms. grows ms a (fold (tick_row R h cfg) rows a) \<and>
      Call_gql (Gql_ServiceInstanceDeploy (cf_environmentId cfg) sid) \<notin> set ms"
  using assms
proof (induction rows arbitrary: a)
  case Nil
  then show ?case by (auto intro: exI [of _ "[]"] grows_same)
next
  case (Cons row rows)
  from cooling_row [OF Cons.prems(1), of row h cfg] Cons.prems(2)
  obtain ms where c: "cooling R sid (tick_row R h cfg row a)" and g: "grows ms a (tick_row R h cfg row a)"
    and m: "Call_gql (Gql_ServiceInstanceDeploy (cf_environmentId cfg) sid) \<notin> set ms" by auto
  from Cons.IH [OF c] Cons.prems(2) obtain ns where
    "grows ns (tick_row R h cfg row a) (fold (tick_row R h cfg) rows (tick_row R h cfg row a))"
    "Call_gql (Gql_ServiceInstanceDeploy (cf_environmentId cfg) sid) \<notin> set ns" by auto
  with grows_trans [OF g this(1)] m show ?case by auto
qed

section \<open>The events\<close>

text \<open>The events an iteration appends, with a bound on their kinds.\<close>

definition adds :: "WatchdogEventKind set \<Rightarrow> tick_acc \<Rightarrow> tick_acc \<Rightarrow> bool" where
  "adds K a b \<longleftrightarrow> (\<exists>evs. ta_events b = ta_events a @ evs \<and> (\<forall>e \<in> set evs. ev_kind e \<in> K))"

lemma adds_refl: "ta_events b = ta_events a \<Longrightarrow> adds K a b"
  by (simp add: adds_def)

lemma adds_trans: "adds K a b \<Longrightarrow> adds K b c \<Longrightarrow> adds K a c"
  by (fastforce simp: adds_def)

lemma adds_mono: "adds K a b \<Longrightarrow> K \<subseteq> L \<Longrightarrow> adds L a b"
  by (fastforce simp: adds_def)

lemma events_emit [simp]: "ta_events (emit i t s k m a) =
    ta_events a @ [\<lparr>ev_id = i, ev_at = t, ev_service = s, ev_kind = k, ev_message = m\<rparr>]"
  by (simp add: emit_def)

lemma adds_exit:
  "adds (if railwayHeartbeatExitRedeployEnabled h then {Heartbeat_exit_redeploy} else {}) a (exit_redeploy_phase R h cfg row a)"
  by (simp add: exit_redeploy_phase_def exit_redeploy_due_def adds_def Let_def case_prod_beta split: option.splits)

lemma adds_hb_redeploy: "adds {Heartbeat_recover} a (snd (heartbeat_redeploy R h cfg row s a))"
  unfolding heartbeat_redeploy_def Let_def case_prod_beta by (simp add: adds_def split: option.splits)

lemma adds_auto_redeploy: "adds {Railway_auto_recover} a (auto_redeploy R h cfg row a)"
  unfolding auto_redeploy_def Let_def case_prod_beta by (simp add: adds_def split: option.splits)

lemma adds_hb_recover:
  "adds {Heartbeat_recover} a (snd (heartbeat_recover R h cfg row s a))"
  using adds_hb_redeploy [of a] adds_hb_redeploy [of "snd (read_clock R a)"]
  by (simp add: heartbeat_recover_def Let_def case_prod_beta) (simp add: adds_def)

lemma adds_outcome:
  "adds (if railwayHeartbeatExitRedeployEnabled h then {} else {Heartbeat_recover}) a
     (snd (probe_outcome R h cfg row ok s a))"
  using adds_hb_recover [of "a\<lparr>ta_fail := ta_fail a + 1\<rparr>" R h cfg row s]
  by (auto simp: probe_outcome_def heartbeat_recover_due_def adds_def Let_def)

lemma adds_heartbeat:
  "adds (if railwayHeartbeatExitRedeployEnabled h then {} else {Heartbeat_recover}) a (heartbeat_phase R h cfg row a)"
proof (cases rule: heartbeat_phase_cases [where R = R and h = h and cfg = cfg and row = row and a = a])
  case (probed url e ok hb a1)
  then show ?thesis
    using adds_outcome [of h a1 R cfg row ok "fst (heartbeat_state row a)"] by (simp add: adds_def)
qed (simp_all add: adds_def)

lemma adds_auto: "adds {Railway_auto_recover} a (auto_recover_phase R h cfg row a)"
proof -
  have redeploy: "adds {Railway_auto_recover} a (auto_redeploy R h cfg row b)" if "ta_events b = ta_events a" for b
    using adds_auto_redeploy [of b R h cfg row] that by (simp add: adds_def)
  show ?thesis
    by (simp add: auto_recover_phase_def Let_def case_prod_beta redeploy adds_refl split: option.splits)
qed

definition transition_kinds :: "WatchdogEventKind set" where
  "transition_kinds = {Railway_stopped, Railway_rebooting, Railway_deploy, Recover}"

lemma adds_transition: "adds transition_kinds a (transition_phase R cfg row p a)"
proof (cases p)
  case (Some e)
  have "adds transition_kinds a (stopped_event R cfg row e a)"
    by (simp add: stopped_event_def adds_def Let_def case_prod_beta transition_kinds_def)
  moreover have "adds transition_kinds b (snd (lifecycle_event cfg row e b))" for b
    by (simp add: lifecycle_event_def adds_def Let_def transition_kinds_def)
  moreover have "adds transition_kinds b (recovery_event cfg row e f b)" for f b
    by (simp add: recovery_event_def adds_def Let_def transition_kinds_def)
  ultimately show ?thesis
    using Some by (simp add: transition_phase_def Let_def case_prod_beta) (blast intro: adds_trans)
qed (simp add: transition_phase_def adds_refl)

definition row_kinds :: "host \<Rightarrow> WatchdogEventKind set" where
  "row_kinds h = insert Railway_auto_recover
     (if railwayHeartbeatExitRedeployEnabled h then {Heartbeat_exit_redeploy} else {Heartbeat_recover})"

lemma adds_before_transition:
  "adds (row_kinds h) a (auto_recover_phase R h cfg row (heartbeat_phase R h cfg row (exit_redeploy_phase R h cfg row a)))"
proof -
  have "adds (row_kinds h) a (exit_redeploy_phase R h cfg row a)"
    by (rule adds_mono [OF adds_exit]) (simp add: row_kinds_def)
  moreover have "adds (row_kinds h) b (heartbeat_phase R h cfg row b)" for b
    by (rule adds_mono [OF adds_heartbeat]) (simp add: row_kinds_def)
  moreover have "adds (row_kinds h) b (auto_recover_phase R h cfg row b)" for b
    by (rule adds_mono [OF adds_auto]) (simp add: row_kinds_def)
  ultimately show ?thesis using adds_trans by blast
qed

lemma adds_row: "adds (row_kinds h \<union> transition_kinds) a (tick_row R h cfg row a)"
proof -
  have "adds (row_kinds h \<union> transition_kinds) a
      (auto_recover_phase R h cfg row (heartbeat_phase R h cfg row (exit_redeploy_phase R h cfg row a)))"
    by (rule adds_mono [OF adds_before_transition]) simp
  moreover have "adds (row_kinds h \<union> transition_kinds) b (remember_row row (transition_phase R cfg row p b))" for b p
    using adds_mono [OF adds_transition, of "row_kinds h \<union> transition_kinds" b R cfg row p]
    by (simp add: remember_row_def adds_def)
  ultimately show ?thesis
    unfolding tick_row_def Let_def using adds_trans by blast
qed

lemma adds_rows: "adds (row_kinds h \<union> transition_kinds) a (fold (tick_row R h cfg) rows a)"
proof (induction rows arbitrary: a)
  case (Cons row rows)
  from adds_trans [OF adds_row this] show ?case by simp
qed (simp add: adds_refl)

section \<open>Quiet services and stopped services\<close>

lemma steady_transition:
  assumes "row_dep row \<noteq> [] \<longrightarrow> \<not> js_includes (js_lower (vr_status row)) ''no active deployment''"
    and "vr_railwayOnlineStatus row \<noteq> Exited"
  shows "transition_phase R cfg row (Some (row_entry row)) a = a"
proof -
  have "\<not> (wasActivelyDeployed (row_entry row) \<and> isNowStoppedOrNoDeployment (row_dep row) (row_cur row) row)"
    using assms(1)
    by (auto simp: wasActivelyDeployed_def isNowStoppedOrNoDeployment_def row_entry_def isHealthy_def
        isDeploying_def Let_def)
  then have "stopped_event R cfg row (row_entry row) a = a"
    by (auto simp: stopped_event_def Let_def)
  moreover have "lifecycle_event cfg row (row_entry row) a = (False, a)"
    by (auto simp: lifecycle_event_def row_entry_def wasCompletedLike_def Let_def)
  moreover have "recovery_event cfg row (row_entry row) False a = a"
    by (auto simp: recovery_event_def row_entry_def isBad_def isDeploying_def isHealthy_def Let_def)
  ultimately show ?thesis by (simp add: transition_phase_def)
qed

definition steady_row :: "WatchdogPersistentState \<Rightarrow> RailwayVisibilityRow \<Rightarrow> bool" where
  "steady_row st row \<longleftrightarrow> ws_prev st (row_sid row) = Some (row_entry row) \<and>
     vr_railwayOnlineStatus row \<noteq> Exited \<and>
     (row_dep row \<noteq> [] \<longrightarrow> \<not> js_includes (js_lower (vr_status row)) ''no active deployment'')"

lemma steady_tick_row:
  assumes "steady_row (ta_state a) row"
  shows "adds (row_kinds h) a (tick_row R h cfg row a) \<and> ws_prev (ta_state (tick_row R h cfg row a)) = ws_prev (ta_state a)"
proof -
  have "ws_prev (ta_state a) (row_sid row) = Some (row_entry row)" using assms by (simp add: steady_row_def)
  then have "tick_row R h cfg row a = remember_row row (auto_recover_phase R h cfg row
      (heartbeat_phase R h cfg row (exit_redeploy_phase R h cfg row a)))"
    using assms by (simp add: tick_row_def steady_transition steady_row_def Let_def)
  then show ?thesis
    using adds_before_transition [of h a R cfg row] assms
    by (auto simp: adds_def remember_row_def steady_row_def row_entry_def fun_upd_idem)
qed

lemma steady_rows:
  assumes "\<forall>row \<in> set rows. steady_row (ta_state a) row"
  shows "adds (row_kinds h) a (fold (tick_row R h cfg) rows a)"
  using assms
proof (induction rows arbitrary: a)
  case (Cons row rows)
  from steady_tick_row [of a row h R cfg] Cons.prems
  have ad: "adds (row_kinds h) a (tick_row R h cfg row a)"
    and pv: "ws_prev (ta_state (tick_row R h cfg row a)) = ws_prev (ta_state a)" by auto
  have "\<forall>r \<in> set rows. steady_row (ta_state (tick_row R h cfg row a)) r"
    using Cons.prems pv by (simp add: steady_row_def)
  from adds_trans [OF ad Cons.IH [OF this]] show ?case by simp
qed (simp add: adds_refl)

text \<open>A row of a service that was up at the previous tick and is now down on purpose.\<close>

definition went_down :: "WatchdogPersistentState \<Rightarrow> RailwayVisibilityRow \<Rightarrow> bool" where
  "went_down st row \<longleftrightarrow>
     (\<exists>e. ws_prev st (row_sid row) = Some e \<and> wasActivelyDeployed e) \<and>
     isNowStoppedOrNoDeployment (row_dep row) (row_cur row) row"

lemma events_grow_row: "\<exists>evs. ta_events (tick_row R h cfg row a) = ta_events a @ evs"
  using adds_row by (fastforce simp: adds_def)

lemma events_grow_rows: "\<exists>evs. ta_events (fold (tick_row R h cfg) rows a) = ta_events a @ evs"
  using adds_rows by (fastforce simp: adds_def)

lemma went_down_row:
  assumes "went_down (ta_state a) row"
  shows "\<exists>ev \<in> set (ta_events (tick_row R h cfg row a)). ev_kind ev = Railway_stopped \<and> ev_service ev = row_name row"
proof -
  obtain e where e: "ws_prev (ta_state a) (row_sid row) = Some e" "wasActivelyDeployed e"
    and down: "isNowStoppedOrNoDeployment (row_dep row) (row_cur row) row"
    using assms by (auto simp: went_down_def)
  define b where "b = auto_recover_phase R h cfg row (heartbeat_phase R h cfg row (exit_redeploy_phase R h cfg row a))"
  let ?c = "stopped_event R cfg row e b"
  have "\<exists>ev \<in> set (ta_events ?c). ev_kind ev = Railway_stopped \<and> ev_service ev = row_name row"
    using e(2) down by (simp add: stopped_event_def Let_def case_prod_beta)
  moreover have "set (ta_events c) \<subseteq> set (ta_events (snd (lifecycle_event cfg row e c)))"
    "set (ta_events c) \<subseteq> set (ta_events (recovery_event cfg row e f c))" for c f
    by (auto simp: lifecycle_event_def recovery_event_def Let_def)
  ultimately have "\<exists>ev \<in> set (ta_events (transition_phase R cfg row (Some e) b)).
      ev_kind ev = Railway_stopped \<and> ev_service ev = row_name row"
    by (simp add: transition_phase_def Let_def case_prod_beta) blast
  with e(1) show ?thesis by (simp add: tick_row_def b_def remember_row_def Let_def)
qed

lemma went_down_rows:
  assumes "row \<in> set rows" and "distinct (map row_sid rows)" and "went_down (ta_state a) row"
  shows "\<exists>ev \<in> set (ta_events (fold (tick_row R h cfg) rows a)). ev_kind ev = Railway_stopped \<and> ev_service ev = row_name row"
proof -
  from assms(1) obtain pre post where rows: "rows = pre @ row # post" by (auto dest: split_list)
  let ?b = "fold (tick_row R h cfg) pre a"
  have "row_sid row \<notin> set (map row_sid pre)" using assms(2) rows by simp
  then have "ws_prev (ta_state ?b) (row_sid row) = ws_prev (ta_state a) (row_sid row)"
    by (force simp: prev_rows map_add_def split: option.splits dest: map_of_SomeD)
  with assms(3) have "went_down (ta_state ?b) row" by (simp add: went_down_def)
  from went_down_row [OF this, of R h cfg]
  obtain ev where "ev \<in> set (ta_events (tick_row R h cfg row ?b))" "ev_kind ev = Railway_stopped" "ev_service ev = row_name row"
    by blast
  moreover obtain evs where
    "ta_events (fold (tick_row R h cfg) post (tick_row R h cfg row ?b)) = ta_events (tick_row R h cfg row ?b) @ evs"
    using events_grow_rows by blast
  ultimately show ?thesis by (auto simp: rows)
qed

lemma poll_state [simp]: "core (ta_state (snd (poll_rows R h st w))) = core st"
  by (simp add: poll_rows_def start_acc_def Let_def case_prod_beta)

lemmas poll_sel [simp] = core_eq_sel [OF poll_state, THEN conjunct1]
  core_eq_sel [OF poll_state, THEN conjunct2, THEN conjunct1]
  core_eq_sel [OF poll_state, THEN conjunct2, THEN conjunct2, THEN conjunct1]
  core_eq_sel [OF poll_state, THEN conjunct2, THEN conjunct2, THEN conjunct2, THEN conjunct1]
  core_eq_sel [OF poll_state, THEN conjunct2, THEN conjunct2, THEN conjunct2, THEN conjunct2]

lemma poll_events [simp]: "ta_events (snd (poll_rows R h st w)) = []"
  by (simp add: poll_rows_def start_acc_def Let_def case_prod_beta)

lemma payload_events:
  "\<not> truthy (vz_error (tick_rows R h w)) \<Longrightarrow> pl_events (tick_payload R h st w) = take 30 (ta_events (tick_loop R h st w))"
  by (simp add: tick_ok finish_tick_def Let_def)

lemma payload_kinds:
  "\<not> truthy (vz_error (tick_rows R h w)) \<Longrightarrow> \<forall>e \<in> set (ta_events (tick_loop R h st w)). ev_kind e \<in> K \<Longrightarrow>
     ev_kind ` set (pl_events (tick_payload R h st w)) \<subseteq> K"
  by (auto simp: payload_events dest: in_set_takeD)

lemma ex_take_or_full: "\<exists>x \<in> set xs. P x \<Longrightarrow> length (take n xs) = n \<or> (\<exists>x \<in> set (take n xs). P x)"
  by (cases "length xs \<le> n") simp_all

lemma loop_events: "adds (row_kinds h \<union> transition_kinds) (snd (poll_rows R h st w)) (tick_loop R h st w)"
  using adds_rows [of h "snd (read_clock R (snd (poll_rows R h st w)))"] by (simp add: tick_loop_def adds_def)

section \<open>Accepted redeploys\<close>

text \<open>Railway's answer to a request depends on the calls before it: a redeploy is accepted after
  the trace \<open>tr\<close> when the call does not throw there.\<close>

definition deploy_accepted :: "remote \<Rightarrow> host \<Rightarrow> string \<Rightarrow> string \<Rightarrow> call list \<Rightarrow> bool" where
  "deploy_accepted R h env sid tr \<longleftrightarrow>
     (case fst (railwayServiceInstanceDeployLatest R h env sid (init_world\<lparr>w_trace := tr\<rparr>)) of
        Inl e \<Rightarrow> False | Inr u \<Rightarrow> True)"

text \<open>How many of the calls \<open>cs\<close>, made after \<open>tr\<close>, are accepted redeploys of the service.\<close>

fun accepted_redeploys ::
  "remote \<Rightarrow> host \<Rightarrow> string \<Rightarrow> string \<Rightarrow> call list \<Rightarrow> call list \<Rightarrow> nat" where
  "accepted_redeploys R h env sid tr [] = 0"
| "accepted_redeploys R h env sid tr (c # cs) =
     (if c = Call_gql (Gql_ServiceInstanceDeploy env sid) \<and> deploy_accepted R h env sid tr then 1 else 0)
     + accepted_redeploys R h env sid (tr @ [c]) cs"

lemma accepted_append:
  "accepted_redeploys R h env sid tr (xs @ ys) =
     accepted_redeploys R h env sid tr xs + accepted_redeploys R h env sid (tr @ xs) ys"
  by (induction xs arbitrary: tr) auto

lemma accepted_none:
  "Call_gql (Gql_ServiceInstanceDeploy env sid) \<notin> set cs \<Longrightarrow> accepted_redeploys R h env sid tr cs = 0"
  by (induction cs arbitrary: tr) auto

lemma accepted_muts:
  "Call_gql (Gql_ServiceInstanceDeploy env sid) \<notin> set (muts cs) \<Longrightarrow> accepted_redeploys R h env sid tr cs = 0"
  by (rule accepted_none) (simp add: muts_def)

lemma deploy_failed:
  "fst (deploy_latest R h cfg sid tg a) = None \<longleftrightarrow>
     deploy_accepted R h (cf_environmentId cfg) sid (w_trace (ta_world a))"
proof -
  have "fst (railwayServiceInstanceDeployLatest R h env sid w) = fst (railwayServiceInstanceDeployLatest R h env sid w')"
    if "w_trace w = w_trace w'" for env w w'
    using graphql_answer [OF that] by (simp add: railwayServiceInstanceDeployLatest_def Let_def case_prod_beta)
  from this [of "snd (perf_now R (ta_world a))" "init_world\<lparr>w_trace := w_trace (ta_world a)\<rparr>"]
  show ?thesis
    by (simp add: deploy_latest_def deploy_accepted_def Let_def case_prod_beta perf_now_def split: sum.splits)
qed

section \<open>What a redeploy costs\<close>

text \<open>The redeploys charged to a deployment of the service.\<close>

definition charged :: "WatchdogPersistentState \<Rightarrow> string \<Rightarrow> string \<Rightarrow> int" where
  "charged st sid dep =
     (case ws_heartbeatRecoverState st sid of
        None \<Rightarrow> 0
      | Some s \<Rightarrow> if hb_deploymentId s = dep then hb_recoveriesUsed s else 0)"

lemma hb_redeploy_charge:
  "hb_recoveriesUsed (fst (heartbeat_redeploy R h cfg row s a)) = hb_recoveriesUsed s +
     int (accepted_redeploys R h (cf_environmentId cfg) (row_sid row) (w_trace (ta_world a)) (deploy_call h cfg (row_sid row)))"
  "hb_deploymentId (fst (heartbeat_redeploy R h cfg row s a)) = hb_deploymentId s"
proof -
  let ?d = "deploy_latest R h cfg (row_sid row) (heartbeat_target (row_name row)) a"
  have "\<not> hasRailwayGraphqlCredential h \<Longrightarrow> \<not> deploy_accepted R h env sid tr" for env sid tr
    by (simp add: deploy_accepted_def railwayServiceInstanceDeployLatest_def graphql_no_credential_eq)
  then show "hb_recoveriesUsed (fst (heartbeat_redeploy R h cfg row s a)) = hb_recoveriesUsed s +
     int (accepted_redeploys R h (cf_environmentId cfg) (row_sid row) (w_trace (ta_world a)) (deploy_call h cfg (row_sid row)))"
    using deploy_failed [of R h cfg "row_sid row" "heartbeat_target (row_name row)" a]
    by (cases "fst ?d") (auto simp: heartbeat_redeploy_def Let_def case_prod_beta gql_calls_def)
  show "hb_deploymentId (fst (heartbeat_redeploy R h cfg row s a)) = hb_deploymentId s"
    by (simp add: heartbeat_redeploy_def Let_def case_prod_beta split: option.splits)
qed

lemma hb_recover_charge:
  obtains cs where "w_trace (ta_world (snd (heartbeat_recover R h cfg row s a))) = w_trace (ta_world a) @ cs"
    "hb_recoveriesUsed (fst (heartbeat_recover R h cfg row s a)) = hb_recoveriesUsed s +
       int (accepted_redeploys R h (cf_environmentId cfg) (row_sid row) (w_trace (ta_world a)) cs)"
    "hb_deploymentId (fst (heartbeat_recover R h cfg row s a)) = hb_deploymentId s"
proof -
  have "\<exists>cs. w_trace (ta_world (snd (heartbeat_recover R h cfg row s a))) = w_trace (ta_world a) @ cs \<and>
    hb_recoveriesUsed (fst (heartbeat_recover R h cfg row s a)) = hb_recoveriesUsed s +
       int (accepted_redeploys R h (cf_environmentId cfg) (row_sid row) (w_trace (ta_world a)) cs) \<and>
    hb_deploymentId (fst (heartbeat_recover R h cfg row s a)) = hb_deploymentId s"
    unfolding heartbeat_recover_def Let_def case_prod_beta
    by (auto simp: hb_redeploy_charge intro: exI [of _ "deploy_call h cfg (row_sid row)"] exI [of _ "[]"])
  then show ?thesis using that by blast
qed

lemma hb_state_charge:
  "hb_deploymentId (fst (heartbeat_state row a)) = row_dep row"
  "hb_recoveriesUsed (fst (heartbeat_state row a)) = charged (ta_state a) (row_sid row) (row_dep row)"
  by (simp_all add: heartbeat_state_def charged_def Let_def split: option.split)

lemma hb_state_charged [simp]:
  "charged (ta_state (snd (heartbeat_state row a))) sid dep = charged (ta_state a) sid dep"
proof (cases "ws_heartbeatRecoverState (ta_state a) (row_sid row)")
  case (Some s)
  then show ?thesis
    by (cases "hb_deploymentId s = row_dep row"; cases "sid = row_sid row")
      (simp_all add: heartbeat_state_def charged_def on_state_def Let_def)
qed (simp add: heartbeat_state_def Let_def)

lemma heartbeat_phase_charge:
  assumes "buildHeartbeatProbeUrl h (vr_railwayPublicUrl row) (vr_service row) \<noteq> None"
  obtains cs where "w_trace (ta_world (heartbeat_phase R h cfg row a)) = w_trace (ta_world a) @ cs"
    "charged (ta_state (heartbeat_phase R h cfg row a)) (row_sid row) (row_dep row) =
       charged (ta_state a) (row_sid row) (row_dep row) +
       int (accepted_redeploys R h (cf_environmentId cfg) (row_sid row) (w_trace (ta_world a)) cs)"
proof (cases rule: heartbeat_phase_cases [where R = R and h = h and cfg = cfg and row = row and a = a])
  case off
  then show ?thesis using that [of "[]"] by simp
next
  case skipped
  with assms show ?thesis by simp
next
  case (probed url e ok hb a1)
  let ?s = "fst (heartbeat_state row a)"
  let ?out = "probe_outcome R h cfg row ok ?s a1"
  have "\<exists>cs. w_trace (ta_world (snd ?out)) = w_trace (ta_world a1) @ cs \<and>
      hb_recoveriesUsed (fst ?out) = hb_recoveriesUsed ?s +
        int (accepted_redeploys R h (cf_environmentId cfg) (row_sid row) (w_trace (ta_world a1)) cs) \<and>
      hb_deploymentId (fst ?out) = hb_deploymentId ?s"
    by (rule hb_recover_charge [of R h cfg row ?s "a1\<lparr>ta_fail := ta_fail a1 + 1\<rparr>"])
      (auto simp: probe_outcome_def Let_def intro: exI [of _ "[]"])
  then obtain cs where "w_trace (ta_world (snd ?out)) = w_trace (ta_world a1) @ cs"
      "hb_recoveriesUsed (fst ?out) = hb_recoveriesUsed ?s +
        int (accepted_redeploys R h (cf_environmentId cfg) (row_sid row) (w_trace (ta_world a1)) cs)"
      "hb_deploymentId (fst ?out) = hb_deploymentId ?s" by blast
  moreover have "ws_heartbeatRecoverState (ta_state (heartbeat_phase R h cfg row a)) (row_sid row) = Some (fst ?out)"
    unfolding probed(10) by simp
  then have "charged (ta_state (heartbeat_phase R h cfg row a)) (row_sid row) (row_dep row) =
      (if hb_deploymentId (fst ?out) = row_dep row then hb_recoveriesUsed (fst ?out) else 0)"
    by (simp add: charged_def)
  ultimately show ?thesis
    using probed(8,10) by (intro that [of "Call_http url # cs"]) (simp_all add: hb_state_charge)
qed

text \<open>The rows: of the service itself, and of others.\<close>

abbreviation own_cost :: "remote \<Rightarrow> host \<Rightarrow> tick_cfg \<Rightarrow> string \<Rightarrow> call list \<Rightarrow> call list \<Rightarrow> int" where
  "own_cost R h cfg sid tr cs \<equiv> int (accepted_redeploys R h (cf_environmentId cfg) sid tr cs)"

definition costs :: "remote \<Rightarrow> host \<Rightarrow> tick_cfg \<Rightarrow> string \<Rightarrow> string \<Rightarrow> tick_acc \<Rightarrow> tick_acc \<Rightarrow> bool" where
  "costs R h cfg sid dep a b \<longleftrightarrow>
     (\<exists>cs. w_trace (ta_world b) = w_trace (ta_world a) @ cs \<and>
        charged (ta_state b) sid dep = charged (ta_state a) sid dep +
          own_cost R h cfg sid (w_trace (ta_world a)) cs)"

lemma costs_trans: "costs R h cfg sid dep a b \<Longrightarrow> costs R h cfg sid dep b c \<Longrightarrow> costs R h cfg sid dep a c"
  by (fastforce simp: costs_def accepted_append)

lemma costs_same:
  "w_trace (ta_world b) = w_trace (ta_world a) \<Longrightarrow>
   ws_heartbeatRecoverState (ta_state b) = ws_heartbeatRecoverState (ta_state a) \<Longrightarrow> costs R h cfg sid dep a b"
  by (auto simp: costs_def charged_def intro: exI [of _ "[]"])

lemma hbmap_heartbeat_other:
  "sid \<noteq> row_sid row \<Longrightarrow> ws_heartbeatRecoverState (ta_state (heartbeat_phase R h cfg row a)) sid =
     ws_heartbeatRecoverState (ta_state a) sid"
  by (cases rule: heartbeat_phase_cases [where R = R and h = h and cfg = cfg and row = row and a = a])
    (simp_all add: heartbeat_state_def Let_def on_state_def split: option.splits)

lemma costs_other_row:
  assumes "row_sid row \<noteq> sid"
  shows "costs R h cfg sid dep a (tick_row R h cfg row a)"
proof -
  obtain ms where "grows ms a (tick_row R h cfg row a)" "ms = [] \<or> ms = deploy_call h cfg (row_sid row)"
    using tick_row_grows by blast
  then obtain cs where cs: "w_trace (ta_world (tick_row R h cfg row a)) = w_trace (ta_world a) @ cs"
    "Call_gql (Gql_ServiceInstanceDeploy (cf_environmentId cfg) sid) \<notin> set (muts cs)"
    using assms by (auto simp: grows_def gql_calls_def split: if_splits)
  have "ws_heartbeatRecoverState (ta_state (tick_row R h cfg row a)) sid = ws_heartbeatRecoverState (ta_state a) sid"
    using assms hbmap_heartbeat_other [of sid row R h cfg "exit_redeploy_phase R h cfg row a"]
    by (simp add: tick_row_def Let_def)
  with cs show ?thesis by (auto simp: costs_def charged_def accepted_muts)
qed

lemma costs_own_row:
  assumes "\<not> railwayHeartbeatExitRedeployEnabled h" and "\<not> needsAutoRecoverTrigger (row_cur row)"
    and "buildHeartbeatProbeUrl h (vr_railwayPublicUrl row) (vr_service row) \<noteq> None"
  shows "costs R h cfg (row_sid row) (row_dep row) a (tick_row R h cfg row a)"
proof -
  let ?b = "exit_redeploy_phase R h cfg row a"
  let ?c = "heartbeat_phase R h cfg row ?b"
  have "?b = a" using assms(1) by (simp add: exit_redeploy_phase_def exit_redeploy_due_def)
  then have "costs R h cfg (row_sid row) (row_dep row) a ?c"
    using heartbeat_phase_charge [OF assms(3), of R cfg ?b] unfolding costs_def by metis
  moreover have "\<not> auto_recover_due R cfg row ?c" using assms(2) by (simp add: auto_recover_due_def)
  then have "costs R h cfg (row_sid row) (row_dep row) ?c (tick_row R h cfg row a)"
    by (intro costs_same) (simp_all add: tick_row_def Let_def auto_phase_trace)
  ultimately show ?thesis by (rule costs_trans)
qed

lemma costs_rows:
  assumes "\<forall>row \<in> set rows. row_sid row = sid \<longrightarrow> row_dep row = dep \<and>
      \<not> needsAutoRecoverTrigger (row_cur row) \<and>
      buildHeartbeatProbeUrl h (vr_railwayPublicUrl row) (vr_service row) \<noteq> None"
    and "\<not> railwayHeartbeatExitRedeployEnabled h"
  shows "costs R h cfg sid dep a (fold (tick_row R h cfg) rows a)"
  using assms(1)
proof (induction rows arbitrary: a)
  case (Cons row rows)
  have "costs R h cfg sid dep a (tick_row R h cfg row a)"
    using Cons.prems costs_own_row [OF assms(2), of row R cfg a] costs_other_row [of row sid]
    by (cases "row_sid row = sid") auto
  with Cons show ?case by (auto intro: costs_trans)
qed (simp add: costs_same)

section \<open>Runs of ticks\<close>

text \<open>The poll of the tick found the service with the deployment \<open>dep\<close> neither crashed nor failed,
  with a URL to probe, or did not find out (it failed).\<close>

definition still_deployed :: "remote \<Rightarrow> host \<Rightarrow> string \<Rightarrow> string \<Rightarrow> world \<Rightarrow> bool" where
  "still_deployed R h sid dep w \<longleftrightarrow>
     truthy (vz_error (tick_rows R h w)) \<or>
     sid \<in> set (map row_sid (vz_containers (tick_rows R h w))) \<and>
     (\<forall>row \<in> set (vz_containers (tick_rows R h w)). row_sid row = sid \<longrightarrow>
        row_dep row = dep \<and> \<not> needsAutoRecoverTrigger (row_cur row) \<and>
        buildHeartbeatProbeUrl h (vr_railwayPublicUrl row) (vr_service row) \<noteq> None)"

abbreviation tick_env :: "host \<Rightarrow> string" where
  "tick_env h \<equiv> coalesce (runtimeEnv h ''RAILWAY_ENVIRONMENT_ID'') []"

text \<open>The calls of a tick, and the accepted redeploys of a service over a run of ticks.\<close>

definition tick_calls :: "remote \<Rightarrow> host \<Rightarrow> WatchdogPersistentState \<Rightarrow> world \<Rightarrow> call list" where
  "tick_calls R h st w = drop (length (w_trace w)) (w_trace (snd (snd (runRailwayWatchdogTick R h st w))))"

fun redeploys_in_run :: "host \<Rightarrow> string \<Rightarrow> (remote \<times> world) list \<Rightarrow> WatchdogPersistentState \<Rightarrow> nat" where
  "redeploys_in_run h sid [] st = 0"
| "redeploys_in_run h sid ((R, w) # ticks) st =
     accepted_redeploys R h (tick_env h) sid (w_trace w) (tick_calls R h st w)
     + redeploys_in_run h sid ticks (fst (snd (runRailwayWatchdogTick R h st w)))"

lemma tick_calls_eq: "w_trace (tick_world R h st w) = w_trace w @ tick_calls R h st w"
  using tick_grows [of R h st w] by (auto simp: tick_calls_def)

lemma tick_cost:
  assumes "still_deployed R h sid dep w" and "\<not> railwayHeartbeatExitRedeployEnabled h"
  shows "charged (tick_state R h st w) sid dep = charged st sid dep +
    int (accepted_redeploys R h (tick_env h) sid (w_trace w) (tick_calls R h st w))"
proof -
  let ?p = "snd (poll_rows R h st w)" and ?cfg = "tick_config R h (tick_now R h st w)"
  obtain cs where cs: "w_trace (ta_world ?p) = w_trace w @ cs" "muts cs = []"
    using poll_queries by blast
  then have none: "accepted_redeploys R h (tick_env h) sid (w_trace w) cs = 0"
    by (intro accepted_muts) simp
  have poll: "charged (ta_state ?p) sid dep = charged st sid dep"
    by (simp add: charged_def poll_rows_def Let_def case_prod_beta start_acc_def)
  show ?thesis
  proof (cases "truthy (vz_error (tick_rows R h w))")
    case True
    with cs none poll show ?thesis by (simp add: tick_error tick_calls_def)
  next
    case False
    with assms(1) have "costs R h ?cfg sid dep (snd (read_clock R ?p)) (tick_loop R h st w)"
      unfolding tick_loop_def still_deployed_def by (intro costs_rows assms(2)) simp
    then obtain ds where ds: "w_trace (ta_world (tick_loop R h st w)) = w_trace w @ cs @ ds"
      "charged (ta_state (tick_loop R h st w)) sid dep = charged st sid dep +
        int (accepted_redeploys R h (tick_env h) sid (w_trace w @ cs) ds)"
      using cs(1) poll by (auto simp: costs_def)
    moreover have "charged (tick_state R h st w) sid dep = charged (ta_state (tick_loop R h st w)) sid dep"
      using False assms(1) by (simp add: tick_ok charged_def still_deployed_def)
    ultimately show ?thesis
      using none by (simp add: tick_ok [OF False] tick_calls_def accepted_append)
  qed
qed

lemma run_cost:
  assumes "\<forall>(R, w) \<in> set ticks. still_deployed R h sid dep w" and "\<not> railwayHeartbeatExitRedeployEnabled h"
  shows "charged (fold (\<lambda>(R, w) st. tick_state R h st w) ticks st) sid dep =
    charged st sid dep + int (redeploys_in_run h sid ticks st)"
  using assms(1)
proof (induction ticks arbitrary: st)
  case (Cons t ticks)
  obtain R w where t: "t = (R, w)" by (cases t)
  with Cons.prems have "still_deployed R h sid dep w" by simp
  from tick_cost [OF this assms(2), of st] Cons show ?case by (simp add: t)
qed simp

lemma budget_run:
  "budget_ok (heartbeatMaxRecoverPerEpoch h) st \<Longrightarrow>
     budget_ok (heartbeatMaxRecoverPerEpoch h) (fold (\<lambda>(R, w) st. tick_state R h st w) ticks st)"
  by (induction ticks arbitrary: st) (auto simp: budget_tick)

lemma charged_bounds: "budget_ok mx st \<Longrightarrow> 0 \<le> mx \<Longrightarrow> 0 \<le> charged st sid dep \<and> charged st sid dep \<le> mx"
  by (auto simp: budget_ok_def hb_ok_def charged_def split: option.splits)

section \<open>Settings that are not read\<close>

text \<open>Two hosts that agree on every setting but one, under every name it is looked up by.\<close>

definition agree_but :: "string \<Rightarrow> host \<Rightarrow> host \<Rightarrow> bool" where
  "agree_but key h h' \<longleftrightarrow> (\<forall>k. js_trim k \<noteq> key \<longrightarrow> runtimeEnv h k = runtimeEnv h' k)"

abbreviation same_but_recover :: "host \<Rightarrow> host \<Rightarrow> bool" where
  "same_but_recover \<equiv> agree_but ''RAILWAY_HEARTBEAT_RECOVER''"

lemma same_first:
  "agree_but key h h' \<Longrightarrow> list_all (\<lambda>k. js_trim k \<noteq> key) ks \<Longrightarrow> first_setting h ks = first_setting h' ks"
  by (induction ks) (auto simp: agree_but_def split: option.split)

lemma other_names:
  "list_all (\<lambda>k. js_trim k \<noteq> ''RAILWAY_HEARTBEAT_RECOVER'') (PROJECT_ACCESS_TOKEN_KEYS @ ACCOUNT_BEARER_TOKEN_KEYS @
     [''RAILWAY_PROJECT_ID'', ''RAILWAY_ENVIRONMENT_ID'', ''RAILWAY_HEARTBEAT_ENABLED'',
      ''RAILWAY_HEARTBEAT_EXIT_REDEPLOY'', ''RAILWAY_HEARTBEAT_EXIT_THRESHOLD'', ''RAILWAY_WATCHDOG_POLL_SEC'',
      ''RAILWAY_WATCHDOG_AUTO_RECOVER'', ''RAILWAY_HEARTBEAT_MISS_THRESHOLD'', ''RAILWAY_HEARTBEAT_MAX_RECOVER'',
      ''RAILWAY_HEARTBEAT_RECOVER_COOLDOWN_MS'', ''RAILWAY_HEARTBEAT_USE_PRIVATE_URL'',
      ''RAILWAY_PRIVATE_DOMAIN'', ''RAILWAY_HEARTBEAT_INTERNAL_PORT''])"
  by code_simp

lemma same_setting:
  assumes "same_but_recover h h'"
  shows "runtimeEnv h ''RAILWAY_PROJECT_ID'' = runtimeEnv h' ''RAILWAY_PROJECT_ID''"
    and "runtimeEnv h ''RAILWAY_ENVIRONMENT_ID'' = runtimeEnv h' ''RAILWAY_ENVIRONMENT_ID''"
    and "runtimeEnv h ''RAILWAY_HEARTBEAT_ENABLED'' = runtimeEnv h' ''RAILWAY_HEARTBEAT_ENABLED''"
    and "runtimeEnv h ''RAILWAY_HEARTBEAT_EXIT_REDEPLOY'' = runtimeEnv h' ''RAILWAY_HEARTBEAT_EXIT_REDEPLOY''"
    and "runtimeEnv h ''RAILWAY_HEARTBEAT_EXIT_THRESHOLD'' = runtimeEnv h' ''RAILWAY_HEARTBEAT_EXIT_THRESHOLD''"
    and "runtimeEnv h ''RAILWAY_WATCHDOG_POLL_SEC'' = runtimeEnv h' ''RAILWAY_WATCHDOG_POLL_SEC''"
    and "runtimeEnv h ''RAILWAY_WATCHDOG_AUTO_RECOVER'' = runtimeEnv h' ''RAILWAY_WATCHDOG_AUTO_RECOVER''"
    and "runtimeEnv h ''RAILWAY_HEARTBEAT_MISS_THRESHOLD'' = runtimeEnv h' ''RAILWAY_HEARTBEAT_MISS_THRESHOLD''"
    and "runtimeEnv h ''RAILWAY_HEARTBEAT_MAX_RECOVER'' = runtimeEnv h' ''RAILWAY_HEARTBEAT_MAX_RECOVER''"
    and "runtimeEnv h ''RAILWAY_HEARTBEAT_RECOVER_COOLDOWN_MS'' = runtimeEnv h' ''RAILWAY_HEARTBEAT_RECOVER_COOLDOWN_MS''"
    and "runtimeEnv h ''RAILWAY_HEARTBEAT_USE_PRIVATE_URL'' = runtimeEnv h' ''RAILWAY_HEARTBEAT_USE_PRIVATE_URL''"
    and "runtimeEnv h ''RAILWAY_PRIVATE_DOMAIN'' = runtimeEnv h' ''RAILWAY_PRIVATE_DOMAIN''"
    and "runtimeEnv h ''RAILWAY_HEARTBEAT_INTERNAL_PORT'' = runtimeEnv h' ''RAILWAY_HEARTBEAT_INTERNAL_PORT''"
  using assms other_names by (simp_all add: agree_but_def)

lemma same_headers:
  assumes "same_but_recover h h'"
  shows "getRailwayGraphqlAuthHeaders h = getRailwayGraphqlAuthHeaders h'"
proof -
  have "first_setting h PROJECT_ACCESS_TOKEN_KEYS = first_setting h' PROJECT_ACCESS_TOKEN_KEYS"
    "first_setting h ACCOUNT_BEARER_TOKEN_KEYS = first_setting h' ACCOUNT_BEARER_TOKEN_KEYS"
    using same_first [OF assms] other_names by simp_all
  then show ?thesis unfolding getRailwayGraphqlAuthHeaders_def by metis
qed

lemma same_graphql: "same_but_recover h h' \<Longrightarrow> railwayGraphql R h = railwayGraphql R h'"
  by (rule ext)+ (simp add: railwayGraphql_def same_headers)

lemma same_rows:
  assumes "same_but_recover h h'"
  shows "fetchRailwayVisibilityRows R h st w = fetchRailwayVisibilityRows R h' st w"
proof -
  have metrics: "fetchRailwayServiceMetricsByServiceId R h = fetchRailwayServiceMetricsByServiceId R h'"
    by (rule ext)+ (simp add: fetchRailwayServiceMetricsByServiceId_def same_graphql [OF assms])
  have "fetch_batch R h = fetch_batch R h'"
    by (intro ext) (unfold fetch_batch_def metrics same_graphql [OF assms], rule refl)
  then show ?thesis unfolding fetchRailwayVisibilityRows_def same_setting [OF assms] same_graphql [OF assms] by metis
qed

lemma same_settings:
  assumes "same_but_recover h h'"
  shows "railwayHeartbeatEnabled h = railwayHeartbeatEnabled h'"
    and "railwayHeartbeatExitRedeployEnabled h = railwayHeartbeatExitRedeployEnabled h'"
    and "heartbeatExitFailureThreshold h = heartbeatExitFailureThreshold h'"
    and "railwayWatchdogIntervalSec h = railwayWatchdogIntervalSec h'"
    and "tick_config R h now = tick_config R h' now"
    and "shouldUsePrivateRailwayHeartbeat h = shouldUsePrivateRailwayHeartbeat h'"
    and "heartbeatInternalPort h = heartbeatInternalPort h'"
  by (simp_all add: same_setting [OF assms] railwayHeartbeatEnabled_def railwayHeartbeatExitRedeployEnabled_def
      heartbeatExitFailureThreshold_def railwayWatchdogIntervalSec_def tick_config_def
      railwayWatchdogAutoRecoverEnabled_def heartbeatMissThreshold_def heartbeatMaxRecoverPerEpoch_def
      heartbeatRecoverCooldownMs_def shouldUsePrivateRailwayHeartbeat_def heartbeatInternalPort_def)

lemma same_operations:
  assumes "same_but_recover h h'"
  shows "buildHeartbeatProbeUrl h = buildHeartbeatProbeUrl h'"
    and "deploy_latest R h = deploy_latest R h'"
    and "effectiveRailwayOnlineStatusAfterProbe h = effectiveRailwayOnlineStatusAfterProbe h'"
    and "skip_phase R h = skip_phase R h'"
    and "finish_tick h = finish_tick h'"
  unfolding buildHeartbeatProbeUrl_def deploy_latest_def railwayServiceInstanceDeployLatest_def
      effectiveRailwayOnlineStatusAfterProbe_def skip_phase_def finish_tick_def
      same_settings [OF assms] same_graphql [OF assms]
  by (rule refl)+

lemma same_tick_row:
  assumes "same_but_recover h h'" and "railwayHeartbeatExitRedeployEnabled h"
  shows "tick_row R h cfg row = tick_row R h' cfg row"
proof -
  have due: "\<not> heartbeat_recover_due h cfg row" "\<not> heartbeat_recover_due h' cfg row"
    using assms(2) same_settings(2) [OF assms(1)] by (simp_all add: heartbeat_recover_due_def)
  have exit: "exit_redeploy_phase R h cfg row = exit_redeploy_phase R h' cfg row"
    by (intro ext, unfold exit_redeploy_phase_def exit_redeploy_due_def same_settings [OF assms(1)]
        same_operations [OF assms(1)], rule refl)
  have out: "probe_outcome R h cfg row = probe_outcome R h' cfg row"
    by (intro ext) (simp add: probe_outcome_def due)
  have heart: "heartbeat_phase R h cfg row = heartbeat_phase R h' cfg row"
    by (intro ext, unfold heartbeat_phase_def probe_phase_def out same_settings [OF assms(1)]
        same_operations [OF assms(1)], rule refl)
  have auto: "auto_recover_phase R h cfg row = auto_recover_phase R h' cfg row"
    by (intro ext, unfold auto_recover_phase_def auto_redeploy_def same_operations [OF assms(1)], rule refl)
  show ?thesis by (intro ext, unfold tick_row_def exit heart auto, rule refl)
qed

lemma same_tick:
  assumes "same_but_recover h h'" and "railwayHeartbeatExitRedeployEnabled h"
  shows "runRailwayWatchdogTick R h st w = runRailwayWatchdogTick R h' st w"
proof -
  have row: "tick_row R h cfg = tick_row R h' cfg" for cfg
    by (rule ext) (rule same_tick_row [OF assms])
  have poll: "poll_rows R h = poll_rows R h'"
    by (intro ext, unfold poll_rows_def same_rows [OF assms(1)], rule refl)
  show ?thesis
    unfolding runRailwayWatchdogTick_def row poll same_settings(4,5) [OF assms(1)] same_operations(5) [OF assms(1)]
    by (rule refl)
qed

section \<open>Which path redeploys a healthy service\<close>

text \<open>The redeploy of a healthy row was either scheduled or made by heartbeat recovery.\<close>

lemma row_sends:
  "grows [] a (tick_row R h cfg row a) \<or>
   (exit_redeploy_due h cfg row a \<or> heartbeat_recover_due h cfg row \<or> needsAutoRecoverTrigger (row_cur row)) \<and>
   grows (deploy_call h cfg (row_sid row)) a (tick_row R h cfg row a)"
proof -
  obtain ms where ms: "grows ms a (tick_row R h cfg row a)" "ms = [] \<or> ms = deploy_call h cfg (row_sid row)"
    using tick_row_grows by blast
  show ?thesis
  proof (cases "exit_redeploy_due h cfg row a \<or> heartbeat_recover_due h cfg row \<or> needsAutoRecoverTrigger (row_cur row)")
    case False
    let ?b = "exit_redeploy_phase R h cfg row a"
    have "w_trace (ta_world ?b) = w_trace (ta_world a)" using False by (simp add: exit_phase_trace)
    then have "grows [] a ?b" by (rule grows_same)
    moreover have "grows [] ?b (heartbeat_phase R h cfg row ?b)"
      using heartbeat_phase_grows [of ?b R h cfg row] False by blast
    moreover have "grows [] (heartbeat_phase R h cfg row ?b) (tick_row R h cfg row a)"
      using False by (intro grows_same) (simp add: tick_row_def Let_def auto_phase_trace auto_recover_due_def)
    ultimately show ?thesis by (metis append_Nil grows_trans)
  qed (use ms in auto)
qed

lemma healthy_path_rows:
  assumes "\<forall>row \<in> set rows. row_sid row = sid \<longrightarrow> isHealthy (row_cur row)"
    and "distinct (map row_sid rows)"
    and "\<not> heartbeat_recover_path"
    and "\<And>row. heartbeat_recover_due h cfg row \<Longrightarrow> heartbeat_recover_path"
    and "railwayHeartbeatExitRedeployEnabled h \<Longrightarrow> \<not> peekExitLifecycleRedeem (ws_heartbeatExitLifecycle (ta_state a)) sid"
  shows "\<exists>ms. grows ms a (fold (tick_row R h cfg) rows a) \<and>
    Call_gql (Gql_ServiceInstanceDeploy (cf_environmentId cfg) sid) \<notin> set ms"
  using assms(1,2,5)
proof (induction rows arbitrary: a)
  case Nil
  then show ?case by (auto intro: exI [of _ "[]"] grows_same)
next
  case (Cons row rows)
  let ?d = "Call_gql (Gql_ServiceInstanceDeploy (cf_environmentId cfg) sid)"
  let ?b = "tick_row R h cfg row a"
  obtain xs where xs: "grows xs a ?b" "?d \<notin> set xs"
  proof (cases "row_sid row = sid")
    case True
    then have "\<not> exit_redeploy_due h cfg row a" "\<not> heartbeat_recover_due h cfg row"
      "\<not> needsAutoRecoverTrigger (row_cur row)"
      using Cons.prems assms(3,4) by (auto simp: exit_redeploy_due_def dest: healthy_not_bad)
    with row_sends [of a R h cfg row] show thesis using that [of "[]"] by simp
  next
    case False
    with row_sends [of a R h cfg row] show thesis
      using that [of "[]"] that [of "deploy_call h cfg (row_sid row)"] by (auto simp: gql_calls_def split: if_splits)
  qed
  show ?case
  proof (cases "row_sid row = sid")
    case True
    then have "\<forall>r \<in> set rows. row_sid r \<noteq> sid" using Cons.prems(2) by (metis distinct.simps(2) image_eqI list.set_map list.simps(9))
    then have "?d \<notin> set (redeploys cfg rows)" by (auto simp: redeploys_def)
    moreover obtain ns where ns: "grows ns ?b (fold (tick_row R h cfg) rows ?b)" "subseq ns (redeploys cfg rows)"
      using rows_grow by blast
    ultimately have "?d \<notin> set ns" by (auto elim: list_emb_set [OF ns(2)])
    then show ?thesis using xs(2) grows_trans [OF xs(1) ns(1)] by (intro exI [of _ "xs @ ns"]) simp
  next
    case False
    from exit_view_row [of sid row R h cfg a] False
    have "peekExitLifecycleRedeem (ws_heartbeatExitLifecycle (ta_state ?b)) sid =
        peekExitLifecycleRedeem (ws_heartbeatExitLifecycle (ta_state a)) sid"
      by (auto simp: view_of_def)
    with Cons obtain ns where "grows ns ?b (fold (tick_row R h cfg) rows ?b)" "?d \<notin> set ns"
      by fastforce
    with xs grows_trans [OF xs(1), of ns] show ?thesis by (intro exI [of _ "xs @ ns"]) simp
  qed
qed

text \<open>A tick sends no redeploy of a healthy service that is not scheduled and that heartbeat recovery
  may not touch.\<close>

lemma healthy_not_redeployed:
  assumes "\<forall>row \<in> set (vz_containers (tick_rows R h w)). row_sid row = sid \<longrightarrow> isHealthy (row_cur row)"
    and "distinct (map row_sid (vz_containers (tick_rows R h w)))"
    and "if railwayHeartbeatExitRedeployEnabled h
         then \<not> peekExitLifecycleRedeem (ws_heartbeatExitLifecycle st) sid
         else \<not> railwayHeartbeatRecoverEnabled h"
  shows "Call_gql (Gql_ServiceInstanceDeploy (tick_env h) sid) \<notin> set (tick_calls R h st w)"
proof -
  let ?d = "Call_gql (Gql_ServiceInstanceDeploy (tick_env h) sid)"
  let ?p = "snd (poll_rows R h st w)" and ?cfg = "tick_config R h (tick_now R h st w)"
  obtain cs where cs: "w_trace (ta_world ?p) = w_trace w @ cs" "muts cs = []"
    using poll_queries by blast
  have mut: "?d \<in> set xs \<longleftrightarrow> ?d \<in> set (muts xs)" for xs by (simp add: muts_def)
  show ?thesis
  proof (cases "truthy (vz_error (tick_rows R h w))")
    case True
    with cs mut [of cs] show ?thesis by (simp add: tick_error tick_calls_def)
  next
    case False
    have "\<exists>ms. grows ms (snd (read_clock R ?p)) (tick_loop R h st w) \<and> ?d \<notin> set ms"
      unfolding tick_loop_def cfg_sel(1) [symmetric, of h R "tick_now R h st w"]
      by (rule healthy_path_rows [OF assms(1,2), where
            heartbeat_recover_path = "\<not> railwayHeartbeatExitRedeployEnabled h \<and> railwayHeartbeatRecoverEnabled h"])
        (use assms(3) in \<open>auto simp: heartbeat_recover_due_def split: if_splits\<close>)
    then obtain ds where ds: "w_trace (ta_world (tick_loop R h st w)) = w_trace (ta_world ?p) @ ds" "?d \<notin> set ds"
      using mut by (auto simp: grows_def)
    have "?d \<notin> set (cs @ ds)" using cs(2) ds(2) mut [of cs] by simp
    then show ?thesis using cs(1) ds(1) by (simp add: tick_ok [OF False] tick_calls_def)
  qed
qed

section \<open>A concrete poll\<close>

definition demo_row :: "string \<Rightarrow> RailwayVisibilityRow" where
  "demo_row status = deployment_row (\<lambda>s. None) [''s1'' \<mapsto> ''dashboard''] ''s1''
     \<lparr>dn_id = ''dep1'', dn_status = Some status, dn_createdAt = None,
      dn_url = Some ''d.up.railway.app'', dn_staticUrl = None\<rparr>"

lemma demo_project_at:
  assumes "hasRailwayGraphqlCredential h"
  shows "fst (railwayGraphql (demo_remote status code step) h (Gql_ProjectServices p) w) =
     Inr \<lparr>gd_project = Some \<lparr>pn_id = ''p'', pn_name = ''P'',
              pn_edges = Some [Some \<lparr>sn_id = ''s1'', sn_name = ''dashboard''\<rparr>]\<rparr>,
          gd_conns = [], gd_metrics = None, gd_flags = []\<rparr>"
  using assms auth_headers_iff [of h]
  by (auto simp: railwayGraphql_def demo_remote_def send_gql_def status_ok_def Let_def split: sum.splits)

lemma demo_batch_at:
  assumes "hasRailwayGraphqlCredential h"
  shows "fst (railwayGraphql (demo_remote status code step) h (Gql_DeploymentsBatch q) w) =
     Inr \<lparr>gd_project = None,
          gd_conns = [(''d0'', Some [Some \<lparr>dn_id = ''dep1'', dn_status = Some status, dn_createdAt = None,
            dn_url = Some ''d.up.railway.app'', dn_staticUrl = None\<rparr>])], gd_metrics = None, gd_flags = []\<rparr>"
  using assms auth_headers_iff [of h]
  by (auto simp: railwayGraphql_def demo_remote_def send_gql_def status_ok_def Let_def split: sum.splits)

lemma demo_rows_at:
  assumes "hasRailwayGraphqlCredential h"
  shows "fst (fetchRailwayVisibilityRows (demo_remote status code step) h False w) =
     visibility_rows (Some ''P'') (runtimeEnv h ''RAILWAY_PROJECT_ID'') [demo_row status]"
proof -
  have key0: "alias_key 0 = ''d0''" by code_simp
  have services: "services_by_id [\<lparr>sn_id = ''s1'', sn_name = ''dashboard''\<rparr>] = [''s1'' \<mapsto> ''dashboard'']"
    by (simp add: services_by_id_def)
  have date: "o_date (demo_remote status code step) = (\<lambda>s. None)" by (simp add: demo_remote_def Let_def)
  have "fst (fetch_batch (demo_remote status code step) h False (Some ''P'') pid env
      [\<lparr>sn_id = ''s1'', sn_name = ''dashboard''\<rparr>] w') = visibility_rows (Some ''P'') pid [demo_row status]" for pid env w'
    by (simp add: fetch_batch_def buildBatchDeploymentsQuery_def Let_def case_prod_beta demo_batch_at [OF assms] batch_rows_def
        service_row_def first_deployment_def key0 services date demo_row_def)
  then show ?thesis
    by (simp add: fetchRailwayVisibilityRows_def Let_def case_prod_beta demo_project_at [OF assms] project_services_def
        List.map_filter_def)
qed

lemma demo_rows:
  "fst (fetchRailwayVisibilityRows (demo_remote status code step) demo_host False w) =
     visibility_rows (Some ''P'') (Some ''p'') [demo_row status]"
  using demo_rows_at [of demo_host status code step w] by simp

lemma demo_row_sel [simp]:
  "row_sid (demo_row s) = ''s1''" "row_dep (demo_row s) = ''dep1''" "row_cur (demo_row s) = js_trim s"
  "row_name (demo_row s) = ''dashboard''"
  "vr_railwayOnlineStatus (demo_row s) = deploymentStatusToRailwayUi (Some s) True"
  by (simp_all add: demo_row_def deployment_row_def row_dep_def row_cur_def row_name_def Let_def case_prod_beta)

lemma demo_statuses [simp]:
  "isHealthy ''SUCCESS''" "\<not> isHealthy ''CRASHED''"
  "js_trim ''SUCCESS'' = ''SUCCESS''" "js_trim ''REMOVED'' = ''REMOVED''" "js_trim ''CRASHED'' = ''CRASHED''"
  by code_simp+

lemma demo_switches [simp]:
  "railwayHeartbeatEnabled demo_host" "railwayHeartbeatExitRedeployEnabled demo_host"
  "railwayWatchdogAutoRecoverEnabled demo_host"
  by code_simp+

section \<open>Properties\<close>

text \<open>C1: A tick sends no mutation but redeploys of the configured environment, at most one per row and
  in the order of the rows; and only with auto-recover enabled, for a row whose deployment is
  healthy (\<open>SUCCESS\<close>, \<open>SLEEPING\<close>: the liveness paths) or failed (\<open>CRASHED\<close>, \<open>FAILED\<close>). In
  particular a service that was stopped, removed or skipped on purpose, or that is deploying, is
  never redeployed, and nothing is stopped or removed.\<close>

theorem tick_redeploys_each_service_once:
  "\<exists>cs. w_trace (snd (snd (runRailwayWatchdogTick R h st w))) = w_trace w @ cs \<and>
     subseq (filter (\<lambda>c. \<not> is_query c) cs)
       (map (\<lambda>row. Call_gql (Gql_ServiceInstanceDeploy (coalesce (runtimeEnv h ''RAILWAY_ENVIRONMENT_ID'') [])
                                                        (vr_railwayServiceId row)))
         (filter (\<lambda>row. railwayWatchdogAutoRecoverEnabled h \<and> truthy (runtimeEnv h ''RAILWAY_ENVIRONMENT_ID'') \<and>
                        (isHealthy (row_cur row) \<or> needsAutoRecoverTrigger (row_cur row)))
           (vz_containers (fst (fetchRailwayVisibilityRows R h False (snd (perf_now R w)))))))"
proof -
  have "may_redeploy (tick_config R h (tick_now R h st w)) =
      (\<lambda>row. railwayWatchdogAutoRecoverEnabled h \<and> truthy (runtimeEnv h ''RAILWAY_ENVIRONMENT_ID'') \<and>
             (isHealthy (row_cur row) \<or> needsAutoRecoverTrigger (row_cur row)))"
    by (rule ext) (simp add: may_redeploy_def)
  with tick_grows [of R h st w] show ?thesis by (simp add: redeploys_def muts_def)
qed

text \<open>C2: A service whose last automatic redeploy is less than 50 seconds old, at every reading of the
  clock, is not redeployed by a tick that finds it not healthy, however many rows it has.\<close>

theorem no_redeploy_in_cooldown:
  assumes "ws_recoverCooldown st sid = Some t" and "\<forall>n. o_now R n - t < 50000"
    and "\<forall>row \<in> set (vz_containers (fst (fetchRailwayVisibilityRows R h False (snd (perf_now R w))))).
           vr_railwayServiceId row = sid \<longrightarrow> \<not> isHealthy (row_cur row)"
  shows "\<exists>cs. w_trace (snd (snd (runRailwayWatchdogTick R h st w))) = w_trace w @ cs \<and>
    Call_gql (Gql_ServiceInstanceDeploy (coalesce (runtimeEnv h ''RAILWAY_ENVIRONMENT_ID'') []) sid) \<notin> set cs"
proof -
  let ?d = "Call_gql (Gql_ServiceInstanceDeploy (coalesce (runtimeEnv h ''RAILWAY_ENVIRONMENT_ID'') []) sid)"
  have mut: "?d \<in> set cs \<longleftrightarrow> ?d \<in> set (muts cs)" for cs by (simp add: muts_def)
  obtain cs where cs: "w_trace (ta_world (snd (poll_rows R h st w))) = w_trace w @ cs" "muts cs = []"
    using poll_queries by blast
  show ?thesis
  proof (cases "truthy (vz_error (tick_rows R h w))")
    case True
    with cs show ?thesis using mut [of cs] by (intro exI [of _ cs]) (simp add: tick_error)
  next
    case False
    let ?a = "snd (read_clock R (snd (poll_rows R h st w)))"
    have "cooling R sid ?a" using assms(1,2) by (auto simp: cooling_def RECOVER_COOLDOWN_MS_def)
    from cooling_rows [OF this assms(3), of h "tick_config R h (tick_now R h st w)"]
    obtain ds where ds: "w_trace (ta_world (tick_loop R h st w)) = w_trace (ta_world ?a) @ ds" "?d \<notin> set (muts ds)"
      by (auto simp: grows_def tick_loop_def)
    have "?d \<notin> set (cs @ ds)" using cs(2) ds(2) mut [of cs] mut [of ds] by simp
    moreover have "w_trace (tick_world R h st w) = w_trace w @ cs @ ds"
      using cs(1) ds(1) by (simp add: tick_ok [OF False])
    ultimately show ?thesis by blast
  qed
qed

text \<open>C3: A redeploy scheduled by the exit lifecycle is sent by the next tick that fetches the rows and
  finds the service healthy with a deployment (heartbeats, exit redeploys and auto-recover being
  enabled and a credential present), whatever the probes answer.\<close>

theorem scheduled_redeploy_is_sent:
  assumes "peekExitLifecycleRedeem (ws_heartbeatExitLifecycle st) (vr_railwayServiceId row)"
    and "\<not> truthy (vz_error (fst (fetchRailwayVisibilityRows R h False (snd (perf_now R w)))))"
    and "row \<in> set (vz_containers (fst (fetchRailwayVisibilityRows R h False (snd (perf_now R w)))))"
    and "distinct (map vr_railwayServiceId
           (vz_containers (fst (fetchRailwayVisibilityRows R h False (snd (perf_now R w))))))"
    and "isHealthy (row_cur row)" and "row_dep row \<noteq> []"
    and "railwayHeartbeatEnabled h" and "railwayHeartbeatExitRedeployEnabled h"
    and "railwayWatchdogAutoRecoverEnabled h" and "runtimeEnv h ''RAILWAY_ENVIRONMENT_ID'' = Some env" and "env \<noteq> []"
    and "hasRailwayGraphqlCredential h"
  shows "\<exists>cs ds. w_trace (snd (snd (runRailwayWatchdogTick R h st w))) =
    w_trace w @ cs @ Call_gql (Gql_ServiceInstanceDeploy env (vr_railwayServiceId row)) # ds"
proof -
  let ?cfg = "tick_config R h (tick_now R h st w)"
  let ?a = "snd (read_clock R (snd (poll_rows R h st w)))"
  have due: "exit_redeploy_due h ?cfg row b"
    if "peekExitLifecycleRedeem (ws_heartbeatExitLifecycle (ta_state b)) (row_sid row)" for b
    using assms that by (simp add: exit_redeploy_due_def healthy_not_deploying)
  have "peekExitLifecycleRedeem (ws_heartbeatExitLifecycle (ta_state ?a)) (row_sid row)"
    using assms(1) by simp
  from scheduled_redeploy_sent [OF assms(3,4) due this, of R]
  obtain cs ds where "w_trace (ta_world (tick_loop R h st w)) =
      w_trace (ta_world ?a) @ cs @ deploy_call h ?cfg (row_sid row) @ ds"
    by (auto simp: tick_loop_def)
  moreover obtain c0 where "w_trace (ta_world ?a) = w_trace w @ c0"
    using poll_queries [of R h st w] by auto
  ultimately have "w_trace (tick_world R h st w) =
      w_trace w @ (c0 @ cs) @ Call_gql (Gql_ServiceInstanceDeploy env (row_sid row)) # ds"
    using assms(10,12) by (simp add: tick_ok [OF assms(2)] gql_calls_def)
  then show ?thesis by blast
qed

text \<open>Whatever ticks run, on whatever worlds, from the empty state: the log tail never has more
  than 40 lines and the activity list never more than 48 entries, and a payload never has more
  than 30 events.\<close>

theorem tick_logs_bounded:
  "let st = fold (\<lambda>(R, h, w) st. fst (snd (runRailwayWatchdogTick R h st w))) ticks createEmptyWatchdogState
   in length (ws_logTail st) \<le> 40 \<and> length (ws_apiActivity st) \<le> 48 \<and>
      length (pl_events (fst (runRailwayWatchdogTick R' h' st w'))) \<le> 30"
proof -
  have "logs_ok (fold (\<lambda>(R, h, w) st. tick_state R h st w) ticks st)" if "logs_ok st" for st
    using that by (induction ticks arbitrary: st) (auto simp: logs_ok_tick)
  moreover have "logs_ok createEmptyWatchdogState" by (simp add: logs_ok_def createEmptyWatchdogState_def)
  moreover have "length (pl_events (tick_payload R' h' st w')) \<le> 30" for st
    by (cases "truthy (vz_error (tick_rows R' h' w'))") (simp_all add: tick_error payload_events)
  ultimately show ?thesis
    by (simp add: logs_ok_def LOG_TAIL_MAX_def API_ACTIVITY_MAX_def Let_def)
qed

text \<open>C4: The budget of heartbeat redeploys, in calls. Take any number of ticks from the empty state
  and then a run of ticks, on any worlds, whose polls each find the service with one and the same
  deployment, neither crashed nor failed and with a URL to probe (or fail as a whole). With exit
  redeploys disabled, the \<open>serviceInstanceDeploy\<close> calls of that run for the service that
  Railway accepts are at most \<open>RAILWAY_HEARTBEAT_MAX_RECOVER\<close>. (A call that throws is not
  charged; a new deployment starts a budget of its own.)\<close>

theorem heartbeat_budget_kept:
  assumes "\<not> railwayHeartbeatExitRedeployEnabled h"
    and "\<forall>(R, w) \<in> set ticks. still_deployed R h sid dep w"
  shows "int (redeploys_in_run h sid ticks
      (fold (\<lambda>(R, w) st. fst (snd (runRailwayWatchdogTick R h st w))) before createEmptyWatchdogState))
    \<le> heartbeatMaxRecoverPerEpoch h"
proof -
  let ?st = "fold (\<lambda>(R, w) st. tick_state R h st w) before createEmptyWatchdogState"
  have start: "budget_ok (heartbeatMaxRecoverPerEpoch h) ?st"
    by (rule budget_run) (simp add: budget_ok_def createEmptyWatchdogState_def)
  from charged_bounds [OF budget_run [OF start, of ticks] max_recover_nonneg, of sid dep]
    charged_bounds [OF start max_recover_nonneg, of sid dep] run_cost [OF assms(2,1), of ?st]
  show ?thesis by simp
qed

text \<open>After a tick the previous-row table is exactly what the tick fetched: one entry per listed
  service (the last row of a service counts), nothing of services that disappeared; and heartbeat
  bookkeeping is kept for listed services only. When the poll failed, nothing of the state changes
  but the activity list, no events are reported, and the error is in the payload.\<close>

theorem tick_remembers_what_it_saw:
  "let fetched = fst (fetchRailwayVisibilityRows R h False (snd (perf_now R w)));
       (payload, st', w') = runRailwayWatchdogTick R h st w;
       ids = set (map vr_railwayServiceId (vz_containers fetched))
   in if truthy (vz_error fetched)
      then st'\<lparr>ws_apiActivity := ws_apiActivity st\<rparr> = st \<and> pl_events payload = [] \<and>
           pl_error payload = vz_error fetched \<and> pl_lastTickAt payload = None
      else ws_prev st' = map_of (rev (map (\<lambda>r. (vr_railwayServiceId r, row_entry r)) (vz_containers fetched))) \<and>
           dom (ws_heartbeatRecoverState st') \<subseteq> ids \<and> dom (ws_heartbeatLastRecoverAt st') \<subseteq> ids \<and>
           pl_instancesMonitored payload = int (length (vz_containers fetched)) \<and> pl_error payload = None"
proof (cases "truthy (vz_error (tick_rows R h w))")
  case True
  have "(ta_state (snd (poll_rows R h st w)))\<lparr>ws_apiActivity := ws_apiActivity st\<rparr> = st"
    by (simp add: poll_rows_def start_acc_def activity_def pushActivity_def Let_def case_prod_beta)
  with True show ?thesis by (simp add: tick_error)
next
  case False
  then show ?thesis
    using prev_tick [OF False, of st]
    by (auto simp: tick_ok Let_def case_prod_beta finish_tick_def [of h _ _ a for a, THEN arg_cong [where f = fst]]
        restrict_map_def dom_def split: if_splits)
qed

text \<open>The heartbeat counters of a payload add up: every probe succeeded or failed, and probed and
  skipped services together are all services of the poll; with heartbeats disabled all are zero.\<close>

theorem heartbeat_counters_add_up:
  "case pl_heartbeat (fst (runRailwayWatchdogTick R h st w)) of
     None \<Rightarrow> truthy (vz_error (fst (fetchRailwayVisibilityRows R h False (snd (perf_now R w)))))
   | Some s \<Rightarrow>
       hs_enabled s = railwayHeartbeatEnabled h \<and> hs_ok s + hs_failed s = hs_probes s \<and>
       hs_probes s + hs_skipped s =
         (if hs_enabled s then pl_instancesMonitored (fst (runRailwayWatchdogTick R h st w)) else 0)"
proof (cases "truthy (vz_error (tick_rows R h w))")
  case True
  then show ?thesis by (simp add: tick_error)
next
  case False
  from counts_loop [of R h st w] show ?thesis
    by (auto simp: tick_ok [OF False] finish_tick_def heartbeat_counts_def Let_def)
qed

text \<open>The events of a payload: with the exit redeploy enabled (the default) none is a
  \<open>heartbeat_recover\<close>, with it disabled none is a \<open>heartbeat_exit_redeploy\<close>; no tick emits
  \<open>scan\<close> or \<open>railway_stalled\<close>.\<close>

theorem reported_kinds:
  "ev_kind ` set (pl_events (fst (runRailwayWatchdogTick R h st w))) \<subseteq>
     {Railway_stopped, Railway_rebooting, Railway_deploy, Recover, Railway_auto_recover,
      if railwayHeartbeatExitRedeployEnabled h then Heartbeat_exit_redeploy else Heartbeat_recover}"
proof (cases "truthy (vz_error (tick_rows R h w))")
  case True
  then show ?thesis by (simp add: tick_error)
next
  case False
  from loop_events [of h R st w] have "\<forall>e \<in> set (ta_events (tick_loop R h st w)). ev_kind e \<in> row_kinds h \<union> transition_kinds"
    by (auto simp: adds_def)
  from payload_kinds [OF False this] show ?thesis
    by (rule subset_trans) (auto simp: row_kinds_def transition_kinds_def)
qed

text \<open>C5: The two redeploys after failed probes exclude each other. With the exit redeploy enabled (the
  default) \<open>RAILWAY_HEARTBEAT_RECOVER\<close> has no effect: on two hosts that agree on every other
  setting the tick is the same, payload, state and world; and a redeploy call for a service whose
  rows are healthy was scheduled by the exit lifecycle. With the exit redeploy disabled such a call
  is made only with \<open>RAILWAY_HEARTBEAT_RECOVER\<close> on. The service ids of the poll are distinct.\<close>

theorem recovery_paths_exclusive:
  assumes "\<forall>k. js_trim k \<noteq> ''RAILWAY_HEARTBEAT_RECOVER'' \<longrightarrow> runtimeEnv h k = runtimeEnv h' k"
    and "\<forall>row \<in> set (vz_containers (fst (fetchRailwayVisibilityRows R h False (snd (perf_now R w))))).
           vr_railwayServiceId row = sid \<longrightarrow> isHealthy (row_cur row)"
    and "distinct (map vr_railwayServiceId
           (vz_containers (fst (fetchRailwayVisibilityRows R h False (snd (perf_now R w))))))"
  shows "if railwayHeartbeatExitRedeployEnabled h
    then runRailwayWatchdogTick R h st w = runRailwayWatchdogTick R h' st w \<and>
         (Call_gql (Gql_ServiceInstanceDeploy (tick_env h) sid) \<in> set (tick_calls R h st w) \<longrightarrow>
            peekExitLifecycleRedeem (ws_heartbeatExitLifecycle st) sid)
    else Call_gql (Gql_ServiceInstanceDeploy (tick_env h) sid) \<in> set (tick_calls R h st w) \<longrightarrow>
           railwayHeartbeatRecoverEnabled h"
proof -
  have same: "railwayHeartbeatExitRedeployEnabled h \<Longrightarrow> runRailwayWatchdogTick R h st w = runRailwayWatchdogTick R h' st w"
    using assms(1) by (intro same_tick) (simp_all add: agree_but_def)
  show ?thesis
    using same healthy_not_redeployed [OF assms(2,3), of st] by (cases "railwayHeartbeatExitRedeployEnabled h") auto
qed

text \<open>A tick that finds every service as the previous one left it reports no transition: its
  events, if any, are redeploys of the watchdog itself.\<close>

theorem steady_services_are_quiet:
  assumes "\<forall>row \<in> set (vz_containers (fst (fetchRailwayVisibilityRows R h False (snd (perf_now R w))))).
      ws_prev st (vr_railwayServiceId row) =
        Some \<lparr>pe_deploymentStatus = row_cur row, pe_deploymentId = row_dep row,
              pe_onlineStatus = vr_railwayOnlineStatus row\<rparr> \<and>
      vr_railwayOnlineStatus row \<noteq> Exited \<and>
      (row_dep row \<noteq> [] \<longrightarrow> \<not> js_includes (js_lower (vr_status row)) ''no active deployment'')"
  shows "ev_kind ` set (pl_events (fst (runRailwayWatchdogTick R h st w))) \<subseteq>
     {Railway_auto_recover, Heartbeat_exit_redeploy, Heartbeat_recover}"
proof (cases "truthy (vz_error (tick_rows R h w))")
  case True
  then show ?thesis by (simp add: tick_error)
next
  case False
  let ?a = "snd (read_clock R (snd (poll_rows R h st w)))"
  have "\<forall>row \<in> set (vz_containers (tick_rows R h w)). steady_row (ta_state ?a) row"
    using assms by (simp add: steady_row_def row_entry_def)
  from steady_rows [OF this, of h R "tick_config R h (tick_now R h st w)"]
  have "\<forall>e \<in> set (ta_events (tick_loop R h st w)). ev_kind e \<in> row_kinds h"
    by (auto simp: adds_def tick_loop_def)
  from payload_kinds [OF False this] show ?thesis by (rule subset_trans) (simp add: row_kinds_def)
qed

lemma went_down_in_payload:
  assumes "ws_prev st (vr_railwayServiceId row) = Some e" and "wasActivelyDeployed e"
    and "isNowStoppedOrNoDeployment (row_dep row) (row_cur row) row"
    and "\<not> truthy (vz_error (fst (fetchRailwayVisibilityRows R h False (snd (perf_now R w)))))"
    and "row \<in> set (vz_containers (fst (fetchRailwayVisibilityRows R h False (snd (perf_now R w)))))"
    and "distinct (map vr_railwayServiceId
           (vz_containers (fst (fetchRailwayVisibilityRows R h False (snd (perf_now R w))))))"
  shows "length (pl_events (fst (runRailwayWatchdogTick R h st w))) = 30 \<or>
    (\<exists>ev \<in> set (pl_events (fst (runRailwayWatchdogTick R h st w))).
       ev_kind ev = Railway_stopped \<and> ev_service ev = row_name row)"
proof -
  let ?a = "snd (read_clock R (snd (poll_rows R h st w)))"
  have "went_down (ta_state ?a) row" using assms(1,2,3) by (simp add: went_down_def)
  from went_down_rows [OF assms(5,6) this, of R h "tick_config R h (tick_now R h st w)"]
  have "\<exists>ev \<in> set (ta_events (tick_loop R h st w)). ev_kind ev = Railway_stopped \<and> ev_service ev = row_name row"
    by (simp add: tick_loop_def)
  from ex_take_or_full [OF this, of 30] show ?thesis unfolding payload_events [OF assms(4)] .
qed

text \<open>A service that was up (healthy or deploying) at the previous tick and is now stopped, removed,
  canceled or without a deployment is reported with a \<open>railway_stopped\<close> event, unless the
  payload is already full.\<close>

theorem stopped_service_is_reported:
  assumes "ws_prev st (vr_railwayServiceId row) = Some e" and "wasActivelyDeployed e"
    and "isNowStoppedOrNoDeployment (row_dep row) (row_cur row) row"
    and "\<not> truthy (vz_error (fst (fetchRailwayVisibilityRows R h False (snd (perf_now R w)))))"
    and "row \<in> set (vz_containers (fst (fetchRailwayVisibilityRows R h False (snd (perf_now R w)))))"
    and "distinct (map vr_railwayServiceId
           (vz_containers (fst (fetchRailwayVisibilityRows R h False (snd (perf_now R w))))))"
  shows "length (pl_events (fst (runRailwayWatchdogTick R h st w))) = 30 \<or>
    (\<exists>ev \<in> set (pl_events (fst (runRailwayWatchdogTick R h st w))).
       ev_kind ev = Railway_stopped \<and> ev_service ev = row_name row)"
  using assms by (rule went_down_in_payload)

section \<open>Witnesses\<close>

theorem no_redeploy_in_cooldown_witness:
  "\<exists>cs. w_trace (snd (snd (runRailwayWatchdogTick (demo_remote ''CRASHED'' 200 0) demo_host
      (createEmptyWatchdogState\<lparr>ws_recoverCooldown := [''s1'' \<mapsto> 60000]\<rparr>) init_world))) = w_trace init_world @ cs \<and>
    Call_gql (Gql_ServiceInstanceDeploy ''e'' ''s1'') \<notin> set cs"
proof -
  have "\<forall>n. o_now (demo_remote ''CRASHED'' 200 0) n - 60000 < 50000" by (simp add: demo_remote_def Let_def)
  from no_redeploy_in_cooldown [of "createEmptyWatchdogState\<lparr>ws_recoverCooldown := [''s1'' \<mapsto> 60000]\<rparr>" "''s1''", OF _ this,
      of demo_host init_world]
  show ?thesis by (simp add: demo_rows visibility_rows_def)
qed

definition scheduled_state :: WatchdogPersistentState where
  "scheduled_state = createEmptyWatchdogState\<lparr>ws_heartbeatExitLifecycle :=
     requeueExitLifecycleRedeem createHeartbeatExitLifecycleState ''s1''\<rparr>"

theorem scheduled_redeploy_is_sent_witness:
  "\<exists>cs ds. w_trace (snd (snd (runRailwayWatchdogTick (demo_remote ''SUCCESS'' 502 1) demo_host scheduled_state init_world))) =
    w_trace init_world @ cs @ Call_gql (Gql_ServiceInstanceDeploy ''e'' ''s1'') # ds"
proof -
  have "peekExitLifecycleRedeem (ws_heartbeatExitLifecycle scheduled_state) ''s1''"
    by (simp add: scheduled_state_def lifecycle_ops)
  then show ?thesis
    using scheduled_redeploy_is_sent [of scheduled_state "demo_row ''SUCCESS''"
          "demo_remote ''SUCCESS'' 502 1" demo_host init_world "''e''"]
    by (simp add: demo_rows visibility_rows_def)
qed

text \<open>The host with exit redeploys off and heartbeat recovery on.\<close>

definition recover_host :: host where
  "recover_host = demo_host\<lparr>h_process_env := Some [(''RAILWAY_PROJECT_ID'', ''p''),
     (''RAILWAY_ENVIRONMENT_ID'', ''e''), (''RAILWAY_API_TOKEN'', ''t''),
     (''RAILWAY_HEARTBEAT_EXIT_REDEPLOY'', ''0''), (''RAILWAY_HEARTBEAT_RECOVER'', ''1''),
     (''RAILWAY_HEARTBEAT_MISS_THRESHOLD'', ''1''), (''RAILWAY_HEARTBEAT_RECOVER_COOLDOWN_MS'', ''0'')]\<rparr>"

lemma recover_host_env [simp]:
  "hasRailwayGraphqlCredential recover_host" "\<not> railwayHeartbeatExitRedeployEnabled recover_host"
  "railwayHeartbeatRecoverEnabled recover_host" "heartbeatMaxRecoverPerEpoch recover_host = 1"
  by code_simp+

text \<open>Two ticks in a row in which every probe fails: one redeploy, which uses up the budget.\<close>

definition two_ticks :: "(remote \<times> world) list" where
  "two_ticks = (let R = demo_remote ''SUCCESS'' 502 1 in [(R, init_world),
     (R, snd (snd (runRailwayWatchdogTick R recover_host createEmptyWatchdogState init_world)))])"

theorem heartbeat_budget_kept_witness:
  "redeploys_in_run recover_host ''s1'' two_ticks createEmptyWatchdogState \<le> 1"
proof -
  have u: "buildHeartbeatProbeUrl recover_host (vr_railwayPublicUrl (demo_row ''SUCCESS'')) (vr_service (demo_row ''SUCCESS'')) \<noteq> None"
    by code_simp
  have s: "\<not> needsAutoRecoverTrigger ''SUCCESS''" by code_simp
  have "still_deployed (demo_remote ''SUCCESS'' 502 1) recover_host ''s1'' ''dep1'' w" for w
    using u s by (simp add: still_deployed_def demo_rows_at visibility_rows_def)
  then show ?thesis
    using heartbeat_budget_kept [of recover_host two_ticks "''s1''" "''dep1''" "[]"] by (simp add: two_ticks_def Let_def)
qed


definition quiet_host :: host where
  "quiet_host = demo_host\<lparr>h_process_env := Some [(''RAILWAY_PROJECT_ID'', ''p''),
     (''RAILWAY_ENVIRONMENT_ID'', ''e''), (''RAILWAY_API_TOKEN'', ''t''), (''RAILWAY_HEARTBEAT_RECOVER'', ''1'')]\<rparr>"

theorem recovery_paths_exclusive_witness:
  "runRailwayWatchdogTick (demo_remote ''SUCCESS'' 502 1) demo_host createEmptyWatchdogState init_world =
     runRailwayWatchdogTick (demo_remote ''SUCCESS'' 502 1) quiet_host createEmptyWatchdogState init_world"
proof -
  have "js_trim ''RAILWAY_HEARTBEAT_RECOVER'' = ''RAILWAY_HEARTBEAT_RECOVER''" by code_simp
  then have "\<forall>k. js_trim k \<noteq> ''RAILWAY_HEARTBEAT_RECOVER'' \<longrightarrow> runtimeEnv demo_host k = runtimeEnv quiet_host k"
    by (auto simp: runtimeEnv_def runtimeEnv_from_def quiet_host_def demo_host_def fromProc_def parseLinuxEnviron_def
        lookup_entries_def cong: option.case_cong)
  from recovery_paths_exclusive [OF this, of "demo_remote ''SUCCESS'' 502 1" init_world "''s1''" createEmptyWatchdogState]
  show ?thesis by (simp add: demo_rows visibility_rows_def)
qed

abbreviation seen_up :: WatchdogPersistentState where
  "seen_up \<equiv> createEmptyWatchdogState\<lparr>ws_prev := [''s1'' \<mapsto> \<lparr>pe_deploymentStatus = ''SUCCESS'',
     pe_deploymentId = ''dep1'', pe_onlineStatus = Online\<rparr>]\<rparr>"

theorem steady_services_are_quiet_witness:
  "ev_kind ` set (pl_events (fst (runRailwayWatchdogTick (demo_remote ''SUCCESS'' 200 1) demo_host seen_up init_world)))
     \<subseteq> {Railway_auto_recover, Heartbeat_exit_redeploy, Heartbeat_recover}"
proof (rule steady_services_are_quiet)
  have online: "deploymentStatusToRailwayUi (Some ''SUCCESS'') True = Online" by code_simp
  have "\<not> js_includes (js_lower (vr_status (demo_row ''SUCCESS''))) ''no active deployment''" by code_simp
  then show "\<forall>row \<in> set (vz_containers (tick_rows (demo_remote ''SUCCESS'' 200 1) demo_host init_world)).
      ws_prev seen_up (vr_railwayServiceId row) =
        Some \<lparr>pe_deploymentStatus = row_cur row, pe_deploymentId = row_dep row,
              pe_onlineStatus = vr_railwayOnlineStatus row\<rparr> \<and>
      vr_railwayOnlineStatus row \<noteq> Exited \<and>
      (row_dep row \<noteq> [] \<longrightarrow> \<not> js_includes (js_lower (vr_status row)) ''no active deployment'')"
    by (simp add: demo_rows visibility_rows_def online)
qed

theorem stopped_service_is_reported_witness:
  "length (pl_events (fst (runRailwayWatchdogTick (demo_remote ''REMOVED'' 200 1) demo_host seen_up init_world))) = 30 \<or>
    (\<exists>ev \<in> set (pl_events (fst (runRailwayWatchdogTick (demo_remote ''REMOVED'' 200 1) demo_host seen_up init_world))).
       ev_kind ev = Railway_stopped \<and> ev_service ev = ''dashboard'')"
proof -
  have "wasActivelyDeployed \<lparr>pe_deploymentStatus = ''SUCCESS'', pe_deploymentId = ''dep1'', pe_onlineStatus = Online\<rparr>"
    by code_simp
  moreover have "isNowStoppedOrNoDeployment ''dep1'' ''REMOVED'' (demo_row ''REMOVED'')" by code_simp
  ultimately show ?thesis
    using stopped_service_is_reported [of seen_up "demo_row ''REMOVED''" "\<lparr>pe_deploymentStatus = ''SUCCESS'',
        pe_deploymentId = ''dep1'', pe_onlineStatus = Online\<rparr>" "demo_remote ''REMOVED'' 200 1" demo_host init_world]
    by (simp add: demo_rows visibility_rows_def)
qed

end
