(* ===== verification/VisibilityRoutes.thy ===== *)
theory VisibilityRoutes
  imports ChaosPolicy TickSafety
begin

text \<open>
  The two routes that show the services: \<open>visibility/docker\<close> (all rows, with statistics and
  heartbeats on demand) and \<open>chaos/status\<close> (one service), each with a Railway half and a Docker
  half, and the lifecycle state of the dashboard process that both share
  (\<open>lib/railway-heartbeat-exit-state.ts\<close>).
\<close>

section \<open>The shared lifecycle state\<close>

text \<open>The value kept in \<open>globalThis\<close>, \<^const>\<open>None\<close> until first used.\<close>

definition getRailwayHeartbeatExitLifecycleState ::
  "HeartbeatExitLifecycleState option \<Rightarrow> HeartbeatExitLifecycleState" where
  "getRailwayHeartbeatExitLifecycleState g =
     (case g of None \<Rightarrow> createHeartbeatExitLifecycleState | Some st \<Rightarrow> st)"

section \<open>Docker rows\<close>

text \<open>The same three tests stand in both routes.\<close>

definition healthFromStatus :: "string \<Rightarrow> string option" where
  "healthFromStatus status =
     (if js_includes status ''(healthy)'' then Some ''healthy''
      else if js_includes status ''(unhealthy)'' then Some ''unhealthy''
      else if js_includes status ''(health: starting)'' then Some ''starting''
      else None)"

text \<open>
  Counters are integers, a missing one reads as 0 (the code only tests that they are truthy); the
  quotient is exact here, a double in the code.
\<close>

definition cpuPercentFromStats :: "container_stats \<Rightarrow> rat option" where
  "cpuPercentFromStats stats =
     (case (ct_cpu stats, ct_precpu stats) of
        (Some c, Some p) \<Rightarrow>
          if cc_system c = 0 \<or> cc_system p = 0 then None
          else (let cpuDelta = cc_total c - cc_total p;
                    systemDelta = cc_system c - cc_system p;
                    cpus = (if ct_online_cpus stats = 0 then 1 else ct_online_cpus stats)
                in if systemDelta \<le> 0 \<or> cpuDelta < 0 then None
                   else Some (of_int cpuDelta / of_int systemDelta * of_int cpus * 100))
      | _ \<Rightarrow> None)"

text \<open>\<open>replace(/^\//, "")\<close>.\<close>

definition strip_leading_slash :: "string \<Rightarrow> string" where
  "strip_leading_slash s = (if js_startsWith s ''/'' then drop 1 s else s)"

record docker_row =
  dr_id :: string
  dr_name :: string
  dr_image :: string
  dr_state :: string
  dr_status :: string
  dr_service :: string
  dr_health :: "string option"
  dr_created :: int
  dr_cpuPercent :: "rat option"
  dr_memUsage :: "int option"
  dr_memLimit :: "int option"

definition docker_base_row :: "container_summary \<Rightarrow> docker_row" where
  "docker_base_row c =
     (let status = coalesce (cs_status c) []
      in \<lparr>dr_id = cs_id c,
          dr_name = (case cs_names c of Some (n # ns) \<Rightarrow> strip_leading_slash n | _ \<Rightarrow> []),
          dr_image = cs_image c, dr_state = cs_state c, dr_status = status,
          dr_service = label_of (cs_labels c) COMPOSE_SERVICE, dr_health = healthFromStatus status,
          dr_created = cs_created c, dr_cpuPercent = None, dr_memUsage = None, dr_memLimit = None\<rparr>)"

definition with_stats :: "container_stats \<Rightarrow> docker_row \<Rightarrow> docker_row" where
  "with_stats s row = row\<lparr>dr_cpuPercent := cpuPercentFromStats s, dr_memUsage := ct_mem_usage s,
                          dr_memLimit := ct_mem_limit s\<rparr>"

text \<open>The requests of \<open>Promise.all\<close> are issued in the order of the containers.\<close>

fun docker_rows :: "docker \<Rightarrow> bool \<Rightarrow> container_summary list \<Rightarrow> world \<Rightarrow> docker_row list \<times> world" where
  "docker_rows dk stats [] w = ([], w)"
| "docker_rows dk stats (c # cs) w =
     (let (row, w1) =
            (if \<not> stats then (docker_base_row c, w)
             else (let (r, w') = docker_call (\<lambda>tr. dk_stats dk tr (cs_id c)) (Dk_stats (cs_id c)) w
                   in (case r of
                         Inr (Some s) \<Rightarrow> (with_stats s (docker_base_row c), w')
                       | _ \<Rightarrow> (docker_base_row c, w'))));
          (rows, w2) = docker_rows dk stats cs w1
      in (row # rows, w2))"

definition in_project :: "string \<Rightarrow> container_summary \<Rightarrow> bool" where
  "in_project project c \<longleftrightarrow> map_of (cs_labels c) COMPOSE_PROJECT = Some project"

section \<open>\<open>GET visibility/docker\<close>\<close>

text \<open>
  The bodies of the route by their \<open>source\<close> and shape. The heartbeat of a row is \<^const>\<open>None\<close> when
  the row carries none.
\<close>

datatype visibility_body =
    Vis_no_token string string "env_snapshot option"
  | Vis_railway "string option" "string option" "(RailwayVisibilityRow \<times> HeartbeatPingResult option) list" "string option"
  | Vis_docker string "docker_row list"
  | Vis_docker_error string string

record visibility_reply =
  vp_status :: int
  vp_body :: visibility_body

definition no_token_error :: string where
  "no_token_error = ''Set RAILWAY_PROJECT_TOKEN or RAILWAY_API_TOKEN on the dashboard service (variable names must not have leading/trailing spaces). Redeploy after fixing.''"

definition heartbeat_row_of :: "RailwayVisibilityRow \<Rightarrow> heartbeat_row" where
  "heartbeat_row_of c = \<lparr>hbr_serviceId = vr_railwayServiceId c, hbr_service = vr_service c,
                         hbr_publicUrl = vr_railwayPublicUrl c\<rparr>"

text \<open>\<open>new Map(beats.map((b) => [b.railwayServiceId, b]))\<close>: the last entry of an id counts.\<close>

definition beats_by_id :: "HeartbeatPingResult list \<Rightarrow> string \<rightharpoonup> HeartbeatPingResult" where
  "beats_by_id beats = map_of (rev (map (\<lambda>b. (hp_serviceId b, b)) beats))"

fun observe_rows ::
  "host \<Rightarrow> (string \<rightharpoonup> HeartbeatPingResult) \<Rightarrow> RailwayVisibilityRow list \<Rightarrow> HeartbeatExitLifecycleState \<Rightarrow>
     (RailwayVisibilityRow \<times> HeartbeatPingResult option) list \<times> HeartbeatExitLifecycleState" where
  "observe_rows h byId [] st = ([], st)"
| "observe_rows h byId (c # cs) st =
     (let hb = byId (vr_railwayServiceId c);
          (status, st1) = effectiveRailwayOnlineStatusAfterProbe h st (vr_railwayServiceId c)
             (coalesce (vr_railwayDeploymentId c) []) (vr_railwayOnlineStatus c) hb (Some False);
          (rest, st2) = observe_rows h byId cs st1
      in ((c\<lparr>vr_railwayOnlineStatus := status\<rparr>, hb) # rest, st2))"

definition visibility_railway ::
  "remote \<Rightarrow> host \<Rightarrow> bool \<Rightarrow> bool \<Rightarrow> HeartbeatExitLifecycleState option \<Rightarrow> world \<Rightarrow>
     visibility_reply \<times> HeartbeatExitLifecycleState option \<times> world" where
  "visibility_railway R h stats heartbeats g w =
     (let (r, w1) = fetchRailwayVisibilityRows R h stats w;
          answer = (\<lambda>cs. \<lparr>vp_status = 200, vp_body = Vis_railway (vz_project r) (vz_projectId r) cs (vz_error r)\<rparr>)
      in if truthy (vz_error r) \<or> \<not> heartbeats
         then (answer (map (\<lambda>c. (c, None)) (vz_containers r)), g, w1)
         else (let (beats, w2) = pingRailwayServiceHeartbeats R h (map heartbeat_row_of (vz_containers r)) w1;
                   (containers, exitSt) = observe_rows h (beats_by_id beats) (vz_containers r)
                                            (getRailwayHeartbeatExitLifecycleState g)
               in (answer containers, Some exitSt, w2)))"

definition visibility_docker :: "docker \<Rightarrow> host \<Rightarrow> bool \<Rightarrow> world \<Rightarrow> visibility_reply \<times> world" where
  "visibility_docker dk h stats w =
     (let project = compose_project h; (all, w1) = docker_call (dk_list dk) Dk_list w
      in (case all of
            Inl e \<Rightarrow> (\<lparr>vp_status = 503, vp_body = Vis_docker_error (err_message_or ''Unknown error'' e) project\<rparr>, w1)
          | Inr cs \<Rightarrow>
              (let (rows, w2) = docker_rows dk stats (filter (in_project project) cs) w1
               in (\<lparr>vp_status = 200, vp_body = Vis_docker project rows\<rparr>, w2))))"

text \<open>The two parameters of the query string are given as they stand there.\<close>

definition visibility_GET ::
  "remote \<Rightarrow> docker \<Rightarrow> host \<Rightarrow> string option \<Rightarrow> string option \<Rightarrow> HeartbeatExitLifecycleState option \<Rightarrow> world \<Rightarrow>
     visibility_reply \<times> HeartbeatExitLifecycleState option \<times> world" where
  "visibility_GET R dk h statsParam heartbeatsParam g w =
     (let stats = (statsParam = Some ''1''); heartbeats = (heartbeatsParam = Some ''1'')
      in if railwayIdsConfigured h
         then if \<not> railwayVisibilityConfigured h
              then (let pid = coalesce (runtimeEnv h ''RAILWAY_PROJECT_ID'') []
                    in (\<lparr>vp_status = 200, vp_body = Vis_no_token pid no_token_error
                           (if debugEnvEnabled h then Some (getRailwayEnvDebugSnapshot h) else None)\<rparr>, g, w))
              else visibility_railway R h stats heartbeats g w
         else (let (r, w1) = visibility_docker dk h stats w in (r, g, w1)))"

section \<open>\<open>GET chaos/status\<close>\<close>

text \<open>
  The local function \<open>json\<close> adds the header that forbids caching; one answer of the route goes
  around it. Members that are undefined are left out.
\<close>

record status_reply =
  sp_reply :: reply
  sp_noStore :: bool

definition no_store_json :: "reply \<Rightarrow> status_reply" where
  "no_store_json r = \<lparr>sp_reply = r, sp_noStore = True\<rparr>"

definition not_found_failure :: "int \<Rightarrow> string \<Rightarrow> status_reply" where
  "not_found_failure st msg = no_store_json (json_reply st [(''error'', JStr msg), (''found'', JBool False)])"

definition heartbeat_ping_json :: "HeartbeatPingResult \<Rightarrow> json" where
  "heartbeat_ping_json hb = JObj
     ([(''railwayServiceId'', JStr (hp_serviceId hb)), (''service'', JStr (hp_service hb)),
       (''skipped'', JBool (hp_skipped hb)), (''ok'', opt_json JBool (hp_ok hb)),
       (''probeUrl'', opt_json JStr (hp_probeUrl hb))]
      @ opt_member ''latencyMs'' (map_option JInt (hp_latencyMs hb))
      @ opt_member ''statusCode'' (map_option JInt (hp_statusCode hb))
      @ opt_member ''error'' (map_option JStr (hp_error hb)))"

text \<open>The heartbeat of the one row of the answer.\<close>

definition status_heartbeat ::
  "remote \<Rightarrow> host \<Rightarrow> RailwayVisibilityRow \<Rightarrow> world \<Rightarrow> HeartbeatPingResult \<times> world" where
  "status_heartbeat R h row w =
     (case nonempty_opt (buildHeartbeatProbeUrl h (vr_railwayPublicUrl row) (vr_service row)) of
        Some url \<Rightarrow> (let (pr, w1) = pingHeartbeatUrl R url w in (ping_result (heartbeat_row_of row) url pr, w1))
      | None \<Rightarrow> (skipped_ping (heartbeat_row_of row), w))"

definition railway_status_json :: "RailwayVisibilityRow \<Rightarrow> RailwayOnlineStatus \<Rightarrow> HeartbeatPingResult \<Rightarrow> (string \<times> json) list" where
  "railway_status_json row status hb =
     (let ds = vr_deploymentStatus row
      in [(''found'', JBool True), (''source'', JStr ''railway''),
          (''containerId'', JStr (coalesce (vr_railwayDeploymentId row) (vr_id row))),
          (''name'', JStr (vr_name row)), (''service'', JStr (vr_service row)), (''state'', JStr (vr_state row)),
          (''running'', JBool (vr_state row = ''running'')),
          (''restarting'', JBool (ds = Some ''DEPLOYING'' \<or> ds = Some ''BUILDING'')),
          (''deploymentStatus'', opt_json JStr ds)]
         @ opt_member ''health'' (map_option JStr (vr_health row))
         @ [(''railwayServiceId'', JStr (vr_railwayServiceId row))]
         @ opt_member ''railwayDeploymentId'' (map_option JStr (vr_railwayDeploymentId row))
         @ [(''statusLine'', JStr (vr_status row)), (''railwayOnlineStatus'', JStr (online_text status)),
            (''railwayPublicUrl'', opt_json JStr (vr_railwayPublicUrl row)),
            (''heartbeat'', heartbeat_ping_json hb)])"

definition no_such_service :: "string \<Rightarrow> string" where
  "no_such_service name = ''No Railway service named '' @ dq @ name @ dq @ '' in this project.''"

definition status_railway ::
  "remote \<Rightarrow> host \<Rightarrow> string \<Rightarrow> HeartbeatExitLifecycleState option \<Rightarrow> world \<Rightarrow>
     status_reply \<times> HeartbeatExitLifecycleState option \<times> world" where
  "status_railway R h name g w =
     (let (r, w1) = fetchRailwayVisibilityRows R h False w
      in if truthy (vz_error r) then (not_found_failure 503 (coalesce (vz_error r) []), g, w1)
         else (case find (\<lambda>c. js_lower (js_trim (vr_service c)) = js_lower name) (vz_containers r) of
                 None \<Rightarrow> (no_store_json (json_reply 200 [(''found'', JBool False), (''service'', JStr name),
                             (''message'', JStr (no_such_service name))]), g, w1)
               | Some row \<Rightarrow>
                   (let (hb, w2) = status_heartbeat R h row w1;
                        (status, exitSt) = effectiveRailwayOnlineStatusAfterProbe h
                           (getRailwayHeartbeatExitLifecycleState g) (vr_railwayServiceId row)
                           (coalesce (vr_railwayDeploymentId row) []) (vr_railwayOnlineStatus row)
                           (Some hb) (Some False)
                    in (no_store_json (json_reply 200 (railway_status_json row status hb)), Some exitSt, w2))))"

definition docker_status_json :: "string \<Rightarrow> string \<Rightarrow> string \<Rightarrow> container_info \<Rightarrow> (string \<times> json) list" where
  "docker_status_json i svc proj info =
     (let st = ci_state info;
          statusLine = coalesce (Option.bind st st_status) []
      in [(''found'', JBool True), (''source'', JStr ''docker''), (''containerId'', JStr (coalesce (ci_id info) i)),
          (''name'', JStr (coalesce (map_option strip_leading_slash (ci_name info)) [])),
          (''service'', JStr svc), (''project'', JStr proj),
          (''state'', JStr (coalesce (Option.bind st st_status) ''unknown'')),
          (''running'', JBool (coalesce (Option.bind st st_running) False)),
          (''restarting'', JBool (coalesce (Option.bind st st_restarting) False))]
         @ opt_member ''exitCode'' (map_option JInt (Option.bind st st_exitCode))
         @ [(''restartCount'', JInt (coalesce (ci_restartCount info) 0)),
            (''restartPolicy'', JStr (str_or (coalesce (ci_restartPolicy info) []) ''default''))]
         @ opt_member ''health'' (map_option JStr (case Option.bind st st_health of
              Some hl \<Rightarrow> Some hl | None \<Rightarrow> healthFromStatus statusLine))
         @ opt_member ''startedAt'' (map_option JStr (Option.bind st st_startedAt))
         @ opt_member ''finishedAt'' (map_option JStr (Option.bind st st_finishedAt)))"

definition no_such_container :: "string \<Rightarrow> string \<Rightarrow> string" where
  "no_such_container service project =
     ''No container for service '' @ dq @ service @ dq @ '' in project '' @ project @ ''.''"

text \<open>Which container is meant: the id given, or the first of the service in the project.\<close>

definition status_container ::
  "docker \<Rightarrow> string \<Rightarrow> string option \<Rightarrow> string option \<Rightarrow> world \<Rightarrow> (thrown + string option) \<times> world" where
  "status_container dk project service containerId w =
     (if coalesce containerId [] = [] \<and> truthy service
      then (let (all, w1) = docker_call (dk_list dk) Dk_list w
            in (map_sum id (\<lambda>cs. map_option cs_id
                  (find (\<lambda>c. in_project project c \<and> map_of (cs_labels c) COMPOSE_SERVICE = service) cs)) all, w1))
      else (Inr (Some (coalesce containerId [])), w))"

definition inspect_reply :: "string \<Rightarrow> string option \<Rightarrow> string \<Rightarrow> container_info \<Rightarrow> status_reply" where
  "inspect_reply project service i info =
     (let svc = (case service of Some s \<Rightarrow> s | None \<Rightarrow> label_of (ci_labels info) COMPOSE_SERVICE);
          proj = label_of (ci_labels info) COMPOSE_PROJECT
      in no_store_json
          (if proj = [] \<or> proj \<noteq> project
           then error_reply 403 ''Container is not part of the configured Compose project (check VISIBILITY_COMPOSE_PROJECT).''
           else json_reply 200 (docker_status_json i svc proj info)))"

definition status_docker ::
  "docker \<Rightarrow> host \<Rightarrow> string option \<Rightarrow> string option \<Rightarrow> world \<Rightarrow> status_reply \<times> world" where
  "status_docker dk h service containerId w =
     (let project = compose_project h; (found, w1) = status_container dk project service containerId w
      in (case found of
            Inl e \<Rightarrow> (not_found_failure 503 (err_message_or ''Unknown error'' e), w1)
          | Inr None \<Rightarrow> (\<lparr>sp_reply = json_reply 200 [(''found'', JBool False), (''service'', JStr (coalesce service [])),
                            (''message'', JStr (no_such_container (coalesce service []) project))],
                          sp_noStore = False\<rparr>, w1)
          | Inr (Some i) \<Rightarrow>
              (let (insp, w2) = docker_call (\<lambda>tr. dk_inspect dk tr i) (Dk_inspect i) w1
               in (case insp of
                     Inl e \<Rightarrow> (not_found_failure 503 (err_message_or ''Unknown error'' e), w2)
                   | Inr info \<Rightarrow> (inspect_reply project service i info, w2)))))"

definition status_GET ::
  "remote \<Rightarrow> docker \<Rightarrow> host \<Rightarrow> string option \<Rightarrow> string option \<Rightarrow> HeartbeatExitLifecycleState option \<Rightarrow> world \<Rightarrow>
     status_reply \<times> HeartbeatExitLifecycleState option \<times> world" where
  "status_GET R dk h serviceParam idParam g w =
     (let service = map_option js_trim serviceParam; containerId = map_option js_trim idParam
      in if \<not> truthy service \<and> \<not> truthy containerId
         then (no_store_json (error_reply 400 ''Query parameter required: service=<compose-service> or id=<container-id>''), g, w)
         else if railwayIdsConfigured h
         then if \<not> railwayVisibilityConfigured h
              then (no_store_json (error_reply 503 ''Railway API token missing for chaos status.''), g, w)
              else if coalesce service [] = []
              then (no_store_json (error_reply 400 ''For Railway, use service=<railway-service-name>''), g, w)
              else status_railway R h (coalesce service []) g w
         else (let (r, w1) = status_docker dk h service containerId w in (r, g, w1)))"

section \<open>Both routes as one machine\<close>

text \<open>The requests of the page, served one after the other on the state of the process.\<close>

datatype view_request =
    View_list "string option" "string option"
  | View_status "string option" "string option"

fun serve_view ::
  "remote \<Rightarrow> docker \<Rightarrow> host \<Rightarrow> view_request \<Rightarrow> HeartbeatExitLifecycleState option \<times> world \<Rightarrow>
     HeartbeatExitLifecycleState option \<times> world" where
  "serve_view R dk h (View_list s b) (g, w) = snd (visibility_GET R dk h s b g w)"
| "serve_view R dk h (View_status s i) (g, w) = snd (status_GET R dk h s i g w)"

text \<open>No redeploy is scheduled in the state.\<close>

definition unscheduled :: "HeartbeatExitLifecycleState option \<Rightarrow> bool" where
  "unscheduled g \<longleftrightarrow>
     (\<forall>sid. \<not> peekExitLifecycleRedeem (getRailwayHeartbeatExitLifecycleState g) sid)"

text \<open>What the page's requests promise: they only look, and they schedule nothing.\<close>

locale viewer =
  fixes serve :: "'q \<Rightarrow> HeartbeatExitLifecycleState option \<times> world \<Rightarrow> HeartbeatExitLifecycleState option \<times> world"
  assumes looks: "only_queries w (snd (serve q (g, w)))"
    and schedules_nothing: "unscheduled g \<Longrightarrow> unscheduled (fst (serve q (g, w)))"
begin

lemma run_looks: "only_queries (snd gw) (snd (fold serve qs gw))"
proof (induction qs arbitrary: gw)
  case (Cons q qs)
  have "only_queries (snd gw) (snd (serve q gw))" using looks [of "snd gw" q "fst gw"] by simp
  from only_queries_trans [OF this Cons.IH] show ?case by simp
qed simp

lemma run_schedules_nothing: "unscheduled (fst gw) \<Longrightarrow> unscheduled (fst (fold serve qs gw))"
proof (induction qs arbitrary: gw)
  case (Cons q qs)
  have "unscheduled (fst (serve q gw))"
    using schedules_nothing [of "fst gw" q "snd gw"] Cons.prems by simp
  from Cons.IH [OF this] show ?case by simp
qed simp

end

section \<open>Lemmas\<close>

lemma only_queries_snoc: "is_query c \<Longrightarrow> w_trace w' = w_trace w @ [c] \<Longrightarrow> only_queries w w'"
  by (simp add: only_queries_def)

lemma only_queries_docker: "is_query (Call_docker q) \<Longrightarrow> only_queries w (snd (docker_call f q w))"
  by (rule only_queries_snoc) (simp_all add: docker_call_def)

lemma only_queries_http: "only_queries w (snd (pingHeartbeatUrl R url w))"
  by (rule only_queries_snoc [of "Call_http url"]) simp_all

lemma only_queries_beats: "only_queries w (snd (pingRailwayServiceHeartbeats R h rows w))"
proof (induction rows arbitrary: w)
  case (Cons row rows)
  show ?case
    using Cons.IH only_queries_trans [OF only_queries_http Cons.IH]
    by (auto simp: Let_def case_prod_beta split: option.splits)
qed simp

lemma docker_rows_trace:
  "w_trace (snd (docker_rows dk stats cs w)) =
     w_trace w @ (if stats then map (\<lambda>c. Call_docker (Dk_stats (cs_id c))) cs else [])"
proof (induction cs arbitrary: w)
  case (Cons c cs)
  then show ?case
    by (auto simp: docker_call_def Let_def case_prod_beta split: sum.splits option.splits)
qed simp

lemma docker_rows_ids: "map dr_id (fst (docker_rows dk stats cs w)) = map cs_id cs"
  by (induction cs arbitrary: w)
    (auto simp: docker_base_row_def with_stats_def Let_def case_prod_beta split: sum.splits option.splits)

lemma only_queries_stats: "only_queries w (snd (docker_rows dk stats cs w))"
  by (auto simp: only_queries_def docker_rows_trace list_all_iff)

lemma unscheduled_views:
  "unscheduled g \<longleftrightarrow> (\<forall>sid. \<not> v_redeem (view_of (getRailwayHeartbeatExitLifecycleState g) sid))"
  by (simp add: unscheduled_def view_of_def)

lemma get_Some [simp]: "getRailwayHeartbeatExitLifecycleState (Some st) = st"
  by (simp add: getRailwayHeartbeatExitLifecycleState_def)

lemma unscheduled_after:
  "unscheduled (Some st) \<Longrightarrow> unscheduled (Some (after_probe h st sid d base hb (Some False)))"
  unfolding unscheduled_views get_Some
proof
  fix sid'
  assume "\<forall>sid. \<not> v_redeem (view_of st sid)"
  then show "\<not> v_redeem (view_of (after_probe h st sid d base hb (Some False)) sid')"
    using no_redeem_spec by (cases "sid' = sid") (simp_all add: view_after_probe after_probe_other)
qed

lemma unscheduled_get: "unscheduled (Some (getRailwayHeartbeatExitLifecycleState g)) = unscheduled g"
  by (simp add: unscheduled_def getRailwayHeartbeatExitLifecycleState_def split: option.splits)

lemma unscheduled_rows: "unscheduled (Some st) \<Longrightarrow> unscheduled (Some (snd (observe_rows h byId cs st)))"
  by (induction cs arbitrary: st)
    (simp_all add: Let_def case_prod_beta unscheduled_after)

lemma looks_railway_list: "only_queries w (snd (snd (visibility_railway R h st hb g w)))"
  using only_queries_trans [OF only_queries_rows only_queries_beats]
  by (simp add: visibility_railway_def Let_def case_prod_beta only_queries_rows)

lemma looks_docker_list: "only_queries w (snd (visibility_docker dk h st w))"
  by (auto simp: visibility_docker_def Let_def case_prod_beta split: sum.split
      intro!: only_queries_docker only_queries_trans [OF only_queries_docker only_queries_stats])

lemma looks_list: "only_queries w (snd (snd (visibility_GET R dk h s b g w)))"
  by (simp add: visibility_GET_def Let_def case_prod_beta looks_railway_list looks_docker_list)

lemma only_queries_heartbeat: "only_queries w (snd (status_heartbeat R h row w))"
  by (simp add: status_heartbeat_def case_prod_beta only_queries_http split: option.split)

lemma looks_railway_status: "only_queries w (snd (snd (status_railway R h name g w)))"
  using only_queries_trans [OF only_queries_rows only_queries_heartbeat]
  by (simp add: status_railway_def Let_def case_prod_beta only_queries_rows split: option.split)

lemma only_queries_container: "only_queries w (snd (status_container dk project service i w))"
  by (simp add: status_container_def case_prod_beta only_queries_docker)

lemma looks_docker_status: "only_queries w (snd (status_docker dk h service i w))"
  by (auto simp: status_docker_def Let_def case_prod_beta only_queries_container split: sum.split option.split
      intro!: only_queries_trans [OF only_queries_container only_queries_docker])

lemma looks_status: "only_queries w (snd (snd (status_GET R dk h s i g w)))"
  by (simp add: status_GET_def Let_def case_prod_beta looks_railway_status looks_docker_status)

lemma quiet_list: "unscheduled g \<Longrightarrow> unscheduled (fst (snd (visibility_GET R dk h s b g w)))"
  by (simp add: visibility_GET_def visibility_railway_def Let_def case_prod_beta unscheduled_rows unscheduled_get)

lemma quiet_status: "unscheduled g \<Longrightarrow> unscheduled (fst (snd (status_GET R dk h s i g w)))"
  by (simp add: status_GET_def status_railway_def Let_def case_prod_beta unscheduled_after unscheduled_get
      split: option.split)

interpretation view_page: viewer "serve_view R dk h" for R dk h
proof
  show "only_queries w (snd (serve_view R dk h q (g, w)))" for w q g
    by (cases q) (simp_all add: looks_list looks_status)
  show "unscheduled g \<Longrightarrow> unscheduled (fst (serve_view R dk h q (g, w)))" for g q w
    by (cases q) (simp_all add: quiet_list quiet_status)
qed

lemma observe_rows_spec:
  "distinct (map vr_railwayServiceId cs) \<Longrightarrow>
   fst (observe_rows h byId cs st) =
     map (\<lambda>c. (c\<lparr>vr_railwayOnlineStatus :=
                  fst (lifecycle_spec (heartbeatExitFailureThreshold h) False (coalesce (vr_railwayDeploymentId c) [])
                    (vr_railwayOnlineStatus c) (probe_of (byId (vr_railwayServiceId c)))
                    (view_of st (vr_railwayServiceId c)))\<rparr>, byId (vr_railwayServiceId c))) cs"
proof (induction cs arbitrary: st)
  case (Cons c cs)
  have "view_of (after_probe h st (vr_railwayServiceId c) d base hb (Some False)) (vr_railwayServiceId r) =
      view_of st (vr_railwayServiceId r)" if "r \<in> set cs" for r d base hb
  proof (rule after_probe_other)
    have "vr_railwayServiceId c \<notin> vr_railwayServiceId ` set cs" using Cons.prems by simp
    with that show "vr_railwayServiceId r \<noteq> vr_railwayServiceId c" by (metis imageI)
  qed
  then show ?case
    using Cons by (auto simp: Let_def case_prod_beta fst_effective)
qed simp

lemma beats_by_id_nth:
  assumes "distinct (map hp_serviceId beats)" and "b \<in> set beats"
  shows "beats_by_id beats (hp_serviceId b) = Some b"
proof -
  have "distinct (map fst (rev (map (\<lambda>b. (hp_serviceId b, b)) beats)))"
    using assms by (simp add: rev_map [symmetric] comp_def)
  then show ?thesis using assms(2) by (simp add: beats_by_id_def)
qed

lemma beats_match_rows:
  assumes "distinct (map vr_railwayServiceId cs)"
    and "beats = fst (pingRailwayServiceHeartbeats R h (map heartbeat_row_of cs) w)"
  shows "map (\<lambda>c. beats_by_id beats (vr_railwayServiceId c)) cs = map Some beats"
proof -
  have l: "list_all2 (\<lambda>c b. hp_serviceId b = vr_railwayServiceId c) cs beats"
    using heartbeats_per_row [of h "map heartbeat_row_of cs" R w] assms(2)
    by (auto simp: list_all2_map1 heartbeat_row_of_def elim: list_all2_mono)
  then have ids: "map hp_serviceId beats = map vr_railwayServiceId cs"
    by (induction rule: list_all2_induct) auto
  have "map (\<lambda>c. beats_by_id beats (vr_railwayServiceId c)) cs = map (beats_by_id beats) (map hp_serviceId beats)"
    unfolding ids by simp
  moreover have "distinct (map hp_serviceId beats)" using assms(1) ids by simp
  then have "map (beats_by_id beats) (map hp_serviceId beats) = map Some beats"
    using beats_by_id_nth [of beats] by simp
  ultimately show ?thesis by simp
qed

section \<open>Properties\<close>

text \<open>C25: The pages only look: whatever requests \<open>visibility/docker\<close> and \<open>chaos/status\<close> serve, in any
  order, on Railway or on Docker, every call they make is a query (no deployment or container is
  touched) and the lifecycle state of the dashboard process never schedules a redeploy.\<close>

theorem viewing_changes_nothing:
  "let (g, w') = fold (serve_view R dk h) reqs (None, w)
   in only_queries w w' \<and> (\<forall>sid. \<not> peekExitLifecycleRedeem (getRailwayHeartbeatExitLifecycleState g) sid)"
proof -
  have "unscheduled None"
    by (simp add: unscheduled_def getRailwayHeartbeatExitLifecycleState_def peekExitLifecycleRedeem_def
        createHeartbeatExitLifecycleState_def)
  then show ?thesis
    using view_page.run_looks [of "(None, w)" R dk h reqs]
      view_page.run_schedules_nothing [of "(None, w)" R dk h reqs]
    by (simp add: case_prod_beta unscheduled_def)
qed

text \<open>C26: With heartbeats, the list shows for every service the status that the lifecycle specification
  gives for its own history and its own probe of this request, and that probe beside it: the rows
  do not influence each other.\<close>

theorem list_follows_lifecycle:
  fixes g :: "HeartbeatExitLifecycleState option"
  defines "st \<equiv> getRailwayHeartbeatExitLifecycleState g"
  assumes "railwayVisibilityConfigured h"
    and "fetchRailwayVisibilityRows R h (s = Some ''1'') w = (r, w1)" and "vz_error r = None"
    and "distinct (map vr_railwayServiceId (vz_containers r))"
  shows "vp_body (fst (visibility_GET R dk h s (Some ''1'') g w)) =
    Vis_railway (vz_project r) (vz_projectId r)
      (map2 (\<lambda>c b. (c\<lparr>vr_railwayOnlineStatus :=
               fst (lifecycle_spec (heartbeatExitFailureThreshold h) False (coalesce (vr_railwayDeploymentId c) [])
                 (vr_railwayOnlineStatus c) (probe_of (Some b)) (view_of st (vr_railwayServiceId c)))\<rparr>, Some b))
         (vz_containers r)
         (fst (pingRailwayServiceHeartbeats R h (map heartbeat_row_of (vz_containers r)) w1))) None"
proof -
  define beats where "beats = fst (pingRailwayServiceHeartbeats R h (map heartbeat_row_of (vz_containers r)) w1)"
  let ?show = "\<lambda>c hb. (c\<lparr>vr_railwayOnlineStatus :=
       fst (lifecycle_spec (heartbeatExitFailureThreshold h) False (coalesce (vr_railwayDeploymentId c) [])
         (vr_railwayOnlineStatus c) (probe_of hb) (view_of st (vr_railwayServiceId c)))\<rparr>, hb)"
  have "railwayIdsConfigured h" using assms(2) by (simp add: railwayVisibilityConfigured_def)
  then have "vp_body (fst (visibility_GET R dk h s (Some ''1'') g w)) =
      Vis_railway (vz_project r) (vz_projectId r)
        (map (\<lambda>c. ?show c (beats_by_id beats (vr_railwayServiceId c))) (vz_containers r)) None"
    using assms(2-5)
    by (simp add: visibility_GET_def visibility_railway_def Let_def case_prod_beta observe_rows_spec
        beats_def st_def)
  also have "map (\<lambda>c. ?show c (beats_by_id beats (vr_railwayServiceId c))) (vz_containers r) =
      map2 ?show (vz_containers r) (map (\<lambda>c. beats_by_id beats (vr_railwayServiceId c)) (vz_containers r))"
    by (induction "vz_containers r") (simp_all add: zip_map2 zip_same_conv_map)
  also have "\<dots> = map2 ?show (vz_containers r) (map Some beats)"
    using beats_match_rows [OF assms(5) beats_def] by simp
  finally show ?thesis by (simp add: beats_def [symmetric] zip_map2 comp_def case_prod_beta)
qed

theorem list_follows_lifecycle_witness:
  "\<exists>status b. vp_body (fst (visibility_GET (demo_remote ''SUCCESS'' 200 1) redis_docker demo_host None (Some ''1'')
       None init_world)) =
     Vis_railway (Some ''P'') (Some ''p'') [((demo_row ''SUCCESS'')\<lparr>vr_railwayOnlineStatus := status\<rparr>, Some b)] None"
proof -
  let ?R = "demo_remote ''SUCCESS'' 200 1"
  have c: "railwayVisibilityConfigured demo_host" by code_simp
  have f: "fetchRailwayVisibilityRows ?R demo_host (None = Some ''1'') init_world =
      (visibility_rows (Some ''P'') (Some ''p'') [demo_row ''SUCCESS''],
       snd (fetchRailwayVisibilityRows ?R demo_host False init_world))"
    by (simp add: prod_eq_iff demo_rows)
  have "\<exists>b. fst (pingRailwayServiceHeartbeats ?R demo_host [row] w) = [b]" for row w
    by (simp add: Let_def case_prod_beta)
  then obtain b where b: "fst (pingRailwayServiceHeartbeats ?R demo_host [heartbeat_row_of (demo_row ''SUCCESS'')]
      (snd (fetchRailwayVisibilityRows ?R demo_host False init_world))) = [b]" by blast
  show ?thesis
    using list_follows_lifecycle [OF c f, of redis_docker None] by (simp add: visibility_rows_def b del: pingRailwayServiceHeartbeats.simps) blast
qed

text \<open>C27: On Docker, a successful answer of \<open>chaos/status\<close> is built from one inspection made in this
  request, and from nothing else of any container: the request may list the containers and then
  inspects one, the one of the \<open>id\<close> parameter if there is one, else a listed container of the
  configured Compose project; the inspected container carries the project's label, and the members of
  the body after \<open>found\<close> are those of this inspection, under the service asked for or, when none was,
  the container's own service label.\<close>

theorem status_discloses_own_project:
  assumes "\<not> railwayIdsConfigured h"
    and "sp_reply (fst (status_GET R dk h s i g w)) = json_reply 200 ((''found'', JBool True) # ms)"
  shows "\<exists>calls c info.
    w_trace (snd (snd (status_GET R dk h s i g w))) = w_trace w @ calls @ [Call_docker (Dk_inspect c)] \<and>
    dk_inspect dk (w_trace w @ calls) c = Inr info \<and>
    label_of (ci_labels info) COMPOSE_PROJECT = compose_project h \<and>
    (''found'', JBool True) # ms = docker_status_json c
       (case map_option js_trim s of Some svc \<Rightarrow> svc | None \<Rightarrow> label_of (ci_labels info) COMPOSE_SERVICE)
       (compose_project h) info \<and>
    (if truthy (map_option js_trim i) then calls = [] \<and> map_option js_trim i = Some c
     else calls = [Call_docker Dk_list] \<and>
          (\<exists>cs \<in> set (projr (dk_list dk (w_trace w))). cs_id cs = c \<and> in_project (compose_project h) cs \<and>
             map_of (cs_labels cs) COMPOSE_SERVICE = map_option js_trim s))"
proof -
  define service where "service = map_option js_trim s"
  define cid where "cid = map_option js_trim i"
  have shape: "json_reply 200 ((''found'', JBool True) # ms) \<noteq> error_reply n m"
    "json_reply 200 ((''found'', JBool True) # ms) \<noteq> sp_reply (not_found_failure n m)"
    "json_reply 200 ((''found'', JBool True) # ms) \<noteq> json_reply 200 ((''found'', JBool False) # ms')" for n m ms'
    by (auto simp: json_reply_def error_reply_def not_found_failure_def no_store_json_def)
  have go: "truthy service \<or> truthy cid"
    and eq: "status_GET R dk h s i g w = (fst (status_docker dk h service cid w), g, snd (status_docker dk h service cid w))"
    using assms shape shape [symmetric]
    by (auto simp: status_GET_def Let_def case_prod_beta no_store_json_def service_def cid_def split: if_splits)
  obtain found w1 where f: "status_container dk (compose_project h) service cid w = (found, w1)" by force
  with assms(2) obtain c where c: "found = Inr (Some c)"
    by (cases found) (auto simp: eq status_docker_def Let_def shape [symmetric] split: option.splits)
  have insp: "fst (docker_call (\<lambda>tr. dk_inspect dk tr c) (Dk_inspect c) w1) = dk_inspect dk (w_trace w1) c"
    by (simp add: docker_call_def)
  then obtain info where info: "dk_inspect dk (w_trace w1) c = Inr info"
    using assms(2) f c
    by (cases "dk_inspect dk (w_trace w1) c") (auto simp: eq status_docker_def Let_def case_prod_beta shape [symmetric])
  have reply: "fst (status_docker dk h service cid w) = inspect_reply (compose_project h) service c info"
    using f c info insp by (simp add: status_docker_def Let_def case_prod_beta)
  then have proj: "label_of (ci_labels info) COMPOSE_PROJECT = compose_project h"
    and body: "(''found'', JBool True) # ms = docker_status_json c
       (case service of Some svc \<Rightarrow> svc | None \<Rightarrow> label_of (ci_labels info) COMPOSE_SERVICE) (compose_project h) info"
    using assms(2) by (auto simp: eq inspect_reply_def no_store_json_def json_reply_def error_reply_def Let_def
        split: if_splits)
  have sent: "w_trace (snd (status_docker dk h service cid w)) = w_trace w1 @ [Call_docker (Dk_inspect c)]"
    using f c by (simp add: status_docker_def Let_def docker_call_def split: sum.split)
  have by_id: "w1 = w \<and> cid = Some c" if "truthy cid"
    using that f c by (cases cid) (simp_all add: status_container_def truthy_def)
  have by_list: "w_trace w1 = w_trace w @ [Call_docker Dk_list] \<and>
      (\<exists>cs \<in> set (projr (dk_list dk (w_trace w))). cs_id cs = c \<and> in_project (compose_project h) cs \<and>
         map_of (cs_labels cs) COMPOSE_SERVICE = service)" if "\<not> truthy cid"
  proof -
    let ?P = "\<lambda>x. in_project (compose_project h) x \<and> map_of (cs_labels x) COMPOSE_SERVICE = service"
    have "coalesce cid [] = [] \<and> truthy service" using that go by (cases cid) (simp_all add: truthy_def)
    with f c obtain x where x: "find ?P (projr (dk_list dk (w_trace w))) = Some x" "cs_id x = c"
      and w1: "w1 = snd (docker_call (dk_list dk) Dk_list w)"
      by (cases "dk_list dk (w_trace w)") (auto simp: status_container_def docker_call_def Let_def)
    from x(1) have "x \<in> set (projr (dk_list dk (w_trace w))) \<and> ?P x"
      by (metis (mono_tags, lifting) find_Some_iff nth_mem)
    with x(2) show ?thesis by (auto simp: w1 docker_call_def)
  qed
  show ?thesis
  proof (cases "truthy cid")
    case True
    with by_id sent info proj body show ?thesis
      by (intro exI [of _ "[]"] exI [of _ c] exI [of _ info]) (simp add: eq service_def cid_def)
  next
    case False
    with by_list sent info proj body show ?thesis
      by (intro exI [of _ "[Call_docker Dk_list]"] exI [of _ c] exI [of _ info]) (simp add: eq service_def cid_def)
  qed
qed

definition redis_info :: container_info where
  "redis_info = \<lparr>ci_id = Some ''c1'', ci_name = None,
     ci_labels = [(COMPOSE_SERVICE, ''redis''), (COMPOSE_PROJECT, ''pe-hackathon-2026'')],
     ci_state = None, ci_restartCount = None, ci_restartPolicy = None\<rparr>"

theorem status_discloses_own_project_witness:
  "\<exists>info. dk_inspect redis_docker (w_trace init_world) ''c1'' = Inr info \<and>
    label_of (ci_labels info) COMPOSE_PROJECT = compose_project plain_host \<and>
    docker_status_json ''c1'' ''redis'' ''pe-hackathon-2026'' redis_info =
      docker_status_json ''c1'' (label_of (ci_labels info) COMPOSE_SERVICE) (compose_project plain_host) info"
proof -
  have h: "\<not> railwayIdsConfigured plain_host" by code_simp
  have r: "sp_reply (fst (status_GET (demo_remote ''SUCCESS'' 200 1) redis_docker plain_host None (Some ''c1'') None init_world)) =
      json_reply 200 ((''found'', JBool True) # tl (docker_status_json ''c1'' ''redis'' ''pe-hackathon-2026'' redis_info))"
    by code_simp
  have t: "js_trim ''c1'' = ''c1''" "(''found'', JBool True) # tl (docker_status_json ''c1'' ''redis'' ''pe-hackathon-2026'' redis_info) =
      docker_status_json ''c1'' ''redis'' ''pe-hackathon-2026'' redis_info"
    by code_simp+
  show ?thesis using status_discloses_own_project [OF h r] unfolding t by (auto simp: t truthy_def)
qed

text \<open>On Docker the list holds exactly the containers of the configured project, in the engine's
  order, and statistics are requested for these only; an engine that cannot be listed gives an
  error with status 503.\<close>

theorem docker_list_is_project:
  "let (r, w') = visibility_docker dk h stats w
   in case dk_list dk (w_trace w) of
        Inl e \<Rightarrow> vp_status r = 503 \<and> w_trace w' = w_trace w @ [Call_docker Dk_list]
      | Inr cs \<Rightarrow>
          vp_status r = 200 \<and>
          (\<exists>rows. vp_body r = Vis_docker (compose_project h) rows \<and>
             map dr_id rows = map cs_id (filter (in_project (compose_project h)) cs)) \<and>
          w_trace w' = w_trace w @ Call_docker Dk_list #
            (if stats then map (\<lambda>c. Call_docker (Dk_stats (cs_id c))) (filter (in_project (compose_project h)) cs) else [])"
  by (simp add: visibility_docker_def docker_call_def Let_def case_prod_beta docker_rows_ids docker_rows_trace
      split: sum.split)

text \<open>A CPU percentage is never negative, and at most 100 per CPU when the container used no more
  time than the system as a whole.\<close>

theorem cpu_percent_bounds:
  assumes "cpuPercentFromStats s = Some x" and "0 \<le> ct_online_cpus s"
    and "\<And>c p. ct_cpu s = Some c \<Longrightarrow> ct_precpu s = Some p \<Longrightarrow> cc_total c - cc_total p \<le> cc_system c - cc_system p"
  shows "0 \<le> x \<and> x \<le> 100 * of_int (max 1 (ct_online_cpus s))"
proof -
  obtain c p where cp: "ct_cpu s = Some c" "ct_precpu s = Some p"
    using assms(1) by (auto simp: cpuPercentFromStats_def split: option.splits)
  define cd sd n where "cd = cc_total c - cc_total p" and "sd = cc_system c - cc_system p"
    and "n = (if ct_online_cpus s = 0 then 1 else ct_online_cpus s)"
  have n: "0 < n" "n = max 1 (ct_online_cpus s)" using assms(2) by (auto simp: n_def)
  have x: "x = of_int cd / of_int sd * of_int n * 100" and d: "0 \<le> cd" "0 < sd"
    using assms(1) cp by (auto simp: cpuPercentFromStats_def cd_def sd_def n_def Let_def split: if_splits)
  define q where "q = (of_int cd :: rat) / of_int sd"
  have q: "q \<le> 1" "0 \<le> q" using d assms(3) [OF cp] by (simp_all add: q_def cd_def sd_def divide_le_eq)
  have "0 \<le> (of_int n :: rat)" using n by simp
  from mult_right_mono [OF q(1) this] mult_right_mono [OF q(2) this]
  have "0 \<le> q * of_int n" "q * of_int n \<le> of_int n" by simp_all
  then show ?thesis using x [folded q_def] n(2) by simp
qed

definition busy_stats :: container_stats where
  "busy_stats = \<lparr>ct_cpu = Some \<lparr>cc_total = 30, cc_system = 200\<rparr>, ct_precpu = Some \<lparr>cc_total = 10, cc_system = 100\<rparr>,
     ct_online_cpus = 2, ct_mem_usage = None, ct_mem_limit = None\<rparr>"

theorem cpu_percent_bounds_witness:
  "cpuPercentFromStats busy_stats = Some 40 \<and> 0 \<le> (40 :: rat) \<and> (40 :: rat) \<le> 100 * of_int (max 1 (ct_online_cpus busy_stats))"
proof -
  have c: "cpuPercentFromStats busy_stats = Some 40" by (simp add: cpuPercentFromStats_def busy_stats_def)
  moreover have "0 \<le> ct_online_cpus busy_stats" by (simp add: busy_stats_def)
  ultimately show ?thesis
    using cpu_percent_bounds [of busy_stats 40] by (simp add: busy_stats_def)
qed

definition shown_status :: "status_reply \<Rightarrow> json option" where
  "shown_status r = (case rp_body (sp_reply r) of JObj ms \<Rightarrow> map_of ms ''railwayOnlineStatus'' | _ \<Rightarrow> None)"

text \<open>The exit lifecycle of the dashboard counts requests, not time: two requests of \<open>chaos/status\<close> at
  the same instant, each with a failed probe, already take a service from \<open>online\<close> to \<open>exited\<close>.\<close>

theorem two_views_at_once_show_exited:
  "let R = demo_remote ''SUCCESS'' 502 0;
       (r1, g1, w1) = status_GET R redis_docker demo_host (Some ''dashboard'') None None init_world;
       (r2, g2, w2) = status_GET R redis_docker demo_host (Some ''dashboard'') None g1 w1
   in shown_status r1 = Some (JStr ''online'') \<and> shown_status r2 = Some (JStr ''exited'') \<and>
      fst (date_now R w2) = fst (date_now R init_world)"
  by code_simp

end
