(* ===== verification/WatchdogServer.thy ===== *)
theory WatchdogServer
  imports TickSafety
begin

text \<open>
  \<^verbatim>\<open>watchdog-service/src/server.ts\<close>: the worker that owns the poll loop and the SSE
  subscribers, and \<^verbatim>\<open>dashboard/src/lib/railway-watchdog.ts\<close>, which runs the same tick in the
  dashboard process. The event loop interleaves timers, the completion of a tick and the HTTP
  requests; each is one operation on the record \<open>server\<close>, and \<open>server_step\<close> is their union.
\<close>

section \<open>The payload as JSON\<close>

fun event_kind_text :: "WatchdogEventKind \<Rightarrow> string" where
  "event_kind_text Recover = ''recover''"
| "event_kind_text Scan = ''scan''"
| "event_kind_text Railway_deploy = ''railway_deploy''"
| "event_kind_text Railway_stalled = ''railway_stalled''"
| "event_kind_text Railway_rebooting = ''railway_rebooting''"
| "event_kind_text Railway_auto_recover = ''railway_auto_recover''"
| "event_kind_text Heartbeat_recover = ''heartbeat_recover''"
| "event_kind_text Heartbeat_exit_redeploy = ''heartbeat_exit_redeploy''"
| "event_kind_text Railway_stopped = ''railway_stopped''"

fun source_text :: "payload_source \<Rightarrow> string" where
  "source_text Src_docker = ''docker''"
| "source_text Src_railway = ''railway''"
| "source_text Src_unconfigured = ''unconfigured''"
| "source_text Src_error = ''error''"

definition event_json :: "WatchdogEvent \<Rightarrow> json" where
  "event_json e = JObj [(''id'', JStr (ev_id e)), (''at'', JStr (ev_at e)), (''service'', JStr (ev_service e)),
     (''kind'', JStr (event_kind_text (ev_kind e))), (''message'', JStr (ev_message e))]"

fun activity_status_json :: "activity_status \<Rightarrow> json" where
  "activity_status_json (StatusCode n) = JInt n"
| "activity_status_json (StatusText s) = JStr s"

definition activity_json :: "WatchdogApiActivityEntry \<Rightarrow> json" where
  "activity_json e = JObj
     ([(''at'', JStr (ac_at e)),
       (''kind'', JStr (case ac_kind e of Act_graphql \<Rightarrow> ''graphql'' | Act_http \<Rightarrow> ''http'')),
       (''target'', JStr (ac_target e))]
      @ opt_member ''method'' (map_option JStr (ac_method e))
      @ opt_member ''durationMs'' (map_option JInt (ac_durationMs e))
      @ opt_member ''status'' (map_option activity_status_json (ac_status e))
      @ opt_member ''detail'' (map_option JStr (ac_detail e)))"

definition heartbeat_json :: "heartbeat_summary \<Rightarrow> json" where
  "heartbeat_json s = JObj [(''enabled'', JBool (hs_enabled s)), (''probes'', JInt (hs_probes s)),
     (''ok'', JInt (hs_ok s)), (''failed'', JInt (hs_failed s)), (''skipped'', JInt (hs_skipped s))]"

definition payload_json :: "WatchdogPayload \<Rightarrow> json" where
  "payload_json p = JObj
     ([(''source'', JStr (source_text (pl_source p))), (''intervalSec'', JInt (pl_intervalSec p)),
       (''lastTickAt'', opt_json JStr (pl_lastTickAt p)), (''instancesMonitored'', JInt (pl_instancesMonitored p)),
       (''events'', JArr (map event_json (pl_events p)))]
      @ opt_member ''error'' (map_option JStr (pl_error p))
      @ opt_member ''heartbeat'' (map_option heartbeat_json (pl_heartbeat p))
      @ opt_member ''logTail'' (map_option (\<lambda>ls. JArr (map JStr ls)) (pl_logTail p))
      @ opt_member ''apiActivity'' (map_option (\<lambda>es. JArr (map activity_json es)) (pl_apiActivity p)))"

section \<open>The server\<close>

text \<open>
  The subscribed responses in insertion order, and what was written to each connection. Besides
  the variables of the module, \<open>sv_running\<close> counts the ticks that have started and not yet
  settled: no code reads it, it is there to state that ticks do not overlap.
\<close>

type_synonym conn = nat

record server =
  sv_state :: WatchdogPersistentState
  sv_lastPayload :: "WatchdogPayload option"
  sv_tickInFlight :: bool
  sv_sse :: "conn list"
  sv_sent :: "conn \<Rightarrow> string list"
  sv_running :: nat

definition init_server :: server where
  "init_server = \<lparr>sv_state = createEmptyWatchdogState, sv_lastPayload = None, sv_tickInFlight = False,
     sv_sse = [], sv_sent = (\<lambda>c. []), sv_running = 0\<rparr>"

definition tick_frame :: "WatchdogPayload \<Rightarrow> string" where
  "tick_frame p = ''event: tick'' @ nl @ ''data: '' @ json_stringify (payload_json p) @ nl @ nl"

definition write_chunk :: "conn \<Rightarrow> string \<Rightarrow> server \<Rightarrow> server" where
  "write_chunk c chunk sv = sv\<lparr>sv_sent := (sv_sent sv)(c := sv_sent sv c @ [chunk])\<rparr>"

definition drop_conn :: "conn \<Rightarrow> server \<Rightarrow> server" where
  "drop_conn c sv = sv\<lparr>sv_sse := filter (\<lambda>d. d \<noteq> c) (sv_sse sv)\<rparr>"

text \<open>\<open>throws c\<close>: \<open>res.write\<close> throws on this connection.\<close>

definition write_or_drop :: "(conn \<Rightarrow> bool) \<Rightarrow> string \<Rightarrow> conn \<Rightarrow> server \<Rightarrow> server" where
  "write_or_drop throws chunk c sv = (if throws c then drop_conn c sv else write_chunk c chunk sv)"

definition broadcastTick :: "(conn \<Rightarrow> bool) \<Rightarrow> WatchdogPayload \<Rightarrow> server \<Rightarrow> server" where
  "broadcastTick throws p sv = fold (write_or_drop throws (tick_frame p)) (sv_sse sv) sv"

text \<open>\<open>runTick\<close> up to its \<open>await\<close>; the guard is \<open>tickInFlight\<close>.\<close>

definition runTick_start :: "server \<Rightarrow> server" where
  "runTick_start sv =
     (if sv_tickInFlight sv then sv else sv\<lparr>sv_tickInFlight := True, sv_running := sv_running sv + 1\<rparr>)"

definition error_payload :: "host \<Rightarrow> string \<Rightarrow> string \<Rightarrow> WatchdogPayload" where
  "error_payload h now msg =
     \<lparr>pl_source = Src_error, pl_intervalSec = railwayWatchdogIntervalSec h, pl_lastTickAt = Some now,
      pl_instancesMonitored = 0, pl_events = [], pl_logTail = None, pl_error = Some msg,
      pl_heartbeat = None, pl_apiActivity = None\<rparr>"

text \<open>
  The rest of \<open>runTick\<close>, after the tick returned a payload or threw; the tick mutated
  \<open>state\<close> in either case. \<open>now\<close> is the time at the exception.
\<close>

definition runTick_settle ::
  "host \<Rightarrow> (conn \<Rightarrow> bool) \<Rightarrow> string \<Rightarrow> thrown + WatchdogPayload \<Rightarrow> WatchdogPersistentState \<Rightarrow> server \<Rightarrow> server" where
  "runTick_settle h throws now outcome st' sv =
     (let p = (case outcome of Inr p \<Rightarrow> p | Inl e \<Rightarrow> error_payload h now (err_message e));
          sv1 = broadcastTick throws p (sv\<lparr>sv_state := st', sv_lastPayload := Some p\<rparr>)
      in sv1\<lparr>sv_tickInFlight := False, sv_running := sv_running sv1 - 1\<rparr>)"

section \<open>Requests\<close>

datatype http_method = GET | OtherMethod

record http_answer =
  ha_status :: int
  ha_contentType :: string
  ha_body :: string

definition no_tick_payload :: "host \<Rightarrow> WatchdogPayload" where
  "no_tick_payload h =
     \<lparr>pl_source = Src_unconfigured, pl_intervalSec = railwayWatchdogIntervalSec h, pl_lastTickAt = None,
      pl_instancesMonitored = 0, pl_events = [], pl_logTail = None, pl_error = Some ''No tick completed yet'',
      pl_heartbeat = None, pl_apiActivity = None\<rparr>"

text \<open>A request either gets a complete answer or opens a stream on its connection.\<close>

datatype handled = Answer http_answer | OpenStream

definition handle_request :: "host \<Rightarrow> http_method \<Rightarrow> string \<Rightarrow> server \<Rightarrow> handled" where
  "handle_request h meth pathname sv =
     (if pathname = ''/health'' \<and> meth = GET
      then Answer \<lparr>ha_status = 200, ha_contentType = ''text/plain; charset=utf-8'', ha_body = ''ok''\<rparr>
      else if pathname = ''/v1/status'' \<and> meth = GET
      then Answer \<lparr>ha_status = 200, ha_contentType = ''application/json; charset=utf-8'',
             ha_body = json_stringify (payload_json (coalesce (sv_lastPayload sv) (no_tick_payload h)))\<rparr>
      else if pathname = ''/v1/stream'' \<and> meth = GET then OpenStream
      else Answer \<lparr>ha_status = 404, ha_contentType = ''text/plain'', ha_body = ''not found''\<rparr>)"

text \<open>A fresh connection subscribes and gets the last payload at once.\<close>

definition open_stream :: "conn \<Rightarrow> server \<Rightarrow> server" where
  "open_stream c sv =
     (let sv1 = sv\<lparr>sv_sse := sv_sse sv @ [c]\<rparr>
      in (case sv_lastPayload sv of None \<Rightarrow> sv1 | Some p \<Rightarrow> write_chunk c (tick_frame p) sv1))"

definition keepalive_chunk :: string where
  "keepalive_chunk = '': keepalive'' @ nl @ nl"

definition keepalive :: "(conn \<Rightarrow> bool) \<Rightarrow> conn \<Rightarrow> server \<Rightarrow> server" where
  "keepalive throws c sv = write_or_drop throws keepalive_chunk c sv"

definition parsePort :: "string option \<Rightarrow> int" where
  "parsePort v = int_setting v ''8080'' (\<lambda>p. 0 < p) 8080"

definition pollMs :: "host \<Rightarrow> int" where
  "pollMs h = max 5000 (railwayWatchdogIntervalSec h * 1000)"

section \<open>The dashboard process\<close>

text \<open>\<open>fetchRailwayWatchdogPayload\<close>: one tick on the state kept in \<open>globalThis\<close>, created on demand.\<close>

definition getOrCreateWatchdogState :: "WatchdogPersistentState option \<Rightarrow> WatchdogPersistentState" where
  "getOrCreateWatchdogState g = (case g of None \<Rightarrow> createEmptyWatchdogState | Some st \<Rightarrow> st)"

definition fetchRailwayWatchdogPayload ::
  "remote \<Rightarrow> host \<Rightarrow> WatchdogPersistentState option \<Rightarrow> world \<Rightarrow>
     WatchdogPayload \<times> WatchdogPersistentState option \<times> world" where
  "fetchRailwayWatchdogPayload R h g w =
     (let (p, st', w') = runRailwayWatchdogTick R h (getOrCreateWatchdogState g) w in (p, Some st', w'))"

section \<open>Steps\<close>

text \<open>
  The event loop: the poll timer, the settling of a running tick (with whatever world the tick
  ran in, or an exception), a new stream, a keepalive timer of a subscribed connection, a
  closed connection.
\<close>

inductive server_step :: "host \<Rightarrow> server \<Rightarrow> server \<Rightarrow> bool" for h where
  timer: "server_step h sv (runTick_start sv)"
| settled: "0 < sv_running sv \<Longrightarrow> runRailwayWatchdogTick R h (sv_state sv) w = (p, st', w') \<Longrightarrow>
     server_step h sv (runTick_settle h throws now (Inr p) st' sv)"
| failed: "0 < sv_running sv \<Longrightarrow> server_step h sv (runTick_settle h throws now (Inl e) st' sv)"
| connected: "c \<notin> set (sv_sse sv) \<Longrightarrow> sv_sent sv c = [] \<Longrightarrow> handle_request h GET ''/v1/stream'' sv = OpenStream \<Longrightarrow>
     server_step h sv (open_stream c sv)"
| kept_alive: "c \<in> set (sv_sse sv) \<Longrightarrow> server_step h sv (keepalive throws c sv)"
| closed: "server_step h sv (drop_conn c sv)"

inductive server_reach :: "host \<Rightarrow> server \<Rightarrow> bool" for h where
  start: "server_reach h init_server"
| step: "server_reach h sv \<Longrightarrow> server_step h sv sv' \<Longrightarrow> server_reach h sv'"

inductive_cases server_step_cases: "server_step h sv sv'"

section \<open>Lemmas\<close>

lemma write_or_drop_sel [simp]:
  "sv_state (write_or_drop th ch c sv) = sv_state sv"
  "sv_lastPayload (write_or_drop th ch c sv) = sv_lastPayload sv"
  "sv_tickInFlight (write_or_drop th ch c sv) = sv_tickInFlight sv"
  "sv_running (write_or_drop th ch c sv) = sv_running sv"
  by (simp_all add: write_or_drop_def write_chunk_def drop_conn_def)

lemma fold_write_sel [simp]:
  "sv_state (fold (write_or_drop th ch) cs sv) = sv_state sv"
  "sv_lastPayload (fold (write_or_drop th ch) cs sv) = sv_lastPayload sv"
  "sv_tickInFlight (fold (write_or_drop th ch) cs sv) = sv_tickInFlight sv"
  "sv_running (fold (write_or_drop th ch) cs sv) = sv_running sv"
  by (induction cs arbitrary: sv) simp_all

text \<open>What a broadcast does to each connection.\<close>

lemma fold_write_effect:
  "distinct cs \<Longrightarrow>
     sv_sse (fold (write_or_drop th ch) cs sv) = filter (\<lambda>c. \<not> (c \<in> set cs \<and> th c)) (sv_sse sv) \<and>
     sv_sent (fold (write_or_drop th ch) cs sv) c =
       (if c \<in> set cs \<and> \<not> th c then sv_sent sv c @ [ch] else sv_sent sv c)"
proof (induction cs arbitrary: sv)
  case (Cons d cs)
  have "sv_sse (write_or_drop th ch d sv) = filter (\<lambda>c. \<not> (c = d \<and> th c)) (sv_sse sv)"
    "sv_sent (write_or_drop th ch d sv) c = (if c = d \<and> \<not> th d then sv_sent sv c @ [ch] else sv_sent sv c)"
    by (auto simp: write_or_drop_def drop_conn_def write_chunk_def intro: filter_cong filter_True [symmetric])
  with Cons show ?case by (auto simp: filter_filter intro: filter_cong)
qed simp

lemma broadcast_effect:
  "distinct (sv_sse sv) \<Longrightarrow>
     sv_sse (broadcastTick th p sv) = filter (\<lambda>c. \<not> th c) (sv_sse sv) \<and>
     sv_sent (broadcastTick th p sv) c =
       (if c \<in> set (sv_sse sv) \<and> \<not> th c then sv_sent sv c @ [tick_frame p] else sv_sent sv c)"
  using fold_write_effect [of "sv_sse sv" th "tick_frame p" sv] unfolding broadcastTick_def
  by (auto intro: filter_cong)

text \<open>The last tick frame among the chunks of a connection.\<close>

definition last_frame :: "string list \<Rightarrow> string option" where
  "last_frame chunks =
     (let fs = filter (\<lambda>ch. ch \<noteq> keepalive_chunk) chunks in if fs = [] then None else Some (last fs))"

lemma frame_not_keepalive [simp]: "tick_frame p \<noteq> keepalive_chunk"
  by (simp add: tick_frame_def keepalive_chunk_def)

lemma last_frame_simps [simp]:
  "last_frame [] = None" "last_frame (cs @ [tick_frame p]) = Some (tick_frame p)"
  "last_frame (cs @ [keepalive_chunk]) = last_frame cs" "last_frame [tick_frame p] = Some (tick_frame p)"
  by (simp_all add: last_frame_def Let_def)

definition server_ok :: "server \<Rightarrow> bool" where
  "server_ok sv \<longleftrightarrow>
     sv_running sv = (if sv_tickInFlight sv then 1 else 0) \<and> distinct (sv_sse sv) \<and>
     (\<forall>c \<in> set (sv_sse sv). last_frame (sv_sent sv c) = map_option tick_frame (sv_lastPayload sv))"

lemma server_ok_settle:
  assumes "server_ok sv" and "0 < sv_running sv"
  shows "server_ok (runTick_settle h th now out st' sv)"
proof -
  define p where "p = (case out of Inr p \<Rightarrow> p | Inl e \<Rightarrow> error_payload h now (err_message e))"
  define sv0 where "sv0 = sv\<lparr>sv_state := st', sv_lastPayload := Some p\<rparr>"
  have d: "distinct (sv_sse sv0)" using assms(1) by (simp add: server_ok_def sv0_def)
  have eq: "runTick_settle h th now out st' sv =
      (broadcastTick th p sv0)\<lparr>sv_tickInFlight := False, sv_running := sv_running sv - 1\<rparr>"
    by (simp add: runTick_settle_def Let_def p_def sv0_def broadcastTick_def)
  have "sv_lastPayload (broadcastTick th p sv0) = Some p" by (simp add: broadcastTick_def sv0_def)
  then show ?thesis
    using assms d broadcast_effect [OF d, of th p] by (auto simp: eq server_ok_def split: if_splits)
qed

lemma server_ok_step: "server_step h sv sv' \<Longrightarrow> server_ok sv \<Longrightarrow> server_ok sv'"
proof (induction rule: server_step.induct)
  case (timer sv)
  then show ?case by (simp add: server_ok_def runTick_start_def)
next
  case (connected c sv)
  then show ?case
    by (auto simp: server_ok_def open_stream_def write_chunk_def Let_def split: option.splits)
next
  case (kept_alive c sv throws)
  then show ?case by (auto simp: server_ok_def keepalive_def write_or_drop_def drop_conn_def write_chunk_def)
next
  case (closed sv c)
  then show ?case by (simp add: server_ok_def drop_conn_def)
qed (simp_all add: server_ok_settle)

lemma server_reach_ok: "server_reach h sv \<Longrightarrow> server_ok sv"
proof (induction rule: server_reach.induct)
  case start
  show ?case by (simp add: server_ok_def init_server_def)
qed (rule server_ok_step)

lemma no_newline: "no_control s \<Longrightarrow> CHR 0x0A \<notin> set s"
  by (auto simp: no_control_def)

lemma interval_ge_5: "5 \<le> railwayWatchdogIntervalSec h"
  by (simp add: railwayWatchdogIntervalSec_def)

section \<open>Properties\<close>

text \<open>Whatever strings a payload carries (service names, error messages, log lines with newlines),
  its frame on the event stream is exactly one event: the line \<open>event: tick\<close>, one \<open>data\<close> line
  with the whole JSON text, and the blank line that ends the event.\<close>

theorem tick_frame_is_one_event:
  "js_split CHR 0x0A (tick_frame p) = [''event: tick'', ''data: '' @ json_stringify (payload_json p), [], []]"
proof -
  have "CHR 0x0A \<notin> set (json_stringify (payload_json p))" by (rule no_newline) (rule no_control_stringify)
  then have data: "CHR 0x0A \<notin> set (''data: '' @ json_stringify (payload_json p))" by simp
  have "js_split CHR 0x0A ((''data: '' @ json_stringify (payload_json p)) @ CHR 0x0A # nl) =
      [''data: '' @ json_stringify (payload_json p), [], []]"
    by (subst js_split_append [OF data]) simp
  moreover have "CHR 0x0A \<notin> set ''event: tick''" by simp
  ultimately show ?thesis
    using js_split_append [of "CHR 0x0A" "''event: tick''"
        "(''data: '' @ json_stringify (payload_json p)) @ CHR 0x0A # nl"]
    by (simp add: tick_frame_def)
qed

text \<open>C29: In every interleaving of timers, settling ticks and requests at most one tick runs, and the
  flag \<open>tickInFlight\<close> says exactly whether one does; every subscriber is subscribed once and the
  last tick event it was sent is the one of the current payload, also when it joined late or
  other subscribers failed.\<close>

theorem server_invariant:
  assumes "server_reach h sv"
  shows "sv_running sv \<le> 1 \<and> (sv_tickInFlight sv \<longleftrightarrow> sv_running sv = 1) \<and> distinct (sv_sse sv) \<and>
    (\<forall>c \<in> set (sv_sse sv). last_frame (sv_sent sv c) = map_option tick_frame (sv_lastPayload sv))"
  using server_reach_ok [OF assms] by (simp add: server_ok_def)

definition busy_server :: server where
  "busy_server = runTick_start (open_stream 7 init_server)"

theorem server_invariant_witness:
  "sv_running busy_server = 1 \<and> sv_running busy_server \<le> 1 \<and> distinct (sv_sse busy_server)"
proof -
  have "server_step plain_host init_server (open_stream 7 init_server)"
    by (rule server_step.connected) (simp_all add: init_server_def handle_request_def)
  then have "server_reach plain_host busy_server"
    unfolding busy_server_def by (blast intro: server_reach.intros server_step.timer)
  from server_invariant [OF this] show ?thesis
    by (simp add: busy_server_def runTick_start_def open_stream_def init_server_def)
qed

text \<open>The worker polls at least every 5 seconds apart and at the interval it reports in its
  payloads; the port it listens on is positive.\<close>

theorem poll_interval:
  "pollMs h = 1000 * railwayWatchdogIntervalSec h \<and> 5000 \<le> pollMs h \<and> 0 < parsePort v"
proof -
  have "0 < parsePort v" unfolding parsePort_def by (rule int_setting_ok) simp
  then show ?thesis using interval_ge_5 [of h] by (simp add: pollMs_def)
qed

end
