(* ===== verification/WatchdogRoute.thy ===== *)
theory WatchdogRoute
  imports VisibilityRoutes WatchdogServer
begin

text \<open>
  The dashboard's side of the watchdog: \<open>chaos/watchdog\<close>, which answers from the dedicated worker,
  from a tick in the dashboard process or from the compose watchdog, and \<open>chaos/watchdog/stream\<close>,
  which passes the worker's event stream on.
\<close>

section \<open>Where the watchdog is\<close>

text \<open>
  \<open>a?.trim() || b?.trim()\<close>, then without trailing slashes; the callers test the result for being
  truthy, so an address of slashes only counts as none.
\<close>

definition watchdogServiceBaseUrl :: "host \<Rightarrow> string option" where
  "watchdogServiceBaseUrl h =
     (let own = map_option js_trim (process_env h ''WATCHDOG_SERVICE_URL'');
          u = (if truthy own then own else map_option js_trim (process_env h ''RAILWAY_WATCHDOG_SERVICE_URL''))
      in if truthy u then Some (strip_trailing (CHR ''/'') (the u)) else None)"

definition resolveWatchdogStatusUrls :: "host \<Rightarrow> string list" where
  "resolveWatchdogStatusUrls h =
     (let explicit = map_option js_trim (runtimeEnv h ''WATCHDOG_STATUS_URL'')
      in if truthy explicit then [strip_one_trailing (CHR ''/'') (the explicit)]
         else if process_env h ''NODE_ENV'' = Some ''development''
         then [''http://127.0.0.1:8099'', ''http://compose-watchdog:8099'']
         else [''http://compose-watchdog:8099'', ''http://127.0.0.1:8099''])"

section \<open>The answer of the compose watchdog\<close>

text \<open>
  The code casts the body to \<open>DockerStatusJson\<close>; here it is read with that shape, a member of
  another type counting as missing. Only \<open>null\<close> cannot be read at all.
\<close>

record docker_watchdog_event =
  de_id :: string
  de_at :: string
  de_service :: string
  de_action :: "string option"
  de_reason :: "string option"

record docker_status =
  ds_intervalSec :: "int option"
  ds_lastTickAt :: "string option"
  ds_instancesMonitored :: "int option"
  ds_logTail :: "string list option"
  ds_events :: "docker_watchdog_event list option"

fun member :: "string \<Rightarrow> json \<Rightarrow> json option" where
  "member k (JObj ms) = map_of (rev ms) k"
| "member k _ = None"

fun as_string :: "json option \<Rightarrow> string option" where
  "as_string (Some (JStr s)) = Some s"
| "as_string _ = None"

fun as_int :: "json option \<Rightarrow> int option" where
  "as_int (Some (JInt i)) = Some i"
| "as_int _ = None"

fun as_array :: "json option \<Rightarrow> json list option" where
  "as_array (Some (JArr xs)) = Some xs"
| "as_array _ = None"

definition docker_event_of :: "json \<Rightarrow> docker_watchdog_event" where
  "docker_event_of j = \<lparr>de_id = coalesce (as_string (member ''id'' j)) [], de_at = coalesce (as_string (member ''at'' j)) [],
     de_service = coalesce (as_string (member ''service'' j)) [],
     de_action = as_string (member ''action'' j), de_reason = as_string (member ''reason'' j)\<rparr>"

definition docker_status_of :: "json \<Rightarrow> docker_status" where
  "docker_status_of j = \<lparr>ds_intervalSec = as_int (member ''intervalSec'' j),
     ds_lastTickAt = as_string (member ''lastTickAt'' j),
     ds_instancesMonitored = as_int (member ''instancesMonitored'' j),
     ds_logTail = map_option (List.map_filter (\<lambda>x. as_string (Some x))) (as_array (member ''logTail'' j)),
     ds_events = map_option (map docker_event_of) (as_array (member ''events'' j))\<rparr>"

definition docker_start_message :: "string \<Rightarrow> string" where
  "docker_start_message svc = ''Watchdog identified an exited or killed container and is starting '' @ svc @ ''.''"

definition docker_restart_message :: "string \<Rightarrow> string" where
  "docker_restart_message svc = ''Watchdog identified a stalled or unhealthy container and is restarting '' @ svc @ ''.''"

definition normalize_event :: "docker_watchdog_event \<Rightarrow> WatchdogEvent" where
  "normalize_event e =
     (let action = js_lower (coalesce (de_action e) []); reason = js_lower (coalesce (de_reason e) []);
          isStart = (action = ''start'' \<or> reason = ''exited'')
      in \<lparr>ev_id = de_id e, ev_at = de_at e, ev_service = de_service e, ev_kind = Recover,
          ev_message = (if isStart then docker_start_message (de_service e) else docker_restart_message (de_service e))\<rparr>)"

definition normalizeDockerWatchdog :: "docker_status \<Rightarrow> WatchdogPayload" where
  "normalizeDockerWatchdog d =
     \<lparr>pl_source = Src_docker, pl_intervalSec = coalesce (ds_intervalSec d) 15, pl_lastTickAt = ds_lastTickAt d,
      pl_instancesMonitored = coalesce (ds_instancesMonitored d) 0,
      pl_events = map normalize_event (coalesce (ds_events d) []),
      pl_logTail = (case ds_logTail d of Some (x # xs) \<Rightarrow> Some (x # xs) | _ \<Rightarrow> None),
      pl_error = None, pl_heartbeat = None, pl_apiActivity = None\<rparr>"

section \<open>\<open>GET chaos/watchdog\<close>\<close>

definition failure_payload :: "payload_source \<Rightarrow> string \<Rightarrow> WatchdogPayload" where
  "failure_payload src msg =
     \<lparr>pl_source = src, pl_intervalSec = 15, pl_lastTickAt = None, pl_instancesMonitored = 0, pl_events = [],
      pl_logTail = None, pl_error = Some msg, pl_heartbeat = None, pl_apiActivity = None\<rparr>"

definition payload_reply :: "int \<Rightarrow> WatchdogPayload \<Rightarrow> reply" where
  "payload_reply st p = \<lparr>rp_status = st, rp_body = payload_json p\<rparr>"

text \<open>\<open>res.text().catch(() => "")\<close>, cut at 200 characters.\<close>

definition worker_http_error :: "http_response \<Rightarrow> string" where
  "worker_http_error res =
     (let text = (case hr_text res of Inr t \<Rightarrow> t | Inl _ \<Rightarrow> [])
      in ''Watchdog service HTTP '' @ show_int (hr_status res) @ (if text = [] then [] else '': '' @ take 200 text))"

definition ask_worker :: "remote \<Rightarrow> string \<Rightarrow> world \<Rightarrow> reply \<times> world" where
  "ask_worker R base w =
     (let (r, w1) = send_http R (base @ ''/v1/status'') w;
          failed = (\<lambda>e. payload_reply 503 (failure_payload Src_error (err_message_or ''Watchdog service unreachable'' e)))
      in (case r of
            Inl e \<Rightarrow> failed e
          | Inr res \<Rightarrow>
              if \<not> status_ok (hr_status res) then payload_reply 502 (failure_payload Src_error (worker_http_error res))
              else (case hr_json res of Inl e \<Rightarrow> failed e | Inr body \<Rightarrow> \<lparr>rp_status = 200, rp_body = body\<rparr>), w1))"

text \<open>One candidate: its payload, or the error to remember.\<close>

definition null_status_error :: string where
  "null_status_error = ''Cannot read properties of null (reading 'events')''"

definition docker_answer :: "thrown + http_response \<Rightarrow> string \<Rightarrow> string + WatchdogPayload" where
  "docker_answer r base =
     (case r of
        Inl e \<Rightarrow> Inl (err_message_or ''Fetch failed'' e)
      | Inr res \<Rightarrow>
          if \<not> status_ok (hr_status res)
          then Inl (''Watchdog HTTP '' @ show_int (hr_status res) @ '' at '' @ base)
          else (case hr_json res of
                  Inl e \<Rightarrow> Inl (err_message_or ''Fetch failed'' e)
                | Inr JNull \<Rightarrow> Inl null_status_error
                | Inr raw \<Rightarrow> Inr (normalizeDockerWatchdog (docker_status_of raw))))"

definition status_url :: "string \<Rightarrow> string" where
  "status_url base = base @ ''/status''"

fun try_candidates :: "remote \<Rightarrow> string list \<Rightarrow> string option \<Rightarrow> world \<Rightarrow> (string option + WatchdogPayload) \<times> world" where
  "try_candidates R [] lastErr w = (Inl lastErr, w)"
| "try_candidates R (base # bases) lastErr w =
     (let (r, w1) = send_http R (status_url base) w
      in (case docker_answer r base of
            Inr p \<Rightarrow> (Inr p, w1)
          | Inl err \<Rightarrow> try_candidates R bases (Some err) w1))"

definition unreachable_error :: "string option \<Rightarrow> string list \<Rightarrow> string" where
  "unreachable_error lastErr candidates =
     coalesce lastErr ''Unreachable'' @ ''. Tried: '' @ js_join '', '' candidates
       @ ''. Ensure compose-watchdog is up and port 8099 is published (docker compose up compose-watchdog -d).''"

definition ask_compose_watchdog :: "remote \<Rightarrow> host \<Rightarrow> world \<Rightarrow> reply \<times> world" where
  "ask_compose_watchdog R h w =
     (let candidates = resolveWatchdogStatusUrls h; (r, w1) = try_candidates R candidates None w
      in ((case r of
             Inr p \<Rightarrow> payload_reply 200 p
           | Inl lastErr \<Rightarrow> payload_reply 503 (failure_payload Src_error (unreachable_error lastErr candidates))), w1))"

definition unconfigured_error :: string where
  "unconfigured_error = ''Set RAILWAY_PROJECT_TOKEN or RAILWAY_API_TOKEN for Railway watchdog visibility.''"

text \<open>The tick of the model returns a payload in every case, so its \<open>catch\<close> has no branch here.\<close>

definition watchdog_GET ::
  "remote \<Rightarrow> host \<Rightarrow> WatchdogPersistentState option \<Rightarrow> world \<Rightarrow> reply \<times> WatchdogPersistentState option \<times> world" where
  "watchdog_GET R h g w =
     (if railwayIdsConfigured h \<and> railwayVisibilityConfigured h
      then (case nonempty_opt (watchdogServiceBaseUrl h) of
              Some base \<Rightarrow> (let (r, w1) = ask_worker R base w in (r, g, w1))
            | None \<Rightarrow> (let (p, g', w1) = fetchRailwayWatchdogPayload R h g w in (payload_reply 200 p, g', w1)))
      else if railwayIdsConfigured h \<and> \<not> railwayVisibilityConfigured h
      then (payload_reply 200 (failure_payload Src_unconfigured unconfigured_error), g, w)
      else (let (r, w1) = ask_compose_watchdog R h w in (r, g, w1)))"

section \<open>\<open>GET chaos/watchdog/stream\<close>\<close>

text \<open>\<open>has_body\<close>: the upstream response carries a body. A stream is passed on as it is.\<close>

datatype stream_answer = Stream_text int string | Stream_passed_on

definition stream_disabled :: string where
  "stream_disabled = ''WATCHDOG_SERVICE_URL is not set '' @ u_emdash @ '' SSE proxy disabled; use JSON polling on /watchdog''"

definition stream_GET :: "remote \<Rightarrow> (http_response \<Rightarrow> bool) \<Rightarrow> host \<Rightarrow> world \<Rightarrow> stream_answer \<times> world" where
  "stream_GET R has_body h w =
     (case nonempty_opt (watchdogServiceBaseUrl h) of
        None \<Rightarrow> (Stream_text 503 stream_disabled, w)
      | Some base \<Rightarrow>
          (let (r, w1) = send_http R (base @ ''/v1/stream'') w
           in ((case r of
                  Inl e \<Rightarrow> Stream_text 503 (err_message_or ''fetch failed'' e)
                | Inr up \<Rightarrow>
                    if \<not> status_ok (hr_status up) \<or> \<not> has_body up
                    then Stream_text 502 (''Upstream watchdog stream HTTP '' @ show_int (hr_status up))
                    else Stream_passed_on), w1)))"

section \<open>Lemmas\<close>

lemma ask_worker_trace: "w_trace (snd (ask_worker R base w)) = w_trace w @ [Call_http (base @ ''/v1/status'')]"
  by (simp add: ask_worker_def case_prod_beta Let_def)

text \<open>
  The candidates by their index: \<open>tried R cs n w\<close> is the trace after the first \<open>n\<close> requests, and
  \<open>answer_at\<close> what the next one gives.
\<close>

definition tried :: "string list \<Rightarrow> nat \<Rightarrow> world \<Rightarrow> call list" where
  "tried cs n w = w_trace w @ map (\<lambda>b. Call_http (status_url b)) (take n cs)"

definition answer_at :: "remote \<Rightarrow> string list \<Rightarrow> world \<Rightarrow> nat \<Rightarrow> string + WatchdogPayload" where
  "answer_at R cs w n = docker_answer (o_http R (tried cs n w) (status_url (cs ! n))) (cs ! n)"

lemma answer_at_Cons:
  "w_trace w1 = w_trace w @ [Call_http (status_url b)] \<Longrightarrow> answer_at R (b # cs) w (Suc n) = answer_at R cs w1 n"
  by (simp add: answer_at_def tried_def)

text \<open>The loop is a search for the first candidate with a payload.\<close>

lemma find_Suc: "find P (map Suc ns) = map_option Suc (find (\<lambda>n. P (Suc n)) ns)"
  by (induction ns) simp_all

lemma try_candidates_find:
  "(case find (\<lambda>n. \<not> isl (answer_at R cs w n)) [0..<length cs] of
      None \<Rightarrow> isl (fst (try_candidates R cs e w)) \<and> w_trace (snd (try_candidates R cs e w)) = tried cs (length cs) w
    | Some n \<Rightarrow> fst (try_candidates R cs e w) = Inr (projr (answer_at R cs w n)) \<and>
                w_trace (snd (try_candidates R cs e w)) = tried cs (Suc n) w)"
proof (induction cs arbitrary: e w)
  case Nil
  then show ?case by (simp add: tried_def)
next
  case (Cons b cs)
  define w1 where "w1 = snd (send_http R (status_url b) w)"
  have t1: "w_trace w1 = w_trace w @ [Call_http (status_url b)]" by (simp add: w1_def)
  have here: "answer_at R (b # cs) w 0 = docker_answer (fst (send_http R (status_url b) w)) b"
    by (simp add: answer_at_def tried_def send_http_def)
  have upt: "[0..<Suc (length cs)] = 0 # map Suc [0..<length cs]"
    by (simp add: map_Suc_upt upt_conv_Cons del: upt_Suc)
  have later: "(\<lambda>n. \<not> isl (answer_at R (b # cs) w (Suc n))) = (\<lambda>n. \<not> isl (answer_at R cs w1 n))"
    by (simp add: answer_at_Cons [OF t1])
  have tr: "tried (b # cs) (Suc n) w = tried cs n w1" for n
    by (simp add: tried_def t1)
  show ?case
  proof (cases "answer_at R (b # cs) w 0")
    case (Inr p)
    then show ?thesis
      by (simp add: upt here case_prod_beta w1_def [symmetric] tr tried_def t1 del: upt_Suc)
  next
    case (Inl err)
    then show ?thesis
      using Cons.IH [where w = w1 and e = "Some err"] here
      by (auto simp: upt find_Suc later case_prod_beta w1_def [symmetric] tr answer_at_Cons [OF t1]
          simp del: upt_Suc split: option.splits)
  qed
qed

section \<open>Properties\<close>

text \<open>C28: Which watchdog answers, and what that costs: with the dedicated worker configured the dashboard
  sends it one request and never ticks itself (so two processes never redeploy the same services);
  without it a tick runs on the state of the dashboard process; without credentials nothing is
  called; and off Railway only the candidates of the compose watchdog are asked, in order.\<close>

theorem watchdog_route_uses_one_source:
  "let (r, g', w') = watchdog_GET R h g w
   in if railwayVisibilityConfigured h
      then (case nonempty_opt (watchdogServiceBaseUrl h) of
              Some base \<Rightarrow> g' = g \<and> w_trace w' = w_trace w @ [Call_http (base @ ''/v1/status'')]
            | None \<Rightarrow> (let (p, st', w1) = runRailwayWatchdogTick R h (getOrCreateWatchdogState g) w
                       in g' = Some st' \<and> w' = w1 \<and> r = payload_reply 200 p))
      else if railwayIdsConfigured h then g' = g \<and> w' = w
      else g' = g \<and> (\<exists>n. w_trace w' = tried (resolveWatchdogStatusUrls h) n w)"
proof -
  have ids: "railwayVisibilityConfigured h \<Longrightarrow> railwayIdsConfigured h"
    by (simp add: railwayVisibilityConfigured_def)
  have "\<exists>n. w_trace (snd (ask_compose_watchdog R h w)) = tried (resolveWatchdogStatusUrls h) n w"
    using try_candidates_find [where R = R and cs = "resolveWatchdogStatusUrls h" and w = w and e = None]
    by (auto simp: ask_compose_watchdog_def case_prod_beta Let_def split: option.splits)
  then show ?thesis
    using ids by (auto simp: watchdog_GET_def fetchRailwayWatchdogPayload_def case_prod_beta Let_def ask_worker_trace
        split: option.split)
qed

text \<open>Off Railway the first candidate that answers with a readable status gives the reply, and no
  later one is asked; when none does, all have been asked and the reply is an error with status 503.\<close>

theorem first_answering_candidate_wins:
  "let cs = resolveWatchdogStatusUrls h; (r, w') = ask_compose_watchdog R h w
   in case find (\<lambda>n. \<not> isl (answer_at R cs w n)) [0..<length cs] of
        None \<Rightarrow> rp_status r = 503 \<and> w_trace w' = tried cs (length cs) w
      | Some n \<Rightarrow> r = payload_reply 200 (projr (answer_at R cs w n)) \<and> w_trace w' = tried cs (Suc n) w"
proof -
  obtain res w1 where t: "try_candidates R (resolveWatchdogStatusUrls h) None w = (res, w1)" by force
  show ?thesis
    using try_candidates_find [where R = R and cs = "resolveWatchdogStatusUrls h" and w = w and e = None]
    by (cases res) (auto simp: ask_compose_watchdog_def t Let_def payload_reply_def split: option.splits)
qed

end
