(* ===== verification/ProxyRoutes.thy ===== *)
theory ProxyRoutes
  imports WatchdogRoute
begin

text \<open>
  The routes of the dashboard that pass requests on: to the FastAPI backend (logs, statistics,
  insights, errors, load tests, health, database introspection), to Prometheus, to Alertmanager and
  to the load balancer; where the backend is (\<open>lib/dashboard-backend-url.ts\<close>), how a failed
  \<open>fetch\<close> is described (\<open>lib/fetch-error-detail.ts\<close>), and the small routes \<open>health\<close> and
  \<open>debug/railway-env\<close>. A route's abort timer makes \<open>fetch\<close> throw, so it is one of the outcomes of
  the remote side. Query strings are given as \<open>searchParams.toString()\<close> returns them.
\<close>

section \<open>Where the backend is\<close>

datatype backend_base = Base string bool | BadBase string

definition local_backend :: string where "local_backend = ''http://127.0.0.1:8000''"

definition no_hostname_error :: string where
  "no_hostname_error = ''DASHBOARD_BACKEND_URL has no hostname (Railway variable reference may be empty '' @ u_emdash
     @ '' use private URL: http://${{dashboard-backend.RAILWAY_PRIVATE_DOMAIN}}:${{dashboard-backend.PORT}} or fix the service name).''"

definition bad_url_error :: "string \<Rightarrow> string" where
  "bad_url_error u = ''DASHBOARD_BACKEND_URL is not a valid absolute URL (first 120 chars): '' @ take 120 u"

text \<open>\<open>parse_url\<close> is \<open>new URL\<close>, \<^const>\<open>None\<close> where it throws.\<close>

definition resolveDashboardBackendBase :: "(string \<Rightarrow> url_parts option) \<Rightarrow> host \<Rightarrow> backend_base" where
  "resolveDashboardBackendBase parse_url h =
     (let raw = map_option js_trim (runtimeEnv h ''DASHBOARD_BACKEND_URL'')
      in if \<not> truthy raw then Base local_backend True
         else (let u = strip_one_trailing (CHR ''/'') (the raw)
               in (case parse_url u of
                     None \<Rightarrow> BadBase (bad_url_error u)
                   | Some p \<Rightarrow>
                       if up_hostname p = [] then BadBase no_hostname_error
                       else if up_protocol p \<noteq> ''http:'' \<and> up_protocol p \<noteq> ''https:''
                       then BadBase ''DASHBOARD_BACKEND_URL must start with http:// or https://''
                       else Base u False)))"

definition dashboardBackendBase :: "(string \<Rightarrow> url_parts option) \<Rightarrow> host \<Rightarrow> string" where
  "dashboardBackendBase parse_url h =
     (case resolveDashboardBackendBase parse_url h of Base b d \<Rightarrow> b | BadBase e \<Rightarrow> local_backend)"

definition isDashboardBackendUrlConfigured :: "host \<Rightarrow> bool" where
  "isDashboardBackendUrlConfigured h \<longleftrightarrow> truthy (map_option js_trim (runtimeEnv h ''DASHBOARD_BACKEND_URL''))"

section \<open>What went wrong with a \<open>fetch\<close>\<close>

text \<open>\<open>[o.syscall, o.code, o.errno].filter(Boolean).join(" ")\<close>.\<close>

definition cause_object_text :: "string option \<Rightarrow> string option \<Rightarrow> int option \<Rightarrow> string" where
  "cause_object_text syscall code errno =
     js_join '' '' (filter (\<lambda>s. s \<noteq> [])
       [coalesce syscall [], coalesce code [],
        (case errno of Some n \<Rightarrow> if n = 0 then [] else show_int n | None \<Rightarrow> [])])"

text \<open>The loop over the causes, at most \<open>fuel\<close> of them.\<close>

fun cause_parts :: "nat \<Rightarrow> cause \<Rightarrow> string list" where
  "cause_parts 0 c = []"
| "cause_parts (Suc fuel) NoCause = []"
| "cause_parts (Suc fuel) (CauseError m c) = m # cause_parts fuel c"
| "cause_parts (Suc fuel) (CauseObject sc code errno) =
     (let bit = cause_object_text sc code errno in if bit = [] then [] else [bit])"
| "cause_parts (Suc fuel) (CauseOther s) = [s]"

fun formatFetchError :: "thrown \<Rightarrow> string" where
  "formatFetchError (OtherValue s) = s"
| "formatFetchError (ErrorObject name msg c) =
     js_join '' | '' (filter (\<lambda>s. s \<noteq> [])
       ((if name = ''AbortError'' then ''request timed out'' else msg) # cause_parts 6 c))"

section \<open>Fetching JSON\<close>

text \<open>\<open>await fetch(url)\<close> and \<open>await res.json()\<close>: the status and the body, or what was thrown.\<close>

definition json_answer :: "thrown + http_response \<Rightarrow> thrown + int \<times> json" where
  "json_answer r =
     (case r of Inl e \<Rightarrow> Inl e
      | Inr res \<Rightarrow> (case hr_json res of Inl e \<Rightarrow> Inl e | Inr body \<Rightarrow> Inr (hr_status res, body)))"

definition fetch_json :: "remote \<Rightarrow> string \<Rightarrow> world \<Rightarrow> (thrown + int \<times> json) \<times> world" where
  "fetch_json R url w = (let (r, w1) = send_http R url w in (json_answer r, w1))"

definition post_json :: "remote \<Rightarrow> string \<Rightarrow> json option \<Rightarrow> world \<Rightarrow> (thrown + int \<times> json) \<times> world" where
  "post_json R url body w = (let (r, w1) = send_post R url body w in (json_answer r, w1))"

definition pass_on :: "int \<times> json \<Rightarrow> reply" where
  "pass_on a = \<lparr>rp_status = fst a, rp_body = snd a\<rparr>"

definition with_query :: "string \<Rightarrow> string \<Rightarrow> string" where
  "with_query url qs = url @ (if qs = [] then [] else ''?'' @ qs)"

text \<open>Pass the answer on, or reply with 503 and what \<open>on_failure\<close> makes of the error.\<close>

definition answer_or :: "(thrown \<Rightarrow> (string \<times> json) list) \<Rightarrow> (thrown + int \<times> json) \<times> world \<Rightarrow> reply \<times> world" where
  "answer_or on_failure rw =
     ((case fst rw of Inr a \<Rightarrow> pass_on a | Inl e \<Rightarrow> json_reply 503 (on_failure e)), snd rw)"

definition on_railway :: "host \<Rightarrow> bool" where
  "on_railway h \<longleftrightarrow> truthy (runtimeEnv h ''RAILWAY_PROJECT_ID'')"

section \<open>Routes that check the address of the backend\<close>

definition fix_url_long :: string where
  "fix_url_long = ''Fix DASHBOARD_BACKEND_URL on the dashboard service, redeploy, or run SYNC_VARIABLES=1 node setup-railway.js from the repo root.''"

definition fix_url_short :: string where
  "fix_url_short = ''Fix DASHBOARD_BACKEND_URL or run SYNC_VARIABLES=1 node setup-railway.js.''"

definition url_unset_hint :: string where
  "url_unset_hint = ''DASHBOARD_BACKEND_URL is unset '' @ u_emdash
     @ '' set it on the **dashboard** service (run `SYNC_VARIABLES=1 node setup-railway.js` for private URL), then redeploy.''"

definition set_url_hint :: string where
  "set_url_hint = ''Set DASHBOARD_BACKEND_URL on the **dashboard** service (private URL recommended), then redeploy.''"

definition logs_hint :: "host \<Rightarrow> bool \<Rightarrow> string" where
  "logs_hint h usedDefault =
     (if on_railway h \<and> usedDefault then url_unset_hint
      else if on_railway h \<and> isDashboardBackendUrlConfigured h
      then ''If the error is ENOTFOUND or connection refused, confirm the **dashboard** service can reach **dashboard-backend** on the private network (same Railway project). Re-run variable sync so DASHBOARD_BACKEND_URL uses RAILWAY_PRIVATE_DOMAIN + PORT.''
      else ''Ensure dashboard-backend (FastAPI) is running and reachable. Local: port 8000; Railway: private DASHBOARD_BACKEND_URL (often :8080).'')"

definition logs_failure :: "string \<Rightarrow> string \<Rightarrow> (string \<times> json) list" where
  "logs_failure err hint = [(''logs'', JArr []), (''error'', JStr err), (''hint'', JStr hint)]"

definition logs_GET :: "(string \<Rightarrow> url_parts option) \<Rightarrow> remote \<Rightarrow> host \<Rightarrow> string \<Rightarrow> world \<Rightarrow> reply \<times> world" where
  "logs_GET parse_url R h qs w =
     (case resolveDashboardBackendBase parse_url h of
        BadBase err \<Rightarrow> (json_reply 503 (logs_failure err fix_url_long), w)
      | Base base usedDefault \<Rightarrow>
          answer_or (\<lambda>e. logs_failure (formatFetchError e) (logs_hint h usedDefault))
            (fetch_json R (with_query (base @ ''/api/logs'') qs) w))"

definition insights_hint :: "host \<Rightarrow> bool \<Rightarrow> string" where
  "insights_hint h usedDefault =
     (if on_railway h \<and> usedDefault then url_unset_hint
      else if on_railway h \<and> isDashboardBackendUrlConfigured h
      then ''If the error is ENOTFOUND or connection refused, confirm the **dashboard** service can reach **dashboard-backend** on the private network.''
      else ''Ensure dashboard-backend (FastAPI) is running and reachable. Local: port 8000; Railway: private DASHBOARD_BACKEND_URL.'')"

definition empty_summary :: json where
  "empty_summary = JObj [(''total_errors'', JInt 0), (''total_requests'', JInt 0), (''peak_errors'', JInt 0), (''current_rate'', JInt 0)]"

definition insights_failure :: "string \<Rightarrow> string \<Rightarrow> (string \<times> json) list" where
  "insights_failure err hint =
     [(''buckets'', JArr []), (''logs'', JArr []), (''summary'', empty_summary), (''error'', JStr err), (''hint'', JStr hint)]"

definition insights_GET :: "(string \<Rightarrow> url_parts option) \<Rightarrow> remote \<Rightarrow> host \<Rightarrow> string \<Rightarrow> world \<Rightarrow> reply \<times> world" where
  "insights_GET parse_url R h qs w =
     (case resolveDashboardBackendBase parse_url h of
        BadBase err \<Rightarrow> (json_reply 503 (insights_failure err fix_url_long), w)
      | Base base usedDefault \<Rightarrow>
          answer_or (\<lambda>e. insights_failure (formatFetchError e) (insights_hint h usedDefault))
            (fetch_json R (with_query (base @ ''/api/logs/insights'') qs) w))"

definition stats_hint :: "host \<Rightarrow> string" where
  "stats_hint h =
     (if on_railway h \<and> \<not> isDashboardBackendUrlConfigured h then set_url_hint
      else if on_railway h \<and> isDashboardBackendUrlConfigured h
      then ''Confirm DASHBOARD_BACKEND_URL uses http://<private-domain>:<PORT> (see setup-railway.js) and dashboard-backend is running.''
      else ''Ensure dashboard-backend (FastAPI) is running on port 8000 for local dev.'')"

definition stats_failure :: "string \<Rightarrow> string \<Rightarrow> (string \<times> json) list" where
  "stats_failure err hint =
     [(''error'', JStr err), (''hint'', JStr hint), (''total_ingested'', JInt 0), (''buffered_logs'', JInt 0),
      (''instances'', JObj []),
      (''global'', JObj [(''total_requests'', JInt 0), (''total_errors'', JInt 0), (''error_rate'', JInt 0)])]"

definition stats_GET :: "(string \<Rightarrow> url_parts option) \<Rightarrow> remote \<Rightarrow> host \<Rightarrow> world \<Rightarrow> reply \<times> world" where
  "stats_GET parse_url R h w =
     (case resolveDashboardBackendBase parse_url h of
        BadBase err \<Rightarrow> (json_reply 503 (stats_failure err fix_url_short), w)
      | Base base usedDefault \<Rightarrow>
          answer_or (\<lambda>e. stats_failure (formatFetchError e) (stats_hint h)) (fetch_json R (base @ ''/api/stats'') w))"

definition error_and_hint :: "string \<Rightarrow> string \<Rightarrow> (string \<times> json) list" where
  "error_and_hint err hint = [(''error'', JStr err), (''hint'', JStr hint)]"

definition backend_health_hint :: "host \<Rightarrow> string" where
  "backend_health_hint h =
     (if on_railway h \<and> \<not> isDashboardBackendUrlConfigured h then set_url_hint
      else if on_railway h \<and> isDashboardBackendUrlConfigured h
      then ''Confirm DASHBOARD_BACKEND_URL uses http://<private-domain>:<PORT> and dashboard-backend is healthy.''
      else ''Ensure dashboard-backend (FastAPI) is running. Local: port 8000; Railway: private URL with PORT 8080.'')"

definition backend_health_GET :: "(string \<Rightarrow> url_parts option) \<Rightarrow> remote \<Rightarrow> host \<Rightarrow> world \<Rightarrow> reply \<times> world" where
  "backend_health_GET parse_url R h w =
     (case resolveDashboardBackendBase parse_url h of
        BadBase err \<Rightarrow> (json_reply 503 (error_and_hint err fix_url_short), w)
      | Base base usedDefault \<Rightarrow>
          answer_or (\<lambda>e. error_and_hint (formatFetchError e) (backend_health_hint h)) (fetch_json R (base @ ''/api/health'') w))"

definition introspect_hint :: "host \<Rightarrow> string" where
  "introspect_hint h =
     (if on_railway h \<and> \<not> isDashboardBackendUrlConfigured h
      then ''Set DASHBOARD_BACKEND_URL on the **dashboard** service, then redeploy.''
      else if on_railway h \<and> isDashboardBackendUrlConfigured h
      then ''Confirm the dashboard can reach dashboard-backend on the private network.''
      else ''Ensure dashboard-backend is running. Local: port 8000; Railway: private URL (often :8080).'')"

definition introspect_GET :: "(string \<Rightarrow> url_parts option) \<Rightarrow> remote \<Rightarrow> host \<Rightarrow> string \<Rightarrow> world \<Rightarrow> reply \<times> world" where
  "introspect_GET parse_url R h qs w =
     (case resolveDashboardBackendBase parse_url h of
        BadBase err \<Rightarrow> (json_reply 503 (error_and_hint err fix_url_short), w)
      | Base base usedDefault \<Rightarrow>
          answer_or (\<lambda>e. error_and_hint (formatFetchError e) (introspect_hint h))
            (fetch_json R (with_query (base @ ''/api/introspect/postgres'') qs) w))"

section \<open>Routes that use the address unchecked\<close>

definition request_failed :: "thrown \<Rightarrow> string" where
  "request_failed e = err_message_or ''Request failed'' e"

definition errors_failure :: "thrown \<Rightarrow> (string \<times> json) list" where
  "errors_failure e =
     [(''buckets'', JArr []), (''error_logs'', JArr []), (''summary'', empty_summary), (''error'', JStr (request_failed e))]"

definition errors_GET :: "(string \<Rightarrow> url_parts option) \<Rightarrow> remote \<Rightarrow> host \<Rightarrow> string \<Rightarrow> world \<Rightarrow> reply \<times> world" where
  "errors_GET parse_url R h qs w =
     answer_or errors_failure (fetch_json R (with_query (dashboardBackendBase parse_url h @ ''/api/errors'') qs) w)"

definition only_error :: "thrown \<Rightarrow> (string \<times> json) list" where
  "only_error e = [(''error'', JStr (request_failed e))]"

definition errors_clear_POST :: "(string \<Rightarrow> url_parts option) \<Rightarrow> remote \<Rightarrow> host \<Rightarrow> world \<Rightarrow> reply \<times> world" where
  "errors_clear_POST parse_url R h w =
     answer_or only_error (post_json R (dashboardBackendBase parse_url h @ ''/api/errors/clear'') None w)"

text \<open>\<open>request\<close> is what \<open>await request.json()\<close> gives.\<close>

definition k6_run_POST ::
  "(string \<Rightarrow> url_parts option) \<Rightarrow> remote \<Rightarrow> host \<Rightarrow> thrown + json \<Rightarrow> world \<Rightarrow> reply \<times> world" where
  "k6_run_POST parse_url R h request w =
     (case request of
        Inl e \<Rightarrow> (json_reply 503 (only_error e), w)
      | Inr body \<Rightarrow>
          answer_or only_error (post_json R (dashboardBackendBase parse_url h @ ''/api/k6/run'') (Some body) w))"

definition k6_stop_POST :: "(string \<Rightarrow> url_parts option) \<Rightarrow> remote \<Rightarrow> host \<Rightarrow> world \<Rightarrow> reply \<times> world" where
  "k6_stop_POST parse_url R h w =
     answer_or only_error (post_json R (dashboardBackendBase parse_url h @ ''/api/k6/stop'') None w)"

definition k6_status_GET :: "(string \<Rightarrow> url_parts option) \<Rightarrow> remote \<Rightarrow> host \<Rightarrow> world \<Rightarrow> reply \<times> world" where
  "k6_status_GET parse_url R h w =
     answer_or (\<lambda>e. only_error e @ [(''running'', JBool False)])
       (fetch_json R (dashboardBackendBase parse_url h @ ''/api/k6/status'') w)"

section \<open>Prometheus, Alertmanager, load balancer\<close>

text \<open>\<open>process.env.X ? process.env.X.replace(/\/$/, "") : d\<close>.\<close>

definition env_base :: "host \<Rightarrow> string \<Rightarrow> string \<Rightarrow> string" where
  "env_base h key d =
     (if truthy (process_env h key) then strip_one_trailing (CHR ''/'') (the (process_env h key)) else d)"

definition prometheusBase :: "host \<Rightarrow> string" where
  "prometheusBase h = env_base h ''VISIBILITY_PROMETHEUS_URL'' ''http://127.0.0.1:9090''"

text \<open>\<open>URLSearchParams.toString()\<close>: form encoding of the bytes.\<close>

definition form_char :: "char \<Rightarrow> string" where
  "form_char c =
     (let n = of_char c :: nat; up = (\<lambda>d. if d < 10 then char_of (48 + d) else char_of (55 + d))
      in if (48 \<le> n \<and> n \<le> 57) \<or> (65 \<le> n \<and> n \<le> 90) \<or> (97 \<le> n \<and> n \<le> 122) \<or> c \<in> set ''*-._'' then [c]
         else if c = CHR '' '' then ''+''
         else [CHR ''%'', up (n div 16), up (n mod 16)])"

definition form_encode :: "string \<Rightarrow> string" where
  "form_encode s = concat (map form_char s)"

definition search_params :: "(string \<times> string) list \<Rightarrow> string" where
  "search_params kvs = js_join ''&'' (map (\<lambda>(k, v). form_encode k @ ''='' @ form_encode v) kvs)"

record prometheus_query =
  pq_type :: "string option"
  pq_query :: "string option"
  pq_start :: "string option"
  pq_end :: "string option"
  pq_step :: "string option"

definition prometheus_params :: "prometheus_query \<Rightarrow> string \<times> (string \<times> string) list" where
  "prometheus_params q =
     (let type = str_or (coalesce (pq_type q) []) ''query_range''; query = coalesce (pq_query q) [];
          start = coalesce (pq_start q) []; stop = coalesce (pq_end q) [];
          step = str_or (coalesce (pq_step q) []) ''15s''
      in if type = ''query_range''
         then (''query_range'',
               (''query'', query) # (if start = [] then [] else [(''start'', start)])
                 @ (if stop = [] then [] else [(''end'', stop)]) @ [(''step'', step)])
         else (''query'', [(''query'', query)]))"

definition prometheus_failure :: "thrown \<Rightarrow> (string \<times> json) list" where
  "prometheus_failure e =
     [(''status'', JStr ''error''), (''error'', JStr (request_failed e)),
      (''data'', JObj [(''resultType'', JStr ''matrix''), (''result'', JArr [])])]"

definition prometheus_GET :: "remote \<Rightarrow> host \<Rightarrow> prometheus_query \<Rightarrow> world \<Rightarrow> reply \<times> world" where
  "prometheus_GET R h q w =
     (if coalesce (pq_query q) [] = [] then (error_reply 400 ''query parameter required'', w)
      else (let (endpoint, params) = prometheus_params q
            in answer_or prometheus_failure
                 (fetch_json R (prometheusBase h @ ''/api/v1/'' @ endpoint @ ''?'' @ search_params params) w)))"

definition alertmanagerBaseUrl :: "host \<Rightarrow> string" where
  "alertmanagerBaseUrl h = env_base h ''VISIBILITY_ALERTMANAGER_URL'' ''http://127.0.0.1:9093''"

definition alertsDisabled :: "host \<Rightarrow> bool" where
  "alertsDisabled h \<longleftrightarrow> process_env h ''VISIBILITY_ALERTMANAGER_DISABLED'' \<in> {Some ''1'', Some ''true''}"

text \<open>\<open>a ?? b\<close> and \<open>a?.k\<close> on values of a JSON document; \<open>null\<close> counts as nothing.\<close>

definition present :: "json option \<Rightarrow> json option" where
  "present v = (if v = Some JNull then None else v)"

definition member2 :: "string \<Rightarrow> string \<Rightarrow> json \<Rightarrow> json option" where
  "member2 k1 k2 a = Option.bind (member k1 a) (member k2)"

definition alert_view :: "json \<Rightarrow> json" where
  "alert_view a = JObj
     (opt_member ''fingerprint'' (member ''fingerprint'' a)
      @ opt_member ''state'' (member2 ''status'' ''state'' a)
      @ [(''name'', coalesce (present (member2 ''labels'' ''alertname'' a)) (JStr ''(unknown)''))]
      @ opt_member ''severity'' (member2 ''labels'' ''severity'' a)
      @ opt_member ''instance'' (member2 ''labels'' ''instance'' a)
      @ opt_member ''job'' (member2 ''labels'' ''job'' a)
      @ opt_member ''startsAt'' (member ''startsAt'' a)
      @ opt_member ''summary'' (member2 ''annotations'' ''summary'' a)
      @ opt_member ''description'' (member2 ''annotations'' ''description'' a)
      @ [(''labels'', coalesce (present (member ''labels'' a)) (JObj []))])"

definition alerts_unreachable :: "thrown \<Rightarrow> reply" where
  "alerts_unreachable e = json_reply 200
     [(''error'', JStr (case e of
          ErrorObject n m c \<Rightarrow>
            if n = ''AbortError'' then ''Alertmanager request timed out (is it running on :9093?)'' else m
        | OtherValue s \<Rightarrow> ''Unknown error'')),
      (''alerts'', JArr []), (''source'', JStr ''unreachable'')]"

definition alerts_off_reply :: reply where
  "alerts_off_reply = json_reply 200 [(''alerts'', JArr []), (''source'', JStr ''disabled''),
     (''message'', JStr ''Alertmanager is not deployed on Railway; enable Compose-style alerting or set VISIBILITY_ALERTMANAGER_URL.'')]"

text \<open>Reading a member of a \<open>null\<close> alert throws.\<close>

definition null_alert_error :: thrown where
  "null_alert_error = ErrorObject ''TypeError'' ''Cannot read properties of null (reading 'fingerprint')'' NoCause"

definition alerts_reply :: "string \<Rightarrow> http_response \<Rightarrow> reply" where
  "alerts_reply url res =
     (if \<not> status_ok (hr_status res)
      then (case hr_text res of
              Inl e \<Rightarrow> alerts_unreachable e
            | Inr text \<Rightarrow> json_reply 502
                [(''error'', JStr (''Alertmanager returned '' @ show_int (hr_status res))),
                 (''detail'', JStr (take 500 text)), (''alerts'', JArr [])])
      else (case hr_json res of
              Inl e \<Rightarrow> alerts_unreachable e
            | Inr d \<Rightarrow>
                (let items = (case d of JArr xs \<Rightarrow> xs | _ \<Rightarrow> [])
                 in if JNull \<in> set items then alerts_unreachable null_alert_error
                    else json_reply 200 [(''alerts'', JArr (map alert_view items)), (''source'', JStr url)])))"

definition alerts_GET :: "remote \<Rightarrow> host \<Rightarrow> world \<Rightarrow> reply \<times> world" where
  "alerts_GET R h w =
     (if alertsDisabled h then (alerts_off_reply, w)
      else (let url = alertmanagerBaseUrl h @ ''/api/v2/alerts''; (r, w1) = send_http R url w
            in ((case r of Inl e \<Rightarrow> alerts_unreachable e | Inr res \<Rightarrow> alerts_reply url res), w1)))"

definition lbBase :: "host \<Rightarrow> string" where
  "lbBase h = env_base h ''LOAD_BALANCER_URL'' ''http://load-balancer:80''"

definition instance_stats_GET :: "remote \<Rightarrow> host \<Rightarrow> world \<Rightarrow> reply \<times> world" where
  "instance_stats_GET R h w = answer_or only_error (fetch_json R (lbBase h @ ''/api/instance-stats'') w)"

section \<open>Small routes and helpers\<close>

definition health_GET :: reply where
  "health_GET = json_reply 200 [(''status'', JStr ''ok''), (''service'', JStr ''dashboard'')]"

definition token_info_json :: "token_info \<Rightarrow> json" where
  "token_info_json t = JObj
     ([(''present'', JBool (ti_present t)), (''valueLength'', JInt (int (ti_valueLength t)))]
      @ opt_member ''rawKeyMatched'' (map_option JStr (ti_rawKeyMatched t)))"

definition snapshot_json :: "env_snapshot \<Rightarrow> (string \<times> json) list" where
  "snapshot_json s =
     [(''platform'', JStr (sn_platform s)), (''linuxProcParsed'', JBool (sn_linuxProcParsed s)),
      (''rawProcKeyCount'', JInt (int (sn_rawProcKeyCount s))), (''relevantKeys'', JArr (map JStr (sn_relevantKeys s))),
      (''tokens'', JObj (map (\<lambda>(k, t). (k, token_info_json t)) (sn_tokens s))),
      (''hasCredential'', JBool (sn_hasCredential s)),
      (''dashboardBackendUrl'', JObj [(''configured'', JBool (sn_backendConfigured s)),
                                      (''valueLength'', JInt (int (sn_backendLength s)))])]"

definition debug_env_GET :: "host \<Rightarrow> reply" where
  "debug_env_GET h =
     (if \<not> debugEnvEnabled h then error_reply 404 ''Not found''
      else json_reply 200 (snapshot_json (getRailwayEnvDebugSnapshot h)))"

text \<open>\<open>register\<close>: the DNS order that is set, if any; \<open>has_setter\<close> is the test of \<open>node:dns\<close>.\<close>

definition register :: "host \<Rightarrow> bool \<Rightarrow> string option" where
  "register h has_setter =
     (if process_env h ''NEXT_RUNTIME'' = Some ''nodejs'' \<and> has_setter then Some ''ipv4first'' else None)"

definition instanceIdFromComposeService :: "string \<Rightarrow> string option" where
  "instanceIdFromComposeService service =
     (if service = ''url-shortener-a'' then Some ''1''
      else if service = ''url-shortener-b'' then Some ''2'' else None)"

definition labelForInstanceId :: "string \<Rightarrow> string" where
  "labelForInstanceId i =
     (if i = ''1'' then ''Replica A (url-shortener-a)''
      else if i = ''2'' then ''Replica B (url-shortener-b)'' else ''Instance '' @ i)"

section \<open>What the failure bodies promise\<close>

text \<open>
  The shape of a route that checks the address of the backend: \<open>body\<close> makes the members of a failure
  from an error and a hint, \<open>refusal\<close> is the hint for a bad address, \<open>hint\<close> the one for a failed request.
\<close>

definition checked_route ::
  "(string \<Rightarrow> string \<Rightarrow> (string \<times> json) list) \<Rightarrow> string \<Rightarrow> (host \<Rightarrow> bool \<Rightarrow> string) \<Rightarrow> string \<Rightarrow>
     (string \<Rightarrow> url_parts option) \<Rightarrow> remote \<Rightarrow> host \<Rightarrow> world \<Rightarrow> reply \<times> world" where
  "checked_route body refusal hint path pu R h w =
     (case resolveDashboardBackendBase pu h of
        BadBase err \<Rightarrow> (json_reply 503 (body err refusal), w)
      | Base b d \<Rightarrow> answer_or (\<lambda>e. body (formatFetchError e) (hint h d)) (fetch_json R (b @ path) w))"

lemma answer_or_sel [simp]:
  "snd (answer_or f rw) = snd rw"
  "fst rw = Inr a \<Longrightarrow> fst (answer_or f rw) = pass_on a"
  "fst rw = Inl e \<Longrightarrow> fst (answer_or f rw) = json_reply 503 (f e)"
  by (simp_all add: answer_or_def)

lemma rp_body_json_reply [simp]: "rp_body (json_reply st ms) = JObj ms" "rp_status (json_reply st ms) = st"
  by (simp_all add: json_reply_def)

text \<open>A failure body is only asked to carry its error and its hint, whatever else it holds and in any order.\<close>

locale failure_body =
  fixes body :: "string \<Rightarrow> string \<Rightarrow> (string \<times> json) list"
  assumes carries_error: "member ''error'' (JObj (body err hint)) = Some (JStr err)"
    and carries_hint: "member ''hint'' (JObj (body err hint)) = Some (JStr hint)"
begin

lemma one_request:
  "w_trace (snd (checked_route body refusal hint path pu R h w)) =
     w_trace w @ (case resolveDashboardBackendBase pu h of BadBase err \<Rightarrow> [] | Base b d \<Rightarrow> [Call_http (b @ path)])"
  by (simp add: checked_route_def fetch_json_def case_prod_beta split: backend_base.split)

lemma replies:
  "(case resolveDashboardBackendBase pu h of
      BadBase err \<Rightarrow> rp_status (fst (checked_route body refusal hint path pu R h w)) = 503 \<and>
        member ''error'' (rp_body (fst (checked_route body refusal hint path pu R h w))) = Some (JStr err)
    | Base b d \<Rightarrow>
        (case json_answer (o_http R (w_trace w) (b @ path)) of
           Inr a \<Rightarrow> fst (checked_route body refusal hint path pu R h w) = \<lparr>rp_status = fst a, rp_body = snd a\<rparr>
         | Inl e \<Rightarrow> rp_status (fst (checked_route body refusal hint path pu R h w)) = 503 \<and>
             member ''error'' (rp_body (fst (checked_route body refusal hint path pu R h w))) = Some (JStr (formatFetchError e)) \<and>
             member ''hint'' (rp_body (fst (checked_route body refusal hint path pu R h w))) \<noteq> None))"
proof -
  have "fst (fetch_json R u w) = json_answer (o_http R (w_trace w) u)" for u
    by (simp add: fetch_json_def send_http_def case_prod_beta)
  then show ?thesis
    by (simp add: checked_route_def pass_on_def carries_error carries_hint del: member.simps split: backend_base.split sum.split)
qed

end

interpretation logs_body: failure_body logs_failure
  by unfold_locales (simp_all add: logs_failure_def)

interpretation insights_body: failure_body insights_failure
  by unfold_locales (simp_all add: insights_failure_def)

interpretation stats_body: failure_body stats_failure
  by unfold_locales (simp_all add: stats_failure_def)

interpretation plain_body: failure_body error_and_hint
  by unfold_locales (simp_all add: error_and_hint_def)

text \<open>The five routes have this shape.\<close>

lemma with_query_path: "with_query (b @ p) qs = b @ with_query p qs"
  by (simp add: with_query_def)

lemma checked_routes:
  "logs_GET pu R h qs w = checked_route logs_failure fix_url_long logs_hint (with_query ''/api/logs'' qs) pu R h w"
  "insights_GET pu R h qs w =
     checked_route insights_failure fix_url_long insights_hint (with_query ''/api/logs/insights'' qs) pu R h w"
  "introspect_GET pu R h qs w =
     checked_route error_and_hint fix_url_short (\<lambda>h d. introspect_hint h) (with_query ''/api/introspect/postgres'' qs) pu R h w"
  "stats_GET pu R h w = checked_route stats_failure fix_url_short (\<lambda>h d. stats_hint h) ''/api/stats'' pu R h w"
  "backend_health_GET pu R h w =
     checked_route error_and_hint fix_url_short (\<lambda>h d. backend_health_hint h) ''/api/health'' pu R h w"
  by (simp_all add: checked_route_def logs_GET_def insights_GET_def introspect_GET_def stats_GET_def backend_health_GET_def
      with_query_path split: backend_base.split)

section \<open>Properties\<close>

datatype proxied = Logs string | Insights string | Introspect string | Stats | Backend_health

fun serve_proxied ::
  "(string \<Rightarrow> url_parts option) \<Rightarrow> remote \<Rightarrow> host \<Rightarrow> proxied \<Rightarrow> world \<Rightarrow> reply \<times> world" where
  "serve_proxied pu R h (Logs qs) w = logs_GET pu R h qs w"
| "serve_proxied pu R h (Insights qs) w = insights_GET pu R h qs w"
| "serve_proxied pu R h (Introspect qs) w = introspect_GET pu R h qs w"
| "serve_proxied pu R h Stats w = stats_GET pu R h w"
| "serve_proxied pu R h Backend_health w = backend_health_GET pu R h w"

fun proxied_path :: "proxied \<Rightarrow> string" where
  "proxied_path (Logs qs) = with_query ''/api/logs'' qs"
| "proxied_path (Insights qs) = with_query ''/api/logs/insights'' qs"
| "proxied_path (Introspect qs) = with_query ''/api/introspect/postgres'' qs"
| "proxied_path Stats = ''/api/stats''"
| "proxied_path Backend_health = ''/api/health''"

fun proxied_body :: "proxied \<Rightarrow> string \<Rightarrow> string \<Rightarrow> (string \<times> json) list" where
  "proxied_body (Logs qs) = logs_failure"
| "proxied_body (Insights qs) = insights_failure"
| "proxied_body (Introspect qs) = error_and_hint"
| "proxied_body Stats = stats_failure"
| "proxied_body Backend_health = error_and_hint"

interpretation proxied_body: failure_body "proxied_body p" for p
  by (cases p) (simp_all add: logs_body.failure_body_axioms insights_body.failure_body_axioms
      stats_body.failure_body_axioms plain_body.failure_body_axioms)

lemma serve_checked:
  "\<exists>refusal hint. serve_proxied pu R h p w = checked_route (proxied_body p) refusal hint (proxied_path p) pu R h w"
  by (cases p) (auto simp: checked_routes)

text \<open>The loop over a chain of causes.\<close>

lemma cause_parts_chain:
  "cause_parts fuel (foldr CauseError ms c) = take fuel ms @ cause_parts (fuel - length ms) c"
proof (induction ms arbitrary: fuel)
  case (Cons m ms)
  then show ?case by (cases fuel) simp_all
qed simp

text \<open>C39: The five routes that check the backend's address send exactly one request, to that address
  with the path and query of the route, and pass a JSON answer on unchanged with its status
  (errors of the backend included); a failed request becomes status 503 with the formatted error
  and a hint; with a bad address nothing is sent and the reply names the fault.\<close>

theorem backend_routes_pass_through:
  "let (r, w') = serve_proxied pu R h p w
   in case resolveDashboardBackendBase pu h of
        BadBase err \<Rightarrow> w_trace w' = w_trace w \<and> rp_status r = 503 \<and>
          member ''error'' (rp_body r) = Some (JStr err)
      | Base b d \<Rightarrow>
          w_trace w' = w_trace w @ [Call_http (b @ proxied_path p)] \<and>
          (case json_answer (o_http R (w_trace w) (b @ proxied_path p)) of
             Inr a \<Rightarrow> r = \<lparr>rp_status = fst a, rp_body = snd a\<rparr>
           | Inl e \<Rightarrow> rp_status r = 503 \<and> member ''error'' (rp_body r) = Some (JStr (formatFetchError e)) \<and>
               member ''hint'' (rp_body r) \<noteq> None)"
proof -
  obtain refusal hint where "serve_proxied pu R h p w = checked_route (proxied_body p) refusal hint (proxied_path p) pu R h w"
    using serve_checked by blast
  then show ?thesis
    using proxied_body.one_request [where p = p and refusal = refusal and hint = hint and path = "proxied_path p"
        and pu = pu and R = R and h = h and w = w]
      proxied_body.replies [where p = p and refusal = refusal and hint = hint and path = "proxied_path p"
        and pu = pu and R = R and h = h and w = w]
    by (simp add: case_prod_beta Let_def split: backend_base.splits)
qed

text \<open>The description of a failed \<open>fetch\<close> follows a chain of errors to its sixth cause and no
  further, however long the chain is, and what stands at its end shows only when there is room.\<close>

theorem fetch_error_depth:
  "formatFetchError (ErrorObject name msg (foldr CauseError ms c)) =
     js_join '' | '' (filter (\<lambda>s. s \<noteq> [])
       ((if name = ''AbortError'' then ''request timed out'' else msg)
          # take 6 ms @ (if length ms < 6 then cause_parts (6 - length ms) c else [])))"
  by (simp add: cause_parts_chain)

text \<open>An address that does not parse is treated in two ways: the routes that check it refuse and send
  nothing, the others (errors, load tests) silently go to the local default, and clearing the errors
  is then sent there.\<close>

theorem bad_address_diverges:
  assumes "resolveDashboardBackendBase pu h = BadBase err"
  shows "w_trace (snd (serve_proxied pu R h p w)) = w_trace w \<and>
    w_trace (snd (errors_GET pu R h [] w)) = w_trace w @ [Call_http (local_backend @ ''/api/errors'')] \<and>
    w_trace (snd (errors_clear_POST pu R h w)) = w_trace w @ [Call_post (local_backend @ ''/api/errors/clear'') None]"
  using assms serve_checked [of pu R h p w] proxied_body.one_request
  by (auto simp: errors_GET_def errors_clear_POST_def dashboardBackendBase_def fetch_json_def post_json_def
      with_query_def case_prod_beta)

definition typo_host :: host where
  "typo_host = plain_host\<lparr>h_process_env := Some [(''DASHBOARD_BACKEND_URL'', ''backend:8000'')]\<rparr>"

theorem bad_address_diverges_witness:
  "w_trace (snd (errors_clear_POST (\<lambda>u. None) (demo_remote ''SUCCESS'' 200 1) typo_host init_world)) =
     [Call_post ''http://127.0.0.1:8000/api/errors/clear'' None]"
proof -
  have "resolveDashboardBackendBase (\<lambda>u. None) typo_host = BadBase (bad_url_error ''backend:8000'')" by code_simp
  from bad_address_diverges [OF this, of "demo_remote ''SUCCESS'' 200 1" Stats init_world] show ?thesis
    by (simp add: local_backend_def init_world_def)
qed

text \<open>The debug route reveals no secret: two processes whose environments differ only in the values
  of token variables, with the same normalised lengths, give the same answer.\<close>

theorem debug_route_reveals_no_token:
  assumes "alike_envs (fromProc h) (fromProc h')"
    and "alike_envs (h_process_env h) (h_process_env h')"
    and "h_platform h = h_platform h'"
  shows "debug_env_GET h = debug_env_GET h'"
proof -
  have "js_trim ''DASHBOARD_DEBUG_ENV'' \<notin> set ALL_TOKEN_KEYS" by code_simp
  from alike_runtimeEnv [OF assms(1,2) this] alike_snapshot [OF assms] show ?thesis
    by (simp add: debug_env_GET_def debugEnvEnabled_def)
qed

theorem debug_route_reveals_no_token_witness:
  "fromProc (token_host ''abc'') \<noteq> fromProc (token_host ''xyz'') \<and>
   debug_env_GET (token_host ''abc'') = debug_env_GET (token_host ''xyz'')"
  using debug_route_reveals_no_token [OF alike_token_hosts] by (simp add: token_host_proc)

end
