(* ===== verification/ChaosPanel.thy ===== *)
theory ChaosPanel
  imports ProxyRoutes
begin

text \<open>
  The chaos panel of the dashboard page (\<open>chaos-panel.tsx\<close>): its React state and the functions that
  change it, the watchdog feed (polling until the event stream delivers), the toasts, which
  buttons are enabled and the request a button sends; and the small cells it shows
  (\<open>heartbeat-cell.tsx\<close>, \<open>railway-online-status-badge.tsx\<close>, \<open>watchdog-toast-stack.tsx\<close>). Markup is
  reduced to what it says: a badge is its variant and its text.
\<close>

section \<open>Cells\<close>

datatype variant = V_default | V_secondary | V_outline | V_destructive

type_synonym badge = "variant \<times> string"

definition stateBadge :: "string \<Rightarrow> string option \<Rightarrow> badge" where
  "stateBadge state health =
     (let s = js_lower state
      in if s = ''running''
         then (if health = Some ''unhealthy'' then (V_destructive, ''unhealthy'')
               else if health = Some ''healthy'' \<or> health = Some ''starting'' then (V_secondary, the health)
               else (V_default, ''running''))
         else if s = ''exited'' \<or> s = ''dead'' then (V_destructive, state)
         else (V_outline, state))"

fun RailwayOnlineStatusBadge :: "RailwayOnlineStatus \<Rightarrow> badge" where
  "RailwayOnlineStatusBadge Online = (V_default, ''Online'')"
| "RailwayOnlineStatusBadge Completed = (V_secondary, ''Completed'')"
| "RailwayOnlineStatusBadge Deploying = (V_outline, ''Deploying'')"
| "RailwayOnlineStatusBadge Failed = (V_destructive, ''Failed'')"
| "RailwayOnlineStatusBadge Exited = (V_destructive, ''Exited'')"
| "RailwayOnlineStatusBadge Skipped = (V_outline, ''Skipped'')"
| "RailwayOnlineStatusBadge Unknown = (V_outline, ''Unknown'')"

datatype heartbeat_cell = Cell_none | Cell_not_applicable | Cell_ok string | Cell_fail string string

definition HeartbeatCell :: "HeartbeatPingResult option \<Rightarrow> heartbeat_cell" where
  "HeartbeatCell hb =
     (case hb of
        None \<Rightarrow> Cell_none
      | Some r \<Rightarrow>
          if hp_skipped r \<or> hp_ok r = None then Cell_not_applicable
          else if hp_ok r = Some True
          then Cell_ok (''OK'' @ (case hp_latencyMs r of Some ms \<Rightarrow> '' '' @ show_int ms @ ''ms'' | None \<Rightarrow> []))
          else Cell_fail (''Fail'' @ (case hp_statusCode r of Some c \<Rightarrow> '' '' @ show_int c | None \<Rightarrow> []))
                 (coalesce (hp_error r) (coalesce (hp_probeUrl r) ''heartbeat failed'')))"

section \<open>What the panel has loaded\<close>

record panel_container =
  pc_id :: string
  pc_name :: string
  pc_state :: string
  pc_status :: string
  pc_service :: string
  pc_health :: "string option"
  pc_railwayServiceId :: "string option"
  pc_railwayOnlineStatus :: "RailwayOnlineStatus option"
  pc_heartbeat :: "HeartbeatPingResult option"

record panel_docker =
  pd_source :: "string option"
  pd_project :: string
  pd_containers :: "panel_container list"
  pd_error :: "string option"

record panel_config =
  pf_killEnabled :: bool
  pf_supportsDockerKill :: bool
  pf_blockedServices :: "string list option"
  pf_allowedServices :: "string list option"
  pf_hint :: "string option"

fun as_bool :: "json option \<Rightarrow> bool" where
  "as_bool (Some (JBool b)) = b"
| "as_bool _ = False"

definition as_strings :: "json option \<Rightarrow> string list option" where
  "as_strings v = map_option (List.map_filter (\<lambda>x. as_string (Some x))) (as_array v)"

text \<open>\<open>c as ChaosConfig\<close>: reading the answer of \<open>chaos/config\<close>.\<close>

definition read_config :: "json \<Rightarrow> panel_config" where
  "read_config j = \<lparr>pf_killEnabled = as_bool (member ''killEnabled'' j),
     pf_supportsDockerKill = as_bool (member ''supportsDockerKill'' j),
     pf_blockedServices = as_strings (member ''blockedServices'' j),
     pf_allowedServices = as_strings (member ''allowedServices'' j),
     pf_hint = as_string (member ''hint'' j)\<rparr>"

definition FALLBACK_ALLOWED_SERVICES :: "string list" where
  "FALLBACK_ALLOWED_SERVICES =
     [''db'', ''postgres'', ''redis'', ''zookeeper'', ''kafka'', ''kafka-log-consumer'', ''url-shortener-a'',
      ''url-shortener-b'', ''load-balancer'', ''prometheus'', ''alertmanager'', ''db-backup'', ''dashboard-db'',
      ''dashboard-backend'', ''user-frontend'']"

section \<open>Buttons\<close>

definition from_railway :: "panel_docker option \<Rightarrow> bool" where
  "from_railway d \<longleftrightarrow> Option.bind d pd_source = Some ''railway''"

definition visibilityOk :: "panel_docker option \<Rightarrow> bool" where
  "visibilityOk d \<longleftrightarrow>
     Option.bind d pd_source \<in> {Some ''docker'', Some ''railway''} \<and> \<not> truthy (Option.bind d pd_error)"

definition showKill :: "panel_config option \<Rightarrow> panel_docker option \<Rightarrow> bool" where
  "showKill cfg d \<longleftrightarrow>
     (case cfg of None \<Rightarrow> False | Some f \<Rightarrow> pf_supportsDockerKill f \<and> pf_killEnabled f) \<and> visibilityOk d"

definition allowedRaw :: "panel_config option \<Rightarrow> string list" where
  "allowedRaw cfg =
     (case Option.bind cfg pf_allowedServices of
        Some (s # ss) \<Rightarrow> s # ss
      | _ \<Rightarrow> FALLBACK_ALLOWED_SERVICES)"

definition canKill :: "panel_config option \<Rightarrow> panel_docker option \<Rightarrow> panel_container \<Rightarrow> bool" where
  "canKill cfg d c \<longleftrightarrow>
     (let svcLower = js_lower (js_trim (pc_service c))
      in showKill cfg d \<and> svcLower \<noteq> [] \<and> svcLower \<in> set (map js_lower (allowedRaw cfg)) \<and>
         \<not> list_ex (\<lambda>b. js_lower b = svcLower) (coalesce (Option.bind cfg pf_blockedServices) []) \<and>
         (\<not> from_railway d \<or> truthy (pc_railwayServiceId c)))"

datatype chaos_action = Kill | Restart

definition button_title :: "chaos_action \<Rightarrow> panel_config option \<Rightarrow> panel_docker option \<Rightarrow> panel_container \<Rightarrow> string option" where
  "button_title a cfg d c =
     (if \<not> (case cfg of None \<Rightarrow> False | Some f \<Rightarrow> pf_supportsDockerKill f) then Some ''Need Railway token or local Docker''
      else if \<not> (case cfg of None \<Rightarrow> False | Some f \<Rightarrow> pf_killEnabled f) then Some ''Set CHAOS_KILL_ENABLED=1''
      else if from_railway d \<and> \<not> truthy (pc_railwayServiceId c)
      then Some (''Missing Railway service id '' @ u_emdash @ '' refresh'')
      else if \<not> canKill cfg d c
      then Some (case a of Kill \<Rightarrow> ''Not in CHAOS_ALLOWED_SERVICES / blocked service''
                         | Restart \<Rightarrow> ''Not in allow list / blocked service'')
      else (case (a, from_railway d) of
              (Kill, True) \<Rightarrow> Some ''deploymentStop (Railway)''
            | (Kill, False) \<Rightarrow> None
            | (Restart, True) \<Rightarrow> Some ''deploymentRestart (Railway)''
            | (Restart, False) \<Rightarrow> Some ''Graceful stop then start (docker restart)''))"

text \<open>\<open>localeCompare\<close> is a parameter; \<open>sort\<close> is stable.\<close>

fun insert_by :: "('a \<Rightarrow> 'a \<Rightarrow> bool) \<Rightarrow> 'a \<Rightarrow> 'a list \<Rightarrow> 'a list" where
  "insert_by le x [] = [x]"
| "insert_by le x (y # ys) = (if le x y then x # y # ys else y # insert_by le x ys)"

definition sorted_containers :: "(string \<Rightarrow> string \<Rightarrow> bool) \<Rightarrow> panel_docker option \<Rightarrow> panel_container list" where
  "sorted_containers le d =
     foldr (insert_by (\<lambda>a b. le (str_or (pc_service a) (pc_name a)) (str_or (pc_service b) (pc_name b))))
       (case d of None \<Rightarrow> [] | Some r \<Rightarrow> pd_containers r) []"

section \<open>The request of a button\<close>

definition submit_url :: "chaos_action \<Rightarrow> string" where
  "submit_url a =
     (case a of Kill \<Rightarrow> ''/api/visibility/docker/chaos/kill'' | Restart \<Rightarrow> ''/api/visibility/docker/chaos/restart'')"

definition submit_body :: "panel_docker option \<Rightarrow> panel_container \<Rightarrow> chaos_body" where
  "submit_body d c =
     (let svc = js_lower (js_trim (pc_service c));
          sid = map_option js_trim (pc_railwayServiceId c)
      in if from_railway d \<and> truthy sid
         then \<lparr>cb_containerId = None, cb_railwayServiceId = sid, cb_confirmService = Some svc\<rparr>
         else \<lparr>cb_containerId = Some (pc_id c), cb_railwayServiceId = None, cb_confirmService = Some svc\<rparr>)"

definition default_ok_message :: "chaos_action \<Rightarrow> bool \<Rightarrow> string" where
  "default_ok_message a railway =
     (case (a, railway) of
        (Kill, True) \<Rightarrow> ''Kill requested (Railway).''
      | (Kill, False) \<Rightarrow> ''Kill sent.''
      | (Restart, True) \<Rightarrow> ''Reboot requested (Railway).''
      | (Restart, False) \<Rightarrow> ''Reboot sent.'')"

section \<open>The watchdog card\<close>

text \<open>
  How far the current interval has run: \<open>now\<close> and \<open>date\<close> are \<open>Date.now()\<close> and
  \<open>new Date(s).getTime()\<close>; \<^const>\<open>None\<close> is \<open>NaN\<close>.
\<close>

definition watchdog_progress :: "int \<Rightarrow> (string \<Rightarrow> int option) \<Rightarrow> WatchdogPayload \<Rightarrow> rat option" where
  "watchdog_progress now date p =
     (let ms = max 1000 (pl_intervalSec p * 1000);
          phase = Some (of_int (now mod ms) / of_int ms)
      in if pl_source p = Src_railway then phase
         else if truthy (pl_lastTickAt p)
         then map_option (\<lambda>base. min 1 (max 0 (of_int (now - base) / of_int ms))) (date (the (pl_lastTickAt p)))
         else phase)"

text \<open>One line of \<open>apiActivity\<close>.\<close>

definition activity_text :: "WatchdogApiActivityEntry \<Rightarrow> string" where
  "activity_text a = js_join ('' '' @ u_middot @ '' '') (filter (\<lambda>s. s \<noteq> [])
     [ac_at a, case ac_kind a of Act_graphql \<Rightarrow> ''graphql'' | Act_http \<Rightarrow> ''http'', ac_target a, coalesce (ac_method a) [],
      (case ac_durationMs a of Some ms \<Rightarrow> show_int ms @ ''ms'' | None \<Rightarrow> []),
      (case ac_status a of Some (StatusCode n) \<Rightarrow> show_int n | Some (StatusText s) \<Rightarrow> s | None \<Rightarrow> []),
      coalesce (ac_detail a) []])"

text \<open>The line of the card: \<open>Scanning n services, every s seconds, heartbeats ok/probes\<close>.\<close>

definition scan_text :: "WatchdogPayload \<Rightarrow> string" where
  "scan_text p =
     ''Scanning '' @ show_int (pl_instancesMonitored p) @ '' ''
       @ (if pl_source p = Src_railway then ''Railway services'' else ''containers'') @ '' '' @ u_middot @ '' every ''
       @ show_int (pl_intervalSec p) @ ''s''
       @ (case pl_heartbeat p of
            Some s \<Rightarrow>
              if pl_source p = Src_railway \<and> hs_enabled s
              then '' '' @ u_middot @ '' HTTP heartbeats: '' @ show_int (hs_ok s) @ ''/'' @ show_int (hs_probes s) @ '' ok''
                   @ (if 0 < hs_skipped s then '' ('' @ show_int (hs_skipped s) @ '' n/a)'' else [])
              else []
          | None \<Rightarrow> [])"

text \<open>Which message the card shows, and whether it shows the progress of the interval.\<close>

definition watchdog_notice :: "WatchdogPayload option \<Rightarrow> string option" where
  "watchdog_notice wd =
     (case wd of
        None \<Rightarrow> None
      | Some p \<Rightarrow>
          if pl_source p = Src_unconfigured
          then Some (coalesce (pl_error p) ''Configure Railway API token for hosted watchdog, or run Compose for Docker watchdog.'')
          else nonempty_opt (pl_error p))"

definition shows_progress :: "WatchdogPayload option \<Rightarrow> bool" where
  "shows_progress wd \<longleftrightarrow>
     (case wd of None \<Rightarrow> False | Some p \<Rightarrow> \<not> truthy (pl_error p) \<and> pl_source p \<noteq> Src_unconfigured)"

section \<open>The toast stack\<close>

record toast =
  to_id :: string
  to_message :: string
  to_at :: string

definition AUTO_DISMISS_MS :: int where "AUTO_DISMISS_MS = 9000"

text \<open>Rotation of the \<open>i\<close>-th of \<open>n\<close> toasts when the stack is fanned out.\<close>

definition fanDeg :: "nat \<Rightarrow> nat \<Rightarrow> rat" where
  "fanDeg n i = (if n \<le> 1 then 0 else (of_nat i - (of_nat n - 1) / 2) * (225 / 100))"

definition stack_label :: "nat \<Rightarrow> string" where
  "stack_label n =
     (if 1 < n then show_int (int n) @ '' watchdog notifications stacked '' @ u_emdash @ '' hover or focus to expand''
      else ''Watchdog notification'')"

section \<open>The state of the panel\<close>

text \<open>
  The React state and refs. \<open>pn_polling\<close> says that the poll timer runs, \<open>pn_stream\<close> that the event
  source is open.
\<close>

record panel =
  pn_docker :: "panel_docker option"
  pn_config :: "panel_config option"
  pn_loading :: bool
  pn_pending :: "(panel_container \<times> chaos_action) option"
  pn_busy :: bool
  pn_error :: "string option"
  pn_watchService :: "string option"
  pn_watchStatus :: "json option"
  pn_watchError :: "string option"
  pn_watchdog :: "WatchdogPayload option"
  pn_toasts :: "toast list"
  pn_seen :: "string list"
  pn_hydrated :: bool
  pn_polling :: bool
  pn_stream :: bool

definition init_panel :: panel where
  "init_panel = \<lparr>pn_docker = None, pn_config = None, pn_loading = True, pn_pending = None, pn_busy = False,
     pn_error = None, pn_watchService = None, pn_watchStatus = None, pn_watchError = None, pn_watchdog = None,
     pn_toasts = [], pn_seen = [], pn_hydrated = False, pn_polling = False, pn_stream = False\<rparr>"

text \<open>\<open>seenWatchdogEventIds.current.add(id)\<close>.\<close>

definition add_seen :: "string \<Rightarrow> panel \<Rightarrow> panel" where
  "add_seen i p = p\<lparr>pn_seen := (if i \<in> set (pn_seen p) then pn_seen p else pn_seen p @ [i])\<rparr>"

definition toast_of :: "WatchdogEvent \<Rightarrow> toast" where
  "toast_of ev = \<lparr>to_id = ev_id ev, to_message = ev_message ev, to_at = ev_at ev\<rparr>"

definition announce :: "WatchdogEvent \<Rightarrow> panel \<Rightarrow> panel" where
  "announce ev p =
     (if ev_id ev \<in> set (pn_seen p) then p
      else (let p1 = add_seen (ev_id ev) p in p1\<lparr>pn_toasts := take 6 (toast_of ev # pn_toasts p1)\<rparr>))"

definition applyWatchdogPayload :: "WatchdogPayload \<Rightarrow> panel \<Rightarrow> panel" where
  "applyWatchdogPayload j p0 =
     (let p = p0\<lparr>pn_watchdog := Some j\<rparr>
      in if \<not> pn_hydrated p \<and> (pl_source j = Src_docker \<or> pl_source j = Src_railway)
         then fold (\<lambda>ev. add_seen (ev_id ev)) (pl_events j) (p\<lparr>pn_hydrated := True\<rparr>)
         else fold announce (pl_events j) p)"

definition watchdog_load_failed :: WatchdogPayload where
  "watchdog_load_failed = failure_payload Src_error ''Failed to load watchdog status''"

definition fetchWatchdog :: "WatchdogPayload option \<Rightarrow> panel \<Rightarrow> panel" where
  "fetchWatchdog answer p =
     (case answer of
        Some j \<Rightarrow> applyWatchdogPayload j p
      | None \<Rightarrow> p\<lparr>pn_watchdog := Some watchdog_load_failed\<rparr>)"

text \<open>The feed: mounting starts both sources, the first tick of the stream stops the polling.\<close>

definition mount_feed :: "panel \<Rightarrow> panel" where
  "mount_feed p = p\<lparr>pn_polling := True, pn_stream := True\<rparr>"

definition stream_tick :: "WatchdogPayload option \<Rightarrow> panel \<Rightarrow> panel" where
  "stream_tick j p =
     (if \<not> pn_stream p then p
      else (case j of
              None \<Rightarrow> p
            | Some payload \<Rightarrow> applyWatchdogPayload payload (p\<lparr>pn_polling := False\<rparr>)))"

definition stream_error :: "panel \<Rightarrow> panel" where
  "stream_error p = p\<lparr>pn_stream := False\<rparr>"

definition unmount_feed :: "panel \<Rightarrow> panel" where
  "unmount_feed p = p\<lparr>pn_polling := False, pn_stream := False\<rparr>"

definition docker_load_failed :: panel_docker where
  "docker_load_failed = \<lparr>pd_source = None, pd_project = [], pd_containers = [], pd_error = Some ''Failed to load containers''\<rparr>"

definition fetchDocker :: "(panel_docker \<times> panel_config) option \<Rightarrow> panel \<Rightarrow> panel" where
  "fetchDocker answer p =
     (case answer of
        Some (d, c) \<Rightarrow> p\<lparr>pn_docker := Some d, pn_config := Some c, pn_loading := False\<rparr>
      | None \<Rightarrow> p\<lparr>pn_docker := Some docker_load_failed, pn_loading := False\<rparr>)"

definition fetchDocker_start :: "panel \<Rightarrow> panel" where
  "fetchDocker_start p = p\<lparr>pn_loading := True\<rparr>"

text \<open>The answer of \<open>chaos/status\<close>: its status and body, or what was thrown.\<close>

definition http_error_text :: "int \<Rightarrow> json \<Rightarrow> string" where
  "http_error_text st body = coalesce (as_string (member ''error'' body)) (''HTTP '' @ show_int st)"

definition fetchStatus_start :: "panel \<Rightarrow> panel" where
  "fetchStatus_start p = p\<lparr>pn_watchError := None\<rparr>"

definition fetchStatus :: "thrown + int \<times> json \<Rightarrow> panel \<Rightarrow> panel" where
  "fetchStatus answer p =
     (case answer of
        Inl e \<Rightarrow> p\<lparr>pn_watchError := Some (request_failed e), pn_watchStatus := None\<rparr>
      | Inr (st, body) \<Rightarrow>
          if \<not> status_ok st then p\<lparr>pn_watchError := Some (http_error_text st body), pn_watchStatus := None\<rparr>
          else p\<lparr>pn_watchStatus := Some body\<rparr>)"

definition openChaos :: "panel_container \<Rightarrow> chaos_action \<Rightarrow> panel \<Rightarrow> panel" where
  "openChaos c a p = p\<lparr>pn_error := None, pn_pending := Some (c, a)\<rparr>"

definition cancelChaos :: "panel \<Rightarrow> panel" where
  "cancelChaos p = p\<lparr>pn_pending := None\<rparr>"

text \<open>\<open>submitChaos\<close> up to its request, which is the first component.\<close>

definition submit_start :: "panel \<Rightarrow> (string \<times> chaos_body) option \<times> panel" where
  "submit_start p =
     (case pn_pending p of
        None \<Rightarrow> (None, p)
      | Some (c, a) \<Rightarrow> (Some (submit_url a, submit_body (pn_docker p) c), p\<lparr>pn_busy := True, pn_error := None\<rparr>))"

definition success_message :: "panel_docker option \<Rightarrow> panel_container \<Rightarrow> chaos_action \<Rightarrow> json \<Rightarrow> string" where
  "success_message d c a body =
     pc_service c @ '': '' @ coalesce (as_string (member ''message'' body)) (default_ok_message a (from_railway d))
       @ (if truthy (as_string (member ''railwayMethod'' body))
          then '' ('' @ the (as_string (member ''railwayMethod'' body)) @ '')'' else [])"

text \<open>The rest, with a fresh toast id and the time; \<open>d\<close>, \<open>c\<close> and \<open>a\<close> were captured at the start.\<close>

definition submit_settle ::
  "panel_docker option \<Rightarrow> panel_container \<Rightarrow> chaos_action \<Rightarrow> string \<Rightarrow> string \<Rightarrow> thrown + int \<times> json \<Rightarrow> panel \<Rightarrow> panel" where
  "submit_settle d c a toast_id now answer p =
     (case answer of
        Inl e \<Rightarrow> p\<lparr>pn_error := Some (err_message_or (case a of Kill \<Rightarrow> ''Kill failed'' | Restart \<Rightarrow> ''Restart failed'') e),
                    pn_busy := False\<rparr>
      | Inr (st, body) \<Rightarrow>
          if \<not> status_ok st then p\<lparr>pn_error := Some (http_error_text st body), pn_busy := False\<rparr>
          else p\<lparr>pn_toasts := take 8 (\<lparr>to_id = toast_id, to_message = success_message d c a body,
                                        to_at = now\<rparr> # pn_toasts p),
                 pn_pending := None, pn_watchService := Some (pc_service c), pn_loading := True, pn_busy := False\<rparr>)"

definition watch :: "string \<Rightarrow> panel \<Rightarrow> panel" where
  "watch svc p = p\<lparr>pn_watchService := Some svc, pn_watchError := None\<rparr>"

definition stop_watch :: "panel \<Rightarrow> panel" where
  "stop_watch p = p\<lparr>pn_watchService := None, pn_watchStatus := None, pn_watchError := None\<rparr>"

definition dismissWatchdogToast :: "string \<Rightarrow> panel \<Rightarrow> panel" where
  "dismissWatchdogToast i p = p\<lparr>pn_toasts := filter (\<lambda>t. to_id t \<noteq> i) (pn_toasts p)\<rparr>"

section \<open>The panel as a machine\<close>

text \<open>What can happen to the panel: settling requests, the feed, clicks, and timers of toasts.\<close>

datatype panel_event =
    Docker_requested
  | Docker_settled "(panel_docker \<times> panel_config) option"
  | Feed_mounted
  | Polled "WatchdogPayload option"
  | Ticked "WatchdogPayload option"
  | Stream_failed
  | Feed_unmounted
  | Status_requested
  | Status_settled "thrown + int \<times> json"
  | Clicked panel_container chaos_action
  | Cancelled
  | Submitted
  | Submit_settled "panel_docker option" panel_container chaos_action string string "thrown + int \<times> json"
  | Watch_clicked string
  | Watch_stopped
  | Dismissed string

fun panel_step :: "panel_event \<Rightarrow> panel \<Rightarrow> panel" where
  "panel_step Docker_requested p = fetchDocker_start p"
| "panel_step (Docker_settled r) p = fetchDocker r p"
| "panel_step Feed_mounted p = mount_feed p"
| "panel_step (Polled r) p = fetchWatchdog r p"
| "panel_step (Ticked j) p = stream_tick j p"
| "panel_step Stream_failed p = stream_error p"
| "panel_step Feed_unmounted p = unmount_feed p"
| "panel_step Status_requested p = fetchStatus_start p"
| "panel_step (Status_settled r) p = fetchStatus r p"
| "panel_step (Clicked c a) p = openChaos c a p"
| "panel_step Cancelled p = cancelChaos p"
| "panel_step Submitted p = snd (submit_start p)"
| "panel_step (Submit_settled d c a i now r) p = submit_settle d c a i now r p"
| "panel_step (Watch_clicked svc) p = watch svc p"
| "panel_step Watch_stopped p = stop_watch p"
| "panel_step (Dismissed i) p = dismissWatchdogToast i p"

section \<open>Lemmas\<close>

lemmas panel_ops = fetchDocker_start_def fetchDocker_def mount_feed_def stream_error_def unmount_feed_def
  fetchStatus_start_def fetchStatus_def openChaos_def cancelChaos_def submit_start_def submit_settle_def
  watch_def stop_watch_def dismissWatchdogToast_def

text \<open>The ids of toasts that a settled kill or restart made up, and how often a toast is on the page.\<close>

fun action_ids :: "panel_event list \<Rightarrow> string set" where
  "action_ids [] = {}"
| "action_ids (Submit_settled d c a i now r # es) = insert i (action_ids es)"
| "action_ids (e # es) = action_ids es"

definition toast_count :: "panel \<Rightarrow> string \<Rightarrow> nat" where
  "toast_count p i = count_list (map to_id (pn_toasts p)) i"

text \<open>From \<open>p\<close> to \<open>q\<close>, as far as toasts with ids outside \<open>A\<close> go: nothing is forgotten, no event seen
  in \<open>p\<close> becomes a toast, and a toast of an event that was not seen is alone and seen afterwards.\<close>

definition announces_fresh :: "string set \<Rightarrow> panel \<Rightarrow> panel \<Rightarrow> bool" where
  "announces_fresh A p q \<longleftrightarrow>
     set (pn_seen p) \<subseteq> set (pn_seen q) \<and>
     (\<forall>i. i \<notin> A \<longrightarrow> i \<in> set (pn_seen p) \<longrightarrow> toast_count q i \<le> toast_count p i) \<and>
     (\<forall>i. i \<notin> A \<longrightarrow> i \<notin> set (pn_seen p) \<longrightarrow> toast_count p i = 0 \<longrightarrow>
        toast_count q i \<le> 1 \<and> (0 < toast_count q i \<longrightarrow> i \<in> set (pn_seen q))) \<and>
     (length (pn_toasts p) \<le> 8 \<longrightarrow> length (pn_toasts q) \<le> 8)"

lemma announces_refl: "announces_fresh A p p"
  by (simp add: announces_fresh_def)

lemma announces_trans:
  assumes "announces_fresh A p q" and "announces_fresh A q r"
  shows "announces_fresh A p r"
proof -
  have "toast_count r i \<le> toast_count p i" if "i \<notin> A" "i \<in> set (pn_seen p)" for i
    using assms that unfolding announces_fresh_def by (meson le_trans subsetD)
  moreover have "toast_count r i \<le> 1 \<and> (0 < toast_count r i \<longrightarrow> i \<in> set (pn_seen r))"
    if i: "i \<notin> A" "i \<notin> set (pn_seen p)" "toast_count p i = 0" for i
  proof -
    have q: "toast_count q i \<le> 1" "0 < toast_count q i \<longrightarrow> i \<in> set (pn_seen q)"
      using assms(1) i unfolding announces_fresh_def by blast+
    show ?thesis
    proof (cases "i \<in> set (pn_seen q)")
      case True
      then have "toast_count r i \<le> toast_count q i" "i \<in> set (pn_seen r)"
        using assms(2) i(1) unfolding announces_fresh_def by blast+
      with q show ?thesis by simp
    next
      case False
      with q have "toast_count q i = 0" by simp
      with False show ?thesis using assms(2) i(1) unfolding announces_fresh_def by blast
    qed
  qed
  moreover have "set (pn_seen p) \<subseteq> set (pn_seen r)" using assms unfolding announces_fresh_def by blast
  moreover have "length (pn_toasts p) \<le> 8 \<longrightarrow> length (pn_toasts r) \<le> 8"
    using assms by (simp add: announces_fresh_def)
  ultimately show ?thesis unfolding announces_fresh_def by blast
qed

lemma announces_mono: "announces_fresh A p q \<Longrightarrow> A \<subseteq> B \<Longrightarrow> announces_fresh B p q"
  unfolding announces_fresh_def by blast

lemma announces_less:
  "pn_seen q = pn_seen p \<Longrightarrow> (\<And>i. i \<notin> A \<Longrightarrow> toast_count q i \<le> toast_count p i) \<Longrightarrow>
     (length (pn_toasts p) \<le> 8 \<Longrightarrow> length (pn_toasts q) \<le> 8) \<Longrightarrow> announces_fresh A p q"
  by (fastforce simp: announces_fresh_def)

lemma announces_same: "pn_seen q = pn_seen p \<Longrightarrow> pn_toasts q = pn_toasts p \<Longrightarrow> announces_fresh A p q"
  by (rule announces_less) (simp_all add: toast_count_def)

lemma announces_add: "announces_fresh A p (add_seen i p)"
  by (auto simp: announces_fresh_def add_seen_def toast_count_def)

lemma count_list_take: "count_list (take n xs) x \<le> count_list xs x"
  by (metis append_take_drop_id count_list_append le_add1)

lemma announces_announce: "announces_fresh A p (announce ev p)"
proof (cases "ev_id ev \<in> set (pn_seen p)")
  case False
  let ?q = "announce ev p"
  have q: "pn_toasts ?q = toast_of ev # take 5 (pn_toasts p)" "pn_seen ?q = pn_seen p @ [ev_id ev]"
    using False by (simp_all add: announce_def add_seen_def Let_def)
  have count: "count_list (map to_id (take 5 (pn_toasts p))) i \<le> toast_count p i" for i
    using count_list_take [of 5 "map to_id (pn_toasts p)" i] by (simp add: toast_count_def take_map)
  have other: "toast_count ?q i \<le> toast_count p i" if "i \<noteq> ev_id ev" for i
    using that count [of i] by (simp add: toast_count_def q toast_of_def)
  have own: "toast_count ?q (ev_id ev) \<le> Suc (toast_count p (ev_id ev))"
    using count [of "ev_id ev"] by (simp add: toast_count_def q toast_of_def)
  show ?thesis
    unfolding announces_fresh_def
  proof (intro conjI allI impI)
    fix i
    show "toast_count ?q i \<le> toast_count p i" if "i \<in> set (pn_seen p)" using that False other [of i] by auto
    assume i: "toast_count p i = 0"
    show "toast_count ?q i \<le> 1" using i own other [of i] by (cases "i = ev_id ev") simp_all
    show "i \<in> set (pn_seen ?q)" if "0 < toast_count ?q i" using that i other [of i] by (cases "i = ev_id ev") (simp_all add: q)
  qed (auto simp: q)
qed (simp add: announce_def announces_refl)

lemma announces_fold: "(\<And>x p. announces_fresh A p (f x p)) \<Longrightarrow> announces_fresh A p (fold f xs p)"
  by (induction xs arbitrary: p) (auto intro: announces_refl announces_trans)

lemma announces_apply: "announces_fresh A p (applyWatchdogPayload j p)"
proof -
  have "announces_fresh A p (p\<lparr>pn_watchdog := Some j\<rparr>)" "announces_fresh A p (p\<lparr>pn_watchdog := Some j, pn_hydrated := True\<rparr>)"
    by (rule announces_same; simp)+
  then show ?thesis
    using announces_fold [of A "\<lambda>ev. add_seen (ev_id ev)", OF announces_add]
      announces_fold [of A announce, OF announces_announce]
    by (auto simp: applyWatchdogPayload_def Let_def intro: announces_trans)
qed

lemma announces_step: "announces_fresh (action_ids [e]) p (panel_step e p)"
proof (cases e)
  case (Polled r)
  then show ?thesis
    by (auto simp: fetchWatchdog_def announces_apply intro!: announces_same split: option.split)
next
  case (Ticked j)
  have "announces_fresh {} p (applyWatchdogPayload x (p\<lparr>pn_polling := False\<rparr>))" for x
    by (rule announces_trans [OF announces_same announces_apply]) simp_all
  with Ticked show ?thesis by (auto simp: stream_tick_def announces_refl split: option.split)
next
  case (Dismissed i)
  have "count_list (map to_id (filter P xs)) x \<le> count_list (map to_id xs) x" for P xs x
    by (induction xs) auto
  with Dismissed show ?thesis
    by (auto simp: dismissWatchdogToast_def toast_count_def intro!: announces_less order_trans [OF length_filter_le])
next
  case (Submit_settled d c a i now r)
  have "count_list (map to_id (take 7 (pn_toasts p))) x \<le> toast_count p x" for x
    using count_list_take [of 7 "map to_id (pn_toasts p)" x] by (simp add: toast_count_def take_map)
  then have count: "count_list (map to_id (take 7 (pn_toasts p))) x \<le> count_list (map to_id (pn_toasts p)) x" for x
    by (simp add: toast_count_def)
  show ?thesis
    using Submit_settled
    by (cases r; cases "status_ok (fst (projr r))") (auto simp: submit_settle_def toast_count_def count intro!: announces_less split: if_splits)
qed (auto simp: panel_ops intro!: announces_same split: option.splits sum.splits prod.splits)

lemma action_ids_Cons: "action_ids (e # es) = action_ids [e] \<union> action_ids es"
  by (cases e) auto

lemma announces_run: "announces_fresh (action_ids es) p (fold panel_step es p)"
proof (induction es arbitrary: p)
  case (Cons e es)
  have "announces_fresh (action_ids (e # es)) p (panel_step e p)"
    by (rule announces_mono [OF announces_step]) (simp add: action_ids_Cons [of e es])
  moreover have "announces_fresh (action_ids (e # es)) (panel_step e p) (fold panel_step es (panel_step e p))"
    by (rule announces_mono [OF Cons.IH]) (simp add: action_ids_Cons [of e es])
  ultimately show ?case by (simp add: announces_trans del: panel_step.simps)
qed (simp add: announces_refl)

text \<open>What a payload does to the toasts: its events with new ids, the first of each id, go on top, the
  last one highest, and six toasts are kept.\<close>

fun fresh_events :: "string set \<Rightarrow> WatchdogEvent list \<Rightarrow> WatchdogEvent list" where
  "fresh_events known [] = []"
| "fresh_events known (ev # evs) =
     (if ev_id ev \<in> known then fresh_events known evs
      else ev # fresh_events (insert (ev_id ev) known) evs)"

lemma fresh_ids: "ev_id ` set (fresh_events known evs) = ev_id ` set evs - known"
  by (induction evs arbitrary: known) auto

definition stack_on :: "WatchdogEvent list \<Rightarrow> toast list \<Rightarrow> toast list" where
  "stack_on new old = (if new = [] then old else take 6 (rev (map toast_of new) @ old))"

lemma stack_on_Cons: "stack_on new (take 6 (t # old)) = take 6 (rev (map toast_of new) @ t # old)"
  by (cases new rule: rev_cases) (auto simp: stack_on_def take_Cons')

lemma fold_seen:
  "pn_watchdog (fold (\<lambda>ev. add_seen (ev_id ev)) evs p) = pn_watchdog p"
  "pn_hydrated (fold (\<lambda>ev. add_seen (ev_id ev)) evs p) = pn_hydrated p"
  "pn_toasts (fold (\<lambda>ev. add_seen (ev_id ev)) evs p) = pn_toasts p"
  "set (pn_seen (fold (\<lambda>ev. add_seen (ev_id ev)) evs p)) = set (pn_seen p) \<union> ev_id ` set evs"
  for evs :: "WatchdogEvent list"
  by (induction evs arbitrary: p) (auto simp: add_seen_def)

lemma fold_announce:
  "pn_watchdog (fold announce evs p) = pn_watchdog p"
  "pn_hydrated (fold announce evs p) = pn_hydrated p"
  "set (pn_seen (fold announce evs p)) = set (pn_seen p) \<union> ev_id ` set evs"
  by (induction evs arbitrary: p) (auto simp: announce_def add_seen_def Let_def)

lemma fold_announce_toasts:
  "pn_toasts (fold announce evs p) = stack_on (fresh_events (set (pn_seen p)) evs) (pn_toasts p)"
proof (induction evs arbitrary: p)
  case (Cons ev evs)
  show ?case
  proof (cases "ev_id ev \<in> set (pn_seen p)")
    case False
    let ?q = "announce ev p"
    have "set (pn_seen ?q) = insert (ev_id ev) (set (pn_seen p))" "pn_toasts ?q = take 6 (toast_of ev # pn_toasts p)"
      using False by (auto simp: announce_def add_seen_def Let_def)
    then show ?thesis
      using False Cons.IH [of ?q] by (simp only: fold_simps stack_on_Cons) (simp add: stack_on_def)
  next
    case True
    then have "announce ev p = p" by (simp add: announce_def)
    with True show ?thesis by (simp add: Cons.IH)
  qed
qed (simp add: stack_on_def)

definition silent :: "WatchdogPayload \<Rightarrow> panel \<Rightarrow> bool" where
  "silent j p \<longleftrightarrow> \<not> pn_hydrated p \<and> (pl_source j = Src_docker \<or> pl_source j = Src_railway)"

lemma apply_seen: "set (pn_seen (applyWatchdogPayload j p)) = set (pn_seen p) \<union> ev_id ` set (pl_events j)"
  by (simp add: applyWatchdogPayload_def fold_seen fold_announce Let_def)

lemma apply_toasts:
  "pn_toasts (applyWatchdogPayload j p) =
     (if silent j p then pn_toasts p else stack_on (fresh_events (set (pn_seen p)) (pl_events j)) (pn_toasts p))"
  by (simp add: applyWatchdogPayload_def silent_def fold_seen fold_announce_toasts Let_def)

text \<open>Reading the configuration route back.\<close>

lemma js_lower_idem [simp]: "js_lower (js_lower s) = js_lower s"
proof -
  have "lower_char (lower_char c) = lower_char c" for c
  proof (cases "65 \<le> (of_char c :: nat) \<and> (of_char c :: nat) \<le> 90")
    case True
    then have "of_char c + 32 < (256 :: nat)" by linarith
    then show ?thesis using True by (simp add: lower_char_def Let_def)
  qed (auto simp: lower_char_def Let_def)
  then show ?thesis by (simp add: js_lower_def)
qed

lemma as_strings_JStr [simp]: "as_strings (Some (JArr (map JStr xs))) = Some xs"
  by (induction xs) (simp_all add: as_strings_def List.map_filter_def comp_def)

lemma read_chaos_config:
  "read_config (rp_body (chaos_config_GET h)) =
     \<lparr>pf_killEnabled = chaosKillEnabled h,
      pf_supportsDockerKill = (\<not> railwayIdsConfigured h \<or> railwayVisibilityConfigured h),
      pf_blockedServices = Some blockedServicesList, pf_allowedServices = Some (listAllowedServicesForUi h),
      pf_hint = chaos_hint h\<rparr>"
  by (cases "chaos_hint h") (simp_all add: read_config_def chaos_config_GET_def opt_json_def)

lemma override_lowercase:
  "parseAllowedServicesOverride h = Some xs \<Longrightarrow> xs \<noteq> [] \<and> (\<forall>x \<in> set xs. js_lower x = x)"
  by (auto simp: parseAllowedServicesOverride_def js_set_def Let_def split: if_splits)

lemma ui_list_lowercase: "map js_lower (listAllowedServicesForUi h) = listAllowedServicesForUi h"
proof (cases "parseAllowedServicesOverride h")
  case None
  have "list_all (\<lambda>x. js_lower x = x) DEFAULT_ALLOWED_SERVICES" by code_simp
  with None show ?thesis by (intro map_idI) (simp add: listAllowedServicesForUi_def list_all_iff)
next
  case (Some xs)
  with override_lowercase [of h xs] show ?thesis
    by (intro map_idI) (simp add: listAllowedServicesForUi_def)
qed

lemma ui_list_not_empty: "listAllowedServicesForUi h \<noteq> []"
proof (cases "parseAllowedServicesOverride h")
  case None
  have "sort DEFAULT_ALLOWED_SERVICES \<noteq> []" by (simp add: DEFAULT_ALLOWED_SERVICES_def)
  with None show ?thesis by (simp add: listAllowedServicesForUi_def)
next
  case (Some xs)
  with override_lowercase [of h xs] have "set (listAllowedServicesForUi h) = set xs" "set xs \<noteq> {}"
    by (simp_all add: listAllowedServicesForUi_def)
  then show ?thesis by auto
qed

lemma allowed_by_lists:
  "js_lower (js_trim s) \<noteq> [] \<Longrightarrow>
     isServiceKillAllowed h s \<longleftrightarrow>
       js_lower (js_trim s) \<in> set (listAllowedServicesForUi h) \<and>
       \<not> list_ex (\<lambda>b. js_lower b = js_lower (js_trim s)) blockedServicesList"
proof -
  have "js_lower b = b" if "b \<in> set BLOCKED_SERVICES" for b
    using that by (auto simp: BLOCKED_SERVICES_def js_lower_def lower_char_def)
  then have "list_ex (\<lambda>b. js_lower b = t) blockedServicesList \<longleftrightarrow> t \<in> set BLOCKED_SERVICES" for t
    by (auto simp: blockedServicesList_def list_ex_iff)
  moreover assume "js_lower (js_trim s) \<noteq> []"
  ultimately show ?thesis
    by (simp add: isServiceKillAllowed_def listAllowedServicesForUi_def Let_def split: option.split)
qed

lemma not_allowed_empty: "js_lower (js_trim s) = [] \<Longrightarrow> \<not> isServiceKillAllowed h s"
  by (simp add: isServiceKillAllowed_def Let_def)

lemma submit_confirms: "confirm_of (submit_body d c) = js_lower (js_trim (pc_service c))"
proof -
  have "js_trim (js_lower (js_trim (pc_service c))) = js_lower (js_trim (pc_service c))"
    by (simp add: trim_lower js_trim_trimmed)
  then show ?thesis by (simp add: submit_body_def confirm_of_def trim_field_def Let_def)
qed

text \<open>Payloads do not touch the feed.\<close>

lemma feed_add [simp]: "pn_polling (add_seen i p) = pn_polling p" "pn_stream (add_seen i p) = pn_stream p"
  by (simp_all add: add_seen_def)

lemma feed_announce [simp]: "pn_polling (announce ev p) = pn_polling p" "pn_stream (announce ev p) = pn_stream p"
  by (simp_all add: announce_def Let_def)

lemma feed_fold:
  "(\<And>x q. pn_polling (f x q) = pn_polling q) \<Longrightarrow> pn_polling (fold f xs p) = pn_polling p"
  "(\<And>x q. pn_stream (f x q) = pn_stream q) \<Longrightarrow> pn_stream (fold f xs p) = pn_stream p"
  by (induction xs arbitrary: p) simp_all

lemma feed_apply [simp]:
  "pn_polling (applyWatchdogPayload j p) = pn_polling p" "pn_stream (applyWatchdogPayload j p) = pn_stream p"
  by (simp_all add: applyWatchdogPayload_def Let_def feed_fold)

text \<open>The buttons and the gate of the chaos routes.\<close>

lemma canKill_iff_approved:
  "canKill (Some (read_config (rp_body (chaos_config_GET h)))) d c \<longleftrightarrow>
     visibilityOk d \<and> (if railwayIdsConfigured h then railwayVisibilityConfigured h else True) \<and>
     approved h (Inr (submit_body d c)) (pc_service c) \<and>
     (if from_railway d then truthy (pc_railwayServiceId c) else True)"
proof -
  define f where "f = read_config (rp_body (chaos_config_GET h))"
  have f: "pf_killEnabled f = chaosKillEnabled h" "pf_blockedServices f = Some blockedServicesList"
    "pf_supportsDockerKill f \<longleftrightarrow> \<not> railwayIdsConfigured h \<or> railwayVisibilityConfigured h"
    by (simp_all add: f_def read_chaos_config)
  have raw: "allowedRaw (Some f) = listAllowedServicesForUi h"
    using ui_list_not_empty [of h] by (auto simp: allowedRaw_def f_def read_chaos_config split: list.split)
  have "canKill (Some f) d c \<longleftrightarrow>
      (\<not> railwayIdsConfigured h \<or> railwayVisibilityConfigured h) \<and> chaosKillEnabled h \<and> visibilityOk d \<and>
      isServiceKillAllowed h (pc_service c) \<and> (\<not> from_railway d \<or> truthy (pc_railwayServiceId c))"
    using allowed_by_lists [of "pc_service c" h] not_allowed_empty [of "pc_service c" h]
    by (auto simp: canKill_def raw ui_list_lowercase showKill_def f Let_def simp del: set_map)
  then show ?thesis by (auto simp: approved_def submit_confirms f_def)
qed

section \<open>Properties\<close>

text \<open>The panel enables the buttons of a row exactly when the server would approve the request they
  send: with the configuration the server reported, \<open>canKill\<close> holds iff the list was loaded without
  error, chaos actions are available, the policy of the chaos routes allows this service (switch,
  block list, allow list), the request names it, and a Railway row carries its id.\<close>

theorem enabled_buttons_are_approved:
  "canKill (Some (read_config (rp_body (chaos_config_GET h)))) d c \<longleftrightarrow>
     visibilityOk d \<and> (if railwayIdsConfigured h then railwayVisibilityConfigured h else True) \<and>
     approved h (Inr (submit_body d c)) (pc_service c) \<and>
     (if from_railway d then truthy (pc_railwayServiceId c) else True)"
  by (rule canKill_iff_approved)

text \<open>C24: What becomes a toast. Whatever the panel has been told, by polls or by the stream, in any
  order and mixed with clicks, when a payload arrives: its events that the page has not seen, the
  first of each id, are put on top of the toasts, and six toasts are kept; if there is none, or if
  the payload is the first one from Docker or Railway (the history), the toasts stay as they are;
  all its events are seen from then on. An event that was seen is never a toast again: whatever
  follows, there are at most as many toasts of its id as before. So a toast of an event is alone
  and its event is seen, toasts whose ids a settled kill or restart drew being left aside, and
  there are never more than eight toasts.\<close>

theorem events_announced_once:
  "let p = fold panel_step es init_panel;
       q = applyWatchdogPayload j p;
       r = fold panel_step es' p;
       new = fresh_events (set (pn_seen p)) (pl_events j)
   in pn_toasts q = (if new = [] \<or> (\<not> pn_hydrated p \<and> (pl_source j = Src_docker \<or> pl_source j = Src_railway))
                     then pn_toasts p else take 6 (rev (map toast_of new) @ pn_toasts p)) \<and>
      set (pn_seen q) = set (pn_seen p) \<union> ev_id ` set (pl_events j) \<and>
      (\<forall>i \<in> set (pn_seen p) - action_ids es'.
         count_list (map to_id (pn_toasts r)) i \<le> count_list (map to_id (pn_toasts p)) i) \<and>
      (\<forall>t \<in> set (pn_toasts p). to_id t \<notin> action_ids es \<longrightarrow>
         to_id t \<in> set (pn_seen p) \<and> count_list (map to_id (pn_toasts p)) (to_id t) = 1) \<and>
      length (pn_toasts p) \<le> 8"
proof -
  let ?p = "fold panel_step es init_panel"
  have toasts: "pn_toasts (applyWatchdogPayload j ?p) =
      (if fresh_events (set (pn_seen ?p)) (pl_events j) = [] \<or> silent j ?p
       then pn_toasts ?p else take 6 (rev (map toast_of (fresh_events (set (pn_seen ?p)) (pl_events j))) @ pn_toasts ?p))"
    by (simp add: apply_toasts stack_on_def)
  have later: "\<forall>i \<in> set (pn_seen ?p) - action_ids es'. toast_count (fold panel_step es' ?p) i \<le> toast_count ?p i"
    using announces_run [of es' ?p] by (simp add: announces_fresh_def)
  have start: "toast_count init_panel i = 0" "pn_seen init_panel = []" "pn_toasts init_panel = []" for i
    by (simp_all add: toast_count_def init_panel_def)
  have "0 < toast_count ?p (to_id t)" if "t \<in> set (pn_toasts ?p)" for t
    using that by (simp add: toast_count_def count_list_0_iff flip: neq0_conv)
  then have once: "\<forall>t \<in> set (pn_toasts ?p). to_id t \<notin> action_ids es \<longrightarrow>
      to_id t \<in> set (pn_seen ?p) \<and> toast_count ?p (to_id t) = 1"
    using announces_run [of es init_panel] by (force simp: announces_fresh_def start)
  have "length (pn_toasts ?p) \<le> 8"
    using announces_run [of es init_panel] by (simp add: announces_fresh_def start)
  with toasts later once show ?thesis
    unfolding Let_def toast_count_def silent_def by (simp add: apply_seen)
qed

definition one_event :: WatchdogPayload where
  "one_event = (failure_payload Src_railway [])\<lparr>pl_events :=
     [\<lparr>ev_id = ''e1'', ev_at = [], ev_service = ''s'', ev_kind = Recover, ev_message = ''m''\<rparr>]\<rparr>"

text \<open>A page that polls: the history stays silent when it is sent again.\<close>

theorem events_announced_once_witness:
  "let p = panel_step (Polled (Some one_event)) init_panel
   in pn_toasts p = [] \<and> count_list (map to_id (pn_toasts (panel_step (Polled (Some one_event)) p))) ''e1'' = 0"
proof -
  have p: "pn_seen (panel_step (Polled (Some one_event)) init_panel) = [''e1'']"
    "pn_toasts (panel_step (Polled (Some one_event)) init_panel) = []"
    by (simp_all add: fetchWatchdog_def applyWatchdogPayload_def one_event_def failure_payload_def init_panel_def add_seen_def)
  show ?thesis
    using events_announced_once [of "[Polled (Some one_event)]" one_event "[Polled (Some one_event)]"]
    by (simp add: p Let_def del: panel_step.simps)
qed

text \<open>The feed can go silent for good: after one tick of the event stream the polling is stopped, and
  when the stream then fails nothing is left that would update the watchdog card, whatever else
  happens short of mounting the panel again.\<close>

theorem feed_can_go_silent:
  "let p = fold panel_step [Feed_mounted, Ticked (Some j), Stream_failed] q;
       p' = fold panel_step (filter (\<lambda>e. e \<noteq> Feed_mounted) es) p
   in \<not> pn_polling p' \<and> \<not> pn_stream p'"
proof -
  have step: "\<not> pn_polling (panel_step e r) \<and> \<not> pn_stream (panel_step e r)"
    if "\<not> pn_polling r \<and> \<not> pn_stream r" and "e \<noteq> Feed_mounted" for e r
    using that by (cases e) (auto simp: panel_ops fetchWatchdog_def stream_tick_def split: option.splits sum.splits)
  have run: "\<not> pn_polling (fold panel_step (filter (\<lambda>e. e \<noteq> Feed_mounted) es) r) \<and>
      \<not> pn_stream (fold panel_step (filter (\<lambda>e. e \<noteq> Feed_mounted) es) r)"
    if "\<not> pn_polling r \<and> \<not> pn_stream r" for r
    using that by (induction es arbitrary: r) (simp_all add: step)
  show ?thesis
    unfolding Let_def by (rule run) (simp add: mount_feed_def stream_tick_def stream_error_def)
qed

text \<open>The progress of the interval lies between 0 and 1 whenever it is a number.\<close>

theorem progress_in_unit_interval:
  "case watchdog_progress now date p of None \<Rightarrow> True | Some x \<Rightarrow> x \<in> {0 .. 1}"
proof -
  define ms where "ms = max 1000 (pl_intervalSec p * 1000)"
  have ms: "0 < ms" by (simp add: ms_def)
  then have "0 \<le> now mod ms" "now mod ms \<le> ms" by (simp_all add: order_less_imp_le)
  then have "(of_int (now mod ms) :: rat) / of_int ms \<in> {0 .. 1}" using ms by (simp add: divide_le_eq)
  then show ?thesis
    by (simp add: watchdog_progress_def Let_def ms_def [symmetric] split: option.split)
qed

end
