(* ===== verification/OpsDashboard.thy ===== *)
theory OpsDashboard
  imports ChaosPanel
begin

text \<open>
  The operations page (\<open>ops-dashboard.tsx\<close>): its formatting helpers, the polling of services and
  alerts, and the panel that lists the databases of a Postgres row. Requests of that panel can
  overlap; a counter (\<open>pgReqGen\<close>) tells which one is the latest. The state machine below keeps the
  requests under way explicitly, so that every interleaving of clicks and answers is a run of it.
\<close>

section \<open>Helpers\<close>

definition isPostgresLikeRow :: "string option \<Rightarrow> string \<Rightarrow> string \<Rightarrow> bool" where
  "isPostgresLikeRow source service imageName \<longleftrightarrow>
     (let img = js_lower imageName; s = js_lower service
      in if js_includes img ''postgres'' then True
         else if source = Some ''railway'' then s = ''postgres'' \<or> js_includes s ''postgres''
         else if source = Some ''docker'' \<or> \<not> truthy source
         then s = ''db'' \<or> s = ''dashboard-db'' \<or> js_includes s ''postgres''
         else False)"

definition introspectProfileForRow :: "string option \<Rightarrow> string \<Rightarrow> string" where
  "introspectProfileForRow source service =
     (if source = Some ''docker'' \<and> js_lower service = ''db'' then ''main'' else ''default'')"

text \<open>
  \<open>x.toFixed(d)\<close>: the nearest multiple of \<open>10 ^ (- d)\<close>, the larger of two, on exact numbers (the
  code has doubles below \<open>10 ^ 21\<close>).
\<close>

definition toFixed :: "nat \<Rightarrow> rat \<Rightarrow> string" where
  "toFixed d x =
     (let n = \<lfloor>\<bar>x\<bar> * 10 ^ d + 1 / 2\<rfloor>; q = n div 10 ^ d; r = n mod 10 ^ d
      in (if x < 0 then ''-'' else []) @ show_int q
         @ (if d = 0 then [] else ''.'' @ pad_left d (show_int r)))"

text \<open>The loop of \<open>formatBytes\<close>: at most \<open>k\<close> more divisions.\<close>

fun scale_bytes :: "nat \<Rightarrow> rat \<Rightarrow> nat \<Rightarrow> rat \<times> nat" where
  "scale_bytes 0 v i = (v, i)"
| "scale_bytes (Suc k) v i = (if 1024 \<le> v then scale_bytes k (v / 1024) (Suc i) else (v, i))"

definition byte_units :: "string list" where
  "byte_units = [''B'', ''KB'', ''MB'', ''GB'']"

definition formatBytes :: "rat option \<Rightarrow> string" where
  "formatBytes n =
     (case n of
        None \<Rightarrow> u_emdash
      | Some x \<Rightarrow> (let (v, i) = scale_bytes (length byte_units - 1) x 0
                   in toFixed (if i = 0 then 0 else 1) v @ '' '' @ byte_units ! i))"

definition cpu_text :: "rat option \<Rightarrow> string" where
  "cpu_text c = (case c of Some x \<Rightarrow> toFixed 1 x @ ''%'' | None \<Rightarrow> u_emdash)"

definition memory_text :: "rat option \<Rightarrow> rat option \<Rightarrow> string" where
  "memory_text used limit =
     formatBytes used @ (case limit of Some l \<Rightarrow> if l = 0 then [] else '' / '' @ formatBytes (Some l) | None \<Rightarrow> [])"

section \<open>The page\<close>

text \<open>
  A row of the services table with the members that the page reads beside those of the chaos panel.
  The answer of the introspection is \<open>PostgresIntrospectResponse\<close>.
\<close>

record ops_row = panel_container +
  or_image :: string
  or_cpuPercent :: "rat option"
  or_memUsage :: "rat option"
  or_memLimit :: "rat option"

record introspection =
  in_databases :: "string list"
  in_tables :: "(string \<times> string list) list"
  in_dashboard_db_present :: bool
  in_errors :: "(string \<times> string) list"

record ops_docker =
  od_source :: "string option"
  od_project :: string
  od_rows :: "ops_row list"
  od_error :: "string option"

record alert_row =
  al_name :: string
  al_severity :: "string option"
  al_state :: "string option"
  al_startsAt :: "string option"
  al_summary :: "string option"

text \<open>What an introspection request ends with: thrown, refused (with the text shown), or data.\<close>

datatype load_answer = Load_thrown thrown | Load_refused string | Load_data introspection

text \<open>
  The state. \<open>pg_pending\<close> holds the requests under way (generation and row id), \<open>pg_started\<close> the row
  and \<open>pg_answered\<close> the answer of every generation so far; no code reads these three.
\<close>

record ops =
  op_docker :: "ops_docker option"
  op_alerts :: "(alert_row list \<times> string option) option"
  op_loading :: bool
  op_error :: "string option"
  op_lastFetch :: "int option"
  op_mainTab :: string
  op_logJump :: "(string \<times> int) option"
  pg_detailKey :: "string option"
  pg_data :: "introspection option"
  pg_loadedForId :: "string option"
  pg_loading :: bool
  pg_error :: "string option"
  pg_reqGen :: nat
  pg_pending :: "(nat \<times> string) list"
  pg_started :: "nat \<Rightarrow> string option"
  pg_answered :: "nat \<Rightarrow> load_answer option"

definition init_ops :: ops where
  "init_ops = \<lparr>op_docker = None, op_alerts = None, op_loading = True, op_error = None, op_lastFetch = None, op_mainTab = ''containers'',
     op_logJump = None, pg_detailKey = None, pg_data = None, pg_loadedForId = None, pg_loading = False,
     pg_error = None, pg_reqGen = 0, pg_pending = [], pg_started = Map.empty,
     pg_answered = Map.empty\<rparr>"

definition unreachable_text :: string where
  "unreachable_text = ''Hmm, we can't reach the backend right now. Please check that all services are running and try again.''"

definition unexpected_text :: string where
  "unexpected_text = ''Something unexpected happened '' @ u_emdash @ '' please refresh and try again!''"

fun fetch_error_text :: "thrown \<Rightarrow> string" where
  "fetch_error_text (ErrorObject n m c) = (if js_includes m ''fetch'' then unreachable_text else m)"
| "fetch_error_text (OtherValue s) = unexpected_text"

definition fetchAll_start :: "ops \<Rightarrow> ops" where
  "fetchAll_start s = s\<lparr>op_error := None\<rparr>"

text \<open>The refresh button.\<close>

definition refresh_clicked :: "ops \<Rightarrow> ops" where
  "refresh_clicked s = fetchAll_start (s\<lparr>op_loading := True\<rparr>)"

definition fetchAll_settle :: "int \<Rightarrow> thrown + ops_docker \<times> alert_row list \<times> string option \<Rightarrow> ops \<Rightarrow> ops" where
  "fetchAll_settle now answer s =
     (case answer of
        Inl e \<Rightarrow> s\<lparr>op_error := Some (fetch_error_text e), op_loading := False\<rparr>
      | Inr (d, a) \<Rightarrow> s\<lparr>op_docker := Some d, op_alerts := Some a, op_lastFetch := Some now, op_loading := False\<rparr>)"

text \<open>\<open>loadPostgresIntrospect\<close> up to its request; the URL is what it asks for.\<close>

definition introspect_url :: "string option \<Rightarrow> ops_row \<Rightarrow> string" where
  "introspect_url source c =
     ''/api/ops/postgres-introspect?'' @ search_params [(''profile'', introspectProfileForRow source (pc_service c))]"

definition load_start :: "ops_row \<Rightarrow> ops \<Rightarrow> ops" where
  "load_start c s =
     (let gen = pg_reqGen s + 1
      in s\<lparr>pg_reqGen := gen, pg_loading := True, pg_error := None, pg_loadedForId := None,
           pg_pending := pg_pending s @ [(gen, pc_id c)], pg_started := (pg_started s)(gen \<mapsto> pc_id c)\<rparr>)"

definition refused_text :: "int \<Rightarrow> json \<Rightarrow> string" where
  "refused_text st body = http_error_text st body"

text \<open>Its rest for generation \<open>gen\<close> and row \<open>i\<close>, the \<open>finally\<close> included.\<close>

definition load_settle :: "nat \<Rightarrow> string \<Rightarrow> load_answer \<Rightarrow> ops \<Rightarrow> ops" where
  "load_settle gen i answer s0 =
     (let s = s0\<lparr>pg_pending := filter (\<lambda>r. r \<noteq> (gen, i)) (pg_pending s0),
                 pg_answered := (pg_answered s0)(gen \<mapsto> answer)\<rparr>
      in if gen \<noteq> pg_reqGen s then s
         else (case answer of
                 Load_thrown e \<Rightarrow> s\<lparr>pg_error := Some (request_failed e), pg_data := None, pg_loading := False\<rparr>
               | Load_refused msg \<Rightarrow> s\<lparr>pg_error := Some msg, pg_data := None, pg_loading := False\<rparr>
               | Load_data d \<Rightarrow> s\<lparr>pg_data := Some d, pg_loadedForId := Some i, pg_loading := False\<rparr>))"

definition row_shows_pg :: "ops \<Rightarrow> ops_row \<Rightarrow> bool" where
  "row_shows_pg s c \<longleftrightarrow> isPostgresLikeRow (Option.bind (op_docker s) od_source) (pc_service c) (or_image c)"

definition pg_open :: "ops \<Rightarrow> ops_row \<Rightarrow> bool" where
  "pg_open s c \<longleftrightarrow> row_shows_pg s c \<and> pg_detailKey s = Some (pc_id c)"

text \<open>The click on the triangle of a row.\<close>

definition toggle_row :: "ops_row \<Rightarrow> ops \<Rightarrow> ops" where
  "toggle_row c s =
     (if pg_open s c then s\<lparr>pg_detailKey := None\<rparr> else load_start c (s\<lparr>pg_detailKey := Some (pc_id c)\<rparr>))"

text \<open>What the details of a row show: the spinner, the error and the data are rendered independently.\<close>

record pg_view =
  vw_spinner :: bool
  vw_error :: "string option"
  vw_data :: "introspection option"

definition pg_view_of :: "ops \<Rightarrow> ops_row \<Rightarrow> pg_view option" where
  "pg_view_of s c =
     (if \<not> pg_open s c then None
      else Some \<lparr>vw_spinner = pg_loading s,
                 vw_error = (if truthy (pg_error s) then pg_error s else None),
                 vw_data = (if \<not> pg_loading s \<and> \<not> truthy (pg_error s) \<and> pg_loadedForId s = Some (pc_id c)
                            then pg_data s else None)\<rparr>)"

text \<open>The tables of one database: an error of its scope comes first.\<close>

definition tables_text :: "introspection \<Rightarrow> string \<times> string list \<Rightarrow> string" where
  "tables_text d dt =
     (case map_of (in_errors d) (''tables:'' @ fst dt) of
        Some msg \<Rightarrow> ''Could not list tables ('' @ msg @ '')''
      | None \<Rightarrow> if snd dt = [] then u_emdash @ '' no tables in public schema '' @ u_emdash
                else js_join '' '' (snd dt))"

text \<open>All errors below the tables.\<close>

definition error_lines :: "introspection \<Rightarrow> string list" where
  "error_lines d = map (\<lambda>(scope, msg). scope @ '': '' @ msg) (in_errors d)"

definition database_badge :: "string \<Rightarrow> badge" where
  "database_badge d =
     (if d = ''dashboard_db'' then (V_default, d @ '' (dashboard)'') else (V_secondary, d))"

definition missing_db_notice :: "ops \<Rightarrow> ops_row \<Rightarrow> introspection \<Rightarrow> bool" where
  "missing_db_notice s c d \<longleftrightarrow>
     \<not> in_dashboard_db_present d \<and>
     introspectProfileForRow (Option.bind (op_docker s) od_source) (pc_service c) = ''default''"

definition alert_badge :: "alert_row \<Rightarrow> badge" where
  "alert_badge r = (if al_severity r = Some ''critical'' then V_destructive else V_outline, coalesce (al_severity r) u_emdash)"

text \<open>The button that leads from a replica to its logs.\<close>

definition jump_to_logs :: "ops_row \<Rightarrow> int \<Rightarrow> ops \<Rightarrow> ops" where
  "jump_to_logs c now s =
     (case instanceIdFromComposeService (pc_service c) of
        None \<Rightarrow> s
      | Some i \<Rightarrow> s\<lparr>op_logJump := Some (i, now), op_mainTab := ''logs''\<rparr>)"

definition set_tab :: "string \<Rightarrow> ops \<Rightarrow> ops" where
  "set_tab t s = s\<lparr>op_mainTab := t\<rparr>"

definition jump_applied :: "ops \<Rightarrow> ops" where
  "jump_applied s = s\<lparr>op_logJump := None\<rparr>"

definition column_count :: "ops \<Rightarrow> nat" where
  "column_count s = (if Option.bind (op_docker s) od_source = Some ''railway'' then 7 else 6) + 2"

text \<open>Runs of the page: an answer settles one of the requests under way, in any order.\<close>

inductive ops_step :: "ops \<Rightarrow> ops \<Rightarrow> bool" where
  polled: "ops_step s (fetchAll_start s)"
| refreshed: "ops_step s (refresh_clicked s)"
| loaded: "ops_step s (fetchAll_settle now r s)"
| toggled: "row_shows_pg s c \<Longrightarrow> ops_step s (toggle_row c s)"
| settled: "(gen, i) \<in> set (pg_pending s) \<Longrightarrow> ops_step s (load_settle gen i r s)"
| jumped: "ops_step s (jump_to_logs c now s)"
| applied: "ops_step s (jump_applied s)"
| tabbed: "ops_step s (set_tab t s)"

inductive ops_reach :: "ops \<Rightarrow> bool" where
  start: "ops_reach init_ops"
| step: "ops_reach s \<Longrightarrow> ops_step s s' \<Longrightarrow> ops_reach s'"

inductive_cases ops_step_cases: "ops_step s s'"

section \<open>Lemmas\<close>

text \<open>
  The invariant: at most the latest request is awaited by the page, and once it is answered the state
  is what that answer says.
\<close>

fun answer_shown :: "load_answer \<Rightarrow> string option \<times> introspection option" where
  "answer_shown (Load_thrown e) = (Some (request_failed e), None)"
| "answer_shown (Load_refused msg) = (Some msg, None)"
| "answer_shown (Load_data d) = (None, Some d)"

definition pg_settled :: "ops \<Rightarrow> bool" where
  "pg_settled s \<longleftrightarrow>
     (\<exists>r. pg_answered s (pg_reqGen s) = Some r \<and>
        pg_error s = fst (answer_shown r) \<and> pg_data s = snd (answer_shown r) \<and>
        pg_loadedForId s = (if pg_data s = None then None else pg_started s (pg_reqGen s)))"

definition ops_ok :: "ops \<Rightarrow> bool" where
  "ops_ok s \<longleftrightarrow>
     (\<forall>gen i. (gen, i) \<in> set (pg_pending s) \<longrightarrow> gen \<le> pg_reqGen s \<and> pg_started s gen = Some i) \<and>
     (pg_loading s \<longleftrightarrow> pg_reqGen s \<in> fst ` set (pg_pending s)) \<and>
     (\<forall>k. pg_detailKey s = Some k \<longrightarrow> pg_started s (pg_reqGen s) = Some k) \<and>
     (if pg_loading s \<or> pg_started s (pg_reqGen s) = None then pg_loadedForId s = None \<and> pg_error s = None
      else pg_settled s)"

lemma ops_ok_init: "ops_ok init_ops"
  by (simp add: ops_ok_def init_ops_def)

lemma ops_ok_same:
  assumes "ops_ok s"
    and "pg_pending t = pg_pending s" "pg_reqGen t = pg_reqGen s" "pg_started t = pg_started s"
    and "pg_loading t = pg_loading s" "pg_loadedForId t = pg_loadedForId s" "pg_data t = pg_data s"
    and "pg_error t = pg_error s" "pg_answered t = pg_answered s"
    and "pg_detailKey t = pg_detailKey s \<or> pg_detailKey t = None"
  shows "ops_ok t"
proof -
  have "pg_settled t = pg_settled s" using assms by (simp add: pg_settled_def)
  moreover have "\<forall>k. pg_detailKey t = Some k \<longrightarrow> pg_started s (pg_reqGen s) = Some k"
    using assms(1,10) by (auto simp: ops_ok_def)
  ultimately show ?thesis using assms by (simp add: ops_ok_def)
qed

lemma ops_ok_start:
  assumes "ops_ok s"
  shows "ops_ok (load_start c (s\<lparr>pg_detailKey := Some (pc_id c)\<rparr>))"
proof -
  have old: "gen \<le> pg_reqGen s \<and> pg_started s gen = Some i" if "(gen, i) \<in> set (pg_pending s)" for gen i
    using assms that by (simp add: ops_ok_def)
  have new: "gen \<noteq> Suc (pg_reqGen s)" if "(gen, i) \<in> set (pg_pending s)" for gen i
    using old [OF that] by simp
  show ?thesis
    unfolding ops_ok_def load_start_def Let_def
    by (simp add: image_iff) (metis le_SucI new old)
qed

lemma ops_ok_pending: "ops_ok s \<Longrightarrow> (gen, i) \<in> set (pg_pending s) \<Longrightarrow> gen \<le> pg_reqGen s \<and> pg_started s gen = Some i"
  by (simp add: ops_ok_def)

lemma ops_ok_settle_latest:
  assumes ok: "ops_ok s" and mem: "(pg_reqGen s, i) \<in> set (pg_pending s)"
  shows "ops_ok (load_settle (pg_reqGen s) i r s)"
proof -
  have st: "pg_started s (pg_reqGen s) = Some i" using ops_ok_pending [OF ok mem] by simp
  have old: "gen \<le> pg_reqGen s \<and> pg_started s gen = Some j" if "(gen, j) \<in> set (pg_pending s)" for gen j
    using ops_ok_pending [OF ok that] .
  have gone: "pg_reqGen s \<notin> fst ` {q \<in> set (pg_pending s). q \<noteq> (pg_reqGen s, i)}"
    using old st by fastforce
  have load: "pg_loading s" using ok mem by (force simp: ops_ok_def)
  have idle: "pg_loadedForId s = None" "pg_error s = None" using ok load by (simp_all add: ops_ok_def)
  have key: "\<forall>k. pg_detailKey s = Some k \<longrightarrow> k = i"
    using ok load st by (simp_all add: ops_ok_def)
  show ?thesis
    by (cases r; use old gone idle key st in \<open>simp add: ops_ok_def pg_settled_def load_settle_def Let_def\<close>; blast)
qed

lemma ops_ok_settle_stale:
  assumes ok: "ops_ok s" and stale: "gen \<noteq> pg_reqGen s"
  shows "ops_ok (load_settle gen i r s)"
proof -
  let ?t = "load_settle gen i r s"
  have [simp]: "set (pg_pending ?t) = {q \<in> set (pg_pending s). q \<noteq> (gen, i)}" "pg_reqGen ?t = pg_reqGen s"
    "pg_started ?t = pg_started s" "pg_loading ?t = pg_loading s" "pg_detailKey ?t = pg_detailKey s"
    "pg_loadedForId ?t = pg_loadedForId s" "pg_error ?t = pg_error s"
    using stale by (auto simp: load_settle_def Let_def)
  have [simp]: "pg_settled ?t = pg_settled s"
    using stale by (simp add: pg_settled_def load_settle_def Let_def)
  have [simp]: "pg_reqGen s \<in> fst ` {q \<in> set (pg_pending s). q \<noteq> (gen, i)} \<longleftrightarrow> pg_reqGen s \<in> fst ` set (pg_pending s)"
    using stale by force
  show ?thesis using ok unfolding ops_ok_def by simp blast
qed

lemma ops_ok_settle: "ops_ok s \<Longrightarrow> (gen, i) \<in> set (pg_pending s) \<Longrightarrow> ops_ok (load_settle gen i r s)"
  by (cases "gen = pg_reqGen s") (simp_all add: ops_ok_settle_latest ops_ok_settle_stale)

lemma ops_ok_step: "ops_step s t \<Longrightarrow> ops_ok s \<Longrightarrow> ops_ok t"
proof (induction rule: ops_step.induct)
  case (toggled s c)
  then show ?case
    by (auto simp: toggle_row_def ops_ok_start intro: ops_ok_same)
next
  case (settled gen i s r)
  then show ?case by (simp add: ops_ok_settle)
qed (auto simp: fetchAll_start_def refresh_clicked_def fetchAll_settle_def jump_to_logs_def jump_applied_def set_tab_def
    split: sum.split option.split intro: ops_ok_same)

lemma ops_reach_ok: "ops_reach s \<Longrightarrow> ops_ok s"
  by (induction rule: ops_reach.induct) (auto intro: ops_ok_init ops_ok_step)

section \<open>Properties\<close>

text \<open>C16: in every run of the page, whatever the order in which the overlapping introspection requests
  are answered, an open Postgres row belongs to the latest request. While that request is under way the
  row shows the spinner only; afterwards it shows exactly the answer of that request, its data or the text of
  its failure, never data or an error of another row or of an earlier click.
\<close>

theorem open_row_shows_latest:
  assumes "ops_reach s" and "pg_open s c"
  shows "pg_started s (pg_reqGen s) = Some (pc_id c) \<and>
    pg_view_of s c =
      (if pg_reqGen s \<in> fst ` set (pg_pending s) then Some \<lparr>vw_spinner = True, vw_error = None, vw_data = None\<rparr>
       else map_option (\<lambda>r. \<lparr>vw_spinner = False,
                             vw_error = (if truthy (fst (answer_shown r)) then fst (answer_shown r) else None),
                             vw_data = snd (answer_shown r)\<rparr>)
              (pg_answered s (pg_reqGen s)))"
proof -
  have ok: "ops_ok s" by (rule ops_reach_ok [OF assms(1)])
  have st: "pg_started s (pg_reqGen s) = Some (pc_id c)"
    using ok assms(2) by (auto simp: ops_ok_def pg_open_def)
  have shown: "snd (answer_shown r) = None" if "truthy (fst (answer_shown r))" for r
    using that by (cases r) simp_all
  show ?thesis
    using ok st assms(2) shown
    by (auto simp: ops_ok_def pg_settled_def pg_view_of_def split: option.splits if_splits)
qed

definition sample_row :: "string \<Rightarrow> ops_row" where
  "sample_row i = \<lparr>pc_id = i, pc_name = ''postgres'', pc_state = ''running'', pc_status = [], pc_service = ''Postgres'',
     pc_health = None, pc_railwayServiceId = None, pc_railwayOnlineStatus = None, pc_heartbeat = None,
     or_image = ''postgres:16'', or_cpuPercent = None, or_memUsage = None, or_memLimit = None\<rparr>"

definition sample_data :: introspection where
  "sample_data = \<lparr>in_databases = [''app''], in_tables = [], in_dashboard_db_present = False, in_errors = []\<rparr>"

text \<open>Two rows are opened one after the other; the second is answered first, then the first one fails.\<close>

definition sample_ops :: ops where
  "sample_ops = load_settle 1 ''r1'' (Load_refused ''HTTP 500'')
     (load_settle 2 ''r2'' (Load_data sample_data) (toggle_row (sample_row ''r2'') (toggle_row (sample_row ''r1'') init_ops)))"

lemma sample_shows: "row_shows_pg s (sample_row i)"
proof -
  have "js_includes (js_lower ''postgres:16'') ''postgres''" by code_simp
  then show ?thesis by (simp add: row_shows_pg_def sample_row_def isPostgresLikeRow_def Let_def)
qed

lemmas sample_simps = sample_ops_def toggle_row_def pg_open_def sample_shows init_ops_def load_start_def load_settle_def
  sample_row_def Let_def

lemma sample_reach: "ops_reach sample_ops"
proof -
  let ?a = "toggle_row (sample_row ''r1'') init_ops"
  let ?b = "toggle_row (sample_row ''r2'') ?a"
  let ?c = "load_settle 2 ''r2'' (Load_data sample_data) ?b"
  have "ops_reach ?a" by (rule ops_reach.step [OF ops_reach.start ops_step.toggled [OF sample_shows]])
  then have "ops_reach ?b" by (rule ops_reach.step [OF _ ops_step.toggled [OF sample_shows]])
  moreover have "(2, ''r2'') \<in> set (pg_pending ?b)" by (simp add: sample_simps)
  ultimately have "ops_reach ?c" by (rule ops_reach.step [OF _ ops_step.settled])
  moreover have "(1, ''r1'') \<in> set (pg_pending ?c)" by (simp add: sample_simps)
  ultimately show ?thesis unfolding sample_ops_def by (rule ops_reach.step [OF _ ops_step.settled])
qed

theorem open_row_shows_latest_witness:
  "pg_view_of sample_ops (sample_row ''r2'') = Some \<lparr>vw_spinner = False, vw_error = None, vw_data = Some sample_data\<rparr>"
proof -
  have op: "pg_open sample_ops (sample_row ''r2'')"
    using sample_shows by (simp add: sample_simps)
  have "pg_pending sample_ops = []" "pg_reqGen sample_ops = 2" "pg_answered sample_ops 2 = Some (Load_data sample_data)"
    by (simp_all add: sample_simps)
  then show ?thesis using open_row_shows_latest [OF sample_reach op] by simp
qed

text \<open>
  the text of a size. The loop of \<open>formatBytes\<close> divides at most three times, never past the last
  unit, keeps the number of bytes, and stops below 1024 unless the unit is GB.
\<close>

theorem scale_bytes_exact:
  "case scale_bytes (length byte_units - 1) x 0 of
     (v, i) \<Rightarrow> v * 1024 ^ i = x \<and> i < length byte_units \<and> (if byte_units ! i = ''GB'' then 1 \<le> v else v < 1024)"
  by (simp add: byte_units_def numeral_eq_Suc)

end
