(* ===== verification/ChartGeometry.thy ===== *)
theory ChartGeometry
  imports OpsDashboard
begin

text \<open>
  What the charts of the dashboard share (\<open>FrequencyGraph\<close> in \<open>unified-log-monitor.tsx\<close>, \<open>MiniChart\<close> in
  \<open>golden-signals.tsx\<close>, \<open>VuLatencyChart\<close> in \<open>load-test.tsx\<close>): the drawing area, the vertical axis, SVG
  paths and grid lines, and the loops that look for the point next to the pointer. The locale \<open>chart\<close> is the
  contract of a drawn series; each chart is an interpretation of it. Coordinates are exact rationals where the
  code has doubles.
\<close>

section \<open>The drawing area\<close>

record frame =
  fr_width :: rat
  fr_height :: rat
  fr_padTop :: rat
  fr_padBottom :: rat
  fr_padLeft :: rat
  fr_padRight :: rat

definition chartW :: "frame \<Rightarrow> rat" where
  "chartW f = fr_width f - fr_padLeft f - fr_padRight f"

definition chartH :: "frame \<Rightarrow> rat" where
  "chartH f = fr_height f - fr_padTop f - fr_padBottom f"

text \<open>\<open>Math.max(...xs, d)\<close> and \<open>Math.min(...xs, d)\<close>.\<close>

definition js_max :: "rat list \<Rightarrow> rat \<Rightarrow> rat" where
  "js_max xs d = foldr max xs d"

definition js_min :: "rat list \<Rightarrow> rat \<Rightarrow> rat" where
  "js_min xs d = foldr min xs d"

text \<open>\<open>padTop + chartH - (v / max) * chartH\<close>.\<close>

definition y_at :: "frame \<Rightarrow> rat \<Rightarrow> rat \<Rightarrow> rat" where
  "y_at f m v = fr_padTop f + chartH f - v / m * chartH f"

text \<open>\<open>Math.round\<close>.\<close>

definition js_round :: "rat \<Rightarrow> int" where
  "js_round x = \<lfloor>x + 1 / 2\<rfloor>"

text \<open>The \<open>d\<close> attribute: \<open>M x,y\<close> for the first point, \<open>L x,y\<close> for the others.\<close>

datatype path_command = Move_to rat rat | Line_to rat rat

definition svg_path :: "(rat \<times> rat) list \<Rightarrow> path_command list" where
  "svg_path ps = map (\<lambda>i. (if i = 0 then Move_to else Line_to) (fst (ps ! i)) (snd (ps ! i))) [0..<length ps]"

fun command_at :: "path_command \<Rightarrow> rat \<times> rat" where
  "command_at (Move_to x y) = (x, y)"
| "command_at (Line_to x y) = (x, y)"

definition in_frame :: "frame \<Rightarrow> rat \<times> rat \<Rightarrow> bool" where
  "in_frame f p \<longleftrightarrow>
     fr_padLeft f \<le> fst p \<and> fst p \<le> fr_padLeft f + chartW f \<and>
     fr_padTop f \<le> snd p \<and> snd p \<le> fr_padTop f + chartH f"

text \<open>The horizontal lines: \<open>n + 1\<close> of them, with the value at each.\<close>

definition grid_values :: "nat \<Rightarrow> rat \<Rightarrow> rat list" where
  "grid_values n m = map (\<lambda>i. m / of_nat n * of_nat i) [0..<n + 1]"

text \<open>The first of the values that is nearest to a target.\<close>

fun nearest_from :: "('a \<Rightarrow> rat) \<Rightarrow> rat \<Rightarrow> 'a \<Rightarrow> 'a list \<Rightarrow> 'a" where
  "nearest_from pos t best [] = best"
| "nearest_from pos t best (p # ps) =
     nearest_from pos t (if \<bar>pos p - t\<bar> < \<bar>pos best - t\<bar> then p else best) ps"

section \<open>Lemmas\<close>

lemma js_max_ge: "x \<in> set xs \<Longrightarrow> x \<le> js_max xs d" "d \<le> js_max xs d"
  by (induction xs) (auto simp: js_max_def le_max_iff_disj)

lemma js_max_pos: "0 < d \<Longrightarrow> 0 < js_max xs d"
  by (rule less_le_trans [OF _ js_max_ge(2)])

lemma js_max_in: "js_max xs d = d \<or> js_max xs d \<in> set xs"
  by (induction xs) (auto simp: js_max_def max_def)

lemma js_min_le: "x \<in> set xs \<Longrightarrow> js_min xs d \<le> x" "js_min xs d \<le> d"
  by (induction xs) (auto simp: js_min_def min_le_iff_disj)

lemma js_min_in: "js_min xs d = d \<or> js_min xs d \<in> set xs"
  by (induction xs) (auto simp: js_min_def min_def)

lemma svg_path_at: "map command_at (svg_path ps) = ps"
  by (rule nth_equalityI) (simp_all add: svg_path_def)

lemma svg_path_length [simp]: "length (svg_path ps) = length ps"
  by (simp add: svg_path_def)

lemma y_at_bounds:
  assumes "0 < m" "0 \<le> chartH f" "v \<le> m"
  shows "fr_padTop f \<le> y_at f m v" and "0 \<le> v \<Longrightarrow> y_at f m v \<le> fr_padTop f + chartH f"
proof -
  have "v / m \<le> 1" using assms by simp
  then have "v / m * chartH f \<le> 1 * chartH f" using assms(2) by (rule mult_right_mono)
  then show "fr_padTop f \<le> y_at f m v" by (simp add: y_at_def)
  show "y_at f m v \<le> fr_padTop f + chartH f" if "0 \<le> v"
    using that assms by (simp add: y_at_def)
qed

lemma y_at_strict:
  assumes "0 < m" "0 < chartH f" "v < w"
  shows "y_at f m w < y_at f m v"
proof -
  have "v / m < w / m" using assms by (simp add: divide_strict_right_mono)
  then have "v / m * chartH f < w / m * chartH f" using assms(2) by (rule mult_strict_right_mono)
  then show ?thesis by (simp add: y_at_def)
qed

lemma share_bounds:
  fixes a b w :: rat
  assumes "0 \<le> a" "a \<le> b" "0 \<le> w"
  shows "0 \<le> a / b * w" "a / b * w \<le> w"
proof -
  show "0 \<le> a / b * w" using assms by simp
  have "a / b \<le> 1" using assms by (cases "b = 0") (simp_all add: divide_le_eq_1)
  then show "a / b * w \<le> w" using assms(3) mult_right_mono [of "a / b" 1 w] by simp
qed

lemma nearest_from_in: "nearest_from pos t best ps \<in> set (best # ps)"
  by (induction ps arbitrary: best) (auto split: if_splits)

lemma nearest_from_le: "q \<in> set (best # ps) \<Longrightarrow> \<bar>pos (nearest_from pos t best ps) - t\<bar> \<le> \<bar>pos q - t\<bar>"
proof (induction ps arbitrary: best q)
  case (Cons p ps)
  show ?case
  proof (cases "\<bar>pos p - t\<bar> < \<bar>pos best - t\<bar>")
    case True
    with Cons.IH [of p p] Cons.IH [of q p] Cons.prems show ?thesis by auto
  next
    case False
    with Cons.IH [of best best] Cons.IH [of q best] Cons.prems show ?thesis by auto
  qed
qed simp

lemma grid_values_bounds: "0 < m \<Longrightarrow> 0 < n \<Longrightarrow> v \<in> set (grid_values n m) \<Longrightarrow> 0 \<le> v \<and> v \<le> m"
  by (auto simp: grid_values_def field_simps)

section \<open>The contract of a drawn series\<close>

text \<open>
  A series \<open>pts\<close> of values \<open>val\<close> on an axis that ends at \<open>top\<close>: no value is above the axis, every point has a
  place between the left and the right edge, and its height is the one of \<^const>\<open>y_at\<close>.
\<close>

locale chart =
  fixes f :: frame and top :: rat and xpos :: "'p \<Rightarrow> rat" and ypos :: "'p \<Rightarrow> rat" and val :: "'p \<Rightarrow> rat" and pts :: "'p list"
  assumes area: "0 \<le> chartH f"
    and top_pos: "0 < top"
    and below_top: "p \<in> set pts \<Longrightarrow> val p \<le> top"
    and between: "p \<in> set pts \<Longrightarrow> fr_padLeft f \<le> xpos p \<and> xpos p \<le> fr_padLeft f + chartW f"
    and height: "ypos p = y_at f top (val p)"
begin

lemma point_inside: "p \<in> set pts \<Longrightarrow> 0 \<le> val p \<Longrightarrow> in_frame f (xpos p, ypos p)"
  using between y_at_bounds [OF top_pos area below_top] by (simp add: in_frame_def height)

lemma path_inside:
  assumes "\<forall>p \<in> set pts. 0 \<le> val p"
  shows "list_all (\<lambda>c. in_frame f (command_at c)) (svg_path (map (\<lambda>p. (xpos p, ypos p)) pts))"
proof -
  have "list_all (in_frame f) (map command_at (svg_path (map (\<lambda>p. (xpos p, ypos p)) pts)))"
    unfolding svg_path_at using assms by (auto simp: list_all_iff point_inside)
  then show ?thesis by (simp add: list_all_iff)
qed

lemma grid_inside: "v \<in> set (grid_values (Suc n) top) \<Longrightarrow> fr_padTop f \<le> y_at f top v \<and> y_at f top v \<le> fr_padTop f + chartH f"
  using grid_values_bounds [OF top_pos, of "Suc n" v] y_at_bounds [OF top_pos area, of v] by simp

end

end
