(* ===== verification/LogChart.thy ===== *)
theory LogChart
  imports ChartGeometry
begin

text \<open>
  What the log page (\<open>unified-log-monitor.tsx\<close>) draws: the cells of a log row, and the chart of requests and
  errors per minute with its pointer handling. Its three series are instances of the chart contract.
\<close>

section \<open>The cells of a log row\<close>

text \<open>\<open>String(v)\<close> of a JSON value; \<open>null\<close> inside an array is rendered empty.\<close>

fun js_String :: "json \<Rightarrow> string" where
  "js_String JNull = ''null''"
| "js_String (JBool b) = (if b then ''true'' else ''false'')"
| "js_String (JInt n) = show_int n"
| "js_String (JDec neg w f) = dec_text neg w f"
| "js_String (JStr s) = s"
| "js_String (JArr xs) = js_join '','' (map (\<lambda>x. if x = JNull then [] else js_String x) xs)"
| "js_String (JObj ms) = ''[object Object]''"

fun js_true :: "json option \<Rightarrow> bool" where
  "js_true None = False"
| "js_true (Some JNull) = False"
| "js_true (Some (JBool b)) = b"
| "js_true (Some (JInt n)) = (n \<noteq> 0)"
| "js_true (Some (JDec neg w f)) = True"
| "js_true (Some (JStr s)) = (s \<noteq> [])"
| "js_true (Some (JArr xs)) = True"
| "js_true (Some (JObj ms)) = True"

type_synonym log_entry = "(string \<times> json) list"

text \<open>\<open>v != null ? String(v) : d\<close>.\<close>

definition text_or :: "string \<Rightarrow> json option \<Rightarrow> string" where
  "text_or d v = (case present v of Some x \<Rightarrow> js_String x | None \<Rightarrow> d)"

definition logLevelBadge :: "string option \<Rightarrow> badge" where
  "logLevelBadge level =
     (let l = coalesce level []
      in if l = ''ERROR'' \<or> l = ''CRITICAL'' then (V_destructive, l)
         else if l = ''WARNING'' then (V_secondary, l)
         else (V_outline, str_or l u_emdash))"

text \<open>A status code is given by the greatest integer up to it, which decides the comparisons, and its text.\<close>

definition statusHttpBadge :: "int \<times> string \<Rightarrow> badge" where
  "statusHttpBadge code =
     (if 500 \<le> fst code then (V_destructive, snd code)
      else if 400 \<le> fst code then (V_secondary, snd code)
      else (V_outline, snd code))"

definition rowKey :: "log_entry \<Rightarrow> nat \<Rightarrow> string" where
  "rowKey row idx =
     text_or [] (map_of row ''timestamp'') @ ''-'' @ text_or [] (map_of row ''request_id'') @ ''-'' @ show_int (int idx)"

text \<open>The status of a row; \<^const>\<open>None\<close> is \<open>NaN\<close>.\<close>

fun status_code_of :: "json option \<Rightarrow> (int \<times> string) option" where
  "status_code_of (Some (JInt n)) = Some (n, show_int n)"
| "status_code_of (Some (JDec neg w f)) = Some (if neg then - int w - 1 else int w, dec_text neg w f)"
| "status_code_of (Some (JStr s)) = map_option (\<lambda>n. (n, show_int n)) (js_parseInt s)"
| "status_code_of v = None"

record log_cells =
  lc_time :: string
  lc_level :: badge
  lc_status :: "badge option"
  lc_instance :: string
  lc_request_id :: string
  lc_request :: string
  lc_duration :: string
  lc_message :: string

text \<open>\<open>local_time\<close> is \<open>new Date(s).toLocaleString()\<close>; a status that is not there is shown as a dash.\<close>

definition log_cells_of :: "(string \<Rightarrow> string) \<Rightarrow> log_entry \<Rightarrow> log_cells" where
  "log_cells_of local_time row =
     \<lparr>lc_time = (if js_true (map_of row ''timestamp'') then local_time (js_String (the (map_of row ''timestamp''))) else u_emdash),
      lc_level = logLevelBadge (as_string (map_of row ''level'')),
      lc_status = map_option statusHttpBadge (status_code_of (map_of row ''status_code'')),
      lc_instance = text_or u_emdash (map_of row ''instance_id''),
      lc_request_id = text_or u_emdash (map_of row ''request_id''),
      lc_request = (if js_true (map_of row ''method'') \<and> js_true (map_of row ''path'')
                    then js_String (the (map_of row ''method'')) @ '' '' @ js_String (the (map_of row ''path'')) else u_emdash),
      lc_duration = (case present (map_of row ''duration_ms'') of Some v \<Rightarrow> js_String v @ ''ms'' | None \<Rightarrow> u_emdash),
      lc_message = text_or [] (map_of row ''message'')\<rparr>"

section \<open>The chart\<close>

record bucket =
  bk_minute :: string
  bk_timestamp :: rat
  bk_total :: int
  bk_errors :: int
  bk_error_rate :: rat
  bk_status_breakdown :: "(string \<times> int) list"

record series_shown =
  sh_requests :: bool
  sh_errors :: bool
  sh_error_rate :: bool

definition graph_frame :: "series_shown \<Rightarrow> frame" where
  "graph_frame sh = \<lparr>fr_width = 900, fr_height = 300, fr_padTop = 30, fr_padBottom = 50, fr_padLeft = 55,
     fr_padRight = (if sh_error_rate sh then 52 else 20)\<rparr>"

definition maxCount :: "series_shown \<Rightarrow> bucket list \<Rightarrow> rat" where
  "maxCount sh bs =
     max (max (if sh_requests sh then js_max (map (rat_of_int \<circ> bk_total) bs) 0 else 0)
              (if sh_errors sh then js_max (map (rat_of_int \<circ> bk_errors) bs) 0 else 0)) 1"

definition maxRate :: "bucket list \<Rightarrow> rat" where
  "maxRate bs = js_max (map bk_error_rate bs) 1"

definition yCount :: "series_shown \<Rightarrow> bucket list \<Rightarrow> rat \<Rightarrow> rat" where
  "yCount sh bs v = y_at (graph_frame sh) (maxCount sh bs) v"

definition yRate :: "series_shown \<Rightarrow> bucket list \<Rightarrow> rat \<Rightarrow> rat" where
  "yRate sh bs v = y_at (graph_frame sh) (maxRate bs) v"

definition xAt :: "series_shown \<Rightarrow> bucket list \<Rightarrow> nat \<Rightarrow> rat" where
  "xAt sh bs i =
     (let n = max (length bs - 1) 1; w = chartW (graph_frame sh)
      in fr_padLeft (graph_frame sh) + (if length bs \<le> 1 then w / 2 else of_nat i / of_nat n * w))"

definition series_points :: "(nat \<Rightarrow> rat) \<Rightarrow> (rat \<Rightarrow> rat) \<Rightarrow> (bucket \<Rightarrow> rat) \<Rightarrow> bucket list \<Rightarrow> (rat \<times> rat) list" where
  "series_points x y v bs = map (\<lambda>i. (x i, y (v (bs ! i)))) [0..<length bs]"

definition reqPath :: "series_shown \<Rightarrow> bucket list \<Rightarrow> path_command list" where
  "reqPath sh bs = svg_path (series_points (xAt sh bs) (yCount sh bs) (rat_of_int \<circ> bk_total) bs)"

definition errPath :: "series_shown \<Rightarrow> bucket list \<Rightarrow> path_command list" where
  "errPath sh bs = svg_path (series_points (xAt sh bs) (yCount sh bs) (rat_of_int \<circ> bk_errors) bs)"

definition ratePath :: "series_shown \<Rightarrow> bucket list \<Rightarrow> path_command list" where
  "ratePath sh bs = svg_path (series_points (xAt sh bs) (yRate sh bs) bk_error_rate bs)"

text \<open>The paths in the picture: only those of the series that are switched on.\<close>

definition drawn_paths :: "series_shown \<Rightarrow> bucket list \<Rightarrow> path_command list list" where
  "drawn_paths sh bs =
     (if sh_requests sh then [reqPath sh bs] else []) @ (if sh_errors sh then [errPath sh bs] else [])
       @ (if sh_error_rate sh then [ratePath sh bs] else [])"

definition gridLines :: "series_shown \<Rightarrow> bucket list \<Rightarrow> (rat \<times> string) list" where
  "gridLines sh bs = map (\<lambda>v. (yCount sh bs v, show_int (js_round v))) (grid_values 5 (maxCount sh bs))"

definition xLabels :: "series_shown \<Rightarrow> bucket list \<Rightarrow> (rat \<times> string) list" where
  "xLabels sh bs = map (\<lambda>i. (xAt sh bs i, bk_minute (bs ! i))) (filter (\<lambda>i. i mod 10 = 0) [0..<length bs])"

text \<open>The pointer: the loop over the buckets, \<^const>\<open>None\<close> for \<open>Infinity\<close>.\<close>

fun closest_loop :: "(nat \<Rightarrow> rat) \<Rightarrow> rat \<Rightarrow> nat list \<Rightarrow> nat \<times> rat option \<Rightarrow> nat \<times> rat option" where
  "closest_loop x sx [] acc = acc"
| "closest_loop x sx (i # is) (idx, best) =
     (let dist = \<bar>sx - x i\<bar>
      in closest_loop x sx is (if (case best of None \<Rightarrow> True | Some d \<Rightarrow> dist < d) then (i, Some dist) else (idx, best)))"

record rect =
  rc_left :: rat
  rc_top :: rat
  rc_width :: rat
  rc_height :: rat

record tooltip =
  tt_x :: rat
  tt_y :: rat
  tt_bucket :: bucket

definition svg_x :: "rat \<Rightarrow> rect \<Rightarrow> rat \<Rightarrow> rat" where
  "svg_x clientX r w = (clientX - rc_left r) / rc_width r * w"

text \<open>
  \<open>handleMouseMove\<close>: the tooltip it leaves, given the one before. A picture of width 0 makes the position
  \<open>NaN\<close> or infinite, which is near no bucket.
\<close>

definition handleMouseMove :: "series_shown \<Rightarrow> bucket list \<Rightarrow> rect \<Rightarrow> rat \<Rightarrow> tooltip option \<Rightarrow> tooltip option" where
  "handleMouseMove sh bs r clientX tip =
     (if bs = [] then tip
      else if rc_width r = 0 then None
      else (case closest_loop (xAt sh bs) (svg_x clientX r 900) [0..<length bs] (0, None) of
              (idx, Some d) \<Rightarrow>
                if d < chartW (graph_frame sh) / of_nat (max (length bs) 8)
                then Some \<lparr>tt_x = xAt sh bs idx / 900 * rc_width r + rc_left r,
                           tt_y = yCount sh bs (of_int (bk_total (bs ! idx))) / 300 * rc_height r + rc_top r,
                           tt_bucket = bs ! idx\<rparr>
                else None
            | (idx, None) \<Rightarrow> None))"

text \<open>The vertical line: at the first bucket with the minute of the tooltip.\<close>

definition crosshair :: "series_shown \<Rightarrow> bucket list \<Rightarrow> tooltip option \<Rightarrow> rat option" where
  "crosshair sh bs tip =
     (case tip of
        None \<Rightarrow> None
      | Some t \<Rightarrow> map_option (xAt sh bs) (find (\<lambda>i. bk_minute (bs ! i) = bk_minute (tt_bucket t)) [0..<length bs]))"

text \<open>The breakdown in the tooltip, ordered by \<open>localeCompare\<close> on the codes.\<close>

definition tooltip_breakdown :: "(string \<Rightarrow> string \<Rightarrow> bool) \<Rightarrow> bucket \<Rightarrow> (string \<times> int) list" where
  "tooltip_breakdown le b = foldr (insert_by (\<lambda>p q. le (fst p) (fst q))) (bk_status_breakdown b) []"

definition tooltip_line :: "bucket \<Rightarrow> string" where
  "tooltip_line b =
     ''Requests: '' @ show_int (bk_total b) @ '' '' @ u_middot @ '' Errors: '' @ show_int (bk_errors b) @ '' '' @ u_middot
       @ '' Rate: '' @ toFixed 1 (bk_error_rate b) @ ''%''"

section \<open>Lemmas on the chart\<close>

lemma graph_area: "0 \<le> chartH (graph_frame sh)" "0 < chartW (graph_frame sh)"
  by (simp_all add: chartH_def chartW_def graph_frame_def)

lemma maxCount_pos: "0 < maxCount sh bs"
  by (simp add: maxCount_def)

lemma maxRate_pos: "0 < maxRate bs"
  by (simp add: maxRate_def js_max_pos)

lemma maxCount_total: "sh_requests sh \<Longrightarrow> i < length bs \<Longrightarrow> of_int (bk_total (bs ! i)) \<le> maxCount sh bs"
  using js_max_ge(1) [of "of_int (bk_total (bs ! i))" "map (rat_of_int \<circ> bk_total) bs" 0]
  by (simp add: maxCount_def le_max_iff_disj)

lemma maxCount_errors: "sh_errors sh \<Longrightarrow> i < length bs \<Longrightarrow> of_int (bk_errors (bs ! i)) \<le> maxCount sh bs"
  using js_max_ge(1) [of "of_int (bk_errors (bs ! i))" "map (rat_of_int \<circ> bk_errors) bs" 0]
  by (simp add: maxCount_def le_max_iff_disj)

lemma xAt_between:
  assumes "i < length bs"
  shows "fr_padLeft (graph_frame sh) \<le> xAt sh bs i \<and> xAt sh bs i \<le> fr_padLeft (graph_frame sh) + chartW (graph_frame sh)"
proof -
  define n where "n = max (length bs - 1) 1"
  have "rat_of_nat i \<le> of_nat n" using assms by (auto simp: n_def)
  then have "0 \<le> of_nat i / of_nat n * chartW (graph_frame sh)"
    "of_nat i / of_nat n * chartW (graph_frame sh) \<le> chartW (graph_frame sh)"
    using share_bounds [of "of_nat i" "of_nat n" "chartW (graph_frame sh)"] graph_area(2) [of sh] by simp_all
  moreover have "xAt sh bs i = fr_padLeft (graph_frame sh) +
      (if length bs \<le> 1 then chartW (graph_frame sh) / 2 else of_nat i / of_nat n * chartW (graph_frame sh))"
    by (simp only: xAt_def Let_def n_def)
  ultimately show ?thesis using graph_area(2) [of sh] by simp
qed

lemma maxRate_rate: "i < length bs \<Longrightarrow> bk_error_rate (bs ! i) \<le> maxRate bs"
  using js_max_ge(1) [of "bk_error_rate (bs ! i)" "map bk_error_rate bs" 1] by (simp add: maxRate_def)

text \<open>The three series are instances of the contract.\<close>

interpretation requests: chart "graph_frame sh" "maxCount sh bs" "xAt sh bs"
  "\<lambda>i. yCount sh bs (of_int (bk_total (bs ! i)))" "\<lambda>i. of_int (bk_total (bs ! i))"
  "if sh_requests sh then [0..<length bs] else []" for sh bs
  by unfold_locales
    (auto simp: graph_area maxCount_pos maxCount_total xAt_between yCount_def split: if_splits)

interpretation errors: chart "graph_frame sh" "maxCount sh bs" "xAt sh bs"
  "\<lambda>i. yCount sh bs (of_int (bk_errors (bs ! i)))" "\<lambda>i. of_int (bk_errors (bs ! i))"
  "if sh_errors sh then [0..<length bs] else []" for sh bs
  by unfold_locales
    (auto simp: graph_area maxCount_pos maxCount_errors xAt_between yCount_def split: if_splits)

interpretation rates: chart "graph_frame sh" "maxRate bs" "xAt sh bs"
  "\<lambda>i. yRate sh bs (bk_error_rate (bs ! i))" "\<lambda>i. bk_error_rate (bs ! i)" "[0..<length bs]" for sh bs
  by unfold_locales
    (auto simp: graph_area maxRate_pos maxRate_rate xAt_between yRate_def)

lemmas path_defs = reqPath_def errPath_def ratePath_def series_points_def

lemma closest_loop_some:
  "closest_loop x sx is (idx, Some \<bar>sx - x idx\<bar>) =
     (nearest_from x sx idx is, Some \<bar>sx - x (nearest_from x sx idx is)\<bar>)"
  by (induction "is" arbitrary: idx) (simp_all add: Let_def abs_minus_commute)

lemma closest_loop_nearest:
  "bs \<noteq> [] \<Longrightarrow> closest_loop x sx [0..<length bs] (0, None) =
     (nearest_from x sx 0 [1..<length bs], Some \<bar>sx - x (nearest_from x sx 0 [1..<length bs])\<bar>)"
  by (cases bs) (simp_all add: upt_conv_Cons closest_loop_some Let_def del: upt_Suc)

section \<open>Properties of the chart\<close>

text \<open>
  whatever series are switched on, every point of every path that is drawn lies inside the drawing
  area, for the counts and rates a backend can send (none negative). A hidden series may exceed the scale,
  which is computed from the shown ones, but it is not drawn.
\<close>

theorem drawn_inside_frame:
  assumes "list_all (\<lambda>b. 0 \<le> bk_total b \<and> 0 \<le> bk_errors b \<and> 0 \<le> bk_error_rate b) bs"
  shows "list_all (list_all (\<lambda>c. in_frame (graph_frame sh) (command_at c))) (drawn_paths sh bs)"
proof -
  have nn: "0 \<le> bk_total (bs ! i) \<and> 0 \<le> bk_errors (bs ! i) \<and> 0 \<le> bk_error_rate (bs ! i)" if "i < length bs" for i
    using assms that by (simp add: list_all_length)
  show ?thesis
    using requests.path_inside [of sh bs] errors.path_inside [of sh bs] rates.path_inside [of bs sh] nn
    by (auto simp: drawn_paths_def path_defs)
qed

definition sample_buckets :: "bucket list" where
  "sample_buckets =
     [\<lparr>bk_minute = ''10:00'', bk_timestamp = 0, bk_total = 120, bk_errors = 3, bk_error_rate = 25 / 10, bk_status_breakdown = []\<rparr>,
      \<lparr>bk_minute = ''10:01'', bk_timestamp = 60, bk_total = 0, bk_errors = 0, bk_error_rate = 0, bk_status_breakdown = []\<rparr>]"

theorem drawn_inside_frame_witness:
  "list_all (list_all (\<lambda>c. in_frame (graph_frame \<lparr>sh_requests = True, sh_errors = False, sh_error_rate = True\<rparr>) (command_at c)))
     (drawn_paths \<lparr>sh_requests = True, sh_errors = False, sh_error_rate = True\<rparr> sample_buckets)"
  by (rule drawn_inside_frame) (simp add: sample_buckets_def)

text \<open>
  the tooltip belongs to the bucket next to the pointer. On a picture with an extent, moving the
  pointer shows a bucket that no other bucket is nearer than; it shows none exactly when the nearest bucket is at
  least the threshold away, the width of the drawing area over the number of buckets (or over 8).
\<close>

theorem hover_shows_nearest:
  assumes "bs \<noteq> []" and "rc_width r \<noteq> 0"
  shows "case handleMouseMove sh bs r clientX tip of
     None \<Rightarrow> list_all (\<lambda>j. chartW (graph_frame sh) / of_nat (max (length bs) 8) \<le> \<bar>xAt sh bs j - svg_x clientX r 900\<bar>) [0..<length bs]
   | Some t \<Rightarrow> \<exists>i < length bs. tt_bucket t = bs ! i \<and>
       list_all (\<lambda>j. \<bar>xAt sh bs i - svg_x clientX r 900\<bar> \<le> \<bar>xAt sh bs j - svg_x clientX r 900\<bar>) [0..<length bs]"
proof -
  define sx where "sx = svg_x clientX r 900"
  define i where "i = nearest_from (xAt sh bs) sx 0 [1..<length bs]"
  have all: "set (0 # [1..<length bs]) = {0..<length bs}" using assms(1) by (cases bs) auto
  have "i \<in> set (0 # [1..<length bs])" unfolding i_def by (rule nearest_from_in)
  then have i: "i < length bs" unfolding all by simp
  have near: "\<bar>xAt sh bs i - sx\<bar> \<le> \<bar>xAt sh bs j - sx\<bar>" if "j < length bs" for j
    unfolding i_def by (rule nearest_from_le) (use that in \<open>unfold all, simp\<close>)
  have dist: "\<bar>sx - xAt sh bs i\<bar> = \<bar>xAt sh bs i - sx\<bar>" by (rule abs_minus_commute)
  show ?thesis
  proof (cases "\<bar>sx - xAt sh bs i\<bar> < chartW (graph_frame sh) / of_nat (max (length bs) 8)")
    case True
    then have "handleMouseMove sh bs r clientX tip =
        Some \<lparr>tt_x = xAt sh bs i / 900 * rc_width r + rc_left r,
              tt_y = yCount sh bs (of_int (bk_total (bs ! i))) / 300 * rc_height r + rc_top r, tt_bucket = bs ! i\<rparr>"
      using assms by (simp add: handleMouseMove_def closest_loop_nearest i_def sx_def)
    with i near show ?thesis unfolding sx_def by (auto simp: list_all_iff)
  next
    case False
    then have "handleMouseMove sh bs r clientX tip = None"
      using assms by (simp add: handleMouseMove_def closest_loop_nearest i_def sx_def)
    moreover have "chartW (graph_frame sh) / of_nat (max (length bs) 8) \<le> \<bar>xAt sh bs j - sx\<bar>" if "j < length bs" for j
      using False near [OF that] unfolding dist by linarith
    ultimately show ?thesis unfolding sx_def by (simp add: list_all_iff)
  qed
qed

theorem hover_shows_nearest_witness:
  "case handleMouseMove \<lparr>sh_requests = True, sh_errors = True, sh_error_rate = False\<rparr> sample_buckets
       \<lparr>rc_left = 0, rc_top = 0, rc_width = 450, rc_height = 150\<rparr> 30 None of
     None \<Rightarrow> False | Some t \<Rightarrow> tt_bucket t = sample_buckets ! 0"
proof -
  let ?sh = "\<lparr>sh_requests = True, sh_errors = True, sh_error_rate = False\<rparr>"
  let ?r = "\<lparr>rc_left = 0, rc_top = 0, rc_width = 450, rc_height = 150\<rparr>"
  have x: "xAt ?sh sample_buckets 0 = 55" "xAt ?sh sample_buckets (Suc 0) = 880" "svg_x 30 ?r 900 = 60"
    "length sample_buckets = 2" "chartW (graph_frame ?sh) = 825"
    by (simp_all add: xAt_def svg_x_def sample_buckets_def chartW_def graph_frame_def)
  have up: "[0..<2] = [0, Suc 0]" by (simp add: upt_rec)
  have "sample_buckets \<noteq> []" "rc_width ?r \<noteq> 0" by (simp_all add: sample_buckets_def)
  from hover_shows_nearest [OF this, of ?sh 30 None] show ?thesis
    by (auto simp: x up less_2_cases_iff split: option.splits)
qed

end
