(* ===== verification/LogMonitor.thy ===== *)
theory LogMonitor
  imports LogChart
begin

text \<open>
  The state of the log page (\<open>UnifiedLogMonitor\<close> in \<open>unified-log-monitor.tsx\<close>): its filters, the debounced
  search, the requests the filters, the poll timer and the buttons start, and the two-step clearing of the
  data. Answers arrive in any order; the model keeps the requests under way explicitly.
\<close>

section \<open>Filters and the request they make\<close>

text \<open>What \<open>fetchAll\<close> captures: the dependencies of its \<open>useCallback\<close>.\<close>

record filters =
  fl_windowMinutes :: int
  fl_logLimit :: int
  fl_logInstance :: string
  fl_logLevel :: string
  fl_search :: string
  fl_status :: string

definition init_filters :: filters where
  "init_filters = \<lparr>fl_windowMinutes = 60, fl_logLimit = 200, fl_logInstance = [], fl_logLevel = [], fl_search = [], fl_status = []\<rparr>"

definition insights_params :: "filters \<Rightarrow> (string \<times> string) list" where
  "insights_params f =
     [(''window_minutes'', show_int (fl_windowMinutes f)),
      (''log_limit'', show_int (min 10000 (max 1 (fl_logLimit f))))]
     @ (if fl_logInstance f = [] then [] else [(''instance_id'', fl_logInstance f)])
     @ (if fl_logLevel f = [] then [] else [(''level'', fl_logLevel f)])
     @ (if js_trim (fl_search f) = [] then [] else [(''search'', js_trim (fl_search f))])
     @ (if js_trim (fl_status f) = [] then [] else [(''status_code'', js_trim (fl_status f))])"

definition insights_url :: "filters \<Rightarrow> string" where
  "insights_url f = ''/api/logs/insights?'' @ search_params (insights_params f)"

text \<open>\<open>Number.parseInt(e.target.value, 10) || 100\<close>.\<close>

definition read_limit :: "string \<Rightarrow> int" where
  "read_limit s = (case js_parseInt s of None \<Rightarrow> 100 | Some n \<Rightarrow> if n = 0 then 100 else n)"

section \<open>What is loaded\<close>

record log_summary =
  sm_total_errors :: int
  sm_total_requests :: int
  sm_peak_errors :: int
  sm_current_rate :: rat

record insights =
  is_buckets :: "bucket list"
  is_logs :: "log_entry list"
  is_summary :: log_summary
  is_error :: "string option"
  is_hint :: "string option"

record instance_log_stats =
  il_request_count :: int
  il_error_count :: int
  il_error_rate :: rat

record log_stats =
  ls_total_ingested :: "int option"
  ls_buffered_logs :: "int option"
  ls_instances :: "(string \<times> instance_log_stats) list"
  ls_global :: "(int \<times> int \<times> rat) option"
  ls_error :: "string option"
  ls_hint :: "string option"

definition load_failed :: insights where
  "load_failed = \<lparr>is_buckets = [], is_logs = [],
     is_summary = \<lparr>sm_total_errors = 0, sm_total_requests = 0, sm_peak_errors = 0, sm_current_rate = 0\<rparr>,
     is_error = Some ''Failed to load log insights.'', is_hint = None\<rparr>"

definition overallRate :: "insights option \<Rightarrow> rat" where
  "overallRate ins =
     (let tr = (case ins of None \<Rightarrow> 0 | Some i \<Rightarrow> sm_total_requests (is_summary i));
          te = (case ins of None \<Rightarrow> 0 | Some i \<Rightarrow> sm_total_errors (is_summary i))
      in if 0 < tr then of_int te / of_int tr * 100 else 0)"

definition current_rate_badge :: "log_summary \<Rightarrow> badge" where
  "current_rate_badge s =
     (if 5 < sm_current_rate s then (V_destructive, ''High'')
      else if 0 < sm_current_rate s then (V_secondary, ''Low'') else (V_outline, ''None''))"

text \<open>\<open>`${error}${hint ? ` \<dots> ${hint}` : ""}`\<close>.\<close>

definition error_with_hint :: "string \<Rightarrow> string option \<Rightarrow> string" where
  "error_with_hint e hint = e @ (if truthy hint then '' '' @ u_emdash @ '' '' @ the hint else [])"

text \<open>The four figures on top of the page.\<close>

definition stat_figures :: "log_stats option \<Rightarrow> string list" where
  "stat_figures st =
     [(case Option.bind st ls_buffered_logs of Some n \<Rightarrow> show_int n | None \<Rightarrow> u_emdash),
      (case Option.bind st ls_total_ingested of Some n \<Rightarrow> show_int n | None \<Rightarrow> u_emdash),
      (case Option.bind st ls_global of Some (n, e, r) \<Rightarrow> show_int n | None \<Rightarrow> u_emdash),
      (case Option.bind st ls_global of Some (n, e, r) \<Rightarrow> toFixed 2 (r * 100) @ ''%'' | None \<Rightarrow> u_emdash)]"

definition instance_chip :: "string \<times> instance_log_stats \<Rightarrow> string" where
  "instance_chip p =
     labelForInstanceId (fst p) @ '': req '' @ show_int (il_request_count (snd p)) @ '' '' @ u_middot @ '' err ''
       @ show_int (il_error_count (snd p)) @ '' '' @ u_middot @ '' p(err) '' @ toFixed 1 (il_error_rate (snd p) * 100) @ ''%''"

section \<open>The page\<close>

text \<open>
  Where \<open>clearData\<close> stands: it posts, then reloads with the filters of the moment of the click (the closure),
  then closes the open row. \<open>clearing\<close> is true in the last two phases.
\<close>

datatype clear_phase = Clear_idle | Clear_posting filters | Clear_reloading nat

text \<open>
  The state. \<open>lm_pending\<close> holds the requests under way, numbered, with the filters they were made for;
  \<open>lm_last\<close> is the number of the latest request, \<open>lm_last_for\<close> its filters and whether the clear button
  made it, \<open>lm_shown\<close> the number and filters of the request whose answer is shown. No code reads these.
\<close>

record monitor =
  lm_insights :: "insights option"
  lm_logStats :: "log_stats option"
  lm_loading :: bool
  lm_clearing :: clear_phase
  lm_filters :: filters
  lm_search :: string
  lm_timer :: "string option"
  lm_pause :: bool
  lm_shows :: series_shown
  lm_tooltip :: "tooltip option"
  lm_expanded :: "string option"
  lm_pending :: "(nat \<times> filters) list"
  lm_last :: nat
  lm_last_for :: "filters \<times> bool"
  lm_shown :: "(nat \<times> filters) option"

text \<open>The page right after mounting: the first request is on its way, the debounce timer runs.\<close>

definition init_monitor :: monitor where
  "init_monitor = \<lparr>lm_insights = None, lm_logStats = None, lm_loading = True, lm_clearing = Clear_idle,
     lm_filters = init_filters, lm_search = [], lm_timer = Some [], lm_pause = False,
     lm_shows = \<lparr>sh_requests = True, sh_errors = True, sh_error_rate = False\<rparr>, lm_tooltip = None,
     lm_expanded = None, lm_pending = [(1, init_filters)], lm_last = 1, lm_last_for = (init_filters, False), lm_shown = None\<rparr>"

definition logs_start :: "filters \<Rightarrow> monitor \<Rightarrow> monitor" where
  "logs_start f s = s\<lparr>lm_loading := True, lm_last := Suc (lm_last s), lm_last_for := (f, False),
     lm_pending := lm_pending s @ [(Suc (lm_last s), f)]\<rparr>"

definition logs_settle :: "nat \<Rightarrow> filters \<Rightarrow> (insights \<times> log_stats) option \<Rightarrow> monitor \<Rightarrow> monitor" where
  "logs_settle g f answer s0 =
     (let s = s0\<lparr>lm_pending := filter (\<lambda>r. fst r \<noteq> g) (lm_pending s0), lm_shown := Some (g, f), lm_loading := False\<rparr>;
          s1 = (case answer of
                  Some (ins, st) \<Rightarrow> s\<lparr>lm_insights := Some ins, lm_logStats := Some st\<rparr>
                | None \<Rightarrow> s\<lparr>lm_insights := Some load_failed\<rparr>)
      in if lm_clearing s1 = Clear_reloading g then s1\<lparr>lm_clearing := Clear_idle, lm_expanded := None\<rparr> else s1)"

text \<open>A filter changes: a change of what \<open>fetchAll\<close> depends on starts a request.\<close>

definition set_filters :: "filters \<Rightarrow> monitor \<Rightarrow> monitor" where
  "set_filters f s = (if f = lm_filters s then s else logs_start f (s\<lparr>lm_filters := f\<rparr>))"

definition poll_logs :: "monitor \<Rightarrow> monitor" where
  "poll_logs s = (if lm_pause s then s else logs_start (lm_filters s) s)"

definition refresh_logs :: "monitor \<Rightarrow> monitor" where
  "refresh_logs s = (if lm_loading s then s else logs_start (lm_filters s) s)"

text \<open>Typing in the search box restarts the 400 ms timer; the timer applies the text it was started with.\<close>

definition type_search :: "string \<Rightarrow> monitor \<Rightarrow> monitor" where
  "type_search t s = (if t = lm_search s then s else s\<lparr>lm_search := t, lm_timer := Some t\<rparr>)"

definition search_timer :: "monitor \<Rightarrow> monitor" where
  "search_timer s =
     (case lm_timer s of
        None \<Rightarrow> s
      | Some t \<Rightarrow> set_filters ((lm_filters s)\<lparr>fl_search := t\<rparr>) (s\<lparr>lm_timer := None\<rparr>))"

definition instance_jump :: "string \<Rightarrow> monitor \<Rightarrow> monitor" where
  "instance_jump i s = (if i = [] then s else set_filters ((lm_filters s)\<lparr>fl_logInstance := i\<rparr>) s)"

definition toggle_instance :: "string \<Rightarrow> monitor \<Rightarrow> monitor" where
  "toggle_instance i s =
     set_filters ((lm_filters s)\<lparr>fl_logInstance := (if fl_logInstance (lm_filters s) = i then [] else i)\<rparr>) s"

definition toggle_log_row :: "string \<Rightarrow> monitor \<Rightarrow> monitor" where
  "toggle_log_row k s = s\<lparr>lm_expanded := (if lm_expanded s = Some k then None else Some k)\<rparr>"

definition set_pause :: "bool \<Rightarrow> monitor \<Rightarrow> monitor" where
  "set_pause b s = s\<lparr>lm_pause := b\<rparr>"

text \<open>The clear button: not while it is clearing; the reply's status is not looked at.\<close>

definition clear_click :: "monitor \<Rightarrow> monitor" where
  "clear_click s = (if lm_clearing s = Clear_idle then s\<lparr>lm_clearing := Clear_posting (lm_filters s)\<rparr> else s)"

definition clear_posted :: "thrown + http_response \<Rightarrow> monitor \<Rightarrow> monitor" where
  "clear_posted answer s =
     (case lm_clearing s of
        Clear_posting f \<Rightarrow>
          (case answer of
             Inl e \<Rightarrow> s\<lparr>lm_clearing := Clear_idle\<rparr>
           | Inr r \<Rightarrow> (logs_start f s)\<lparr>lm_clearing := Clear_reloading (Suc (lm_last s)), lm_last_for := (f, True)\<rparr>)
      | _ \<Rightarrow> s)"

text \<open>The controls that edit the filters.\<close>

datatype filter_edit = Edit_window int | Edit_instance string | Edit_level string | Edit_status string | Edit_limit string

fun edit_filters :: "filter_edit \<Rightarrow> filters \<Rightarrow> filters" where
  "edit_filters (Edit_window n) f = f\<lparr>fl_windowMinutes := n\<rparr>"
| "edit_filters (Edit_instance i) f = f\<lparr>fl_logInstance := i\<rparr>"
| "edit_filters (Edit_level l) f = f\<lparr>fl_logLevel := l\<rparr>"
| "edit_filters (Edit_status t) f = f\<lparr>fl_status := t\<rparr>"
| "edit_filters (Edit_limit t) f = f\<lparr>fl_logLimit := read_limit t\<rparr>"

inductive monitor_step :: "monitor \<Rightarrow> monitor \<Rightarrow> bool" where
  edit: "monitor_step s (set_filters (edit_filters e (lm_filters s)) s)"
| type: "monitor_step s (type_search t s)"
| debounce: "monitor_step s (search_timer s)"
| jump: "monitor_step s (instance_jump i s)"
| chip: "monitor_step s (toggle_instance i s)"
| poll: "monitor_step s (poll_logs s)"
| reload: "monitor_step s (refresh_logs s)"
| pause: "monitor_step s (set_pause b s)"
| row: "monitor_step s (toggle_log_row k s)"
| clear: "monitor_step s (clear_click s)"
| posted: "monitor_step s (clear_posted r s)"
| settle: "(g, f) \<in> set (lm_pending s) \<Longrightarrow> monitor_step s (logs_settle g f r s)"
| hover: "monitor_step s (s\<lparr>lm_tooltip := t\<rparr>)"
| series: "monitor_step s (s\<lparr>lm_shows := sh\<rparr>)"

inductive monitor_reach :: "monitor \<Rightarrow> bool" where
  mounted: "monitor_reach init_monitor"
| step: "monitor_reach s \<Longrightarrow> monitor_step s t \<Longrightarrow> monitor_reach t"

inductive_cases monitor_step_cases: "monitor_step s t"

section \<open>Lemmas\<close>

text \<open>The debounced text is the typed one, or the timer that will make it so is running.\<close>

fun search_synced :: "string option \<Rightarrow> string \<Rightarrow> string \<Rightarrow> bool" where
  "search_synced None applied typed = (applied = typed)"
| "search_synced (Some t) applied typed = (t = typed)"

definition monitor_ok :: "monitor \<Rightarrow> bool" where
  "monitor_ok s \<longleftrightarrow>
     list_all (\<lambda>r. fst r \<le> lm_last s \<and> (fst r = lm_last s \<longrightarrow> snd r = fst (lm_last_for s))) (lm_pending s) \<and>
     (\<forall>g f. lm_shown s = Some (g, f) \<longrightarrow> g \<le> lm_last s \<and> (g = lm_last s \<longrightarrow> f = fst (lm_last_for s))) \<and>
     (snd (lm_last_for s) \<or> fst (lm_last_for s) = lm_filters s) \<and>
     search_synced (lm_timer s) (fl_search (lm_filters s)) (lm_search s)"

lemma monitor_ok_init: "monitor_ok init_monitor"
  by (simp add: monitor_ok_def init_monitor_def)

lemma monitor_ok_same:
  assumes "monitor_ok s"
    and "lm_pending t = lm_pending s" "lm_last t = lm_last s" "lm_last_for t = lm_last_for s" "lm_shown t = lm_shown s"
    and "lm_filters t = lm_filters s" "lm_timer t = lm_timer s" "lm_search t = lm_search s"
  shows "monitor_ok t"
  using assms unfolding monitor_ok_def by simp

lemma monitor_ok_start:
  assumes "monitor_ok s"
  shows "monitor_ok (logs_start (lm_filters s) s)"
  using assms unfolding monitor_ok_def logs_start_def by (auto simp: list_all_iff)

lemma monitor_ok_filters:
  assumes "monitor_ok s" and "fl_search f = fl_search (lm_filters s)"
  shows "monitor_ok (set_filters f s)"
  using assms unfolding monitor_ok_def logs_start_def set_filters_def by (auto simp: list_all_iff)

lemma monitor_ok_timer:
  assumes "monitor_ok s"
  shows "monitor_ok (search_timer s)"
  using assms unfolding monitor_ok_def logs_start_def set_filters_def search_timer_def
  by (auto simp: list_all_iff split: option.splits dest: arg_cong [where f = fl_search])

lemma monitor_ok_type: "monitor_ok s \<Longrightarrow> monitor_ok (type_search t s)"
  unfolding monitor_ok_def type_search_def by simp

lemma monitor_ok_posted: "monitor_ok s \<Longrightarrow> monitor_ok (clear_posted r s)"
  unfolding monitor_ok_def clear_posted_def logs_start_def
  by (auto simp: list_all_iff split: clear_phase.splits sum.splits)

lemma monitor_ok_settle:
  assumes "monitor_ok s" and "(g, f) \<in> set (lm_pending s)"
  shows "monitor_ok (logs_settle g f r s)"
  using assms unfolding monitor_ok_def logs_settle_def Let_def
  by (auto simp: list_all_iff split: option.splits)

lemma edit_keeps_search: "fl_search (edit_filters e f) = fl_search f"
  by (cases e) simp_all

lemmas monitor_ok_ops = monitor_ok_start monitor_ok_filters monitor_ok_timer monitor_ok_type monitor_ok_posted
  monitor_ok_settle edit_keeps_search

lemma monitor_ok_step: "monitor_step s t \<Longrightarrow> monitor_ok s \<Longrightarrow> monitor_ok t"
  by (erule monitor_step_cases)
    (auto simp: monitor_ok_ops instance_jump_def toggle_instance_def poll_logs_def refresh_logs_def set_pause_def
       toggle_log_row_def clear_click_def elim: monitor_ok_same)

lemma monitor_reach_ok: "monitor_reach s \<Longrightarrow> monitor_ok s"
  by (induction rule: monitor_reach.induct) (auto intro: monitor_ok_init monitor_ok_step)

section \<open>Reading a query string\<close>

text \<open>
  \<open>new URLSearchParams(qs)\<close>, what the receiving side does with the query: sequences between ampersands,
  split at the first equals sign, plus signs and percent escapes decoded.
\<close>

fun form_decode :: "string \<Rightarrow> string" where
  "form_decode [] = []"
| "form_decode (c # s) =
     (if c = CHR ''+'' then CHR '' '' # form_decode s
      else if c = CHR ''%'' then
        (case s of
           a # b # t \<Rightarrow>
             (case (hex_val a, hex_val b) of
                (Some x, Some y) \<Rightarrow> char_of (16 * x + y) # form_decode t
              | _ \<Rightarrow> c # form_decode s)
         | _ \<Rightarrow> c # form_decode s)
      else c # form_decode s)"

definition parse_pair :: "string \<Rightarrow> string \<times> string" where
  "parse_pair s =
     (form_decode (takeWhile (\<lambda>c. c \<noteq> CHR ''='') s), form_decode (tl (dropWhile (\<lambda>c. c \<noteq> CHR ''='') s)))"

definition parse_query :: "string \<Rightarrow> (string \<times> string) list" where
  "parse_query qs = map parse_pair (filter (\<lambda>s. s \<noteq> []) (js_split (CHR ''&'') qs))"

definition upper_hex :: "nat \<Rightarrow> char" where
  "upper_hex d = (if d < 10 then char_of (48 + d) else char_of (55 + d))"

lemma upper_hex_code: "d < 16 \<Longrightarrow> of_char (upper_hex d) = (if d < 10 then 48 + d else 55 + d :: nat)"
  by (simp add: upper_hex_def)

lemma upper_hex_val: "d < 16 \<Longrightarrow> hex_val (upper_hex d) = Some d"
  by (simp add: hex_val_def upper_hex_code Let_def)

lemma upper_hex_plain:
  assumes "d < 16"
  shows "upper_hex d \<noteq> CHR ''&''" "upper_hex d \<noteq> CHR ''=''"
proof -
  have "of_char (upper_hex d) \<noteq> (of_char (CHR ''&'') :: nat)" "of_char (upper_hex d) \<noteq> (of_char (CHR ''='') :: nat)"
    using assms by (simp_all add: upper_hex_code)
  then show "upper_hex d \<noteq> CHR ''&''" "upper_hex d \<noteq> CHR ''=''" by auto
qed

lemma byte_halves: "(of_char c :: nat) div 16 < 16" "(of_char c :: nat) mod 16 < 16"
proof -
  have "(of_char c :: nat) < 256" by (rule nat_of_char_less_256)
  then show "(of_char c :: nat) div 16 < 16" by (simp add: less_mult_imp_div_less)
qed simp

text \<open>The three shapes of an encoded byte.\<close>

definition unreserved :: "char \<Rightarrow> bool" where
  "unreserved c \<longleftrightarrow>
     (let n = of_char c :: nat
      in (48 \<le> n \<and> n \<le> 57) \<or> (65 \<le> n \<and> n \<le> 90) \<or> (97 \<le> n \<and> n \<le> 122) \<or> c \<in> set ''*-._'')"

lemma form_char_split:
  "form_char c =
     (if unreserved c then [c] else if c = CHR '' '' then ''+''
      else [CHR ''%'', upper_hex (of_char c div 16), upper_hex (of_char c mod 16)])"
  by (simp only: form_char_def unreserved_def upper_hex_def Let_def)

lemma unreserved_plain:
  assumes "unreserved c"
  shows "c \<noteq> CHR ''+''" "c \<noteq> CHR ''%''" "c \<noteq> CHR ''&''" "c \<noteq> CHR ''=''"
  using assms by (auto simp: unreserved_def)

lemma form_decode_char: "form_decode (form_char c @ s) = c # form_decode s"
proof -
  have "(char_of (16 * (of_char c div 16) + of_char c mod 16 :: nat) :: char) = c"
    by (metis char_of_char mult_div_mod_eq)
  then show ?thesis
    using unreserved_plain [of c] by (simp add: form_char_split upper_hex_val byte_halves)
qed

lemma form_decode_encode: "form_decode (form_encode s) = s"
  unfolding form_encode_def
proof (induction s)
  case (Cons c s)
  then show ?case using form_decode_char [of c "concat (map form_char s)"] by simp
qed simp

lemma form_char_plain: "d \<in> set (form_char c) \<Longrightarrow> d \<noteq> CHR ''&'' \<and> d \<noteq> CHR ''=''"
  unfolding form_char_split
  using unreserved_plain(3,4) [of c] upper_hex_plain [OF byte_halves(1), of c] upper_hex_plain [OF byte_halves(2), of c]
  by (auto split: if_splits)

lemma form_encode_plain: "c \<in> set (form_encode s) \<Longrightarrow> c \<noteq> CHR ''&'' \<and> c \<noteq> CHR ''=''"
  using form_char_plain by (auto simp: form_encode_def)

lemma parse_pair_encoded: "parse_pair (form_encode k @ ''='' @ form_encode v) = (k, v)"
proof -
  have "\<forall>c \<in> set (form_encode k). c \<noteq> CHR ''=''" using form_encode_plain [of _ k] by blast
  then show ?thesis
    by (simp add: parse_pair_def takeWhile_append2 dropWhile_append2 form_decode_encode)
qed

lemma encoded_pair_no_amp: "CHR ''&'' \<notin> set (form_encode k @ ''='' @ form_encode v)"
  using form_encode_plain [of _ k] form_encode_plain [of _ v] by auto

lemma parse_search_params: "parse_query (search_params kvs) = kvs"
proof (induction kvs)
  case Nil
  then show ?case by (simp add: parse_query_def search_params_def)
next
  case (Cons kv kvs)
  obtain k v where kv: "kv = (k, v)" by (cases kv)
  let ?p = "form_encode k @ ''='' @ form_encode v"
  have "search_params (kv # kvs) = (if kvs = [] then ?p else ?p @ CHR ''&'' # search_params kvs)"
    by (cases kvs) (simp_all add: search_params_def kv)
  then have "js_split (CHR ''&'') (search_params (kv # kvs)) = (if kvs = [] then [?p] else ?p # js_split (CHR ''&'') (search_params kvs))"
    using js_split_append [OF encoded_pair_no_amp, of k v "search_params kvs"] js_split_single [OF encoded_pair_no_amp, of k v]
    by (simp split: if_splits)
  then show ?case
    using Cons.IH parse_pair_encoded [of k v] by (simp add: parse_query_def kv)
qed

section \<open>Properties\<close>

text \<open>What the receiving side finds under each key, and when two settings of the filters make the same query.\<close>

lemma query_inject: "search_params p = search_params q \<longleftrightarrow> p = q"
  by (metis parse_search_params)

lemma insights_read:
  "map_of (insights_params f) ''window_minutes'' = Some (show_int (fl_windowMinutes f))"
  "map_of (insights_params f) ''log_limit'' = Some (show_int (min 10000 (max 1 (fl_logLimit f))))"
  "map_of (insights_params f) ''instance_id'' = (if fl_logInstance f = [] then None else Some (fl_logInstance f))"
  "map_of (insights_params f) ''level'' = (if fl_logLevel f = [] then None else Some (fl_logLevel f))"
  "map_of (insights_params f) ''search'' = (if js_trim (fl_search f) = [] then None else Some (js_trim (fl_search f)))"
  "map_of (insights_params f) ''status_code'' = (if js_trim (fl_status f) = [] then None else Some (js_trim (fl_status f)))"
  by (simp_all add: insights_params_def)

definition ask_alike :: "filters \<Rightarrow> filters \<Rightarrow> bool" where
  "ask_alike f g \<longleftrightarrow>
     fl_windowMinutes f = fl_windowMinutes g
     \<and> min 10000 (max 1 (fl_logLimit f)) = min 10000 (max 1 (fl_logLimit g))
     \<and> fl_logInstance f = fl_logInstance g \<and> fl_logLevel f = fl_logLevel g
     \<and> js_trim (fl_search f) = js_trim (fl_search g) \<and> js_trim (fl_status f) = js_trim (fl_status g)"

lemma given_inject: "(if a = [] then None else Some a) = (if b = [] then None else Some b) \<longleftrightarrow> a = b"
  by simp

lemma insights_inject: "insights_params f = insights_params g \<longleftrightarrow> ask_alike f g"
proof
  assume "insights_params f = insights_params g"
  then have "map_of (insights_params f) k = map_of (insights_params g) k" for k by simp
  from this [of "''window_minutes''"] this [of "''log_limit''"] this [of "''instance_id''"] this [of "''level''"]
    this [of "''search''"] this [of "''status_code''"]
  show "ask_alike f g" unfolding insights_read given_inject by (simp add: ask_alike_def show_int_inject)
qed (simp add: ask_alike_def insights_params_def)

text \<open>
  at most one log line is expanded. The keys of the lines of one answer differ from one another, so the
  key that is remembered as expanded selects at most one of them.
\<close>

lemma show_int_no_dash: "CHR ''-'' \<notin> set (show_int (int n))"
  using show_nat_digits [of n] digit_not_sign by (auto simp: show_int_def)

lemma rowKey_inject: "rowKey r i = rowKey q j \<Longrightarrow> i = j"
proof -
  assume eq: "rowKey r i = rowKey q j"
  have last: "takeWhile (\<lambda>c. c \<noteq> CHR ''-'') (rev (rowKey p k)) = rev (show_int (int k))" for p k
  proof -
    have "c \<noteq> CHR ''-''" if "c \<in> set (rev (show_int (int k)))" for c using that show_int_no_dash [of k] by auto
    then have "takeWhile (\<lambda>c. c \<noteq> CHR ''-'') (rev (show_int (int k)) @ CHR ''-'' # t) = rev (show_int (int k))" for t
      by (subst takeWhile_append2) auto
    then show ?thesis by (simp add: rowKey_def)
  qed
  have "show_int (int i) = show_int (int j)" using last [of r i] last [of q j] eq by simp
  then show "i = j" by (simp add: show_int_inject)
qed

theorem one_line_expanded:
  "distinct (map (\<lambda>i. rowKey (rows ! i) i) [0..<length rows]) \<and>
   length (filter (\<lambda>i. lm_expanded s = Some (rowKey (rows ! i) i)) [0..<length rows]) \<le> 1"
proof
  show "distinct (map (\<lambda>i. rowKey (rows ! i) i) [0..<length rows])"
    by (simp add: distinct_map inj_on_def) (blast dest: rowKey_inject)
  let ?open = "filter (\<lambda>i. lm_expanded s = Some (rowKey (rows ! i) i)) [0..<length rows]"
  have "i = j" if "i \<in> set ?open" "j \<in> set ?open" for i j
    using that by (auto dest: rowKey_inject)
  then have "card (set ?open) \<le> 1" unfolding One_nat_def card_le_Suc0_iff_eq [OF List.finite_set] by blast
  moreover have "card (set ?open) = length ?open" by (rule distinct_card) simp
  ultimately show "length ?open \<le> 1" by metis
qed

text \<open>C17: once the latest request is answered, the page shows what its filters ask for. In every run, however
  answers overtake one another, if the answer on display is the one of the latest request and that request was
  not made by the clear button, it was made for the filters of the page; and the search text in them is the one
  typed, unless the debounce timer that will apply it is still running.
\<close>

theorem latest_answer_is_current:
  assumes "monitor_reach s" and "lm_shown s = Some (lm_last s, f)" and "\<not> snd (lm_last_for s)"
  shows "f = lm_filters s \<and>
    (case lm_timer s of None \<Rightarrow> fl_search f = lm_search s | Some t \<Rightarrow> t = lm_search s)"
proof -
  have ok: "monitor_ok s" by (rule monitor_reach_ok [OF assms(1)])
  have "f = lm_filters s" using ok assms(2,3) by (auto simp: monitor_ok_def)
  then show ?thesis using ok by (cases "lm_timer s") (simp_all add: monitor_ok_def)
qed

definition no_lines :: "insights \<times> log_stats" where
  "no_lines = (load_failed\<lparr>is_error := None\<rparr>,
     \<lparr>ls_total_ingested = None, ls_buffered_logs = None, ls_instances = [], ls_global = None, ls_error = None, ls_hint = None\<rparr>)"

text \<open>A level is picked while the first request is under way; its answer comes after the one for the level.\<close>

definition picked_level :: monitor where
  "picked_level = set_filters (edit_filters (Edit_level ''ERROR'') init_filters) (set_pause True init_monitor)"

definition level_answered :: monitor where
  "level_answered = logs_settle 2 (edit_filters (Edit_level ''ERROR'') init_filters) (Some no_lines) picked_level"

definition overtaken :: monitor where
  "overtaken = search_timer (logs_settle 1 init_filters (Some no_lines) level_answered)"

lemmas overtaken_simps = picked_level_def level_answered_def overtaken_def set_filters_def logs_start_def logs_settle_def
  set_pause_def init_monitor_def init_filters_def search_timer_def no_lines_def Let_def

lemma picked_level_reach: "monitor_reach picked_level"
proof -
  have "monitor_reach (set_pause True init_monitor)" by (rule monitor_reach.step [OF monitor_reach.mounted monitor_step.pause])
  moreover have "monitor_step (set_pause True init_monitor) picked_level"
    using monitor_step.edit [of "set_pause True init_monitor" "Edit_level ''ERROR''"]
    by (simp add: picked_level_def set_pause_def init_monitor_def)
  ultimately show ?thesis by (rule monitor_reach.step)
qed

lemma level_answered_reach: "monitor_reach level_answered"
  unfolding level_answered_def
  by (rule monitor_reach.step [OF picked_level_reach monitor_step.settle]) (simp add: overtaken_simps)

theorem latest_answer_is_current_witness:
  "lm_filters level_answered = init_filters\<lparr>fl_logLevel := ''ERROR''\<rparr>"
proof -
  have "lm_shown level_answered = Some (lm_last level_answered, init_filters\<lparr>fl_logLevel := ''ERROR''\<rparr>)"
    "\<not> snd (lm_last_for level_answered)"
    by (simp_all add: overtaken_simps)
  from latest_answer_is_current [OF level_answered_reach this] show ?thesis by simp
qed

text \<open>
  nothing stops an older answer. There is a run after which the page is paused, no request is under way,
  nothing is being typed or cleared, and the log lines on display belong to other filters than the ones selected:
  \<open>fetchAll\<close> lacks the check of the request number that the database panel of the operations page has.
\<close>

theorem paused_page_shows_other_filters:
  "\<exists>s g f. monitor_reach s \<and> lm_pause s \<and> lm_pending s = [] \<and> lm_timer s = None \<and> lm_clearing s = Clear_idle \<and>
     \<not> lm_loading s \<and> lm_shown s = Some (g, f) \<and> f \<noteq> lm_filters s"
proof (intro exI conjI)
  have "monitor_reach (logs_settle 1 init_filters (Some no_lines) level_answered)"
    by (rule monitor_reach.step [OF level_answered_reach monitor_step.settle]) (simp add: overtaken_simps)
  then show "monitor_reach overtaken"
    unfolding overtaken_def by (rule monitor_reach.step [OF _ monitor_step.debounce])
  show "lm_shown overtaken = Some (1, init_filters)" "lm_pause overtaken" "lm_pending overtaken = []"
    "lm_timer overtaken = None" "lm_clearing overtaken = Clear_idle" "\<not> lm_loading overtaken"
    "init_filters \<noteq> lm_filters overtaken"
    by (simp_all add: overtaken_simps)
qed

end
