(* ===== verification/MiniChart.thy ===== *)
theory MiniChart
  imports LogMonitor
begin

text \<open>
  The line chart of the golden-signals page (\<open>MiniChart\<close> in \<open>golden-signals.tsx\<close>): its scales, its time axis
  with at most seven labels, and the values next to the pointer. A series is an instance of the chart contract.
\<close>

section \<open>Scales\<close>

record point =
  pt_t :: rat
  pt_v :: rat

record chart_series =
  cs_label :: string
  cs_color :: string
  cs_points :: "point list"

definition mini_frame :: "rat \<Rightarrow> frame" where
  "mini_frame height = \<lparr>fr_width = 900, fr_height = height, fr_padTop = 25, fr_padBottom = 45, fr_padLeft = 60, fr_padRight = 20\<rparr>"

definition allPoints :: "chart_series list \<Rightarrow> point list" where
  "allPoints ss = concat (map cs_points ss)"

text \<open>The ranges of the axes; without points the chart is replaced by a message.\<close>

definition minT :: "chart_series list \<Rightarrow> rat" where
  "minT ss = (case map pt_t (allPoints ss) of [] \<Rightarrow> 0 | t # ts \<Rightarrow> js_min ts t)"

definition maxT :: "chart_series list \<Rightarrow> rat" where
  "maxT ss = (case map pt_t (allPoints ss) of [] \<Rightarrow> 0 | t # ts \<Rightarrow> js_max ts t)"

definition maxV :: "chart_series list \<Rightarrow> rat" where
  "maxV ss = js_max (map pt_v (allPoints ss)) (1 / 1000)"

definition xScale :: "rat \<Rightarrow> chart_series list \<Rightarrow> rat \<Rightarrow> rat" where
  "xScale h ss t =
     (let d = maxT ss - minT ss
      in fr_padLeft (mini_frame h) + (t - minT ss) / (if d = 0 then 1 else d) * chartW (mini_frame h))"

definition yScale :: "rat \<Rightarrow> chart_series list \<Rightarrow> rat \<Rightarrow> rat" where
  "yScale h ss v = y_at (mini_frame h) (maxV ss) v"

definition mini_path :: "rat \<Rightarrow> chart_series list \<Rightarrow> chart_series \<Rightarrow> path_command list option" where
  "mini_path h ss s =
     (if cs_points s = [] then None
      else Some (svg_path (map (\<lambda>p. (xScale h ss (pt_t p), yScale h ss (pt_v p))) (cs_points s))))"

definition mini_grid :: "(rat \<Rightarrow> string) \<Rightarrow> rat \<Rightarrow> chart_series list \<Rightarrow> (rat \<times> string) list" where
  "mini_grid fmt h ss = map (\<lambda>v. (yScale h ss v, fmt v)) (grid_values 5 (maxV ss))"

section \<open>The time axis\<close>

definition intervalS :: "chart_series list \<Rightarrow> rat" where
  "intervalS ss = max 300 (of_int \<lceil>(maxT ss - minT ss) / 6 / 60\<rceil> * 60)"

text \<open>The loop \<open>for (t = start; t <= end; t += step)\<close>; the step is positive.\<close>

function ticks :: "rat \<Rightarrow> rat \<Rightarrow> rat \<Rightarrow> rat list" where
  "ticks step stop t = (if 0 < step \<and> t \<le> stop then t # ticks step stop (t + step) else [])"
  by pat_completeness auto

termination ticks
proof (relation "measure (\<lambda>(step, stop, t). nat (\<lfloor>(stop - t) / step\<rfloor> + 1))")
  fix step stop t :: rat
  assume a: "0 < step \<and> t \<le> stop"
  then have "(stop - (t + step)) / step = (stop - t) / step - 1"
    by (simp add: diff_divide_distrib add_divide_distrib)
  moreover have "0 \<le> (stop - t) / step" using a by simp
  ultimately show "((step, stop, t + step), step, stop, t) \<in> measure (\<lambda>(step, stop, t). nat (\<lfloor>(stop - t) / step\<rfloor> + 1))"
    by simp
qed simp

declare ticks.simps [simp del]

definition tick_times :: "chart_series list \<Rightarrow> rat list" where
  "tick_times ss = ticks (intervalS ss) (maxT ss) (of_int \<lceil>minT ss / intervalS ss\<rceil> * intervalS ss)"

text \<open>\<open>local\<close> is the local hour, minute and second of a time in seconds.\<close>

definition hh_mm :: "int \<times> int \<times> int \<Rightarrow> string" where
  "hh_mm c = (case c of (h, m, s) \<Rightarrow> pad_left 2 (show_int h) @ '':'' @ pad_left 2 (show_int m))"

definition hh_mm_ss :: "int \<times> int \<times> int \<Rightarrow> string" where
  "hh_mm_ss c = (case c of (h, m, s) \<Rightarrow> hh_mm c @ '':'' @ pad_left 2 (show_int s))"

definition time_labels :: "(rat \<Rightarrow> int \<times> int \<times> int) \<Rightarrow> rat \<Rightarrow> chart_series list \<Rightarrow> (rat \<times> string) list" where
  "time_labels local h ss = map (\<lambda>t. (xScale h ss t, hh_mm (local t))) (tick_times ss)"

section \<open>The pointer\<close>

definition closest_point :: "rat \<Rightarrow> point list \<Rightarrow> point option" where
  "closest_point t ps = (case ps of [] \<Rightarrow> None | p # qs \<Rightarrow> Some (nearest_from pt_t t p (p # qs)))"

definition pointer_time :: "rat \<Rightarrow> chart_series list \<Rightarrow> rat \<Rightarrow> rat" where
  "pointer_time h ss sx = minT ss + (sx - fr_padLeft (mini_frame h)) / chartW (mini_frame h) * (maxT ss - minT ss)"

text \<open>The values listed for a time: label, colour and text of the nearest point of every series.\<close>

definition values_at :: "(rat \<Rightarrow> string) \<Rightarrow> rat \<Rightarrow> chart_series list \<Rightarrow> (string \<times> string \<times> string) list" where
  "values_at fmt t ss =
     List.map_filter (\<lambda>s. map_option (\<lambda>p. (cs_label s, cs_color s, fmt (pt_v p))) (closest_point t (cs_points s))) ss"

record mini_tooltip =
  mt_x :: rat
  mt_y :: rat
  mt_time :: string
  mt_values :: "(string \<times> string \<times> string) list"

text \<open>The handler, on a picture that has a width.\<close>

definition mini_hover ::
  "(rat \<Rightarrow> int \<times> int \<times> int) \<Rightarrow> (rat \<Rightarrow> string) \<Rightarrow> rat \<Rightarrow> chart_series list \<Rightarrow> rect \<Rightarrow> rat \<Rightarrow> mini_tooltip" where
  "mini_hover local fmt h ss r clientX =
     (let sx = svg_x clientX r 900; t = pointer_time h ss sx
      in \<lparr>mt_x = sx / 900 * rc_width r + rc_left r, mt_y = rc_top r + fr_padTop (mini_frame h),
          mt_time = hh_mm_ss (local t), mt_values = values_at fmt t ss\<rparr>)"

section \<open>Lemmas\<close>

lemma minT_le: "p \<in> set (allPoints ss) \<Longrightarrow> minT ss \<le> pt_t p"
  by (auto simp: minT_def js_min_le split: list.split)

lemma maxT_ge: "p \<in> set (allPoints ss) \<Longrightarrow> pt_t p \<le> maxT ss"
  by (auto simp: maxT_def js_max_ge split: list.split)

lemma maxV_ge: "p \<in> set (allPoints ss) \<Longrightarrow> pt_v p \<le> maxV ss" "0 < maxV ss"
  by (auto simp: maxV_def js_max_ge js_max_pos)

lemma mini_area: "0 \<le> chartH (mini_frame 220)" "0 < chartW (mini_frame h)"
  by (simp_all add: chartH_def chartW_def mini_frame_def)

lemma xScale_between:
  assumes "minT ss \<le> t" "t \<le> maxT ss"
  shows "fr_padLeft (mini_frame h) \<le> xScale h ss t \<and> xScale h ss t \<le> fr_padLeft (mini_frame h) + chartW (mini_frame h)"
proof -
  let ?d = "maxT ss - minT ss"
  have "t - minT ss \<le> (if ?d = 0 then 1 else ?d)" using assms by simp
  then show ?thesis
    using share_bounds [of "t - minT ss" "if ?d = 0 then 1 else ?d" "chartW (mini_frame h)"] assms mini_area(2) [of h]
    by (simp add: xScale_def Let_def)
qed

lemma series_in_all: "s \<in> set ss \<Longrightarrow> p \<in> set (cs_points s) \<Longrightarrow> p \<in> set (allPoints ss)"
  by (auto simp: allPoints_def)

interpretation mini: chart "mini_frame 220" "maxV ss" "\<lambda>p. xScale 220 ss (pt_t p)" "\<lambda>p. yScale 220 ss (pt_v p)" pt_v
  "if s \<in> set ss then cs_points s else []" for ss s
proof unfold_locales
  fix p
  assume "p \<in> set (if s \<in> set ss then cs_points s else [])"
  then have p: "p \<in> set (allPoints ss)" using series_in_all by (auto split: if_splits)
  show "pt_v p \<le> maxV ss" using p by (rule maxV_ge)
  show "fr_padLeft (mini_frame 220) \<le> xScale 220 ss (pt_t p) \<and>
      xScale 220 ss (pt_t p) \<le> fr_padLeft (mini_frame 220) + chartW (mini_frame 220)"
    using minT_le [OF p] maxT_ge [OF p] by (rule xScale_between)
qed (simp_all add: mini_area maxV_ge yScale_def)

text \<open>The loop of the time axis is the arithmetic progression from its start.\<close>

lemma ticks_eq:
  assumes "0 < step"
  shows "ticks step stop t = map (\<lambda>k. t + of_nat k * step) [0..<nat (\<lfloor>(stop - t) / step\<rfloor> + 1)]"
  using assms
proof (induction step stop t rule: ticks.induct)
  case (1 step stop t)
  show ?case
  proof (cases "t \<le> stop")
    case True
    let ?n = "nat (\<lfloor>(stop - (t + step)) / step\<rfloor> + 1)"
    have div: "(stop - (t + step)) / step = (stop - t) / step - 1"
      using 1 by (simp add: diff_divide_distrib add_divide_distrib)
    have "0 \<le> \<lfloor>(stop - t) / step\<rfloor>" using True 1 by simp
    then have n: "nat (\<lfloor>(stop - t) / step\<rfloor> + 1) = Suc ?n" unfolding div by linarith
    have "ticks step stop t = t # map (\<lambda>k. t + step + of_nat k * step) [0..<?n]"
      using 1 True by (subst ticks.simps) simp
    also have "\<dots> = map (\<lambda>k. t + of_nat k * step) (0 # map Suc [0..<?n])"
      by (simp add: algebra_simps)
    also have "0 # map Suc [0..<?n] = [0..<Suc ?n]"
      unfolding map_Suc_upt by (rule upt_conv_Cons [symmetric]) simp
    finally show ?thesis unfolding n .
  next
    case False
    then have "(stop - t) / step < 0" using 1 by (simp add: divide_less_0_iff)
    then have "\<lfloor>(stop - t) / step\<rfloor> < 0" by (simp add: floor_less_iff)
    then have "nat (\<lfloor>(stop - t) / step\<rfloor> + 1) = 0" by linarith
    then show ?thesis using False by (subst ticks.simps) simp
  qed
qed

lemma intervalS_pos: "0 < intervalS ss"
  by (simp add: intervalS_def)

lemma interval_covers: "(maxT ss - minT ss) / 6 \<le> intervalS ss"
proof -
  have "(maxT ss - minT ss) / 6 / 60 * 60 \<le> of_int \<lceil>(maxT ss - minT ss) / 6 / 60\<rceil> * 60"
    by (intro mult_right_mono le_of_int_ceiling) simp
  then show ?thesis by (simp add: intervalS_def le_max_iff_disj)
qed

lemma tick_start: "minT ss \<le> of_int \<lceil>minT ss / intervalS ss\<rceil> * intervalS ss"
proof -
  have "minT ss / intervalS ss * intervalS ss \<le> of_int \<lceil>minT ss / intervalS ss\<rceil> * intervalS ss"
    using intervalS_pos [of ss] by (intro mult_right_mono le_of_int_ceiling) simp
  then show ?thesis using intervalS_pos [of ss] by simp
qed

lemma ticks_from: "0 < step \<Longrightarrow> u \<in> set (ticks step stop t) \<Longrightarrow> t \<le> u \<and> u \<le> stop"
proof (induction step stop t rule: ticks.induct)
  case (1 step stop t)
  then show ?case by (subst (asm) (2) ticks.simps) (auto split: if_splits)
qed

section \<open>Properties\<close>

text \<open>C38: the loop that labels the time axis ends, with at most seven labels whatever the span of the samples;
  the labels stand at multiples of the interval, each between the first and the last sample and inside the drawing area.
\<close>

theorem time_axis_bounded:
  "length (time_labels local h ss) \<le> 7 \<and>
   list_all (\<lambda>t. minT ss \<le> t \<and> t \<le> maxT ss \<and> (\<exists>k. t = of_int k * intervalS ss)) (tick_times ss) \<and>
   list_all (\<lambda>l. fr_padLeft (mini_frame h) \<le> fst l \<and> fst l \<le> fr_padLeft (mini_frame h) + chartW (mini_frame h))
     (time_labels local h ss)"
proof (intro conjI)
  let ?i = "intervalS ss"
  let ?t = "of_int \<lceil>minT ss / ?i\<rceil> * ?i"
  have "(maxT ss - ?t) / ?i \<le> (maxT ss - minT ss) / ?i"
    using tick_start [of ss] intervalS_pos [of ss] by (intro divide_right_mono) simp_all
  also have "\<dots> \<le> 6" using interval_covers [of ss] intervalS_pos [of ss] by (simp add: divide_le_eq)
  finally have "nat (\<lfloor>(maxT ss - ?t) / ?i\<rfloor> + 1) \<le> 7" by linarith
  moreover have "length (time_labels local h ss) = nat (\<lfloor>(maxT ss - ?t) / ?i\<rfloor> + 1)"
    by (simp add: time_labels_def tick_times_def ticks_eq intervalS_pos)
  ultimately show "length (time_labels local h ss) \<le> 7" by (rule ord_eq_le_trans [rotated])
  have range: "minT ss \<le> t \<and> t \<le> maxT ss" if "t \<in> set (tick_times ss)" for t
    using ticks_from [OF intervalS_pos, of t ss] that tick_start [of ss] by (fastforce simp: tick_times_def)
  moreover have "\<exists>k. t = of_int k * ?i" if mem: "t \<in> set (tick_times ss)" for t
  proof -
    obtain j where "t = ?t + of_nat j * ?i"
      using mem by (auto simp: tick_times_def ticks_eq intervalS_pos)
    then have "t = of_int (\<lceil>minT ss / ?i\<rceil> + int j) * ?i" by (simp add: algebra_simps)
    then show ?thesis by blast
  qed
  ultimately show "list_all (\<lambda>t. minT ss \<le> t \<and> t \<le> maxT ss \<and> (\<exists>k. t = of_int k * ?i)) (tick_times ss)"
    by (simp add: list_all_iff)
  show "list_all (\<lambda>l. fr_padLeft (mini_frame h) \<le> fst l \<and> fst l \<le> fr_padLeft (mini_frame h) + chartW (mini_frame h))
      (time_labels local h ss)"
    using range xScale_between by (simp add: list_all_iff time_labels_def)
qed

text \<open>
  the pointer lists, for every series that has samples and in their order, the value of a sample of that
  series no other sample of which is nearer in time to the pointer.
\<close>

theorem hover_lists_nearest:
  "map fst (values_at fmt t ss) = map cs_label (filter (\<lambda>s. cs_points s \<noteq> []) ss) \<and>
   list_all2 (\<lambda>s v. \<exists>p \<in> set (cs_points s). snd (snd v) = fmt (pt_v p) \<and> list_all (\<lambda>q. \<bar>pt_t p - t\<bar> \<le> \<bar>pt_t q - t\<bar>) (cs_points s))
     (filter (\<lambda>s. cs_points s \<noteq> []) ss) (values_at fmt t ss)"
proof (induction ss)
  case Nil
  then show ?case by (simp add: values_at_def List.map_filter_simps)
next
  case (Cons s ss)
  show ?case
  proof (cases "cs_points s")
    case Nil
    with Cons.IH show ?thesis by (simp add: values_at_def List.map_filter_simps closest_point_def)
  next
    case (Cons p ps)
    let ?n = "nearest_from pt_t t p (p # ps)"
    have "?n \<in> set (p # ps)" using nearest_from_in [of pt_t t p "p # ps"] by simp
    moreover have "\<bar>pt_t ?n - t\<bar> \<le> \<bar>pt_t q - t\<bar>" if "q \<in> set (p # ps)" for q
      using that by (intro nearest_from_le) simp
    ultimately show ?thesis
      using Cons Cons.IH
      by (auto simp: values_at_def List.map_filter_simps closest_point_def list_all_iff simp del: nearest_from.simps)
  qed
qed

text \<open>
  a series is drawn exactly when it has samples, and then inside the drawing area if no value is negative.
\<close>

theorem mini_series_inside:
  assumes "s \<in> set ss" and "list_all (\<lambda>p. 0 \<le> pt_v p) (cs_points s)"
  shows "case mini_path 220 ss s of
      None \<Rightarrow> cs_points s = []
    | Some path \<Rightarrow> length path = length (cs_points s) \<and> list_all (\<lambda>c. in_frame (mini_frame 220) (command_at c)) path"
  using assms mini.path_inside [of s ss] by (simp add: mini_path_def list_all_iff)

theorem mini_series_inside_witness:
  "case mini_path 220 [\<lparr>cs_label = ''p50'', cs_color = [], cs_points = [\<lparr>pt_t = 10, pt_v = 4\<rparr>, \<lparr>pt_t = 25, pt_v = 0\<rparr>]\<rparr>]
       \<lparr>cs_label = ''p50'', cs_color = [], cs_points = [\<lparr>pt_t = 10, pt_v = 4\<rparr>, \<lparr>pt_t = 25, pt_v = 0\<rparr>]\<rparr> of
     None \<Rightarrow> False | Some path \<Rightarrow> length path = 2 \<and> list_all (\<lambda>c. in_frame (mini_frame 220) (command_at c)) path"
  using mini_series_inside [of "\<lparr>cs_label = ''p50'', cs_color = [], cs_points = [\<lparr>pt_t = 10, pt_v = 4\<rparr>, \<lparr>pt_t = 25, pt_v = 0\<rparr>]\<rparr>"
      "[\<lparr>cs_label = ''p50'', cs_color = [], cs_points = [\<lparr>pt_t = 10, pt_v = 4\<rparr>, \<lparr>pt_t = 25, pt_v = 0\<rparr>]\<rparr>]"]
  by (simp split: option.splits)

end
