(* ===== verification/GoldenSignals.thy ===== *)
theory GoldenSignals
  imports MiniChart "HOL-Library.Sublist"
begin

text \<open>
  The golden-signals page (\<open>golden-signals.tsx\<close>): the queries to Prometheus, the samples it answers with,
  the loop that collects the statistics of the replicas, and the
  state of the page.
\<close>

section \<open>Numbers in strings\<close>

text \<open>
  \<open>parseFloat\<close> where the result is finite: white space, a sign, digits with an optional fraction, an optional
  exponent, and whatever follows is ignored. \<^const>\<open>None\<close> is \<open>NaN\<close> or an infinity; both are filtered out.
\<close>

definition is_finite_number :: "rat \<Rightarrow> bool" where
  "is_finite_number x \<longleftrightarrow> \<bar>x\<bar> < 2 ^ 1024 - 2 ^ 970"

definition pow10 :: "int \<Rightarrow> rat" where
  "pow10 e = (if 0 \<le> e then 10 ^ nat e else 1 / 10 ^ nat (- e))"

definition read_sign :: "string \<Rightarrow> int \<times> string" where
  "read_sign s =
     (case s of
        [] \<Rightarrow> (1, s)
      | c # t \<Rightarrow> if c = CHR ''-'' then (- 1, t) else if c = CHR ''+'' then (1, t) else (1, s))"

definition read_exponent :: "string \<Rightarrow> int" where
  "read_exponent s =
     (case s of
        [] \<Rightarrow> 0
      | c # t \<Rightarrow>
          if c = CHR ''e'' \<or> c = CHR ''E''
          then (let (g, u) = read_sign t; ds = takeWhile is_digit u in if ds = [] then 0 else g * read_digits ds)
          else 0)"

definition decimal_value :: "string \<Rightarrow> rat option" where
  "decimal_value s =
     (let (g, u) = read_sign (dropWhile is_ws s);
          whole = takeWhile is_digit u;
          rest = dropWhile is_digit u;
          frac = (case rest of c # t \<Rightarrow> if c = CHR ''.'' then takeWhile is_digit t else [] | [] \<Rightarrow> []);
          after = (case rest of c # t \<Rightarrow> if c = CHR ''.'' then dropWhile is_digit t else rest | [] \<Rightarrow> []);
          x = of_int (g * read_digits (whole @ frac)) * pow10 (read_exponent after - int (length frac))
      in if whole = [] \<and> frac = [] then None else Some x)"

definition js_parseFloat :: "string \<Rightarrow> rat option" where
  "js_parseFloat s = (case decimal_value s of Some x \<Rightarrow> if is_finite_number x then Some x else None | None \<Rightarrow> None)"

section \<open>Queries and samples\<close>

record prom_result =
  pr_metric :: "(string \<times> string) list"
  pr_values :: "(rat \<times> string) list"

definition RANGE_MINUTES :: int where "RANGE_MINUTES = 30"

definition prom_params :: "int \<Rightarrow> string \<Rightarrow> int \<Rightarrow> string \<Rightarrow> (string \<times> string) list" where
  "prom_params now_ms query range_min step =
     (let now = now_ms div 1000; start = now - range_min * 60
      in [(''type'', ''query_range''), (''query'', query), (''start'', show_int start), (''end'', show_int now), (''step'', step)])"

definition prom_url :: "int \<Rightarrow> string \<Rightarrow> int \<Rightarrow> string \<Rightarrow> string" where
  "prom_url now_ms query range_min step = ''/api/prometheus?'' @ search_params (prom_params now_ms query range_min step)"

text \<open>The result: an answer is its status and \<open>data?.data?.result\<close>; anything thrown is no data.\<close>

definition promQueryRange :: "thrown + int \<times> prom_result list option \<Rightarrow> prom_result list" where
  "promQueryRange answer =
     (case answer of
        Inl e \<Rightarrow> []
      | Inr (st, result) \<Rightarrow> if \<not> status_ok st then [] else coalesce result [])"

text \<open>\<open>values.map(([t, v]) => ({ t, v: parseFloat(v) * k })).filter((p) => isFinite(p.v))\<close>.\<close>

definition finite_point :: "rat \<Rightarrow> rat \<times> string \<Rightarrow> point option" where
  "finite_point k p =
     (case js_parseFloat (snd p) of
        None \<Rightarrow> None
      | Some x \<Rightarrow> if is_finite_number (x * k) then Some \<lparr>pt_t = fst p, pt_v = x * k\<rparr> else None)"

definition points_of :: "rat \<Rightarrow> (rat \<times> string) list \<Rightarrow> point list" where
  "points_of k vs = List.map_filter (finite_point k) vs"

definition first_values :: "prom_result list \<Rightarrow> (rat \<times> string) list" where
  "first_values rs = (case rs of [] \<Rightarrow> [] | r # rest \<Rightarrow> pr_values r)"

definition toMs :: "prom_result list \<Rightarrow> point list" where
  "toMs rs = points_of 1000 (first_values rs)"

definition statusColors :: "(string \<times> string) list" where
  "statusColors =
     [(''200'', ''#22c55e''), (''201'', ''#16a34a''), (''302'', ''#3b82f6''), (''400'', ''#f59e0b''), (''404'', ''#eab308''),
      (''429'', ''#f97316''), (''500'', ''#ef4444''), (''503'', ''#dc2626'')]"

definition status_series :: "prom_result \<Rightarrow> chart_series" where
  "status_series r =
     (let code = str_or (coalesce (map_of (pr_metric r) ''status_code'') []) ''unknown''
      in \<lparr>cs_label = code, cs_color = coalesce (map_of statusColors code) ''#94a3b8'', cs_points = points_of 1 (pr_values r)\<rparr>)"

definition traffic_series :: "prom_result list \<Rightarrow> prom_result list \<Rightarrow> chart_series list" where
  "traffic_series rps per_status =
     (let by_status = filter (\<lambda>s. cs_points s \<noteq> []) (map status_series per_status)
      in if by_status \<noteq> [] then by_status
         else [\<lparr>cs_label = ''Total req/s'', cs_color = ''#3b82f6'', cs_points = points_of 1 (first_values rps)\<rparr>])"

definition latency_series :: "prom_result list \<Rightarrow> prom_result list \<Rightarrow> prom_result list \<Rightarrow> chart_series list" where
  "latency_series p50 p95 p99 =
     [\<lparr>cs_label = ''p50'', cs_color = ''#22c55e'', cs_points = toMs p50\<rparr>,
      \<lparr>cs_label = ''p95'', cs_color = ''#f59e0b'', cs_points = toMs p95\<rparr>,
      \<lparr>cs_label = ''p99'', cs_color = ''#ef4444'', cs_points = toMs p99\<rparr>]"

section \<open>Statistics of the replicas\<close>

record instance_stats =
  st_instance_id :: "string option"
  st_hostname :: string
  st_uptime_seconds :: rat
  st_cpu_percent_process :: rat
  st_memory_rss_mb :: rat
  st_memory_percent_process :: rat
  st_threads :: int
  st_avg_request_latency_ms :: rat
  st_load_average_1m :: rat

text \<open>What one of the four attempts meets: an error thrown by \<open>fetch\<close> or \<open>json\<close>, a refusal, or statistics.\<close>

datatype attempt = Att_thrown | Att_refused | Att_stats instance_stats

fun instance_loop :: "attempt list \<Rightarrow> instance_stats list \<Rightarrow> instance_stats list" where
  "instance_loop [] results = results"
| "instance_loop (Att_thrown # as) results = results"
| "instance_loop (Att_refused # as) results = instance_loop as results"
| "instance_loop (Att_stats d # as) results =
     instance_loop as
       (if truthy (st_instance_id d) \<and> find (\<lambda>r. st_instance_id r = st_instance_id d) results = None
        then results @ [d] else results)"

definition fetchInstanceStats :: "(nat \<Rightarrow> attempt) \<Rightarrow> instance_stats list" where
  "fetchInstanceStats answer = instance_loop (map answer [0..<4]) []"

definition usage_color :: "rat \<Rightarrow> string" where
  "usage_color x = (if 80 < x then ''bg-red-500'' else if 50 < x then ''bg-amber-500'' else ''bg-green-500'')"

text \<open>The card of a replica: CPU, memory, threads, load, latency, uptime.\<close>

definition instance_figures :: "instance_stats \<Rightarrow> string list" where
  "instance_figures s =
     [toFixed 1 (st_cpu_percent_process s) @ ''%'', toFixed 1 (st_memory_rss_mb s) @ '' MB'', show_int (st_threads s),
      toFixed 2 (st_load_average_1m s), toFixed 1 (st_avg_request_latency_ms s) @ ''ms'', toFixed 0 (st_uptime_seconds s / 60) @ ''m'']"

definition usage_width :: "rat \<Rightarrow> rat" where
  "usage_width x = min 100 x"

section \<open>The page\<close>

record golden =
  gd_latency :: "chart_series list"
  gd_traffic :: "chart_series list"
  gd_saturation :: "instance_stats list"
  gd_loading :: bool
  gd_p50 :: "rat option"
  gd_p95 :: "rat option"
  gd_p99 :: "rat option"
  gd_rps :: "rat option"

definition init_golden :: golden where
  "init_golden = \<lparr>gd_latency = [], gd_traffic = [], gd_saturation = [], gd_loading = True,
     gd_p50 = None, gd_p95 = None, gd_p99 = None, gd_rps = None\<rparr>"

text \<open>\<open>if (points.length > 0) setCurrent(points[points.length - 1].v)\<close>.\<close>

definition current_of :: "point list \<Rightarrow> rat option \<Rightarrow> rat option" where
  "current_of ps old = (if ps = [] then old else Some (pt_v (last ps)))"

record prom_answers =
  pa_p50 :: "prom_result list"
  pa_p95 :: "prom_result list"
  pa_p99 :: "prom_result list"
  pa_rps :: "prom_result list"
  pa_status :: "prom_result list"

text \<open>\<open>fetchData\<close> up to the statistics of the replicas, and its end.\<close>

definition golden_series :: "prom_answers \<Rightarrow> golden \<Rightarrow> golden" where
  "golden_series a s =
     s\<lparr>gd_latency := latency_series (pa_p50 a) (pa_p95 a) (pa_p99 a),
       gd_p50 := current_of (toMs (pa_p50 a)) (gd_p50 s),
       gd_p95 := current_of (toMs (pa_p95 a)) (gd_p95 s),
       gd_p99 := current_of (toMs (pa_p99 a)) (gd_p99 s),
       gd_traffic := traffic_series (pa_rps a) (pa_status a),
       gd_rps := current_of (points_of 1 (first_values (pa_rps a))) (gd_rps s)\<rparr>"

definition golden_saturation :: "instance_stats list \<Rightarrow> golden \<Rightarrow> golden" where
  "golden_saturation stats s = s\<lparr>gd_saturation := stats, gd_loading := False\<rparr>"

definition ms_figure :: "rat option \<Rightarrow> string" where
  "ms_figure v = (case v of Some x \<Rightarrow> toFixed 1 x @ ''ms'' | None \<Rightarrow> u_emdash)"

definition slo_alert :: "rat option \<Rightarrow> bool" where
  "slo_alert v \<longleftrightarrow> (case v of Some x \<Rightarrow> 2000 < x | None \<Rightarrow> False)"

definition rps_figure :: "rat option \<Rightarrow> string" where
  "rps_figure v = (case v of Some x \<Rightarrow> toFixed 1 x | None \<Rightarrow> u_emdash)"

text \<open>\<open>Math.max()\<close> of no arguments is \<open>-Infinity\<close>.\<close>

definition peak_figure :: "chart_series list \<Rightarrow> string" where
  "peak_figure ss =
     (if ss = [] then u_emdash
      else (case concat (map (\<lambda>s. map pt_v (cs_points s)) ss) of
              [] \<Rightarrow> ''-Infinity''
            | v # vs \<Rightarrow> toFixed 1 (js_max vs v)))"

definition codes_figure :: "chart_series list \<Rightarrow> string" where
  "codes_figure ss = (if ss = [] then u_emdash else js_join '', '' (map cs_label ss))"

section \<open>Lemmas\<close>

lemma decimal_value_samples:
  "decimal_value ''0.05'' = Some (5 / 100)" "decimal_value ''2e-05'' = Some (2 / 100000)"
  "decimal_value ''NaN'' = None" "decimal_value ''+Inf'' = None" "decimal_value '' -12.5ms'' = Some (- 25 / 2)"
  by code_simp+

lemma parseFloat_samples:
  "js_parseFloat ''0.05'' = Some (5 / 100)" "js_parseFloat ''2e-05'' = Some (2 / 100000)"
  "js_parseFloat ''NaN'' = None" "js_parseFloat ''+Inf'' = None" "js_parseFloat '' -12.5ms'' = Some (- 25 / 2)"
  by (simp_all add: js_parseFloat_def decimal_value_samples is_finite_number_def)

lemma points_of_simps [simp]:
  "points_of k [] = []"
  "points_of k (p # ps) = (case finite_point k p of None \<Rightarrow> points_of k ps | Some q \<Rightarrow> q # points_of k ps)"
  unfolding points_of_def List.map_filter_simps by (rule refl)+

lemma finite_point_finite: "finite_point k p = Some q \<Longrightarrow> is_finite_number (pt_v q) \<and> pt_t q = fst p"
  by (auto simp: finite_point_def split: option.splits if_splits)

lemma instance_loop_acc:
  "distinct (map st_instance_id acc) \<Longrightarrow> list_all (\<lambda>d. truthy (st_instance_id d)) acc \<Longrightarrow>
   distinct (map st_instance_id (instance_loop as acc)) \<and>
   list_all (\<lambda>d. truthy (st_instance_id d)) (instance_loop as acc) \<and>
   length (instance_loop as acc) \<le> length acc + length as"
proof (induction as acc rule: instance_loop.induct)
  case (4 d as results)
  show ?case
  proof (cases "truthy (st_instance_id d) \<and> find (\<lambda>r. st_instance_id r = st_instance_id d) results = None")
    case True
    then have "distinct (map st_instance_id (results @ [d])) \<and> list_all (\<lambda>d. truthy (st_instance_id d)) (results @ [d])"
      using "4.prems" by (auto simp: find_None_iff)
    with 4 True show ?thesis by fastforce
  next
    case False
    with 4 show ?thesis by fastforce
  qed
qed auto

lemma instance_loop_ids:
  "st_instance_id ` set (instance_loop as acc) =
     st_instance_id ` set acc \<union>
     {st_instance_id d |d. truthy (st_instance_id d) \<and> Att_stats d \<in> set (takeWhile (\<lambda>a. a \<noteq> Att_thrown) as)}"
proof (induction as acc rule: instance_loop.induct)
  case (4 d as results)
  have "st_instance_id d \<in> st_instance_id ` set results" if "find (\<lambda>r. st_instance_id r = st_instance_id d) results \<noteq> None"
    using that by (auto simp: find_None_iff image_iff) metis
  with 4 show ?case by (cases "truthy (st_instance_id d)") auto
qed auto

section \<open>Properties\<close>

text \<open>
  every replica is listed once. However the load balancer spreads the four attempts over the replicas,
  the statistics kept have different, non-empty instance ids, are at most four, and are those of exactly the
  replicas that answered before an attempt threw; refused attempts are skipped.
\<close>

theorem replicas_listed_once:
  "distinct (map st_instance_id (fetchInstanceStats answer)) \<and> length (fetchInstanceStats answer) \<le> 4 \<and>
   set (map st_instance_id (fetchInstanceStats answer)) =
     {st_instance_id d |d. truthy (st_instance_id d) \<and>
        Att_stats d \<in> set (takeWhile (\<lambda>a. a \<noteq> Att_thrown) (map answer [0..<4]))}"
  using instance_loop_acc [of "[]" "map answer [0..<4]"] instance_loop_ids [of "map answer [0..<4]" "[]"]
  by (simp add: fetchInstanceStats_def del: upt_Suc)

text \<open>How the route reads its query.\<close>

definition read_prometheus_query :: "(string \<times> string) list \<Rightarrow> prometheus_query" where
  "read_prometheus_query ps =
     \<lparr>pq_type = map_of ps ''type'', pq_query = map_of ps ''query'', pq_start = map_of ps ''start'',
      pq_end = map_of ps ''end'', pq_step = map_of ps ''step''\<rparr>"

lemma show_int_not_Nil: "show_int i \<noteq> []"
  by (simp add: show_int_def)

text \<open>the queries of the page arrive at Prometheus. What the browser asks of \<open>/api/prometheus\<close>, read back
  by the route, makes the route ask Prometheus for a range query with the same expression, times and step
  (15 s when the step is empty); only an empty expression is refused.
\<close>

theorem page_query_reaches_prometheus:
  "prometheus_GET R h (read_prometheus_query (parse_query (search_params (prom_params now q minutes step)))) w =
     (if q = [] then (error_reply 400 ''query parameter required'', w)
      else answer_or prometheus_failure
        (fetch_json R (prometheusBase h @ ''/api/v1/query_range?'' @
           search_params [(''query'', q), (''start'', show_int (now div 1000 - minutes * 60)), (''end'', show_int (now div 1000)),
             (''step'', str_or step ''15s'')]) w))"
  by (simp add: parse_search_params read_prometheus_query_def prom_params_def prometheus_GET_def prometheus_params_def
      Let_def show_int_not_Nil)

text \<open>
  the figures outlive their data. When Prometheus has no samples the charts become empty, but the boxes of
  the current percentiles and of the current rate keep the values of an earlier answer, and the peak box shows the
  text of minus infinity, because the list of series is not empty although it holds no sample.
\<close>

theorem figures_without_samples:
  "case golden_series \<lparr>pa_p50 = promQueryRange (Inl e), pa_p95 = [], pa_p99 = [], pa_rps = [], pa_status = []\<rparr> s of
     t \<Rightarrow> allPoints (gd_latency t) = [] \<and> allPoints (gd_traffic t) = [] \<and>
          gd_p50 t = gd_p50 s \<and> gd_p95 t = gd_p95 s \<and> gd_p99 t = gd_p99 s \<and> gd_rps t = gd_rps s \<and>
          peak_figure (gd_traffic t) = ''-Infinity''"
  by (simp add: golden_series_def promQueryRange_def latency_series_def traffic_series_def toMs_def first_values_def
      current_of_def allPoints_def peak_figure_def Let_def)

text \<open>
  only finite samples are drawn, in the order Prometheus sent them, and the current value of a percentile
  is the one of the last finite sample.
\<close>

theorem drawn_samples_are_finite:
  "list_all (\<lambda>p. is_finite_number (pt_v p)) (points_of k vs) \<and>
   subseq (map pt_t (points_of k vs)) (map fst vs) \<and>
   current_of (points_of k vs) old = (case rev (points_of k vs) of [] \<Rightarrow> old | p # ps \<Rightarrow> Some (pt_v p))"
proof (intro conjI)
  show "list_all (\<lambda>p. is_finite_number (pt_v p)) (points_of k vs)"
    by (induction vs) (auto dest: finite_point_finite split: option.splits)
  show "subseq (map pt_t (points_of k vs)) (map fst vs)"
    by (induction vs) (auto dest: finite_point_finite split: option.splits)
  show "current_of (points_of k vs) old = (case rev (points_of k vs) of [] \<Rightarrow> old | p # ps \<Rightarrow> Some (pt_v p))"
    by (cases "points_of k vs" rule: rev_cases) (simp_all add: current_of_def)
qed

end
