(* ===== verification/IncidentTimeline.thy ===== *)
theory IncidentTimeline
  imports GoldenSignals "HOL-Library.Multiset"
begin

text \<open>
  The incident timeline (\<open>incident-timeline.tsx\<close>): the badges and dots of an event, the grouping of events by
  day, the counts of the header, and the state of the page with its requests to the backend.
\<close>

section \<open>Events\<close>

record incident =
  in_id :: int
  in_event_type :: string
  in_severity :: string
  in_title :: string
  in_description :: string
  in_source :: string
  in_alert_name :: string
  in_status :: string
  in_created_at :: string

definition severityBadge :: "string \<Rightarrow> badge" where
  "severityBadge severity =
     (if severity = ''critical'' then (V_destructive, ''critical'')
      else if severity = ''warning'' then (V_default, ''warning'')
      else if severity = ''info'' then (V_secondary, ''info'')
      else (V_outline, severity))"

datatype dot = Dot_resolved | Dot_firing | Dot_other string

definition statusIcon :: "string \<Rightarrow> string \<Rightarrow> dot" where
  "statusIcon event_type status =
     (if status = ''resolved'' \<or> event_type = ''alert_resolved'' then Dot_resolved
      else if event_type = ''alert_fired'' then Dot_firing
      else Dot_other event_type)"

text \<open>
  \<open>groupByDate\<close>: a \<open>Map\<close> keeps its keys in the order of their first insertion; \<open>day\<close> is \<open>formatDate\<close>, the
  day of an instant in the reader's locale.
\<close>

fun push_group :: "string \<Rightarrow> 'e \<Rightarrow> (string \<times> 'e list) list \<Rightarrow> (string \<times> 'e list) list" where
  "push_group k e [] = [(k, [e])]"
| "push_group k e ((k', es) # gs) = (if k' = k then (k', es @ [e]) # gs else (k', es) # push_group k e gs)"

definition groupByDate :: "(string \<Rightarrow> string) \<Rightarrow> incident list \<Rightarrow> (string \<times> incident list) list" where
  "groupByDate day events = foldl (\<lambda>gs ev. push_group (day (in_created_at ev)) ev gs) [] events"

definition is_firing :: "incident \<Rightarrow> bool" where
  "is_firing e \<longleftrightarrow> in_event_type e = ''alert_fired'' \<and> in_status e = ''firing''"

definition is_resolved :: "incident \<Rightarrow> bool" where
  "is_resolved e \<longleftrightarrow> in_status e = ''resolved'' \<or> in_event_type e = ''alert_resolved''"

definition firingCount :: "incident list \<Rightarrow> nat" where
  "firingCount es = length (filter is_firing es)"

definition resolvedCount :: "incident list \<Rightarrow> nat" where
  "resolvedCount es = length (filter is_resolved es)"

section \<open>The page\<close>

record timeline =
  tl_data :: "incident list option"
  tl_loading :: bool
  tl_windowHours :: int
  tl_severity :: string

definition init_timeline :: timeline where
  "init_timeline = \<lparr>tl_data = None, tl_loading = True, tl_windowHours = 24, tl_severity = []\<rparr>"

definition incidents_params :: "timeline \<Rightarrow> (string \<times> string) list" where
  "incidents_params s =
     [(''window_hours'', show_int (tl_windowHours s)), (''limit'', ''200'')]
       @ (if tl_severity s = [] then [] else [(''severity'', tl_severity s)])"

text \<open>\<open>public_url\<close> is \<open>process.env.NEXT_PUBLIC_BACKEND_URL\<close>, fixed when the page was built.\<close>

definition incidents_base :: "string option \<Rightarrow> string" where
  "incidents_base public_url = (if truthy public_url then the public_url else ''http://localhost:8000'')"

definition incidents_url :: "string option \<Rightarrow> timeline \<Rightarrow> string" where
  "incidents_url public_url s = incidents_base public_url @ ''/api/incidents?'' @ search_params (incidents_params s)"

text \<open>The end of \<open>fetchEvents\<close>: only a successful answer replaces the events.\<close>

definition events_settle :: "thrown + int \<times> (thrown + incident list) \<Rightarrow> timeline \<Rightarrow> timeline" where
  "events_settle answer s =
     (case answer of
        Inr (st, Inr events) \<Rightarrow> if status_ok st then s\<lparr>tl_data := Some events, tl_loading := False\<rparr> else s\<lparr>tl_loading := False\<rparr>
      | _ \<Rightarrow> s\<lparr>tl_loading := False\<rparr>)"

definition set_window :: "int \<Rightarrow> timeline \<Rightarrow> timeline" where
  "set_window n s = s\<lparr>tl_windowHours := n\<rparr>"

definition set_severity :: "string \<Rightarrow> timeline \<Rightarrow> timeline" where
  "set_severity v s = s\<lparr>tl_severity := v\<rparr>"

definition timeline_events :: "timeline \<Rightarrow> incident list" where
  "timeline_events s = coalesce (tl_data s) []"

datatype timeline_view = Tv_loading | Tv_all_clear string | Tv_groups "(string \<times> incident list) list"

definition all_clear_text :: "int \<Rightarrow> string" where
  "all_clear_text hours = ''No incidents in the last '' @ show_int hours @ ''h. All clear.''"

definition timeline_view_of :: "(string \<Rightarrow> string) \<Rightarrow> timeline \<Rightarrow> timeline_view" where
  "timeline_view_of day s =
     (if tl_loading s \<and> timeline_events s = [] then Tv_loading
      else if timeline_events s = [] then Tv_all_clear (all_clear_text (tl_windowHours s))
      else Tv_groups (groupByDate day (timeline_events s)))"

section \<open>Lemmas\<close>

text \<open>The keys in the order of their first occurrence.\<close>

definition first_keys :: "'k list \<Rightarrow> 'k list" where
  "first_keys ks = rev (remdups (rev ks))"

lemma first_keys_snoc: "first_keys (ks @ [k]) = (if k \<in> set ks then first_keys ks else first_keys ks @ [k])"
  by (simp add: first_keys_def)

lemma set_first_keys [simp]: "set (first_keys ks) = set ks"
  by (simp add: first_keys_def)

lemma distinct_first_keys [simp]: "distinct (first_keys ks)"
  by (simp add: first_keys_def)

lemma push_group_map:
  assumes "distinct ks"
  shows "push_group k e (map (\<lambda>x. (x, g x)) ks) =
    (if k \<in> set ks then map (\<lambda>x. (x, if x = k then g x @ [e] else g x)) ks
     else map (\<lambda>x. (x, g x)) ks @ [(k, [e])])"
  using assms
proof (induction ks)
  case (Cons y ks)
  show ?case
  proof (cases "y = k")
    case True
    with Cons.prems have "map (\<lambda>x. (x, if x = k then g x @ [e] else g x)) ks = map (\<lambda>x. (x, g x)) ks"
      by (auto intro: map_cong)
    with True show ?thesis by simp
  next
    case False
    with Cons show ?thesis by simp
  qed
qed simp

definition day_groups :: "('e \<Rightarrow> string) \<Rightarrow> 'e list \<Rightarrow> (string \<times> 'e list) list" where
  "day_groups key es = map (\<lambda>k. (k, filter (\<lambda>e. key e = k) es)) (first_keys (map key es))"

lemma foldl_push_group: "foldl (\<lambda>gs e. push_group (key e) e gs) [] es = day_groups key es"
proof (induction es rule: rev_induct)
  case Nil
  then show ?case by (simp add: day_groups_def first_keys_def)
next
  case (snoc e es)
  let ?ks = "first_keys (map key es)"
  have "foldl (\<lambda>gs e. push_group (key e) e gs) [] (es @ [e]) =
      push_group (key e) e (map (\<lambda>k. (k, filter (\<lambda>e. key e = k) es)) ?ks)"
    using snoc by (simp add: day_groups_def)
  also have "\<dots> = day_groups key (es @ [e])"
  proof (cases "key e \<in> set (map key es)")
    case True
    then show ?thesis
      by (simp add: day_groups_def push_group_map first_keys_snoc)
  next
    case False
    then have "key x \<noteq> key e" if "x \<in> set es" for x using that by (metis image_eqI list.set_map)
    then have "filter (\<lambda>x. key x = key e) es = []" by (simp add: filter_empty_conv)
    moreover have "map (\<lambda>k. (k, filter (\<lambda>x. key x = k) es)) ?ks = map (\<lambda>k. (k, filter (\<lambda>x. key x = k) (es @ [e]))) ?ks"
      using False by (auto intro: map_cong)
    ultimately show ?thesis using False by (simp add: day_groups_def push_group_map first_keys_snoc)
  qed
  finally show ?case .
qed

section \<open>Properties\<close>

text \<open>
  the timeline loses and moves no event. The groups are those of the reference: the days in the order in
  which they first occur, each day once, with exactly the events of that day in the order the backend sent them.
\<close>

theorem groups_are_days:
  "groupByDate day events =
     map (\<lambda>d. (d, filter (\<lambda>e. day (in_created_at e) = d) events)) (first_keys (map (day \<circ> in_created_at) events)) \<and>
   distinct (map fst (groupByDate day events)) \<and>
   mset (concat (map snd (groupByDate day events))) = mset events"
proof (intro conjI)
  have groups: "groupByDate day events = day_groups (day \<circ> in_created_at) events"
    using foldl_push_group [of "day \<circ> in_created_at" events] by (simp add: groupByDate_def)
  then show "groupByDate day events =
     map (\<lambda>d. (d, filter (\<lambda>e. day (in_created_at e) = d) events)) (first_keys (map (day \<circ> in_created_at) events))"
    by (simp add: day_groups_def)
  show "distinct (map fst (groupByDate day events))"
    unfolding groups day_groups_def by (simp add: comp_def)
  have split: "mset (concat (map (\<lambda>k. filter (\<lambda>e. key e = k) es) ks)) = mset (filter (\<lambda>e. key e \<in> set ks) es)"
    if "distinct ks" for ks and key :: "incident \<Rightarrow> string" and es
    using that
  proof (induction ks)
    case (Cons k ks)
    have "mset (filter (\<lambda>e. key e \<in> set (k # ks)) es) = mset (filter (\<lambda>e. key e = k) es) + mset (filter (\<lambda>e. key e \<in> set ks) es)"
      using Cons.prems by (induction es) auto
    with Cons show ?case by simp
  qed simp
  show "mset (concat (map snd (groupByDate day events))) = mset events"
    unfolding groups day_groups_def
    using split [of "first_keys (map (day \<circ> in_created_at) events)" "day \<circ> in_created_at" events]
    by (simp add: comp_def)
qed

text \<open>
  the counts of the header never count an event twice, and they agree with the dots: a firing event shows
  the firing dot, a resolved one the resolved dot.
\<close>

theorem counts_agree_with_dots:
  "firingCount es + resolvedCount es \<le> length es \<and>
   resolvedCount es = length (filter (\<lambda>e. statusIcon (in_event_type e) (in_status e) = Dot_resolved) es) \<and>
   firingCount es \<le> length (filter (\<lambda>e. statusIcon (in_event_type e) (in_status e) = Dot_firing) es)"
  by (induction es) (auto simp: firingCount_def resolvedCount_def is_firing_def is_resolved_def statusIcon_def)

text \<open>
  a backend that cannot be reached reads as good news. When the first request fails, by a thrown error or
  by any status that is not a success, the page says that there are no incidents and that all is clear.
\<close>

theorem failed_load_reads_all_clear:
  "timeline_view_of day (events_settle (Inl e) init_timeline) = Tv_all_clear (all_clear_text 24) \<and>
   timeline_view_of day (events_settle (Inr (503, body)) init_timeline) = Tv_all_clear (all_clear_text 24)"
  by (cases body) (simp_all add: timeline_view_of_def events_settle_def init_timeline_def timeline_events_def status_ok_def)

end
