(* ===== verification/LoadTest.thy ===== *)
theory LoadTest
  imports IncidentTimeline
begin

text \<open>
  The load-test page (\<open>load-test.tsx\<close>): the presets, the chart of users and latency over the elapsed time, the
  figures and bars of a run, and the state of the page with the requests that start and stop a test.
\<close>

section \<open>Status and presets\<close>

record k6_point =
  kp_t :: rat
  kp_vus :: rat
  kp_avg_ms :: rat

text \<open>
  \<open>K6Status\<close>; \<open>running\<close> and \<open>finished\<close> are compared with \<open>true\<close>, so a missing one counts as false.
\<close>

record k6_status =
  ks_running :: bool
  ks_preset :: string
  ks_vus :: int
  ks_default_target_url :: "string option"
  ks_elapsed_s :: rat
  ks_requests :: int
  ks_errors :: int
  ks_error_rate :: rat
  ks_avg_duration_ms :: rat
  ks_p95_duration_ms :: rat
  ks_current_vus :: int
  ks_finished :: bool
  ks_series :: "k6_point list"

record preset =
  ps_label :: string
  ps_vus :: int
  ps_duration :: string
  ps_desc :: string

definition PRESETS :: "(string \<times> preset) list" where
  "PRESETS =
     [(''bronze'', \<lparr>ps_label = ''Bronze'', ps_vus = 50, ps_duration = ''30s'', ps_desc = ''50 VUs for 30s''\<rparr>),
      (''silver'', \<lparr>ps_label = ''Silver'', ps_vus = 200, ps_duration = ''1m45s'', ps_desc = ''200 VUs for 1m45s''\<rparr>),
      (''gold'', \<lparr>ps_label = ''Gold'', ps_vus = 500, ps_duration = ''1m50s'', ps_desc = ''500 VUs for 1m50s''\<rparr>),
      (''chaos'', \<lparr>ps_label = ''Chaos'', ps_vus = 100, ps_duration = ''1m10s'', ps_desc = ''100 VUs '' @ u_emdash @ '' intentional errors''\<rparr>)]"

section \<open>The chart\<close>

definition vu_frame :: frame where
  "vu_frame = \<lparr>fr_width = 900, fr_height = 260, fr_padTop = 22, fr_padBottom = 40, fr_padLeft = 48, fr_padRight = 52\<rparr>"

definition vu_maxT :: "k6_point list \<Rightarrow> rat" where
  "vu_maxT ps = js_max (map kp_t ps) (1 / 10)"

definition vu_max :: "k6_point list \<Rightarrow> rat" where
  "vu_max ps = js_max (map kp_vus ps) 1"

definition ms_max :: "k6_point list \<Rightarrow> rat" where
  "ms_max ps = js_max (map kp_avg_ms ps) 1"

definition vu_x :: "k6_point list \<Rightarrow> rat \<Rightarrow> rat" where
  "vu_x ps t = fr_padLeft vu_frame + t / vu_maxT ps * chartW vu_frame"

definition yVu :: "k6_point list \<Rightarrow> rat \<Rightarrow> rat" where
  "yVu ps v = y_at vu_frame (vu_max ps) v"

definition yMs :: "k6_point list \<Rightarrow> rat \<Rightarrow> rat" where
  "yMs ps m = y_at vu_frame (ms_max ps) m"

definition pathVu :: "k6_point list \<Rightarrow> path_command list" where
  "pathVu ps = svg_path (map (\<lambda>p. (vu_x ps (kp_t p), yVu ps (kp_vus p))) ps)"

definition pathMs :: "k6_point list \<Rightarrow> path_command list" where
  "pathMs ps = svg_path (map (\<lambda>p. (vu_x ps (kp_t p), yMs ps (kp_avg_ms p))) ps)"

text \<open>\<open>Math.min(6, Math.max(2, Math.ceil(maxT / 5)))\<close>, and the labels \<open>0\<close> to \<open>nX\<close>.\<close>

definition vu_nX :: "k6_point list \<Rightarrow> nat" where
  "vu_nX ps = nat (min 6 (max 2 \<lceil>vu_maxT ps / 5\<rceil>))"

definition ticksX :: "k6_point list \<Rightarrow> (rat \<times> string) list" where
  "ticksX ps =
     map (\<lambda>i. let t = vu_maxT ps * of_nat i / of_nat (vu_nX ps) in (vu_x ps t, toFixed 0 t @ ''s'')) [0..<vu_nX ps + 1]"

definition vu_grid :: "k6_point list \<Rightarrow> (rat \<times> string) list" where
  "vu_grid ps = map (\<lambda>v. (yVu ps v, show_int (js_round v))) (grid_values 4 (vu_max ps))"

definition ms_grid :: "k6_point list \<Rightarrow> (rat \<times> string) list" where
  "ms_grid ps = map (\<lambda>m. (yMs ps m, toFixed 0 m @ ''ms'')) (grid_values 4 (ms_max ps))"

definition no_samples_text :: "bool \<Rightarrow> string" where
  "no_samples_text running = (if running then ''Collecting samples'' @ u_ellipsis else ''No samples for this run.'')"

section \<open>The figures of a run\<close>

definition isRunning :: "k6_status option \<Rightarrow> bool" where
  "isRunning st \<longleftrightarrow> (case st of Some s \<Rightarrow> ks_running s | None \<Rightarrow> False)"

definition isFinished :: "k6_status option \<Rightarrow> bool" where
  "isFinished st \<longleftrightarrow> (case st of Some s \<Rightarrow> ks_finished s | None \<Rightarrow> False) \<and> \<not> isRunning st"

definition shows_results :: "k6_status option \<Rightarrow> bool" where
  "shows_results st \<longleftrightarrow> st \<noteq> None \<and> (isRunning st \<or> isFinished st)"

definition run_line :: "k6_status \<Rightarrow> string" where
  "run_line s =
     (if ks_running s
      then show_int (js_round (ks_elapsed_s s)) @ ''s elapsed '' @ u_emdash @ '' '' @ show_int (ks_current_vus s) @ '' active VUs''
      else ''Completed in '' @ show_int (js_round (ks_elapsed_s s)) @ ''s'')"

definition run_badges :: "k6_status \<Rightarrow> badge list" where
  "run_badges s =
     (if ks_running s then [(V_default, ''Running'')] else []) @
     (if ks_finished s \<and> \<not> ks_running s then [(V_secondary, ''Finished'')] else []) @
     (if ks_preset s = [] then [] else [(V_outline, ks_preset s)])"

definition error_rate_text :: "k6_status \<Rightarrow> string option" where
  "error_rate_text s = (if 0 < ks_requests s then Some (toFixed 2 (ks_error_rate s * 100) @ ''% error rate'') else None)"

text \<open>Widths of the two bars, in percent, and the verdict under the second.\<close>

definition vu_width :: "k6_status \<Rightarrow> rat" where
  "vu_width s = min 100 (of_int (ks_current_vus s) / of_int (if ks_vus s = 0 then 1 else ks_vus s) * 100)"

definition error_width :: "k6_status \<Rightarrow> rat" where
  "error_width s = min 100 (ks_error_rate s * 100)"

definition error_color :: "rat \<Rightarrow> string" where
  "error_color r = (if 5 / 100 < r then ''bg-red-500'' else if 0 < r then ''bg-amber-500'' else ''bg-green-500'')"

definition threshold_text :: "rat \<Rightarrow> string" where
  "threshold_text r = (if 5 / 100 < r then ''Above 5% threshold'' else ''Below 5% threshold'')"

section \<open>The page\<close>

record load_test =
  lt_status :: "k6_status option"
  lt_starting :: bool
  lt_stopping :: bool
  lt_error :: "string option"
  lt_vus :: int
  lt_duration :: string
  lt_url :: string

definition compose_target :: string where "compose_target = ''http://load-balancer:80''"
definition local_target :: string where "local_target = ''http://127.0.0.1:8080''"

text \<open>\<open>build_url\<close> is \<open>process.env.NEXT_PUBLIC_LOAD_TEST_TARGET_URL\<close>.\<close>

definition init_load_test :: "string option \<Rightarrow> load_test" where
  "init_load_test build_url = \<lparr>lt_status = None, lt_starting = False, lt_stopping = False, lt_error = None,
     lt_vus = 100, lt_duration = ''30s'', lt_url = coalesce build_url compose_target\<rparr>"

definition adopt_url :: "string option \<Rightarrow> string \<Rightarrow> string" where
  "adopt_url dflt prev =
     (let d = coalesce (map_option js_trim dflt) []
      in if d = [] then prev else if prev = compose_target \<or> prev = local_target then d else prev)"

text \<open>
  \<open>fetchStatus\<close> and the effect it triggers: when the default URL changes, a placeholder in the form is replaced.
  The status of the answer is not looked at; what \<open>fetch\<close> or \<open>json\<close> throw is ignored.
\<close>

definition status_default :: "k6_status option \<Rightarrow> string option" where
  "status_default st = Option.bind st ks_default_target_url"

definition k6_fetched :: "k6_status option \<Rightarrow> load_test \<Rightarrow> load_test" where
  "k6_fetched answer s =
     (case answer of
        None \<Rightarrow> s
      | Some st \<Rightarrow>
          s\<lparr>lt_status := Some st,
            lt_url := (if status_default (Some st) = status_default (lt_status s) then lt_url s
                       else adopt_url (ks_default_target_url st) (lt_url s))\<rparr>)"

definition poll_ms :: "load_test \<Rightarrow> int" where
  "poll_ms s = (if isRunning (lt_status s) then 1000 else 2000)"

definition preset_body :: "string \<Rightarrow> json" where
  "preset_body key = JObj [(''preset'', JStr key)]"

definition custom_body :: "load_test \<Rightarrow> json" where
  "custom_body s = JObj [(''vus'', JInt (lt_vus s)), (''duration'', JStr (lt_duration s)), (''target_url'', JStr (lt_url s))]"

text \<open>
  \<open>startTest\<close> has no guard of its own: what keeps it from running twice is the attribute \<open>disabled\<close> of its
  buttons, \<open>can_start\<close>. Here the click and its button are one operation, so a click on a disabled button does nothing.
\<close>

definition can_start :: "load_test \<Rightarrow> bool" where
  "can_start s \<longleftrightarrow> \<not> isRunning (lt_status s) \<and> \<not> lt_starting s"

definition start_click :: "json \<Rightarrow> load_test \<Rightarrow> json option \<times> load_test" where
  "start_click body s =
     (if can_start s then (Some body, s\<lparr>lt_starting := True, lt_error := None\<rparr>) else (None, s))"

text \<open>The answer to the start; \<open>after\<close> is what the status request after it gives.\<close>

definition start_answered :: "thrown + json \<Rightarrow> k6_status option \<Rightarrow> load_test \<Rightarrow> load_test" where
  "start_answered answer after s =
     (case answer of
        Inl e \<Rightarrow> s\<lparr>lt_error := Some (err_message_or ''Failed to start test'' e), lt_starting := False\<rparr>
      | Inr body \<Rightarrow>
          (k6_fetched after
             (if truthy (as_string (member ''error'' body)) then s\<lparr>lt_error := as_string (member ''error'' body)\<rparr> else s))
            \<lparr>lt_starting := False\<rparr>)"

definition can_stop :: "load_test \<Rightarrow> bool" where
  "can_stop s \<longleftrightarrow> isRunning (lt_status s) \<and> \<not> lt_stopping s"

definition stop_click :: "load_test \<Rightarrow> load_test" where
  "stop_click s = (if can_stop s then s\<lparr>lt_stopping := True\<rparr> else s)"

definition stop_answered :: "thrown + http_response \<Rightarrow> k6_status option \<Rightarrow> load_test \<Rightarrow> load_test" where
  "stop_answered answer after s =
     (case answer of
        Inl e \<Rightarrow> s\<lparr>lt_stopping := False\<rparr>
      | Inr r \<Rightarrow> (k6_fetched after s)\<lparr>lt_stopping := False\<rparr>)"

text \<open>The form; its inputs are disabled while a test runs. \<open>parseInt(v, 10) || 1\<close>.\<close>

definition read_vus :: "string \<Rightarrow> int" where
  "read_vus t = (case js_parseInt t of None \<Rightarrow> 1 | Some n \<Rightarrow> if n = 0 then 1 else n)"

definition type_vus :: "string \<Rightarrow> load_test \<Rightarrow> load_test" where
  "type_vus t s = (if isRunning (lt_status s) then s else s\<lparr>lt_vus := read_vus t\<rparr>)"

definition type_duration :: "string \<Rightarrow> load_test \<Rightarrow> load_test" where
  "type_duration t s = (if isRunning (lt_status s) then s else s\<lparr>lt_duration := t\<rparr>)"

definition type_url :: "string \<Rightarrow> load_test \<Rightarrow> load_test" where
  "type_url t s = (if isRunning (lt_status s) then s else s\<lparr>lt_url := t\<rparr>)"

text \<open>What the page reads of a status body whose figures are missing.\<close>

definition read_bare_status :: "json \<Rightarrow> k6_status" where
  "read_bare_status b =
     \<lparr>ks_running = (member ''running'' b = Some (JBool True)), ks_preset = [], ks_vus = 0,
      ks_default_target_url = as_string (member ''default_target_url'' b), ks_elapsed_s = 0, ks_requests = 0,
      ks_errors = 0, ks_error_rate = 0, ks_avg_duration_ms = 0, ks_p95_duration_ms = 0, ks_current_vus = 0,
      ks_finished = (member ''finished'' b = Some (JBool True)), ks_series = []\<rparr>"

section \<open>Lemmas\<close>

lemma vu_area: "0 \<le> chartH vu_frame" "0 < chartW vu_frame"
  by (simp_all add: chartH_def chartW_def vu_frame_def)

lemma vu_maxT_pos: "0 < vu_maxT ps"
  by (simp add: vu_maxT_def js_max_pos)

lemma vu_max_pos: "0 < vu_max ps" "0 < ms_max ps"
  by (simp_all add: vu_max_def ms_max_def js_max_pos)

lemma below_vu_max: "p \<in> set ps \<Longrightarrow> kp_vus p \<le> vu_max ps" "p \<in> set ps \<Longrightarrow> kp_avg_ms p \<le> ms_max ps"
  by (simp_all add: vu_max_def ms_max_def js_max_ge)

lemma vu_x_between:
  assumes "p \<in> set ps" "0 \<le> kp_t p"
  shows "fr_padLeft vu_frame \<le> vu_x ps (kp_t p) \<and> vu_x ps (kp_t p) \<le> fr_padLeft vu_frame + chartW vu_frame"
proof -
  have "kp_t p \<le> vu_maxT ps" using assms(1) by (simp add: vu_maxT_def js_max_ge)
  then show ?thesis
    using share_bounds [of "kp_t p" "vu_maxT ps" "chartW vu_frame"] assms(2) vu_area(2) by (simp add: vu_x_def)
qed

interpretation users: chart vu_frame "vu_max ps" "\<lambda>p. vu_x ps (kp_t p)" "\<lambda>p. yVu ps (kp_vus p)" kp_vus
  "filter (\<lambda>p. 0 \<le> kp_t p) ps" for ps
  by unfold_locales (auto simp: vu_area vu_max_pos vu_x_between yVu_def below_vu_max)

interpretation latency: chart vu_frame "ms_max ps" "\<lambda>p. vu_x ps (kp_t p)" "\<lambda>p. yMs ps (kp_avg_ms p)" kp_avg_ms
  "filter (\<lambda>p. 0 \<le> kp_t p) ps" for ps
  by unfold_locales (auto simp: vu_area vu_max_pos vu_x_between yMs_def below_vu_max)

section \<open>Properties\<close>

text \<open>
  both curves of a run stay inside the drawing area, for the samples k6 takes: elapsed times, numbers of
  users and latencies that are not negative.
\<close>

theorem vu_curves_inside:
  assumes "list_all (\<lambda>p. 0 \<le> kp_t p \<and> 0 \<le> kp_vus p \<and> 0 \<le> kp_avg_ms p) ps"
  shows "list_all (\<lambda>c. in_frame vu_frame (command_at c)) (pathVu ps @ pathMs ps)"
proof -
  have "filter (\<lambda>p. 0 \<le> kp_t p) ps = ps" using assms by (simp add: filter_id_conv list_all_iff)
  moreover have "\<forall>p \<in> set ps. 0 \<le> kp_vus p" "\<forall>p \<in> set ps. 0 \<le> kp_avg_ms p" using assms by (auto simp: list_all_iff)
  ultimately show ?thesis
    using users.path_inside [of ps] latency.path_inside [of ps] by (simp add: pathVu_def pathMs_def)
qed

theorem vu_curves_inside_witness:
  "list_all (\<lambda>c. in_frame vu_frame (command_at c))
     (pathVu [\<lparr>kp_t = 0, kp_vus = 10, kp_avg_ms = 35\<rparr>, \<lparr>kp_t = 75 / 100, kp_vus = 50, kp_avg_ms = 120\<rparr>]
      @ pathMs [\<lparr>kp_t = 0, kp_vus = 10, kp_avg_ms = 35\<rparr>, \<lparr>kp_t = 75 / 100, kp_vus = 50, kp_avg_ms = 120\<rparr>])"
  by (rule vu_curves_inside) simp

lemma vu_nX_bounds: "2 \<le> vu_nX ps" "vu_nX ps \<le> 6"
  by (simp_all add: vu_nX_def)

lemma ticksX_x: "map fst (ticksX ps) = map (\<lambda>i. fr_padLeft vu_frame + of_nat i / of_nat (vu_nX ps) * chartW vu_frame) [0..<vu_nX ps + 1]"
  using vu_maxT_pos [of ps] by (simp add: ticksX_def vu_x_def Let_def)

text \<open>
  the time axis of a run has between three and seven labels, evenly spaced, the first at the left edge
  and the last at the right edge of the drawing area.
\<close>

theorem run_axis_spans_chart:
  "3 \<le> length (ticksX ps) \<and> length (ticksX ps) \<le> 7 \<and>
   fst (hd (ticksX ps)) = fr_padLeft vu_frame \<and> fst (last (ticksX ps)) = fr_padLeft vu_frame + chartW vu_frame \<and>
   sorted_wrt (<) (map fst (ticksX ps))"
proof -
  have len: "length (ticksX ps) = vu_nX ps + 1" by (simp add: ticksX_def)
  have ne: "ticksX ps \<noteq> []" using len by auto
  have "fst (hd (ticksX ps)) = hd (map fst (ticksX ps))" using ne by (simp add: hd_map)
  then have "fst (hd (ticksX ps)) = fr_padLeft vu_frame" unfolding ticksX_x by (simp add: hd_map del: upt_Suc)
  moreover have "fst (last (ticksX ps)) = last (map fst (ticksX ps))" using ne by (simp add: last_map)
  then have "fst (last (ticksX ps)) = fr_padLeft vu_frame + chartW vu_frame"
    unfolding ticksX_x using vu_nX_bounds [of ps] by simp
  moreover have "sorted_wrt (<) (map fst (ticksX ps))"
    unfolding ticksX_x sorted_wrt_map using vu_nX_bounds [of ps] vu_area(2)
    by (intro sorted_wrt_mono_rel [OF _ sorted_wrt_upt]) (simp add: divide_strict_right_mono)
  ultimately show ?thesis using len vu_nX_bounds [of ps] by simp
qed

text \<open>
  one test at a time. Whatever is clicked, a start sends a request only while no test runs and no start
  is under way, and the click disables the next one until its answer has been dealt with.
\<close>

theorem one_start_at_a_time:
  "(fst (start_click body s) = (if isRunning (lt_status s) \<or> lt_starting s then None else Some body)) \<and>
   fst (start_click body' (snd (start_click body s))) = None \<and>
   \<not> lt_starting (start_answered answer after (snd (start_click body s)))"
  by (auto simp: start_click_def can_start_def start_answered_def split: sum.split)

lemma k6_fetched_url: "lt_url s \<notin> {compose_target, local_target} \<Longrightarrow> lt_url (k6_fetched a s) = lt_url s"
  by (simp add: k6_fetched_def adopt_url_def Let_def split: option.split)

lemma k6_fetched_urls: "lt_url s \<notin> {compose_target, local_target} \<Longrightarrow> lt_url (fold k6_fetched as s) = lt_url s"
  by (induction "as" arbitrary: s) (simp_all add: k6_fetched_url)

text \<open>
  the target that the user typed is kept. However many status answers arrive, with whatever default, a
  target other than the two placeholders is never replaced, while the placeholder that the page starts with is
  replaced by the default of the first answer that has one.
\<close>

theorem typed_target_is_kept:
  "(if lt_url s = compose_target \<or> lt_url s = local_target then True else lt_url (fold k6_fetched as s) = lt_url s) \<and>
   (case ks_default_target_url st of
      None \<Rightarrow> lt_url (k6_fetched (Some st) (init_load_test None)) = compose_target
    | Some d \<Rightarrow> lt_url (k6_fetched (Some st) (init_load_test None)) = (if js_trim d = [] then compose_target else js_trim d))"
  by (auto simp: k6_fetched_urls k6_fetched_def adopt_url_def init_load_test_def status_default_def Let_def
      split: option.split)

text \<open>
  an unreachable backend looks like an idle one. When the status request cannot reach the backend, the
  answer of the dashboard's own route makes the page forget a running test: its results disappear, polling slows
  down, and the start buttons are enabled although the test may still run.
\<close>

theorem unreachable_runner_looks_idle:
  assumes "fst (fetch_json R (dashboardBackendBase parse_url h @ ''/api/k6/status'') w) = Inl e" and "\<not> lt_starting s"
  shows "can_start (k6_fetched (Some (read_bare_status (rp_body (fst (k6_status_GET parse_url R h w))))) s) \<and>
    \<not> shows_results (lt_status (k6_fetched (Some (read_bare_status (rp_body (fst (k6_status_GET parse_url R h w))))) s)) \<and>
    poll_ms (k6_fetched (Some (read_bare_status (rp_body (fst (k6_status_GET parse_url R h w))))) s) = 2000"
proof -
  have body: "rp_body (fst (k6_status_GET parse_url R h w)) = JObj (only_error e @ [(''running'', JBool False)])"
    using assms(1) by (simp add: k6_status_GET_def answer_or_def json_reply_def)
  then have "ks_running (read_bare_status (rp_body (fst (k6_status_GET parse_url R h w)))) = False"
    "ks_finished (read_bare_status (rp_body (fst (k6_status_GET parse_url R h w)))) = False"
    by (simp_all add: read_bare_status_def only_error_def)
  with assms(2) show ?thesis
    by (simp add: can_start_def isRunning_def isFinished_def shows_results_def poll_ms_def k6_fetched_def)
qed

definition down_remote :: remote where
  "down_remote = (demo_remote ''SUCCESS'' 200 1)\<lparr>o_http := (\<lambda>calls url. Inl (new_Error ''fetch failed''))\<rparr>"

definition running_test :: load_test where
  "running_test = (init_load_test None)\<lparr>lt_status := Some ((read_bare_status (JObj []))\<lparr>ks_running := True, ks_vus := 50\<rparr>)\<rparr>"

theorem unreachable_runner_looks_idle_witness:
  "\<not> can_start running_test \<and>
   can_start (k6_fetched (Some (read_bare_status (rp_body (fst (k6_status_GET (\<lambda>u. None) down_remote typo_host init_world))))) running_test)"
proof
  show "\<not> can_start running_test" by (simp add: can_start_def isRunning_def running_test_def)
  have "fst (fetch_json down_remote (dashboardBackendBase (\<lambda>u. None) typo_host @ ''/api/k6/status'') init_world) = Inl (new_Error ''fetch failed'')"
    by (simp add: fetch_json_def send_http_def down_remote_def json_answer_def)
  moreover have "\<not> lt_starting running_test" by (simp add: running_test_def init_load_test_def)
  ultimately show "can_start (k6_fetched (Some (read_bare_status (rp_body (fst (k6_status_GET (\<lambda>u. None) down_remote typo_host init_world))))) running_test)"
    by (intro unreachable_runner_looks_idle [THEN conjunct1])
qed

end
