(* ===== verification/LoadScripts.thy ===== *)
theory LoadScripts
  imports SetupRailway LoadTest
begin

text \<open>
  The load scripts that k6 runs: the one behind the load-test page (\<open>dashboard/backend/load-test.js\<close>) and the four
  stand-alone ones (\<open>load-tests/*.js\<close>). An iteration is a function from the answers of the server to the list of
  events that k6 sees: requests, checks, samples of the metrics and pauses. The server's answer is any function of the
  events so far; a response carries its body as parsed by \<open>JSON.parse\<close>, \<open>None\<close> when that throws.
\<close>

section \<open>Options\<close>

record stage =
  sg_duration :: string
  sg_target :: "int option"

record k6_options =
  ko_vus :: "int option"
  ko_duration :: "string option"
  ko_stages :: "stage list"
  ko_thresholds :: "(string \<times> string list) list"

definition stages :: "(string \<times> int) list \<Rightarrow> stage list" where
  "stages = map (\<lambda>(d, n). \<lparr>sg_duration = d, sg_target = Some n\<rparr>)"

definition staged :: "stage list \<Rightarrow> string \<Rightarrow> string \<Rightarrow> k6_options" where
  "staged sgs duration errs =
     \<lparr>ko_vus = None, ko_duration = None, ko_stages = sgs,
      ko_thresholds = [(''http_req_duration'', [duration]), (''errors'', [errs])]\<rparr>"

definition K6_PRESETS :: "(string \<times> k6_options) list" where
  "K6_PRESETS =
     [(''bronze'', staged (stages [(''10s'', 25), (''20s'', 50), (''30s'', 50), (''10s'', 0)]) ''p(95)<5000'' ''rate<0.50''),
      (''silver'', staged (stages [(''15s'', 50), (''15s'', 100), (''30s'', 200), (''30s'', 200), (''15s'', 0)]) ''p(95)<3000'' ''rate<0.05''),
      (''gold'', staged (stages [(''15s'', 100), (''20s'', 250), (''20s'', 500), (''40s'', 500), (''15s'', 0)]) ''p(95)<5000'' ''rate<0.05''),
      (''chaos'', staged (stages [(''10s'', 30), (''20s'', 100), (''30s'', 100), (''10s'', 0)]) ''p(95)<10000'' ''rate<1.00'')]"

text \<open>The settings that the runner passes to the script; \<open>VUS\<close> is \<open>None\<close> for \<open>NaN\<close>, as is its half.\<close>

definition BASE_URL :: "env \<Rightarrow> string" where
  "BASE_URL env =
     strip_trailing (CHR ''/'')
       (str_or (coalesce (env ''K6_TARGET_URL'') []) (str_or (coalesce (env ''LOAD_TEST_TARGET_URL'') []) ''http://load-balancer:80''))"

definition VUS :: "env \<Rightarrow> int option" where
  "VUS env = js_parseInt (str_or (coalesce (env ''K6_VUS'') []) ''50'')"

definition DURATION :: "env \<Rightarrow> string" where
  "DURATION env = str_or (coalesce (env ''K6_DURATION'') []) ''30s''"

definition PRESET :: "env \<Rightarrow> string" where
  "PRESET env = coalesce (env ''K6_PRESET'') []"

definition BYPASS :: "env \<Rightarrow> string" where
  "BYPASS env = coalesce (env ''LOAD_TEST_BYPASS_TOKEN'') []"

definition custom_options :: "env \<Rightarrow> k6_options" where
  "custom_options env =
     staged
       [\<lparr>sg_duration = ''5s'', sg_target = map_option (\<lambda>n. - ((- n) div 2)) (VUS env)\<rparr>,
        \<lparr>sg_duration = DURATION env, sg_target = VUS env\<rparr>,
        \<lparr>sg_duration = ''5s'', sg_target = Some 0\<rparr>]
       ''p(95)<5000'' ''rate<0.50''"

text \<open>The lookup finds the four names only; members that every JavaScript object inherits are left out.\<close>

definition script_options :: "env \<Rightarrow> k6_options" where
  "script_options env = coalesce (map_of K6_PRESETS (PRESET env)) (custom_options env)"

section \<open>Events\<close>

text \<open>
  The third argument of \<open>http.post\<close> and the second of \<open>http.get\<close> is an object; k6 reads its \<open>headers\<close> and its
  \<open>redirects\<close> and ignores other members.
\<close>

datatype k6_param = Headers "(string \<times> string) list" | Redirects int | Member string string

record k6_request =
  kr_method :: string
  kr_url :: string
  kr_body :: "string option"
  kr_params :: "k6_param list"

fun sent_headers :: "k6_param list \<Rightarrow> (string \<times> string) list" where
  "sent_headers [] = []"
| "sent_headers (Headers hs # ps) = hs"
| "sent_headers (p # ps) = sent_headers ps"

datatype k6_event =
    Requested k6_request
  | Checked string bool
  | Error_rate bool
  | Error_check
  | Duration string int
  | Slept int

record k6_response =
  kx_status :: int
  kx_duration :: int
  kx_json :: "json option"

type_synonym k6_server = "k6_event list \<Rightarrow> k6_response"

definition k6_get :: "string \<Rightarrow> k6_param list \<Rightarrow> k6_request" where
  "k6_get url ps = \<lparr>kr_method = ''GET'', kr_url = url, kr_body = None, kr_params = ps\<rparr>"

definition k6_post :: "string \<Rightarrow> string \<Rightarrow> k6_param list \<Rightarrow> k6_request" where
  "k6_post url body ps = \<lparr>kr_method = ''POST'', kr_url = url, kr_body = Some body, kr_params = ps\<rparr>"

definition send_k6 :: "k6_server \<Rightarrow> k6_request \<Rightarrow> k6_event list \<Rightarrow> k6_response \<times> k6_event list" where
  "send_k6 server req ev = (server (ev @ [Requested req]), ev @ [Requested req])"

definition recordError :: "bool \<Rightarrow> k6_event list" where
  "recordError failed = Error_rate failed # (if failed then [Error_check] else [])"

definition rate_only :: "bool \<Rightarrow> k6_event list" where
  "rate_only failed = [Error_rate failed]"

text \<open>
  The pattern of every step: a request, its duration into a trend if the step has one, a check of the status, and the
  sample of the error metric, recorded by \<open>rec\<close>.
\<close>

definition measured ::
  "k6_server \<Rightarrow> (bool \<Rightarrow> k6_event list) \<Rightarrow> string option \<Rightarrow> string \<Rightarrow> int \<Rightarrow> k6_request \<Rightarrow> k6_event list \<Rightarrow> k6_response \<times> k6_event list"
where
  "measured server rec trend label want req ev =
     (case send_k6 server req ev of
        (r, ev1) \<Rightarrow>
          (r, ev1 @ (case trend of None \<Rightarrow> [] | Some t \<Rightarrow> [Duration t (kx_duration r)])
                @ [Checked label (kx_status r = want)] @ rec (kx_status r \<noteq> want)))"

text \<open>\<open>JSON.parse(body).short_code\<close>: an error when the body is not JSON or is null.\<close>

definition short_code :: "k6_response \<Rightarrow> string option" where
  "short_code r =
     (case kx_json r of
        None \<Rightarrow> None
      | Some j \<Rightarrow>
          if j = JNull then None
          else Some (case member ''short_code'' j of None \<Rightarrow> ''undefined'' | Some v \<Rightarrow> js_String v))"

text \<open>How an iteration ends: at its last line, or with an error that is thrown out of it.\<close>

datatype ending = Finished | Thrown

section \<open>The script of the load-test page\<close>

definition edgeHeaders :: "env \<Rightarrow> (string \<times> string) list \<Rightarrow> (string \<times> string) list" where
  "edgeHeaders env extra =
     (if BYPASS env \<noteq> [] then AList.update ''X-Load-Test-Bypass'' (BYPASS env) extra else extra)"

definition jsonPostHeaders :: "env \<Rightarrow> (string \<times> string) list" where
  "jsonPostHeaders env = edgeHeaders env [(''Content-Type'', ''application/json'')]"

definition not_nullish :: "json option \<Rightarrow> bool" where
  "not_nullish v \<longleftrightarrow> v \<noteq> None \<and> v \<noteq> Some JNull"

text \<open>\<open>setup\<close>: the id of an existing user, else of one that is created, else 1; \<open>now\<close> is \<open>Date.now()\<close>.\<close>

definition listed_id :: "k6_response \<Rightarrow> json option" where
  "listed_id r =
     (if kx_status r = 200
      then (case kx_json r of
              Some (JArr (u # us)) \<Rightarrow> if not_nullish (member ''id'' u) then member ''id'' u else None
            | _ \<Rightarrow> None)
      else None)"

definition created_id :: "k6_response \<Rightarrow> json option" where
  "created_id r =
     (if kx_status r = 201
      then (case kx_json r of
              Some u \<Rightarrow> if not_nullish (member ''id'' u) then member ''id'' u else None
            | None \<Rightarrow> None)
      else None)"

definition new_user_body :: "int \<Rightarrow> string" where
  "new_user_body now =
     json_stringify (JObj [(''username'', JStr (''k6-'' @ show_int now)), (''email'', JStr (''k6-'' @ show_int now @ ''@load-test.local''))])"

definition script_setup :: "k6_server \<Rightarrow> env \<Rightarrow> int \<Rightarrow> json \<times> k6_event list" where
  "script_setup server env now =
     (case send_k6 server (k6_get (BASE_URL env @ ''/users?page=1&per_page=1'') [Headers (edgeHeaders env [])]) [] of
        (r, ev1) \<Rightarrow>
          (case listed_id r of
             Some i \<Rightarrow> (i, ev1)
           | None \<Rightarrow>
               (case send_k6 server
                       (k6_post (BASE_URL env @ ''/users'') (new_user_body now)
                          [Headers (AList.update ''Content-Type'' ''application/json'' (edgeHeaders env []))]) ev1 of
                  (r1, ev2) \<Rightarrow> (coalesce (created_id r1) (JInt 1), ev2))))"

definition vu_iter :: "int \<Rightarrow> int \<Rightarrow> string" where
  "vu_iter vu iter = show_int vu @ ''-'' @ show_int iter"

definition shorten_body :: "string \<Rightarrow> json \<Rightarrow> string \<Rightarrow> string" where
  "shorten_body url user title = json_stringify (JObj [(''original_url'', JStr url), (''user_id'', user), (''title'', JStr title)])"

text \<open>The steps 2 to 4 of an iteration.\<close>

definition shorten_and_follow :: "k6_server \<Rightarrow> env \<Rightarrow> int \<Rightarrow> int \<Rightarrow> json \<Rightarrow> k6_event list \<Rightarrow> ending \<times> k6_event list" where
  "shorten_and_follow server env vu iter user ev =
     (case measured server recordError (Some ''shorten_duration'') ''shorten ok'' 201
             (k6_post (BASE_URL env @ ''/shorten'')
                (shorten_body (''https://example.com/test/'' @ vu_iter vu iter) user (''Load test '' @ vu_iter vu iter))
                [Headers (jsonPostHeaders env)]) ev of
        (r, ev1) \<Rightarrow>
          (case measured server recordError (Some ''list_duration'') ''list ok'' 200
                  (k6_get (BASE_URL env @ ''/urls?page=1&per_page=10'') [Headers (edgeHeaders env [])]) ev1 of
             (l, ev2) \<Rightarrow>
               if kx_status r = 201
               then (case short_code r of
                       None \<Rightarrow> (Thrown, ev2)
                     | Some code \<Rightarrow>
                         (Finished,
                          snd (measured server recordError (Some ''redirect_duration'') ''redirect ok'' 302
                                 (k6_get (BASE_URL env @ ''/'' @ code) [Redirects 0, Headers (edgeHeaders env [])]) ev2) @ [Slept 500]))
               else (Finished, ev2 @ [Slept 500])))"

text \<open>
  One iteration; \<open>draw1\<close> and \<open>draw2\<close> are the two random numbers, \<open>user\<close> the id from the setup. The headers of the
  malformed request are the whole third argument.
\<close>

definition iteration ::
  "k6_server \<Rightarrow> env \<Rightarrow> rat \<Rightarrow> rat \<Rightarrow> int \<Rightarrow> int \<Rightarrow> json option \<Rightarrow> ending \<times> k6_event list" where
  "iteration server env draw1 draw2 vu iter data =
     (let user = (if not_nullish data then the data else JInt 1);
          isChaos = (PRESET env = ''chaos'');
          ev1 = snd (measured server recordError None ''health ok'' 200
                       (k6_get (BASE_URL env @ ''/health'') [Headers (edgeHeaders env [])]) [])
      in if isChaos \<and> draw1 < 4 / 10
         then (case send_k6 server (k6_get (BASE_URL env @ ''/nonexistent-'' @ vu_iter vu iter) [Headers (edgeHeaders env [])]) ev1 of
                 (r, ev2) \<Rightarrow> (Finished, ev2 @ recordError (400 \<le> kx_status r) @ [Slept 300]))
         else if isChaos \<and> draw2 < 3 / 10
         then (case send_k6 server
                      (k6_post (BASE_URL env @ ''/shorten'') ''not json'' (map (\<lambda>(k, v). Member k v) (jsonPostHeaders env))) ev1 of
                 (r, ev2) \<Rightarrow>
                   (Finished, ev2 @ [Duration ''shorten_duration'' (kx_duration r)] @ recordError (400 \<le> kx_status r) @ [Slept 300]))
         else shorten_and_follow server env vu iter user ev1)"

section \<open>The stand-alone scripts\<close>

definition LOCAL_URL :: string where "LOCAL_URL = ''http://localhost:8080''"

record tier =
  ti_options :: k6_options
  ti_path :: string
  ti_title :: string
  ti_redirects :: "string list"
  ti_pause :: int

definition BRONZE :: tier where
  "BRONZE =
     \<lparr>ti_options = \<lparr>ko_vus = Some 50, ko_duration = Some ''30s'', ko_stages = [],
        ko_thresholds = [(''http_req_duration'', [''p(95)<5000'']), (''errors'', [''rate<0.5''])]\<rparr>,
      ti_path = ''page'', ti_title = ''Load test '', ti_redirects = [''redirect ok''], ti_pause = 1000\<rparr>"

definition SILVER :: tier where
  "SILVER =
     \<lparr>ti_options = staged (stages [(''15s'', 50), (''15s'', 100), (''30s'', 200), (''30s'', 200), (''15s'', 0)]) ''p(95)<3000'' ''rate<0.05'',
      ti_path = ''silver'', ti_title = ''Silver test '', ti_redirects = [''redirect ok''], ti_pause = 500\<rparr>"

definition GOLD :: tier where
  "GOLD =
     \<lparr>ti_options = staged (stages [(''15s'', 100), (''20s'', 250), (''20s'', 500), (''40s'', 500), (''15s'', 0)]) ''p(95)<5000'' ''rate<0.05'',
      ti_path = ''gold'', ti_title = ''Gold test '', ti_redirects = [''redirect ok'', ''redirect cache hit''], ti_pause = 300\<rparr>"

definition STRESS :: tier where
  "STRESS =
     \<lparr>ti_options = staged (stages [(''30s'', 50), (''30s'', 100), (''30s'', 200), (''30s'', 300), (''30s'', 400), (''30s'', 500), (''30s'', 0)])
        ''p(95)<5000'' ''rate<0.5'',
      ti_path = ''page'', ti_title = ''Load test '', ti_redirects = [''redirect ok''], ti_pause = 1000\<rparr>"

text \<open>The short code is followed once for each of the tier's checks.\<close>

fun follow :: "k6_server \<Rightarrow> string \<Rightarrow> string list \<Rightarrow> k6_event list \<Rightarrow> k6_event list" where
  "follow server url [] ev = ev"
| "follow server url (label # labels) ev =
     follow server url labels
       (snd (measured server rate_only (Some ''redirect_duration'') label 302 (k6_get url [Redirects 0]) ev))"

definition tier_iteration :: "tier \<Rightarrow> k6_server \<Rightarrow> int \<Rightarrow> int \<Rightarrow> ending \<times> k6_event list" where
  "tier_iteration ti server vu iter =
     (let ev1 = snd (measured server rate_only None ''health ok'' 200 (k6_get (LOCAL_URL @ ''/health'') []) [])
      in case measured server rate_only (Some ''shorten_duration'') ''shorten ok'' 201
                (k6_post (LOCAL_URL @ ''/shorten'')
                   (shorten_body (''https://example.com/'' @ ti_path ti @ ''/'' @ vu_iter vu iter) (JInt 1) (ti_title ti @ vu_iter vu iter))
                   [Headers [(''Content-Type'', ''application/json'')]]) ev1 of
           (r, ev2) \<Rightarrow>
             (case measured server rate_only (Some ''list_duration'') ''list ok'' 200
                     (k6_get (LOCAL_URL @ ''/urls?page=1&per_page=10'') []) ev2 of
                (l, ev3) \<Rightarrow>
                  if kx_status r = 201
                  then (case short_code r of
                          None \<Rightarrow> (Thrown, ev3)
                        | Some code \<Rightarrow> (Finished, follow server (LOCAL_URL @ ''/'' @ code) (ti_redirects ti) ev3 @ [Slept (ti_pause ti)]))
                  else (Finished, ev3 @ [Slept (ti_pause ti)])))"

text \<open>\<open>handleSummary\<close>: the results are stored with the name of the tier; the summary that is printed is made by
  a library and left out. The results are an object whose numbers are integers.\<close>

definition handleSummary :: "string \<Rightarrow> (string \<times> json) list \<Rightarrow> k6_request" where
  "handleSummary name results =
     k6_post (LOCAL_URL @ ''/test-results'') (json_stringify (JObj (AList.update ''tier'' (JStr name) results)))
       [Headers [(''Content-Type'', ''application/json'')]]"

text \<open>The \<open>default\<close> functions of the four scripts, and the summaries of the three that store one.\<close>

definition bronze_iteration :: "k6_server \<Rightarrow> int \<Rightarrow> int \<Rightarrow> ending \<times> k6_event list" where
  "bronze_iteration = tier_iteration BRONZE"

definition silver_iteration :: "k6_server \<Rightarrow> int \<Rightarrow> int \<Rightarrow> ending \<times> k6_event list" where
  "silver_iteration = tier_iteration SILVER"

definition gold_iteration :: "k6_server \<Rightarrow> int \<Rightarrow> int \<Rightarrow> ending \<times> k6_event list" where
  "gold_iteration = tier_iteration GOLD"

definition stress_iteration :: "k6_server \<Rightarrow> int \<Rightarrow> int \<Rightarrow> ending \<times> k6_event list" where
  "stress_iteration = tier_iteration STRESS"

definition bronze_summary :: "(string \<times> json) list \<Rightarrow> k6_request" where
  "bronze_summary = handleSummary ''bronze''"

definition silver_summary :: "(string \<times> json) list \<Rightarrow> k6_request" where
  "silver_summary = handleSummary ''silver''"

definition gold_summary :: "(string \<times> json) list \<Rightarrow> k6_request" where
  "gold_summary = handleSummary ''gold''"

section \<open>What an iteration records\<close>

definition requests :: "k6_event list \<Rightarrow> k6_request list" where
  "requests ev = List.map_filter (\<lambda>e. case e of Requested r \<Rightarrow> Some r | _ \<Rightarrow> None) ev"

definition check_results :: "k6_event list \<Rightarrow> bool list" where
  "check_results ev = List.map_filter (\<lambda>e. case e of Checked l b \<Rightarrow> Some b | _ \<Rightarrow> None) ev"

definition error_samples :: "k6_event list \<Rightarrow> bool list" where
  "error_samples ev = List.map_filter (\<lambda>e. case e of Error_rate b \<Rightarrow> Some b | _ \<Rightarrow> None) ev"

definition error_count :: "k6_event list \<Rightarrow> nat" where
  "error_count ev = length (filter (\<lambda>e. e = Error_check) ev)"

named_theorems k6_simps \<open>what the pieces of an iteration contribute\<close>

lemma parts_append [k6_simps]:
  "requests (a @ b) = requests a @ requests b" "check_results (a @ b) = check_results a @ check_results b"
  "error_samples (a @ b) = error_samples a @ error_samples b" "error_count (a @ b) = error_count a + error_count b"
  by (simp_all add: requests_def check_results_def error_samples_def error_count_def)

lemma parts_event [k6_simps]:
  "requests [] = []" "check_results [] = []" "error_samples [] = []" "error_count [] = 0"
  "requests (e # ev) = (case e of Requested r \<Rightarrow> r # requests ev | _ \<Rightarrow> requests ev)"
  "check_results (e # ev) = (case e of Checked l b \<Rightarrow> b # check_results ev | _ \<Rightarrow> check_results ev)"
  "error_samples (e # ev) = (case e of Error_rate b \<Rightarrow> b # error_samples ev | _ \<Rightarrow> error_samples ev)"
  "error_count (e # ev) = (if e = Error_check then 1 else 0) + error_count ev"
  by (simp_all add: requests_def check_results_def error_samples_def error_count_def List.map_filter_simps split: k6_event.split)

lemma send_k6_parts [k6_simps]:
  "requests (snd (send_k6 server req ev)) = requests ev @ [req]"
  "check_results (snd (send_k6 server req ev)) = check_results ev"
  "error_samples (snd (send_k6 server req ev)) = error_samples ev"
  "error_count (snd (send_k6 server req ev)) = error_count ev"
  by (simp_all add: send_k6_def k6_simps)

definition answer_of :: "k6_server \<Rightarrow> k6_request \<Rightarrow> k6_event list \<Rightarrow> k6_response" where
  "answer_of server req ev = server (ev @ [Requested req])"

lemma measured_fst: "fst (measured server rec trend label want req ev) = answer_of server req ev"
  by (simp add: measured_def send_k6_def answer_of_def)

lemma measured_parts [k6_simps]:
  "requests (snd (measured server recordError trend label want req ev)) = requests ev @ [req]"
  "requests (snd (measured server rate_only trend label want req ev)) = requests ev @ [req]"
  "check_results (snd (measured server recordError trend label want req ev)) = check_results ev @ [kx_status (answer_of server req ev) = want]"
  "check_results (snd (measured server rate_only trend label want req ev)) = check_results ev @ [kx_status (answer_of server req ev) = want]"
  "error_samples (snd (measured server recordError trend label want req ev)) = error_samples ev @ [kx_status (answer_of server req ev) \<noteq> want]"
  "error_samples (snd (measured server rate_only trend label want req ev)) = error_samples ev @ [kx_status (answer_of server req ev) \<noteq> want]"
  "error_count (snd (measured server recordError trend label want req ev)) = error_count ev + (if kx_status (answer_of server req ev) \<noteq> want then 1 else 0)"
  by (simp_all add: measured_def send_k6_def answer_of_def recordError_def rate_only_def k6_simps split: option.split)

text \<open>Reading an iteration: where it ends, in terms of the steps it takes.\<close>

lemma case_pair_fst_snd: "(case p of (x, y) \<Rightarrow> f x y) = f (fst p) (snd p)"
  by (simp add: case_prod_beta)

definition errors_counted :: "k6_event list \<Rightarrow> bool" where
  "errors_counted ev \<longleftrightarrow> error_count ev = length (filter (\<lambda>b. b) (error_samples ev))"

definition samples_mirror :: "k6_event list \<Rightarrow> bool" where
  "samples_mirror ev \<longleftrightarrow> error_samples ev = map Not (check_results ev)"

lemma kept_by_measured:
  "errors_counted ev \<Longrightarrow> errors_counted (snd (measured server recordError trend label want req ev))"
  "samples_mirror ev \<Longrightarrow> samples_mirror (snd (measured server recordError trend label want req ev))"
  "samples_mirror ev \<Longrightarrow> samples_mirror (snd (measured server rate_only trend label want req ev))"
  by (simp_all add: errors_counted_def samples_mirror_def k6_simps)

lemma kept_by_others:
  "errors_counted (ev @ [Slept n]) = errors_counted ev" "samples_mirror (ev @ [Slept n]) = samples_mirror ev"
  "errors_counted []" "samples_mirror []"
  by (simp_all add: errors_counted_def samples_mirror_def k6_simps)

lemma shorten_and_follow_keeps:
  "errors_counted ev \<Longrightarrow> errors_counted (snd (shorten_and_follow server env vu iter user ev))"
  "samples_mirror ev \<Longrightarrow> samples_mirror (snd (shorten_and_follow server env vu iter user ev))"
  by (simp_all add: shorten_and_follow_def case_pair_fst_snd kept_by_measured kept_by_others split: option.split)

text \<open>C37: The counter of failed checks and the error rate of the page's script agree: in every iteration, the counter is
  raised exactly as often as a sample of the rate is true, in the branches of the chaos preset too and when the
  iteration is ended by an error. The runner reads the counter in place of the rate.
\<close>

lemma counter_agrees_with_rate:
  "error_count (snd (iteration server env draw1 draw2 vu iter data))
   = length (filter (\<lambda>b. b) (error_samples (snd (iteration server env draw1 draw2 vu iter data))))"
proof -
  have "errors_counted (snd (iteration server env draw1 draw2 vu iter data))"
    by (simp add: iteration_def Let_def case_pair_fst_snd shorten_and_follow_keeps kept_by_measured kept_by_others)
       (simp add: errors_counted_def k6_simps recordError_def)
  then show ?thesis by (simp add: errors_counted_def)
qed

lemma follow_keeps: "samples_mirror ev \<Longrightarrow> samples_mirror (follow server url labels ev)"
  by (induction labels arbitrary: ev) (simp_all add: kept_by_measured)

text \<open>
  The error rate is the rate of failed checks. Outside the chaos preset the samples of the error rate are the
  negations of the checks' results, one for one and in order, for the page's script and for every stand-alone tier,
  whatever the server answers.
\<close>

lemma samples_mirror_checks:
  "error_samples (snd (tier_iteration ti server vu iter)) = map Not (check_results (snd (tier_iteration ti server vu iter)))
   \<and> (if PRESET env = ''chaos'' then True
      else error_samples (snd (iteration server env draw1 draw2 vu iter data))
             = map Not (check_results (snd (iteration server env draw1 draw2 vu iter data))))"
proof -
  have "samples_mirror (snd (tier_iteration ti server vu iter))"
    by (simp add: tier_iteration_def Let_def case_pair_fst_snd kept_by_measured kept_by_others follow_keeps split: option.split)
  moreover have "samples_mirror (snd (iteration server env draw1 draw2 vu iter data))" if "PRESET env \<noteq> ''chaos''"
    using that by (simp add: iteration_def Let_def case_pair_fst_snd shorten_and_follow_keeps kept_by_measured kept_by_others)
  ultimately show ?thesis by (simp add: samples_mirror_def)
qed

section \<open>The bypass header\<close>

text \<open>What the balancer sees of the bypass in a request.\<close>

definition bypass_of :: "k6_request \<Rightarrow> string option" where
  "bypass_of r = map_of (sent_headers (kr_params r)) ''X-Load-Test-Bypass''"

definition bypass_as_meant :: "env \<Rightarrow> k6_request \<Rightarrow> bool" where
  "bypass_as_meant env r \<longleftrightarrow>
     (if kr_body r = Some ''not json'' then sent_headers (kr_params r) = []
      else bypass_of r = (if BYPASS env = [] then None else Some (BYPASS env)))"

lemma edge_bypass: "map_of (edgeHeaders env []) ''X-Load-Test-Bypass'' = (if BYPASS env = [] then None else Some (BYPASS env))"
  "map_of (jsonPostHeaders env) ''X-Load-Test-Bypass'' = (if BYPASS env = [] then None else Some (BYPASS env))"
  by (simp_all add: edgeHeaders_def jsonPostHeaders_def)

lemma stringify_object: "json_stringify (JObj kvs) \<noteq> ''not json''"
  by simp

lemma bypass_get: "bypass_as_meant env (k6_get url [Headers (edgeHeaders env [])])"
    "bypass_as_meant env (k6_get url [Redirects n, Headers (edgeHeaders env [])])"
  by (simp_all add: bypass_as_meant_def bypass_of_def k6_get_def edge_bypass)

lemma bypass_post: "bypass_as_meant env (k6_post url (shorten_body u i t) [Headers (jsonPostHeaders env)])"
  by (simp add: bypass_as_meant_def bypass_of_def k6_post_def edge_bypass shorten_body_def del: json_stringify.simps)
     (simp add: stringify_object del: json_stringify.simps)

lemma members_send_no_headers: "sent_headers (map (\<lambda>(k, v). Member k v) kvs) = []"
  by (induction kvs) auto

lemma bypass_malformed: "bypass_as_meant env (k6_post url ''not json'' (map (\<lambda>(k, v). Member k v) kvs))"
  by (simp add: bypass_as_meant_def k6_post_def members_send_no_headers)

lemma shorten_and_follow_bypass:
  "list_all (bypass_as_meant env) (requests ev) \<Longrightarrow>
   list_all (bypass_as_meant env) (requests (snd (shorten_and_follow server env vu iter user ev)))"
  by (simp add: shorten_and_follow_def case_pair_fst_snd k6_simps bypass_get bypass_post split: option.split)

text \<open>Every request of an iteration carries the bypass of the balancer's rate limit when there is one, but the malformed
  request of the chaos preset: its headers are given as the whole parameter object, of which k6 reads no header, so it
  is sent without the bypass and without a content type.
\<close>

lemma malformed_request_has_no_headers:
  "list_all (\<lambda>r. if kr_body r = Some ''not json'' then sent_headers (kr_params r) = []
                 else bypass_of r = (if BYPASS env = [] then None else Some (BYPASS env)))
     (requests (snd (iteration server env draw1 draw2 vu iter data)))"
proof -
  have "list_all (bypass_as_meant env) (requests (snd (iteration server env draw1 draw2 vu iter data)))"
    by (simp add: iteration_def Let_def case_pair_fst_snd k6_simps bypass_get bypass_malformed shorten_and_follow_bypass recordError_def)
  then show ?thesis by (simp add: bypass_as_meant_def [abs_def])
qed

section \<open>Presets\<close>

text \<open>The seconds of a duration such as \<open>30s\<close> or \<open>1m45s\<close>, and what a list of stages amounts to.\<close>

definition text_seconds :: "string \<Rightarrow> int" where
  "text_seconds t =
     (case js_split (CHR ''m'') t of
        [s] \<Rightarrow> coalesce (js_parseInt s) 0
      | m # s # _ \<Rightarrow> 60 * coalesce (js_parseInt m) 0 + coalesce (js_parseInt s) 0
      | [] \<Rightarrow> 0)"

definition total_seconds :: "stage list \<Rightarrow> int" where
  "total_seconds sgs = sum_list (map (\<lambda>g. text_seconds (sg_duration g)) sgs)"

definition peak_users :: "stage list \<Rightarrow> int" where
  "peak_users sgs = foldr (\<lambda>g. max (coalesce (sg_target g) 0)) sgs 0"

definition announced_and_run :: "string \<times> preset \<Rightarrow> (string \<times> int \<times> int \<times> int \<times> int) option" where
  "announced_and_run kp =
     map_option (\<lambda>p. (fst kp, ps_vus (snd kp), peak_users (ko_stages p), text_seconds (ps_duration (snd kp)), total_seconds (ko_stages p)))
       (map_of K6_PRESETS (fst kp))"

text \<open>The page announces the load that is run, but for one preset. For each preset of the page, the users it announces are
  the peak of the script's stages and the duration is the sum of the stages, but bronze, which is announced with thirty
  seconds and runs for seventy; thirty seconds are the duration of the stand-alone bronze script. The silver and gold
  presets have the options of their stand-alone scripts.
\<close>

lemma announced_presets:
  "map announced_and_run PRESETS
     = [Some (''bronze'', 50, 50, 30, 70), Some (''silver'', 200, 200, 105, 105), Some (''gold'', 500, 500, 110, 110),
        Some (''chaos'', 100, 100, 70, 70)]
   \<and> map_option text_seconds (ko_duration (ti_options BRONZE)) = Some 30 \<and> ko_vus (ti_options BRONZE) = Some 50
   \<and> map_of K6_PRESETS ''silver'' = Some (ti_options SILVER) \<and> map_of K6_PRESETS ''gold'' = Some (ti_options GOLD)"
  by code_simp

section \<open>The user of the test\<close>

text \<open>
  The setup always gives an iteration a user that it can send: the id that is found or created is neither missing nor
  null, else it is 1. It sends at most two requests, and it creates a user only when the list gave none.
\<close>

lemma setup_gives_a_user:
  "not_nullish (Some (fst (script_setup server env now)))
   \<and> (let r = answer_of server (k6_get (BASE_URL env @ ''/users?page=1&per_page=1'') [Headers (edgeHeaders env [])]) []
      in case listed_id r of
           Some i \<Rightarrow> fst (script_setup server env now) = i \<and> length (requests (snd (script_setup server env now))) = 1
         | None \<Rightarrow> map kr_method (requests (snd (script_setup server env now))) = [''GET'', ''POST''])"
proof -
  have listed: "listed_id r = Some i \<Longrightarrow> i \<noteq> JNull" for r i
    by (auto simp: listed_id_def not_nullish_def split: option.splits json.splits list.splits if_splits)
  have created: "created_id r = Some i \<Longrightarrow> i \<noteq> JNull" for r i
    by (auto simp: created_id_def not_nullish_def split: option.splits if_splits)
  have "coalesce (created_id r) (JInt 1) \<noteq> JNull" for r
    using created [of r] by (cases "created_id r") auto
  with listed show ?thesis
    by (auto simp: script_setup_def send_k6_def answer_of_def not_nullish_def k6_simps k6_get_def k6_post_def Let_def
        split: option.split)
qed

end
