(* ===== verification/PageTables.thy ===== *)
theory PageTables
  imports LoadScripts
begin

text \<open>
  What the tables of the ops page (\<open>ops-dashboard.tsx\<close>) and of the chaos tab (\<open>chaos-panel.tsx\<close>) show, with the
  card of the watched service and the dialog that confirms an action. A cell is what it says; sizes, colours and icons
  are left out. A row that spans the table carries the number of columns it spans.
\<close>

section \<open>Cells\<close>

datatype page_cell =
    Text string
  | Service (ce_toggle: "string option") (ce_name: string)
  | State badge
  | Heartbeat heartbeat_cell
  | Logs_button "string option"
  | Actions (ac_watch: string) (ac_restart: "string option") (ac_kill: "string option") (ac_enabled: bool)
  | Alert_name string "string option"

datatype page_row = Cells "page_cell list" | Spanning nat string | Details nat pg_view

definition dash_or :: "string \<Rightarrow> string" where
  "dash_or s = str_or s u_emdash"

text \<open>The state of a row: the lifecycle that Railway reports if it does, else the state of the container.\<close>

definition state_cell :: "bool \<Rightarrow> 'a panel_container_scheme \<Rightarrow> page_cell" where
  "state_cell railway c =
     (case pc_railwayOnlineStatus c of
        Some st \<Rightarrow> if railway then State (RailwayOnlineStatusBadge st) else State (stateBadge (pc_state c) (pc_health c))
      | None \<Rightarrow> State (stateBadge (pc_state c) (pc_health c)))"

section \<open>The services table of the ops page\<close>

definition ops_railway :: "ops \<Rightarrow> bool" where
  "ops_railway s \<longleftrightarrow> Option.bind (op_docker s) od_source = Some ''railway''"

definition ops_headings :: "ops \<Rightarrow> string list" where
  "ops_headings s =
     [''Service'', if ops_railway s then ''Deployment'' else ''Container'', ''Image'',
      if ops_railway s then ''Lifecycle'' else ''State'', ''Status'']
     @ (if ops_railway s then [''Heartbeat''] else []) @ [''App logs'', ''CPU %'', ''Memory'']"

definition ops_order :: "(string \<Rightarrow> string \<Rightarrow> bool) \<Rightarrow> ops \<Rightarrow> ops_row list" where
  "ops_order le s =
     foldr (insert_by (\<lambda>a b. le (str_or (pc_service a) (pc_name a)) (str_or (pc_service b) (pc_name b))))
       (case op_docker s of None \<Rightarrow> [] | Some d \<Rightarrow> od_rows d) []"

definition toggle_label :: "ops \<Rightarrow> ops_row \<Rightarrow> string option" where
  "toggle_label s c =
     (if row_shows_pg s c
      then Some (if pg_open s c then ''Collapse database details'' else ''Expand database list and tables'') else None)"

definition ops_main_row :: "ops \<Rightarrow> ops_row \<Rightarrow> page_cell list" where
  "ops_main_row s c =
     [Service (toggle_label s c) (dash_or (pc_service c)), Text (pc_name c), Text (or_image c),
      state_cell (ops_railway s) c, Text (pc_status c)]
     @ (if ops_railway s then [Heartbeat (HeartbeatCell (pc_heartbeat c))] else [])
     @ [Logs_button (map_option (\<lambda>i. ''Instance '' @ i) (instanceIdFromComposeService (pc_service c))),
        Text (cpu_text (or_cpuPercent c)), Text (memory_text (or_memUsage c) (or_memLimit c))]"

definition no_rows_text :: "ops \<Rightarrow> string" where
  "no_rows_text s =
     (if ops_railway s
      then ''No Railway services returned, or the Railway API request failed (check dashboard service variables: RAILWAY_PROJECT_ID, RAILWAY_ENVIRONMENT_ID, and a token).''
      else ''No containers for this Compose project, or Docker API unreachable.'')"

definition ops_rows :: "(string \<Rightarrow> string \<Rightarrow> bool) \<Rightarrow> ops \<Rightarrow> page_row list" where
  "ops_rows le s =
     (if ops_order le s = [] then [Spanning (column_count s) (no_rows_text s)] else [])
     @ concat (map (\<lambda>c. Cells (ops_main_row s c)
                       # (case pg_view_of s c of None \<Rightarrow> [] | Some v \<Rightarrow> [Details (column_count s) v]))
                 (ops_order le s))"

section \<open>The alerts\<close>

definition alert_headings :: "string list" where
  "alert_headings = [''Alert'', ''Severity'', ''State'', ''Since'']"

definition alert_cells :: "(string \<Rightarrow> string) \<Rightarrow> alert_row \<Rightarrow> page_cell list" where
  "alert_cells local_time r =
     [Alert_name (al_name r) (if truthy (al_summary r) then al_summary r else None), State (alert_badge r),
      Text (coalesce (al_state r) u_emdash),
      Text (if truthy (al_startsAt r) then local_time (the (al_startsAt r)) else u_emdash)]"

definition alert_rows :: "(string \<Rightarrow> string) \<Rightarrow> ops \<Rightarrow> page_row list" where
  "alert_rows local_time s =
     (let rows = (case op_alerts s of None \<Rightarrow> [] | Some a \<Rightarrow> fst a)
      in (if rows = [] then [Spanning 4 ''No active alerts (or Alertmanager unreachable).''] else [])
         @ map (\<lambda>r. Cells (alert_cells local_time r)) rows)"

section \<open>The chaos tab\<close>

definition chaos_headings :: "panel_docker option \<Rightarrow> string list" where
  "chaos_headings d =
     [''Service'', if from_railway d then ''Deployment'' else ''Container'', if from_railway d then ''Lifecycle'' else ''State'', ''Status'']
     @ (if from_railway d then [''Heartbeat''] else []) @ [''Actions'']"

definition chaos_main_row :: "panel_config option \<Rightarrow> panel_docker option \<Rightarrow> panel_container \<Rightarrow> page_cell list" where
  "chaos_main_row cfg d c =
     [Service None (dash_or (pc_service c)), Text (pc_name c), state_cell (from_railway d) c, Text (pc_status c)]
     @ (if from_railway d then [Heartbeat (HeartbeatCell (pc_heartbeat c))] else [])
     @ [Actions (pc_service c) (button_title Restart cfg d c) (button_title Kill cfg d c) (canKill cfg d c)]"

definition chaos_rows :: "(string \<Rightarrow> string \<Rightarrow> bool) \<Rightarrow> panel \<Rightarrow> page_row list" where
  "chaos_rows le p =
     (let cs = sorted_containers le (pn_docker p)
      in (if cs = [] \<and> \<not> pn_loading p then [Spanning (if from_railway (pn_docker p) then 6 else 5) ''No containers loaded.''] else [])
         @ map (\<lambda>c. Cells (chaos_main_row (pn_config p) (pn_docker p) c)) cs)"

text \<open>What React shows of a member: a text or a number; nothing for a missing one, a null or a boolean.\<close>

fun shown :: "json option \<Rightarrow> string" where
  "shown (Some (JStr s)) = s"
| "shown (Some (JInt n)) = show_int n"
| "shown (Some (JDec neg w f)) = dec_text neg w f"
| "shown _ = []"

definition shown_or_dash :: "json option \<Rightarrow> string" where
  "shown_or_dash v = (if v = None \<or> v = Some JNull then u_emdash else shown v)"

text \<open>\<open>Boolean(v)\<close> of a member of an answer.\<close>

fun member_true :: "json option \<Rightarrow> bool" where
  "member_true (Some (JBool b)) = b"
| "member_true (Some (JStr s)) = (s \<noteq> [])"
| "member_true (Some (JInt n)) = (n \<noteq> 0)"
| "member_true (Some (JDec neg w f)) = True"
| "member_true (Some (JArr xs)) = True"
| "member_true (Some (JObj kvs)) = True"
| "member_true _ = False"

text \<open>The card of the watched service: labels and what stands beside them.\<close>

definition watch_heartbeat :: "json \<Rightarrow> string list" where
  "watch_heartbeat hb =
     (if member_true (member ''skipped'' hb) then [''No public URL / probe for this service (Railway data only).'']
      else [if member_true (member ''ok'' hb)
            then ''OK'' @ (if not_nullish (member ''latencyMs'' hb) then '' '' @ shown (member ''latencyMs'' hb) @ ''ms'' else [])
            else ''Failed'' @ (if not_nullish (member ''statusCode'' hb) then '' ('' @ shown (member ''statusCode'' hb) @ '')'' else [])]
           @ (if member_true (member ''probeUrl'' hb) then [shown (member ''probeUrl'' hb)] else [])
           @ (if member_true (member ''error'' hb) then [shown (member ''error'' hb)] else []))"

definition watch_lifecycle :: "(string \<Rightarrow> RailwayOnlineStatus) \<Rightarrow> json option \<Rightarrow> string" where
  "watch_lifecycle read_status v =
     (if not_nullish v then snd (RailwayOnlineStatusBadge (read_status (shown v))) else u_emdash)"

definition watch_card :: "(string \<Rightarrow> RailwayOnlineStatus) \<Rightarrow> json \<Rightarrow> (string \<times> string list) list" where
  "watch_card read_status j =
     [(''State'', [shown (member ''state'' j)]),
      (''Running'', [if member_true (member ''running'' j) then ''yes'' else ''no''])]
     @ (if member ''source'' j = Some (JStr ''railway'')
        then [(''Lifecycle'', [watch_lifecycle read_status (member ''railwayOnlineStatus'' j)]),
              (''Deployment'', [shown_or_dash (member ''deploymentStatus'' j)]), (''Health'', [shown_or_dash (member ''health'' j)]),
              (''Status'', [shown_or_dash (member ''statusLine'' j)])]
             @ (case member ''heartbeat'' j of
                  None \<Rightarrow> []
                | Some hb \<Rightarrow> if member_true (Some hb) then [(''HTTP heartbeat'', watch_heartbeat hb)] else [])
        else [(''Restart count'', [shown_or_dash (member ''restartCount'' j)]), (''Restart policy'', [shown (member ''restartPolicy'' j)]),
              (''Health'', [shown_or_dash (member ''health'' j)]),
              (''Container ID'', [take 12 (shown (member ''containerId'' j)) @ u_ellipsis])])"

datatype watch_view = No_watch | Watch_message string | Watch_fields "(string \<times> string list) list"

definition watch_view_of :: "(string \<Rightarrow> RailwayOnlineStatus) \<Rightarrow> panel \<Rightarrow> watch_view" where
  "watch_view_of read_status p =
     (case pn_watchStatus p of
        None \<Rightarrow> No_watch
      | Some j \<Rightarrow>
          if member ''found'' j = Some (JBool False) then Watch_message (shown (member ''message'' j))
          else if member_true (member ''found'' j) then Watch_fields (watch_card read_status j)
          else No_watch)"

text \<open>The dialog: title and label of the button that carries the action out.\<close>

definition dialog_title :: "chaos_action \<Rightarrow> bool \<Rightarrow> string" where
  "dialog_title a railway =
     (case a of Kill \<Rightarrow> if railway then ''Confirm deployment stop'' else ''Confirm SIGKILL'' | Restart \<Rightarrow> ''Confirm reboot'')"

definition dialog_button :: "chaos_action \<Rightarrow> bool \<Rightarrow> string" where
  "dialog_button a railway =
     (case a of
        Kill \<Rightarrow> if railway then ''Delete'' else ''Kill container''
      | Restart \<Rightarrow> if railway then ''Restart deployment'' else ''Reboot container'')"

record dialog =
  dl_title :: string
  dl_target :: string
  dl_error :: "string option"
  dl_button :: "string option"

text \<open>While the request is under way the label gives way to a spinner.\<close>

definition dialog_of :: "panel \<Rightarrow> dialog option" where
  "dialog_of p =
     map_option (\<lambda>(c, a). \<lparr>dl_title = dialog_title a (from_railway (pn_docker p)), dl_target = pc_service c,
        dl_error = (if truthy (pn_error p) then pn_error p else None),
        dl_button = (if pn_busy p then None else Some (dialog_button a (from_railway (pn_docker p))))\<rparr>) (pn_pending p)"

section \<open>What the tables show\<close>

text \<open>The number of columns that a row takes.\<close>

fun row_width :: "page_row \<Rightarrow> nat" where
  "row_width (Cells cs) = length cs"
| "row_width (Spanning n t) = n"
| "row_width (Details n v) = n"

lemma ops_widths: "length (ops_headings s) = column_count s" "length (ops_main_row s c) = column_count s"
  by (simp_all add: ops_headings_def ops_main_row_def column_count_def ops_railway_def)

lemma chaos_widths: "length (chaos_main_row cfg d c) = length (chaos_headings d)"
  by (simp add: chaos_main_row_def chaos_headings_def)

text \<open>
  Every row of the three tables takes exactly the columns of its heading, whatever the source of the services: the
  rows of services and alerts, the rows that say that there is nothing, and the details of a database.
\<close>

lemma tables_are_rectangular:
  "list_all (\<lambda>r. row_width r = length (ops_headings s)) (ops_rows le s)
   \<and> list_all (\<lambda>r. row_width r = length alert_headings) (alert_rows local_time s)
   \<and> list_all (\<lambda>r. row_width r = length (chaos_headings (pn_docker p))) (chaos_rows le p)"
proof (intro conjI)
  show "list_all (\<lambda>r. row_width r = length (ops_headings s)) (ops_rows le s)"
    by (auto simp: list.pred_set ops_rows_def ops_widths split: option.splits if_splits)
  show "list_all (\<lambda>r. row_width r = length alert_headings) (alert_rows local_time s)"
    by (auto simp: list.pred_set alert_rows_def alert_headings_def alert_cells_def Let_def split: if_splits)
  show "list_all (\<lambda>r. row_width r = length (chaos_headings (pn_docker p))) (chaos_rows le p)"
    by (auto simp: list.pred_set chaos_rows_def chaos_widths Let_def chaos_headings_def split: if_splits)
qed

lemma mset_insert_by: "mset (insert_by le x ys) = add_mset x (mset ys)"
  by (induction ys) auto

lemma mset_sort_by: "mset (foldr (insert_by le) xs []) = mset xs"
  by (induction xs) (simp_all add: mset_insert_by)

definition main_rows :: "page_row list \<Rightarrow> page_cell list list" where
  "main_rows rs = List.map_filter (\<lambda>r. case r of Cells cs \<Rightarrow> Some cs | _ \<Rightarrow> None) rs"

lemma main_rows_simps [simp]:
  "main_rows [] = []" "main_rows (Cells cs # rs) = cs # main_rows rs" "main_rows (Spanning n t # rs) = main_rows rs"
  "main_rows (Details n v # rs) = main_rows rs" "main_rows (xs @ ys) = main_rows xs @ main_rows ys"
  by (simp_all add: main_rows_def List.map_filter_simps)

lemma main_rows_map_Cells [simp]: "main_rows (map (\<lambda>c. Cells (f c)) cs) = map f cs"
  by (induction cs) auto

lemma ops_main_rows: "main_rows (ops_rows le s) = map (ops_main_row s) (ops_order le s)"
proof -
  have "main_rows (concat (map (\<lambda>c. Cells (ops_main_row s c)
      # (case pg_view_of s c of None \<Rightarrow> [] | Some v \<Rightarrow> [Details (column_count s) v])) cs)) = map (ops_main_row s) cs" for cs
    by (induction cs) (auto split: option.split)
  then show ?thesis by (simp add: ops_rows_def)
qed

text \<open>Both tables show every service once: the rows are those of the services that were loaded, none lost and none
  twice, whatever the order of \<open>localeCompare\<close>; opening the details of a database adds no second row of the service.
\<close>

lemma every_service_is_shown_once:
  "mset (main_rows (ops_rows le s)) = image_mset (ops_main_row s) (mset (case op_docker s of None \<Rightarrow> [] | Some d \<Rightarrow> od_rows d))
   \<and> mset (main_rows (chaos_rows le p))
       = image_mset (chaos_main_row (pn_config p) (pn_docker p)) (mset (case pn_docker p of None \<Rightarrow> [] | Some d \<Rightarrow> pd_containers d))"
  by (simp add: ops_main_rows chaos_rows_def ops_order_def sorted_containers_def mset_sort_by Let_def)

section \<open>The watched service\<close>

text \<open>The badge is chosen by the text of the status; the route sends the texts of \<open>online_text\<close>.\<close>

definition read_online :: "string \<Rightarrow> RailwayOnlineStatus" where
  "read_online t = coalesce (find (\<lambda>st. online_text st = t) [Online, Completed, Deploying, Failed, Exited, Skipped, Unknown]) Unknown"

lemma read_online_text [simp]: "read_online (online_text st) = st"
  by (cases st) (simp_all add: read_online_def)

definition watch_heartbeat_text :: "HeartbeatPingResult \<Rightarrow> string list" where
  "watch_heartbeat_text hb =
     (if hp_skipped hb then [''No public URL / probe for this service (Railway data only).'']
      else [if hp_ok hb = Some True
            then ''OK'' @ (case hp_latencyMs hb of Some ms \<Rightarrow> '' '' @ show_int ms @ ''ms'' | None \<Rightarrow> [])
            else ''Failed'' @ (case hp_statusCode hb of Some c \<Rightarrow> '' ('' @ show_int c @ '')'' | None \<Rightarrow> [])]
           @ (if truthy (hp_probeUrl hb) then [the (hp_probeUrl hb)] else [])
           @ (if truthy (hp_error hb) then [the (hp_error hb)] else []))"

lemma rev_opt_member [simp]: "rev (opt_member k v) = opt_member k v"
  by (simp add: opt_member_def split: option.split)

lemma map_of_opt_member [simp]: "map_of (opt_member k v) j = (if j = k then v else None)"
  by (auto simp: opt_member_def split: option.split)

lemma shown_opt [simp]: "shown (map_option JStr v) = coalesce v []" "shown (Some (opt_json JStr v)) = coalesce v []"
    "shown (map_option JInt n) = (case n of Some i \<Rightarrow> show_int i | None \<Rightarrow> [])"
  by (cases v; cases n; simp add: opt_json_def)+

lemma present_opt [simp]: "not_nullish (map_option JStr v) \<longleftrightarrow> v \<noteq> None" "not_nullish (map_option JInt n) \<longleftrightarrow> n \<noteq> None"
    "not_nullish (Some (opt_json JStr v)) \<longleftrightarrow> v \<noteq> None"
  by (cases v; cases n; simp add: not_nullish_def opt_json_def)+

lemma member_true_opt [simp]: "member_true (map_option JStr v) \<longleftrightarrow> truthy v" "member_true (Some (opt_json JStr v)) \<longleftrightarrow> truthy v"
    "member_true (Some (opt_json JBool b)) \<longleftrightarrow> b = Some True"
  by (cases v; cases b; simp add: opt_json_def)+

lemma shown_or_dash_opt [simp]: "shown_or_dash (map_option JStr v) = coalesce v u_emdash" "shown_or_dash (Some (opt_json JStr v)) = coalesce v u_emdash"
  by (cases v; simp add: shown_or_dash_def opt_json_def)+

text \<open>Looking a member up in an object that is built from parts.\<close>

lemma member_parts [simp]:
  "member k (JObj []) = None"
  "member k (JObj (xs @ opt_member j v)) = (if k = j \<and> v \<noteq> None then v else member k (JObj xs))"
  "member k (JObj (xs @ [(j, x)])) = (if k = j then Some x else member k (JObj xs))"
  by (auto simp: opt_member_def map_add_def split: option.split)

lemma heartbeat_fields:
  "member ''skipped'' (heartbeat_ping_json hb) = Some (JBool (hp_skipped hb))"
  "member ''ok'' (heartbeat_ping_json hb) = Some (opt_json JBool (hp_ok hb))"
  "member ''probeUrl'' (heartbeat_ping_json hb) = Some (opt_json JStr (hp_probeUrl hb))"
  "member ''latencyMs'' (heartbeat_ping_json hb) = map_option JInt (hp_latencyMs hb)"
  "member ''statusCode'' (heartbeat_ping_json hb) = map_option JInt (hp_statusCode hb)"
  "member ''error'' (heartbeat_ping_json hb) = map_option JStr (hp_error hb)"
  by (simp_all add: heartbeat_ping_json_def opt_member_def split: option.split)

lemma coalesce_truthy [simp]: "truthy v \<Longrightarrow> coalesce v [] = the v"
  by (cases v) auto

lemma watch_heartbeat_of_route: "watch_heartbeat (heartbeat_ping_json hb) = watch_heartbeat_text hb"
  unfolding watch_heartbeat_def heartbeat_fields watch_heartbeat_text_def
  by (simp split: option.split)

lemma railway_fields:
  "member ''state'' (JObj (railway_status_json row st hb)) = Some (JStr (vr_state row))"
  "member ''running'' (JObj (railway_status_json row st hb)) = Some (JBool (vr_state row = ''running''))"
  "member ''source'' (JObj (railway_status_json row st hb)) = Some (JStr ''railway'')"
  "member ''railwayOnlineStatus'' (JObj (railway_status_json row st hb)) = Some (JStr (online_text st))"
  "member ''deploymentStatus'' (JObj (railway_status_json row st hb)) = Some (opt_json JStr (vr_deploymentStatus row))"
  "member ''health'' (JObj (railway_status_json row st hb)) = map_option JStr (vr_health row)"
  "member ''statusLine'' (JObj (railway_status_json row st hb)) = Some (JStr (vr_status row))"
  "member ''heartbeat'' (JObj (railway_status_json row st hb)) = Some (heartbeat_ping_json hb)"
  by (simp_all add: railway_status_json_def opt_member_def Let_def split: option.split)

definition inspected_health :: "container_info \<Rightarrow> string option" where
  "inspected_health info =
     (case Option.bind (ci_state info) st_health of
        Some h \<Rightarrow> Some h
      | None \<Rightarrow> healthFromStatus (coalesce (Option.bind (ci_state info) st_status) []))"

lemma docker_fields:
  "member ''state'' (JObj (docker_status_json i svc proj info)) = Some (JStr (coalesce (Option.bind (ci_state info) st_status) ''unknown''))"
  "member ''running'' (JObj (docker_status_json i svc proj info)) = Some (JBool (coalesce (Option.bind (ci_state info) st_running) False))"
  "member ''source'' (JObj (docker_status_json i svc proj info)) = Some (JStr ''docker'')"
  "member ''restartCount'' (JObj (docker_status_json i svc proj info)) = Some (JInt (coalesce (ci_restartCount info) 0))"
  "member ''restartPolicy'' (JObj (docker_status_json i svc proj info)) = Some (JStr (str_or (coalesce (ci_restartPolicy info) []) ''default''))"
  "member ''health'' (JObj (docker_status_json i svc proj info)) = map_option JStr (inspected_health info)"
  "member ''containerId'' (JObj (docker_status_json i svc proj info)) = Some (JStr (coalesce (ci_id info) i))"
  by (simp_all add: docker_status_json_def opt_member_def inspected_health_def Let_def del: bind_eq_Some_conv split: option.split)

text \<open>C35: The card of the watched service shows what the status route reports. For every row of Railway and every inspected
  container, the fields that the card reads are the ones that the route sends, with a dash for what the route leaves
  out, and nothing is blank that the route had a text for; the lifecycle is the badge of the status after the probe.
\<close>

lemma watch_card_shows_the_route:
  "watch_card read_online (JObj (railway_status_json row st hb))
     = [(''State'', [vr_state row]), (''Running'', [if vr_state row = ''running'' then ''yes'' else ''no'']),
        (''Lifecycle'', [snd (RailwayOnlineStatusBadge st)]), (''Deployment'', [coalesce (vr_deploymentStatus row) u_emdash]),
        (''Health'', [coalesce (vr_health row) u_emdash]), (''Status'', [vr_status row]),
        (''HTTP heartbeat'', watch_heartbeat_text hb)]
   \<and> watch_card read_online (JObj (docker_status_json i svc proj info))
     = [(''State'', [coalesce (Option.bind (ci_state info) st_status) ''unknown'']),
        (''Running'', [if coalesce (Option.bind (ci_state info) st_running) False then ''yes'' else ''no'']),
        (''Restart count'', [show_int (coalesce (ci_restartCount info) 0)]),
        (''Restart policy'', [str_or (coalesce (ci_restartPolicy info) []) ''default'']),
        (''Health'', [coalesce (inspected_health info) u_emdash]), (''Container ID'', [take 12 (coalesce (ci_id info) i) @ u_ellipsis])]"
proof -
  have hb: "member_true (Some (heartbeat_ping_json hb))" by (simp add: heartbeat_ping_json_def)
  have texts: "shown_or_dash (Some (JStr t)) = t" "shown_or_dash (Some (JInt n)) = show_int n" "not_nullish (Some (JStr t))" for t n
    by (simp_all add: shown_or_dash_def not_nullish_def)
  show ?thesis
    unfolding watch_card_def railway_fields docker_fields
    by (simp add: hb texts watch_heartbeat_of_route watch_lifecycle_def)
qed

end
