(* ===== verification/JsonText.thy ===== *)
theory JsonText
  imports ApiWorld
begin

text \<open>
  \<open>JSON.parse\<close>, the inverse of \<^const>\<open>json_stringify\<close>, and \<open>JSON.stringify\<close> with an indent: the page reads with the one
  what the worker wrote on the event stream, and shows log records with the other. Both are functions of the language,
  not of the program. A number with an exponent has no value in \<^typ>\<open>json\<close> and is refused like a syntax error; the
  members of an object keep the order of the text, where JavaScript puts keys that look like array indices first and
  keeps the last of two members with one key, the one a look-up reads here. What the worker writes has neither.
\<close>

section \<open>White space and strings\<close>

definition json_ws :: "char \<Rightarrow> bool" where
  "json_ws c \<longleftrightarrow> c \<in> {CHR 0x20, CHR 0x09, CHR 0x0A, CHR 0x0D}"

definition skip_ws :: "string \<Rightarrow> string" where
  "skip_ws = dropWhile json_ws"

text \<open>The UTF-8 bytes of a code point.\<close>

definition utf8 :: "nat \<Rightarrow> string" where
  "utf8 n =
     (if n < 0x80 then [char_of n]
      else if n < 0x800 then [char_of (0xC0 + n div 64), char_of (0x80 + n mod 64)]
      else if n < 0x10000 then [char_of (0xE0 + n div 4096), char_of (0x80 + n div 64 mod 64), char_of (0x80 + n mod 64)]
      else [char_of (0xF0 + n div 262144), char_of (0x80 + n div 4096 mod 64), char_of (0x80 + n div 64 mod 64),
            char_of (0x80 + n mod 64)])"

fun hex4 :: "string \<Rightarrow> (nat \<times> string) option" where
  "hex4 (a # b # c # d # s) =
     (case (hex_val a, hex_val b, hex_val c, hex_val d) of
        (Some x, Some y, Some z, Some w) \<Rightarrow> Some (((x * 16 + y) * 16 + z) * 16 + w, s)
      | _ \<Rightarrow> None)"
| "hex4 _ = None"

text \<open>A second escape that completes a surrogate pair.\<close>

definition low_surrogate :: "string \<Rightarrow> (nat \<times> string) option" where
  "low_surrogate s =
     (case s of
        a # b # t \<Rightarrow>
          if a = CHR 0x5C \<and> b = CHR ''u''
          then (case hex4 t of
                  Some (m, u) \<Rightarrow> if 0xDC00 \<le> m \<and> m < 0xE000 then Some (m, u) else None
                | None \<Rightarrow> None)
          else None
      | _ \<Rightarrow> None)"

definition short_escapes :: "(char \<times> char) list" where
  "short_escapes = [(CHR 0x22, CHR 0x22), (CHR 0x5C, CHR 0x5C), (CHR ''/'', CHR ''/''), (CHR ''b'', CHR 0x08),
     (CHR ''f'', CHR 0x0C), (CHR ''n'', CHR 0x0A), (CHR ''r'', CHR 0x0D), (CHR ''t'', CHR 0x09)]"

text \<open>What follows a backslash: the bytes it stands for, and the rest.\<close>

fun read_escape :: "string \<Rightarrow> (string \<times> string) option" where
  "read_escape [] = None"
| "read_escape (e # s) =
     (if e = CHR ''u''
      then (case hex4 s of
              None \<Rightarrow> None
            | Some (n, t) \<Rightarrow>
                if 0xD800 \<le> n \<and> n < 0xDC00
                then (case low_surrogate t of
                        Some (m, u) \<Rightarrow> Some (utf8 (0x10000 + (n - 0xD800) * 1024 + (m - 0xDC00)), u)
                      | None \<Rightarrow> Some (utf8 n, t))
                else Some (utf8 n, t))
      else map_option (\<lambda>c. ([c], s)) (map_of short_escapes e))"

lemma hex4_shorter: "hex4 s = Some (n, t) \<Longrightarrow> length t < length s"
  by (induction s rule: hex4.induct) (auto split: option.splits)

lemma low_surrogate_shorter: "low_surrogate s = Some (n, t) \<Longrightarrow> length t < length s"
  by (auto simp: low_surrogate_def dest: hex4_shorter split: list.splits if_splits option.splits)

lemma read_escape_shorter: "read_escape s = Some (x, t) \<Longrightarrow> length t < length s"
  by (cases s) (auto dest!: hex4_shorter low_surrogate_shorter split: if_splits option.splits)

text \<open>A string after its opening quote.\<close>

function scan_string :: "string \<Rightarrow> (string \<times> string) option" where
  "scan_string [] = None"
| "scan_string (c # s) =
     (if c = CHR 0x22 then Some ([], s)
      else if (of_char c :: nat) < 32 then None
      else if c = CHR 0x5C
      then (case read_escape s of
              None \<Rightarrow> None
            | Some (x, t) \<Rightarrow> map_option (\<lambda>(y, u). (x @ y, u)) (scan_string t))
      else map_option (\<lambda>(y, u). (c # y, u)) (scan_string s))"
  by pat_completeness auto
termination by (relation "measure length") (auto dest: read_escape_shorter)

section \<open>Numbers and values\<close>

definition decimal :: "bool \<Rightarrow> int \<Rightarrow> string \<Rightarrow> json" where
  "decimal neg n fraction =
     (let back = dropWhile (\<lambda>c. c = CHR ''0'') (rev fraction)
      in if back = [] then JInt (if neg then - n else n) else JDec neg (nat n) (nat (read_digits back) - 1))"

definition scan_number :: "string \<Rightarrow> (json \<times> string) option" where
  "scan_number s =
     (let neg = (s \<noteq> [] \<and> hd s = CHR ''-''); u = (if neg then tl s else s);
          ds = takeWhile is_digit u; r = dropWhile is_digit u;
          point = (r \<noteq> [] \<and> hd r = CHR ''.'');
          fraction = (if point then takeWhile is_digit (tl r) else []);
          t = (if point then dropWhile is_digit (tl r) else r)
      in if ds = [] \<or> (hd ds = CHR ''0'' \<and> tl ds \<noteq> []) \<or> (point \<and> fraction = []) \<or>
            (t \<noteq> [] \<and> hd t \<in> {CHR ''e'', CHR ''E''}) then None
         else Some (decimal neg (read_digits ds) fraction, t))"

definition after :: "string \<Rightarrow> string \<Rightarrow> string option" where
  "after word s = (if js_startsWith s word then Some (drop (length word) s) else None)"

definition scan_literal :: "string \<Rightarrow> (json \<times> string) option" where
  "scan_literal s =
     (case after ''null'' s of Some t \<Rightarrow> Some (JNull, t)
      | None \<Rightarrow> (case after ''true'' s of Some t \<Rightarrow> Some (JBool True, t)
      | None \<Rightarrow> (case after ''false'' s of Some t \<Rightarrow> Some (JBool False, t)
      | None \<Rightarrow> scan_number s)))"

text \<open>The fuel bounds the nesting and the number of items of one list together; the length of the text is enough.\<close>

fun read_value :: "nat \<Rightarrow> string \<Rightarrow> (json \<times> string) option"
and read_items :: "nat \<Rightarrow> string \<Rightarrow> (json list \<times> string) option"
and read_members :: "nat \<Rightarrow> string \<Rightarrow> ((string \<times> json) list \<times> string) option" where
  "read_value 0 s = None"
| "read_value (Suc n) s =
     (case skip_ws s of
        [] \<Rightarrow> None
      | c # t \<Rightarrow>
          if c = CHR 0x22 then map_option (\<lambda>(x, u). (JStr x, u)) (scan_string t)
          else if c = CHR ''[''
          then (case skip_ws t of
                  [] \<Rightarrow> None
                | d # u \<Rightarrow> if d = CHR '']'' then Some (JArr [], u)
                           else map_option (\<lambda>(xs, v). (JArr xs, v)) (read_items n t))
          else if c = CHR ''{''
          then (case skip_ws t of
                  [] \<Rightarrow> None
                | d # u \<Rightarrow> if d = CHR ''}'' then Some (JObj [], u)
                           else map_option (\<lambda>(kvs, v). (JObj kvs, v)) (read_members n t))
          else scan_literal (c # t))"
| "read_items 0 s = None"
| "read_items (Suc n) s =
     (case read_value n s of
        None \<Rightarrow> None
      | Some (x, t) \<Rightarrow>
          (case skip_ws t of
             [] \<Rightarrow> None
           | c # u \<Rightarrow> if c = CHR '','' then map_option (\<lambda>(xs, v). (x # xs, v)) (read_items n u)
                      else if c = CHR '']'' then Some ([x], u) else None))"
| "read_members 0 s = None"
| "read_members (Suc n) s =
     (case skip_ws s of
        [] \<Rightarrow> None
      | q # s1 \<Rightarrow>
          if q \<noteq> CHR 0x22 then None
          else (case scan_string s1 of
                  None \<Rightarrow> None
                | Some (k, s2) \<Rightarrow>
                    (case skip_ws s2 of
                       [] \<Rightarrow> None
                     | colon # s3 \<Rightarrow>
                         if colon \<noteq> CHR '':'' then None
                         else (case read_value n s3 of
                                 None \<Rightarrow> None
                               | Some (x, t) \<Rightarrow>
                                   (case skip_ws t of
                                      [] \<Rightarrow> None
                                    | c # u \<Rightarrow>
                                        if c = CHR '','' then map_option (\<lambda>(kvs, v). ((k, x) # kvs, v)) (read_members n u)
                                        else if c = CHR ''}'' then Some ([(k, x)], u) else None)))))"

text \<open>\<open>JSON.parse(text)\<close>; \<^const>\<open>None\<close> is the exception.\<close>

definition json_parse :: "string \<Rightarrow> json option" where
  "json_parse s =
     (case read_value (Suc (length s)) s of
        Some (j, r) \<Rightarrow> if skip_ws r = [] then Some j else None
      | None \<Rightarrow> None)"

section \<open>Reading back what was written\<close>

lemma hex_digit_val: "d < 16 \<Longrightarrow> hex_val (hex_digit d) = Some d"
  by (simp add: hex_digit_def hex_val_def)

lemma code_halves: "(of_char c :: nat) div 16 < 16"
  by (simp add: less_mult_imp_div_less)

text \<open>The three shapes of an escaped character: a pair, a code, the character itself.\<close>

lemma escape_cases:
  obtains (pair) e where "json_escape_char c = [CHR 0x5C, e]" "e \<noteq> CHR ''u''" "map_of short_escapes e = Some c"
  | (code) "json_escape_char c = [CHR 0x5C, CHR ''u'', CHR ''0'', CHR ''0'', hex_digit (of_char c div 16), hex_digit (of_char c mod 16)]"
      "(of_char c :: nat) < 32"
  | (plain) "json_escape_char c = [c]" "c \<noteq> CHR 0x22" "c \<noteq> CHR 0x5C" "\<not> (of_char c :: nat) < 32"
proof -
  have pairs: "map_of short_escapes CHR 0x22 = Some CHR 0x22" "map_of short_escapes CHR 0x5C = Some CHR 0x5C"
    "map_of short_escapes CHR ''b'' = Some CHR 0x08" "map_of short_escapes CHR ''f'' = Some CHR 0x0C"
    "map_of short_escapes CHR ''n'' = Some CHR 0x0A" "map_of short_escapes CHR ''r'' = Some CHR 0x0D"
    "map_of short_escapes CHR ''t'' = Some CHR 0x09"
    by (simp_all add: short_escapes_def)
  show thesis
  proof (cases "c \<in> {CHR 0x22, CHR 0x5C, CHR 0x08, CHR 0x0C, CHR 0x0A, CHR 0x0D, CHR 0x09}")
    case True
    then have "\<exists>e. json_escape_char c = [CHR 0x5C, e] \<and> e \<noteq> CHR ''u'' \<and> map_of short_escapes e = Some c"
      by (auto simp: json_escape_char_def pairs)
    then show thesis using pair by blast
  next
    case False
    then show thesis using code plain by (cases "(of_char c :: nat) < 32") (simp_all add: json_escape_char_def)
  qed
qed

lemma scan_escaped: "scan_string (json_escape_char c @ s) = map_option (\<lambda>(y, u). (c # y, u)) (scan_string s)"
proof (cases c rule: escape_cases)
  case (code)
  have "char_of (of_char c div 16 * 16 + of_char c mod 16 :: nat) = c" by simp
  moreover have "hex_val CHR ''0'' = Some 0" by (simp add: hex_val_def)
  ultimately show ?thesis
    using code(2) by (simp add: code(1) hex_digit_val code_halves utf8_def)
qed simp_all

lemma scan_quoted: "scan_string (tl (json_quote s) @ r) = Some (s, r)"
proof -
  have "scan_string (concat (map json_escape_char s) @ CHR 0x22 # r) = Some (s, r)"
    by (induction s) (simp_all add: scan_escaped)
  then show ?thesis by (simp add: json_quote_def)
qed

text \<open>A number ends where neither a digit nor a fraction or exponent follows.\<close>

definition ends_number :: "string \<Rightarrow> bool" where
  "ends_number r \<longleftrightarrow> (case r of [] \<Rightarrow> True | c # t \<Rightarrow> \<not> is_digit c \<and> c \<notin> {CHR ''.'', CHR ''e'', CHR ''E''})"

lemma show_nat_no_zero: "0 < n \<Longrightarrow> hd (show_nat n) \<noteq> CHR ''0''"
proof (induction n rule: show_nat.induct)
  case (1 n)
  show ?case
  proof (cases "n < 10")
    case True
    have "of_char (digit_char n) \<noteq> (of_char CHR ''0'' :: nat)" using True 1(2) by (simp add: of_char_digit_char)
    then have "digit_char n \<noteq> CHR ''0''" by metis
    with True show ?thesis by (subst show_nat.simps) simp
  next
    case False
    then show ?thesis using 1 by (subst show_nat.simps) (simp add: hd_append)
  qed
qed

lemma digits_then:
  "(r = [] \<or> \<not> is_digit (hd r)) \<Longrightarrow> list_all is_digit ds \<Longrightarrow>
     takeWhile is_digit (ds @ r) = ds \<and> dropWhile is_digit (ds @ r) = r"
  by (cases r) (auto simp: takeWhile_append2 dropWhile_append2 list_all_iff)

lemma show_zero: "show_nat 0 = ''0''"
proof -
  have "digit_char 0 = CHR ''0''" by code_simp
  then show ?thesis by (subst show_nat.simps) simp
qed

lemma no_leading_zero: "\<not> (hd (show_nat n) = CHR ''0'' \<and> tl (show_nat n) \<noteq> [])"
  using show_nat_no_zero [of n] by (cases "n = 0") (auto simp: show_zero)

lemma ends_numberD:
  "ends_number r \<Longrightarrow> (r = [] \<or> \<not> is_digit (hd r)) \<and> \<not> (r \<noteq> [] \<and> hd r \<in> {CHR ''.'', CHR ''e'', CHR ''E''})"
  by (cases r) (auto simp: ends_number_def)

lemma no_minus: "hd (show_nat n @ r) \<noteq> CHR ''-''"
  using hd_show_nat [of n] by (auto simp: is_digit_def hd_append)

lemma show_int_start: "show_int i = c # s \<Longrightarrow> is_digit c \<or> c = CHR ''-''"
  using hd_show_nat [of "nat i"] by (auto simp: show_int_def split: if_splits)

lemma dec_text_start: "dec_text neg w f = c # s \<Longrightarrow> is_digit c \<or> c = CHR ''-''"
  using hd_show_nat [of w] by (cases "show_nat w") (auto simp: dec_text_def split: if_splits)

lemma scan_digits:
  assumes "list_all is_digit ds" "ds \<noteq> []" "\<not> (hd ds = CHR ''0'' \<and> tl ds \<noteq> [])" and "ends_number r"
  shows "scan_number ((if neg then ''-'' else []) @ ds @ r) = Some (JInt (if neg then - read_digits ds else read_digits ds), r)"
proof -
  have whole: "takeWhile is_digit (ds @ r) = ds" "dropWhile is_digit (ds @ r) = r"
    using digits_then [of r ds] ends_numberD [OF assms(4)] assms(1) by simp_all
  have "is_digit (hd ds)" using assms(1,2) by (cases ds) simp_all
  then have "hd (ds @ r) \<noteq> CHR ''-''" using assms(2) by (auto simp: is_digit_def)
  then show ?thesis
    using assms(1-3) ends_numberD [OF assms(4)]
    by (cases neg) (auto simp: scan_number_def whole decimal_def list_all_iff Let_def)
qed

lemma scan_shown: "ends_number r \<Longrightarrow> scan_number (show_int i @ r) = Some (JInt i, r)"
  using scan_digits [of "show_nat (nat i)" r False] scan_digits [of "show_nat (nat (- i))" r True]
    show_nat_digits [of "nat i"] show_nat_digits [of "nat (- i)"] no_leading_zero [of "nat i"] no_leading_zero [of "nat (- i)"]
  by (cases "i < 0") (simp_all add: show_int_def list_all_iff)

lemma decimal_back: "decimal neg (int w) (rev (show_nat (Suc f))) = JDec neg w f"
proof -
  have "dropWhile (\<lambda>c. c = CHR ''0'') (show_nat (Suc f)) = show_nat (Suc f)"
    using show_nat_no_zero [of "Suc f"] by (cases "show_nat (Suc f)") simp_all
  then show ?thesis by (simp add: decimal_def Let_def nat_add_distrib)
qed

lemma scan_point:
  assumes "list_all is_digit ds" "ds \<noteq> []" "\<not> (hd ds = CHR ''0'' \<and> tl ds \<noteq> [])"
    and "list_all is_digit fs" "fs \<noteq> []" and "ends_number r"
  shows "scan_number ((if neg then ''-'' else []) @ ds @ CHR ''.'' # fs @ r) = Some (decimal neg (read_digits ds) fs, r)"
proof -
  have dot: "\<not> is_digit CHR ''.''" by (simp add: is_digit_def)
  have whole: "takeWhile is_digit (ds @ CHR ''.'' # fs @ r) = ds"
    "dropWhile is_digit (ds @ CHR ''.'' # fs @ r) = CHR ''.'' # fs @ r"
    using digits_then [of "CHR ''.'' # fs @ r" ds] dot assms(1) by simp_all
  have frac: "takeWhile is_digit (fs @ r) = fs" "dropWhile is_digit (fs @ r) = r"
    using digits_then [of r fs] ends_numberD [OF assms(6)] assms(4) by simp_all
  have "is_digit (hd ds)" using assms(1,2) by (cases ds) simp_all
  then have "hd (ds @ CHR ''.'' # fs @ r) \<noteq> CHR ''-''" using assms(2) by (auto simp: is_digit_def)
  then show ?thesis
    using assms(2,3,5) ends_numberD [OF assms(6)]
    by (cases neg) (simp_all add: scan_number_def whole frac Let_def, blast+)
qed

lemma scan_fraction: "ends_number r \<Longrightarrow> scan_number (dec_text neg w f @ r) = Some (JDec neg w f, r)"
  using scan_point [of "show_nat w" "rev (show_nat (Suc f))" r neg] show_nat_digits [of w] show_nat_digits [of "Suc f"]
    no_leading_zero [of w]
  by (simp add: dec_text_def decimal_back list_all_iff)

text \<open>The text of a number is not one of the three words.\<close>

lemma scan_literal_number:
  assumes "t = c # s" and "is_digit c \<or> c = CHR ''-''"
  shows "scan_literal t = scan_number t"
proof -
  have "c \<notin> {CHR ''n'', CHR ''t'', CHR ''f''}" using assms(2) by (auto simp: is_digit_def)
  then show ?thesis by (simp add: assms(1) scan_literal_def after_def js_startsWith_def)
qed

section \<open>White space between the tokens\<close>

definition all_ws :: "string \<Rightarrow> bool" where
  "all_ws w \<longleftrightarrow> list_all json_ws w"

lemma all_ws_Nil [simp]: "all_ws []"
  by (simp add: all_ws_def)

lemma skip_ws_append [simp]: "all_ws w \<Longrightarrow> skip_ws (w @ s) = skip_ws s"
  by (induction w) (simp_all add: all_ws_def skip_ws_def)

lemma skip_solid [simp]: "\<not> json_ws c \<Longrightarrow> skip_ws (c # r) = c # r"
  by (simp add: skip_ws_def)

lemma solid [simp]: "\<not> json_ws CHR '',''" "\<not> json_ws CHR '']''" "\<not> json_ws CHR ''}''" "\<not> json_ws CHR '':''" "\<not> json_ws CHR 0x22"
    "\<not> json_ws CHR ''[''" "\<not> json_ws CHR ''{''"
  by (simp_all add: json_ws_def)

lemma read_ws [simp]:
  assumes "all_ws w"
  shows "read_value n (w @ s) = read_value n s" "read_members n (w @ s) = read_members n s" "read_items n (w @ s) = read_items n s"
proof -
  show rv: "read_value n (w @ s) = read_value n s" for n using assms by (cases n) simp_all
  show "read_members n (w @ s) = read_members n s" using assms by (cases n) simp_all
  show "read_items n (w @ s) = read_items n s" by (cases n) (simp_all add: rv)
qed

lemma stops [simp]: "ends_number []" "ends_number (CHR '','' # r)" "ends_number (CHR '']'' # r)" "ends_number (CHR ''}'' # r)"
  by (simp_all add: ends_number_def is_digit_def)

lemma stops_ws: "all_ws w \<Longrightarrow> ends_number r \<Longrightarrow> ends_number (w @ r)"
  by (cases w) (auto simp: all_ws_def ends_number_def json_ws_def is_digit_def)

text \<open>A text begins a value if its first character is neither white space nor a closing bracket.\<close>

definition begins_value :: "string \<Rightarrow> bool" where
  "begins_value t \<longleftrightarrow> (case t of [] \<Rightarrow> False | c # u \<Rightarrow> \<not> json_ws c \<and> c \<noteq> CHR '']'' \<and> c \<noteq> CHR ''}'')"

lemma begins_value_simps [simp]: "\<not> begins_value []" "begins_value (c # u) \<longleftrightarrow> \<not> json_ws c \<and> c \<noteq> CHR '']'' \<and> c \<noteq> CHR ''}''"
  by (simp_all add: begins_value_def)

lemma begins_join: "begins_value t \<Longrightarrow> begins_value (js_join sep (t # ts) @ r)"
  by (cases t; cases ts) simp_all

text \<open>A text reads as a value: with fuel for its length, whatever follows it.\<close>

definition reads :: "string \<Rightarrow> json \<Rightarrow> bool" where
  "reads t j \<longleftrightarrow> begins_value t \<and>
     (\<forall>n r. length t < n \<longrightarrow> ends_number r \<longrightarrow> read_value n (t @ r) = Some (j, r))"

lemma readsI: "begins_value t \<Longrightarrow> (\<And>m r. length t \<le> m \<Longrightarrow> ends_number r \<Longrightarrow> read_value (Suc m) (t @ r) = Some (j, r)) \<Longrightarrow> reads t j"
  unfolding reads_def
proof (intro conjI allI impI)
  fix n r
  assume all: "\<And>m r. length t \<le> m \<Longrightarrow> ends_number r \<Longrightarrow> read_value (Suc m) (t @ r) = Some (j, r)"
    and n: "length t < n" and r: "ends_number r"
  from n obtain m where "n = Suc m" by (cases n) simp_all
  then show "read_value n (t @ r) = Some (j, r)" using all [of m r] n r by simp
qed

lemma readsD: "reads t j \<Longrightarrow> length t < n \<Longrightarrow> ends_number r \<Longrightarrow> read_value n (t @ r) = Some (j, r)"
  by (simp add: reads_def)

lemma reads_begins: "reads t j \<Longrightarrow> begins_value t"
  by (simp add: reads_def)

section \<open>Lists and objects\<close>

lemma items_back:
  "list_all2 reads ts xs \<Longrightarrow> xs \<noteq> [] \<Longrightarrow> all_ws w \<Longrightarrow> all_ws v \<Longrightarrow> Suc (length (js_join (CHR '','' # w) ts)) < n \<Longrightarrow>
     read_items n (js_join (CHR '','' # w) ts @ v @ CHR '']'' # r) = Some (xs, r)"
proof (induction ts xs arbitrary: n rule: list_all2_induct)
  case (Cons t ts x xs)
  obtain m where n: "n = Suc m" using Cons.prems(4) by (cases n) simp_all
  show ?case
  proof (cases ts)
    case Nil
    moreover have "xs = []" using Cons.hyps(2) Nil by simp
    moreover have "read_value m (t @ v @ CHR '']'' # r) = Some (x, v @ CHR '']'' # r)"
      using Cons.hyps(1) Cons.prems Nil by (intro readsD stops_ws) (simp_all add: n)
    ultimately show ?thesis using Cons.prems(3) by (simp add: n)
  next
    case (Cons u us)
    let ?rest = "js_join (CHR '','' # w) ts @ v @ CHR '']'' # r"
    have "read_value m (t @ CHR '','' # w @ ?rest) = Some (x, CHR '','' # w @ ?rest)"
      using Cons.hyps(1) Cons.prems Cons by (intro readsD) (simp_all add: n)
    moreover have "read_items m ?rest = Some (xs, r)"
    proof (rule Cons.IH)
      show "xs \<noteq> []" using Cons.hyps(2) Cons by auto
      show "Suc (length (js_join (CHR '','' # w) ts)) < m" using Cons.prems(4) Cons by (simp add: n)
    qed (use Cons.prems in simp_all)
    ultimately show ?thesis using Cons Cons.prems(2) by (simp add: n)
  qed
qed simp

definition member_text :: "string \<Rightarrow> string \<times> string \<Rightarrow> string" where
  "member_text u kt = json_quote (fst kt) @ CHR '':'' # u @ snd kt"

lemma quote_start: "json_quote s = CHR 0x22 # tl (json_quote s)"
  by (simp add: json_quote_def)

lemma member_read:
  assumes "reads t x" and "all_ws u" and "length t < m" and "ends_number s"
  shows "read_members (Suc m) (member_text u (k, t) @ s) =
    (case skip_ws s of [] \<Rightarrow> None
     | c # z \<Rightarrow> if c = CHR '','' then map_option (\<lambda>(kvs, v). ((k, x) # kvs, v)) (read_members m z)
                else if c = CHR ''}'' then Some ([(k, x)], z) else None)"
proof -
  have "member_text u (k, t) @ s = CHR 0x22 # tl (json_quote k) @ CHR '':'' # u @ t @ s"
    using quote_start [of k] by (simp add: member_text_def)
  then show ?thesis using assms(2) by (simp add: scan_quoted readsD [OF assms(1,3,4)])
qed

definition reads_member :: "string \<times> string \<Rightarrow> string \<times> json \<Rightarrow> bool" where
  "reads_member kt kx \<longleftrightarrow> fst kt = fst kx \<and> reads (snd kt) (snd kx)"

lemma members_back:
  "list_all2 reads_member kts kvs \<Longrightarrow> kvs \<noteq> [] \<Longrightarrow> all_ws u \<Longrightarrow> all_ws w \<Longrightarrow> all_ws v \<Longrightarrow>
     Suc (length (js_join (CHR '','' # w) (map (member_text u) kts))) < n \<Longrightarrow>
     read_members n (js_join (CHR '','' # w) (map (member_text u) kts) @ v @ CHR ''}'' # r) = Some (kvs, r)"
proof (induction kts kvs arbitrary: n rule: list_all2_induct)
  case (Cons kt kts kx kvs)
  obtain m where n: "n = Suc m" using Cons.prems(5) by (cases n) simp_all
  obtain k t x where kt: "kt = (k, t)" "kx = (k, x)" and t: "reads t x"
    using Cons.hyps(1) by (cases kt; cases kx) (auto simp: reads_member_def)
  have len: "length t < length (member_text u (k, t))" by (simp add: member_text_def)
  show ?case
  proof (cases kts)
    case Nil
    moreover have "kvs = []" using Cons.hyps(2) Nil by simp
    moreover have "length t < m" using Cons.prems(5) len Nil by (simp add: n kt)
    ultimately show ?thesis
      using Cons.prems member_read [OF t Cons.prems(2), of m "v @ CHR ''}'' # r" k] by (simp add: n kt stops_ws)
  next
    case (Cons y ys)
    let ?rest = "js_join (CHR '','' # w) (map (member_text u) kts) @ v @ CHR ''}'' # r"
    have "length t < m" using Cons.prems(5) Cons len by (simp add: n kt)
    moreover have "read_members m ?rest = Some (kvs, r)"
    proof (rule Cons.IH)
      show "kvs \<noteq> []" using Cons.hyps(2) Cons by auto
      show "Suc (length (js_join (CHR '','' # w) (map (member_text u) kts))) < m" using Cons.prems(5) Cons len by (simp add: n kt)
    qed (use Cons.prems in simp_all)
    ultimately show ?thesis
      using Cons Cons.prems(3) member_read [OF t Cons.prems(2), of m "CHR '','' # w @ ?rest" k] by (simp add: n kt)
  qed
qed simp

text \<open>A list or an object in any layout: \<open>a\<close>, \<open>v\<close>, \<open>w\<close> and \<open>u\<close> are the white space inside.\<close>

lemma reads_list:
  assumes "list_all2 reads ts xs" and "ts \<noteq> []" and "all_ws a" "all_ws v" "all_ws w"
  shows "reads ([CHR ''[''] @ a @ js_join (CHR '','' # w) ts @ v @ [CHR '']'']) (JArr xs)"
proof (rule readsI)
  fix m r assume len: "length ([CHR ''[''] @ a @ js_join (CHR '','' # w) ts @ v @ [CHR '']'']) \<le> m"
  let ?items = "js_join (CHR '','' # w) ts @ v @ CHR '']'' # r"
  obtain t us where ts: "ts = t # us" using assms(2) by (cases ts) simp_all
  have "begins_value ?items"
    using assms(1) reads_begins unfolding ts by (intro begins_join) (auto simp: list_all2_Cons1)
  then obtain c z where "?items = c # z" "\<not> json_ws c" "c \<noteq> CHR '']''" by (cases ?items) simp_all
  then have "skip_ws (a @ ?items) = c # z" using assms(3) by simp
  moreover have "xs \<noteq> []" using assms(1,2) by auto
  moreover have "read_items m ?items = Some (xs, r)"
    using len assms(1,4,5) \<open>xs \<noteq> []\<close> by (intro items_back) simp_all
  ultimately show "read_value (Suc m) (([CHR ''[''] @ a @ js_join (CHR '','' # w) ts @ v @ [CHR '']'']) @ r) = Some (JArr xs, r)"
    using assms(3) \<open>c \<noteq> CHR '']''\<close> by simp
qed simp

lemma reads_object:
  assumes "list_all2 reads_member kts kvs" and "kts \<noteq> []" and "all_ws a" "all_ws v" "all_ws w" "all_ws u"
  shows "reads ([CHR ''{''] @ a @ js_join (CHR '','' # w) (map (member_text u) kts) @ v @ [CHR ''}'']) (JObj kvs)"
proof (rule readsI)
  fix m r assume len: "length ([CHR ''{''] @ a @ js_join (CHR '','' # w) (map (member_text u) kts) @ v @ [CHR ''}'']) \<le> m"
  let ?members = "js_join (CHR '','' # w) (map (member_text u) kts) @ v @ CHR ''}'' # r"
  obtain k us where ts: "kts = k # us" using assms(2) by (cases kts) simp_all
  have "begins_value ?members"
    unfolding ts list.map by (rule begins_join) (simp add: member_text_def json_quote_def)
  then obtain c z where "?members = c # z" "\<not> json_ws c" "c \<noteq> CHR ''}''" by (cases ?members) simp_all
  then have "skip_ws (a @ ?members) = c # z" using assms(3) by simp
  moreover have "kvs \<noteq> []" using assms(1,2) by auto
  moreover have "read_members m ?members = Some (kvs, r)"
    using len assms(1,4-6) \<open>kvs \<noteq> []\<close> by (intro members_back) simp_all
  ultimately show "read_value (Suc m) (([CHR ''{''] @ a @ js_join (CHR '','' # w) (map (member_text u) kts) @ v @ [CHR ''}'']) @ r) = Some (JObj kvs, r)"
    using assms(3) \<open>c \<noteq> CHR ''}''\<close> by simp
qed simp

lemma reads_empty: "reads ''[]'' (JArr [])" "reads ''{}'' (JObj [])"
  by (rule readsI; simp)+

lemma reads_string: "reads (json_quote x) (JStr x)"
proof (rule readsI)
  show "begins_value (json_quote x)" by (simp add: json_quote_def)
  show "read_value (Suc m) (json_quote x @ r) = Some (JStr x, r)" for m r
    by (subst quote_start) (simp add: scan_quoted)
qed

lemma reads_number:
  assumes "\<And>c s. t = c # s \<Longrightarrow> is_digit c \<or> c = CHR ''-''" and "t \<noteq> []"
    and "\<And>r. ends_number r \<Longrightarrow> scan_number (t @ r) = Some (j, r)"
  shows "reads t j"
proof -
  obtain c u where t: "t = c # u" using assms(2) by (cases t) simp_all
  have num: "is_digit c \<or> c = CHR ''-''" using assms(1) t by simp
  then have c: "c \<notin> {CHR 0x22, CHR ''['', CHR ''{'', CHR '']'', CHR ''}''}" "\<not> json_ws c"
    by (auto simp: is_digit_def json_ws_def)
  show ?thesis
  proof (rule readsI)
    show "begins_value t" using c by (simp add: t)
    show "read_value (Suc m) (t @ r) = Some (j, r)" if "ends_number r" for m r
      using scan_literal_number [of "t @ r" c "u @ r"] num assms(3) [OF that] c by (simp add: t)
  qed
qed

lemma reads_int: "reads (show_int i) (JInt i)"
proof (rule reads_number)
  show "is_digit c \<or> c = CHR ''-''" if "show_int i = c # s" for c s by (rule show_int_start [OF that])
qed (simp_all add: scan_shown, simp add: show_int_def)

lemma reads_dec: "reads (dec_text neg w f) (JDec neg w f)"
proof (rule reads_number)
  show "is_digit c \<or> c = CHR ''-''" if "dec_text neg w f = c # s" for c s by (rule dec_text_start [OF that])
qed (simp_all add: scan_fraction, simp add: dec_text_def)

lemma reads_atoms: "reads ''null'' JNull" "reads ''true'' (JBool True)" "reads ''false'' (JBool False)"
  by (rule readsI; simp add: json_ws_def scan_literal_def after_def js_startsWith_def)+

lemma list_all2_map_self: "(\<And>x. x \<in> set xs \<Longrightarrow> P (f x) x) \<Longrightarrow> list_all2 P (map f xs) xs"
  by (induction xs) auto

section \<open>The two printers\<close>

lemma stringify_reads: "reads (json_stringify j) j"
proof (induction j)
  case (JArr xs)
  show ?case
  proof (cases xs)
    case (Cons y ys)
    have "list_all2 reads (map json_stringify xs) xs" by (rule list_all2_map_self) (rule JArr)
    from reads_list [OF this, of "[]" "[]" "[]"] Cons show ?thesis by simp
  qed (simp add: reads_empty)
next
  case (JObj kvs)
  show ?case
  proof (cases kvs)
    case (Cons y ys)
    let ?kts = "map (\<lambda>(k, v). (k, json_stringify v)) kvs"
    have "list_all2 reads_member ?kts kvs"
      by (rule list_all2_map_self) (use JObj in \<open>auto simp: reads_member_def intro: snds.intros\<close>)
    from reads_object [OF this, of "[]" "[]" "[]" "[]"] Cons
    have "reads (''{'' @ js_join '','' (map (member_text []) ?kts) @ ''}'') (JObj kvs)" by simp
    moreover have "map (member_text []) ?kts = map (\<lambda>(k, v). json_quote k @ '':'' @ json_stringify v) kvs"
      by (simp add: member_text_def case_prod_beta)
    ultimately show ?thesis by (simp only: json_stringify.simps)
  qed (simp add: reads_empty)
qed (auto simp: reads_int reads_dec reads_string reads_atoms split: if_splits)

text \<open>\<open>JSON.stringify(v, null, 2)\<close>: a member or item per line, two blanks per level.\<close>

definition indent :: "nat \<Rightarrow> string" where
  "indent n = replicate (2 * n) (CHR '' '')"

definition pretty_list :: "nat \<Rightarrow> char \<Rightarrow> char \<Rightarrow> string list \<Rightarrow> string" where
  "pretty_list n opening closing items =
     (if items = [] then [opening, closing]
      else [opening] @ (CHR 0x0A # indent (Suc n)) @ js_join (CHR '','' # CHR 0x0A # indent (Suc n)) items
           @ (CHR 0x0A # indent n) @ [closing])"

fun json_pretty :: "nat \<Rightarrow> json \<Rightarrow> string" where
  "json_pretty n (JArr xs) = pretty_list n (CHR ''['') (CHR '']'') (map (json_pretty (Suc n)) xs)"
| "json_pretty n (JObj kvs) =
     pretty_list n (CHR ''{'') (CHR ''}'') (map (\<lambda>(k, v). json_quote k @ '': '' @ json_pretty (Suc n) v) kvs)"
| "json_pretty n j = json_stringify j"

lemma ws_indent [simp]: "all_ws (CHR 0x0A # indent n)" "all_ws '' ''"
  by (simp_all add: all_ws_def indent_def json_ws_def list_all_iff)

lemma pretty_reads: "reads (json_pretty n j) j"
proof (induction j arbitrary: n)
  case (JArr xs)
  show ?case
  proof (cases xs)
    case (Cons y ys)
    have "list_all2 reads (map (json_pretty (Suc n)) xs) xs" by (rule list_all2_map_self) (rule JArr)
    from reads_list [OF this, of "CHR 0x0A # indent (Suc n)" "CHR 0x0A # indent n" "CHR 0x0A # indent (Suc n)"] Cons
    show ?thesis by (simp add: pretty_list_def)
  qed (simp add: reads_empty pretty_list_def)
next
  case (JObj kvs)
  show ?case
  proof (cases kvs)
    case (Cons y ys)
    let ?kts = "map (\<lambda>(k, v). (k, json_pretty (Suc n) v)) kvs"
    have "list_all2 reads_member ?kts kvs"
      by (rule list_all2_map_self) (use JObj in \<open>auto simp: reads_member_def intro: snds.intros\<close>)
    from reads_object [OF this, of "CHR 0x0A # indent (Suc n)" "CHR 0x0A # indent n" "CHR 0x0A # indent (Suc n)" "'' ''"] Cons
    have "reads (pretty_list n (CHR ''{'') (CHR ''}'') (map (member_text '' '') ?kts)) (JObj kvs)" by (simp add: pretty_list_def)
    moreover have "map (member_text '' '') ?kts = map (\<lambda>(k, v). json_quote k @ '': '' @ json_pretty (Suc n) v) kvs"
      by (simp add: member_text_def case_prod_beta)
    ultimately show ?thesis by (simp only: json_pretty.simps)
  qed (simp add: reads_empty pretty_list_def)
qed (auto simp: reads_int reads_dec reads_string reads_atoms split: if_splits)

section \<open>Properties\<close>

lemma reads_parse: "reads t j \<Longrightarrow> json_parse t = Some j"
  using readsD [of t j "Suc (length t)" "[]"] by (simp add: json_parse_def skip_ws_def)

text \<open>Parsing inverts printing, in both layouts. Whatever a value contains, strings with quotes, backslashes, newlines and
  control characters, negative numbers and fractions, nested and empty lists and objects: the compact text and the text
  with a line per member are read back as that value; so two values never have the same text.\<close>

theorem json_round_trip: "json_parse (json_stringify j) = Some j \<and> json_parse (json_pretty n j) = Some j"
  by (simp add: reads_parse stringify_reads pretty_reads)

lemma parse_stringify: "json_parse (json_stringify j) = Some j"
  by (rule reads_parse) (rule stringify_reads)

text \<open>Texts that are refused, and white space that is not.\<close>

lemma json_parse_examples:
  "json_parse [] = None" "json_parse ''01'' = None" "json_parse ''[1,]'' = None" "json_parse ''nul'' = None"
  "json_parse ''1.'' = None" "json_parse '' [ 1 , -2 ] '' = Some (JArr [JInt 1, JInt (- 2)])"
  "json_parse ''12.50'' = Some (JDec False 12 4)" "json_parse ''-0.0'' = Some (JInt 0)"
  "json_stringify (JDec False 12 4) = ''12.5''" "json_stringify (JDec True 0 49) = ''-0.05''"
  by code_simp+

end
