(* ===== verification/WatchdogFeed.thy ===== *)
theory WatchdogFeed
  imports PageTables JsonText "HOL-Library.Monad_Syntax"
begin

text \<open>
  From the worker to the page: the frames that \<open>watchdog-service/src/server.ts\<close> writes on an open connection, the
  event source of the browser that splits them into messages, the listener of \<open>chaos-panel.tsx\<close> that parses a message
  and applies the payload. The worker and the page are composed into one machine; what the worker broadcasts is what the
  page shows and announces.
\<close>

section \<open>The event source\<close>

text \<open>
  The event stream of the browser: lines in the order of arrival, an event name and data lines up to a blank line, comments
  that begin with a colon. Lines end with a newline here; the worker writes no carriage return.
\<close>

record sse =
  sse_event :: string
  sse_data :: "string list"

definition no_sse :: sse where
  "no_sse = \<lparr>sse_event = [], sse_data = []\<rparr>"

definition sse_field :: "string \<Rightarrow> sse \<Rightarrow> sse" where
  "sse_field line b =
     (let name = takeWhile (\<lambda>c. c \<noteq> CHR '':'') line; rest = drop (Suc (length name)) line;
          value = (if rest \<noteq> [] \<and> hd rest = CHR '' '' then tl rest else rest)
      in if name = ''event'' then b\<lparr>sse_event := value\<rparr>
         else if name = ''data'' then b\<lparr>sse_data := sse_data b @ [value]\<rparr> else b)"

fun sse_run :: "sse \<Rightarrow> string list \<Rightarrow> (string \<times> string) list" where
  "sse_run b [] = []"
| "sse_run b (l # ls) =
     (if l = []
      then (if sse_data b = [] then [] else [(str_or (sse_event b) ''message'', js_join nl (sse_data b))]) @ sse_run no_sse ls
      else sse_run (sse_field l b) ls)"

text \<open>The messages of a text: what is left after the last newline is not a line yet.\<close>

definition sse_messages :: "string \<Rightarrow> (string \<times> string) list" where
  "sse_messages text = sse_run no_sse (butlast (js_split CHR 0x0A text))"

section \<open>Reading a payload\<close>

definition optional :: "(json \<Rightarrow> 'a option) \<Rightarrow> json option \<Rightarrow> 'a option option" where
  "optional f v = (case v of None \<Rightarrow> Some None | Some j \<Rightarrow> map_option Some (f j))"

fun nullable :: "(json \<Rightarrow> 'a option) \<Rightarrow> json \<Rightarrow> 'a option option" where
  "nullable f JNull = Some None"
| "nullable f j = map_option Some (f j)"

fun the_string :: "json \<Rightarrow> string option" where
  "the_string (JStr s) = Some s"
| "the_string _ = None"

fun the_int :: "json \<Rightarrow> int option" where
  "the_int (JInt i) = Some i"
| "the_int _ = None"

fun the_bool :: "json \<Rightarrow> bool option" where
  "the_bool (JBool b) = Some b"
| "the_bool _ = None"

fun the_list :: "(json \<Rightarrow> 'a option) \<Rightarrow> json \<Rightarrow> 'a list option" where
  "the_list f (JArr xs) = those (map f xs)"
| "the_list f _ = None"

definition read_kind :: "string \<Rightarrow> WatchdogEventKind option" where
  "read_kind s = map_of (map (\<lambda>k. (event_kind_text k, k)) [Recover, Scan, Railway_deploy, Railway_stalled, Railway_rebooting,
     Railway_auto_recover, Heartbeat_recover, Heartbeat_exit_redeploy, Railway_stopped]) s"

definition read_source :: "string \<Rightarrow> payload_source option" where
  "read_source s = map_of (map (\<lambda>k. (source_text k, k)) [Src_docker, Src_railway, Src_unconfigured, Src_error]) s"

definition read_event :: "json \<Rightarrow> WatchdogEvent option" where
  "read_event j = do {
     i \<leftarrow> Option.bind (member ''id'' j) the_string;
     t \<leftarrow> Option.bind (member ''at'' j) the_string;
     s \<leftarrow> Option.bind (member ''service'' j) the_string;
     k \<leftarrow> Option.bind (Option.bind (member ''kind'' j) the_string) read_kind;
     m \<leftarrow> Option.bind (member ''message'' j) the_string;
     Some \<lparr>ev_id = i, ev_at = t, ev_service = s, ev_kind = k, ev_message = m\<rparr> }"

fun read_activity_status :: "json \<Rightarrow> activity_status option" where
  "read_activity_status (JInt n) = Some (StatusCode n)"
| "read_activity_status (JStr s) = Some (StatusText s)"
| "read_activity_status _ = None"

definition read_activity_kind :: "string \<Rightarrow> activity_kind option" where
  "read_activity_kind s = (if s = ''graphql'' then Some Act_graphql else if s = ''http'' then Some Act_http else None)"

definition read_activity :: "json \<Rightarrow> WatchdogApiActivityEntry option" where
  "read_activity j = do {
     t \<leftarrow> Option.bind (member ''at'' j) the_string;
     k \<leftarrow> Option.bind (Option.bind (member ''kind'' j) the_string) read_activity_kind;
     g \<leftarrow> Option.bind (member ''target'' j) the_string;
     m \<leftarrow> optional the_string (member ''method'' j);
     d \<leftarrow> optional the_int (member ''durationMs'' j);
     s \<leftarrow> optional read_activity_status (member ''status'' j);
     x \<leftarrow> optional the_string (member ''detail'' j);
     Some \<lparr>ac_at = t, ac_kind = k, ac_target = g, ac_method = m, ac_durationMs = d, ac_status = s, ac_detail = x\<rparr> }"

definition read_heartbeat :: "json \<Rightarrow> heartbeat_summary option" where
  "read_heartbeat j = do {
     e \<leftarrow> Option.bind (member ''enabled'' j) the_bool;
     p \<leftarrow> Option.bind (member ''probes'' j) the_int;
     g \<leftarrow> Option.bind (member ''ok'' j) the_int;
     f \<leftarrow> Option.bind (member ''failed'' j) the_int;
     s \<leftarrow> Option.bind (member ''skipped'' j) the_int;
     Some \<lparr>hs_enabled = e, hs_probes = p, hs_ok = g, hs_failed = f, hs_skipped = s\<rparr> }"

text \<open>\<open>as WatchdogPayload\<close>: the members that the type names, with their types.\<close>

definition read_payload :: "json \<Rightarrow> WatchdogPayload option" where
  "read_payload j = do {
     src \<leftarrow> Option.bind (Option.bind (member ''source'' j) the_string) read_source;
     i \<leftarrow> Option.bind (member ''intervalSec'' j) the_int;
     t \<leftarrow> Option.bind (member ''lastTickAt'' j) (nullable the_string);
     n \<leftarrow> Option.bind (member ''instancesMonitored'' j) the_int;
     evs \<leftarrow> Option.bind (member ''events'' j) (the_list read_event);
     e \<leftarrow> optional the_string (member ''error'' j);
     hb \<leftarrow> optional read_heartbeat (member ''heartbeat'' j);
     ls \<leftarrow> optional (the_list the_string) (member ''logTail'' j);
     act \<leftarrow> optional (the_list read_activity) (member ''apiActivity'' j);
     Some \<lparr>pl_source = src, pl_intervalSec = i, pl_lastTickAt = t, pl_instancesMonitored = n, pl_events = evs,
           pl_logTail = ls, pl_error = e, pl_heartbeat = hb, pl_apiActivity = act\<rparr> }"

text \<open>What the listener makes of the data of a message; a text that does not parse is ignored.\<close>

definition tick_data :: "string \<Rightarrow> WatchdogPayload option" where
  "tick_data data = Option.bind (json_parse data) read_payload"

text \<open>The page listens to \<open>tick\<close> only.\<close>

definition hear :: "string \<times> string \<Rightarrow> panel \<Rightarrow> panel" where
  "hear m p = (if fst m = ''tick'' then panel_step (Ticked (tick_data (snd m))) p else p)"

definition hear_text :: "string \<Rightarrow> panel \<Rightarrow> panel" where
  "hear_text text p = fold hear (sse_messages text) p"

section \<open>A payload survives the stream\<close>

lemma those_back: "(\<And>x. f (g x) = Some x) \<Longrightarrow> those (map f (map g xs)) = Some xs"
  by (induction xs) simp_all

lemma list_back: "(\<And>x. f (g x) = Some x) \<Longrightarrow> the_list f (JArr (map g xs)) = Some xs"
  by (simp add: those_back del: map_map)

lemma optional_back: "(\<And>x. f (g x) = Some x) \<Longrightarrow> optional f (map_option g v) = Some v"
  by (cases v) (simp_all add: optional_def)

lemma nullable_back: "nullable the_string (opt_json JStr v) = Some v"
  by (cases v) (simp_all add: opt_json_def)

lemma kind_back: "read_kind (event_kind_text k) = Some k"
  by (cases k) (simp_all add: read_kind_def)

lemma source_back: "read_source (source_text k) = Some k"
  by (cases k) (simp_all add: read_source_def)

lemma event_back: "read_event (event_json e) = Some e"
  by (simp add: read_event_def event_json_def kind_back)

lemma status_back: "read_activity_status (activity_status_json s) = Some s"
  by (cases s) simp_all

lemma activity_fields:
  "member ''at'' (activity_json e) = Some (JStr (ac_at e))"
  "member ''kind'' (activity_json e) = Some (JStr (case ac_kind e of Act_graphql \<Rightarrow> ''graphql'' | Act_http \<Rightarrow> ''http''))"
  "member ''target'' (activity_json e) = Some (JStr (ac_target e))"
  "member ''method'' (activity_json e) = map_option JStr (ac_method e)"
  "member ''durationMs'' (activity_json e) = map_option JInt (ac_durationMs e)"
  "member ''status'' (activity_json e) = map_option activity_status_json (ac_status e)"
  "member ''detail'' (activity_json e) = map_option JStr (ac_detail e)"
  by (simp_all add: activity_json_def opt_member_def split: option.split)

lemma activity_back: "read_activity (activity_json e) = Some e"
  by (cases "ac_kind e") (simp_all add: read_activity_def activity_fields optional_back status_back read_activity_kind_def)

lemma heartbeat_back: "read_heartbeat (heartbeat_json s) = Some s"
  by (simp add: read_heartbeat_def heartbeat_json_def)

lemma payload_fields:
  "member ''source'' (payload_json p) = Some (JStr (source_text (pl_source p)))"
  "member ''intervalSec'' (payload_json p) = Some (JInt (pl_intervalSec p))"
  "member ''lastTickAt'' (payload_json p) = Some (opt_json JStr (pl_lastTickAt p))"
  "member ''instancesMonitored'' (payload_json p) = Some (JInt (pl_instancesMonitored p))"
  "member ''events'' (payload_json p) = Some (JArr (map event_json (pl_events p)))"
  "member ''error'' (payload_json p) = map_option JStr (pl_error p)"
  "member ''heartbeat'' (payload_json p) = map_option heartbeat_json (pl_heartbeat p)"
  "member ''logTail'' (payload_json p) = map_option (\<lambda>ls. JArr (map JStr ls)) (pl_logTail p)"
  "member ''apiActivity'' (payload_json p) = map_option (\<lambda>es. JArr (map activity_json es)) (pl_apiActivity p)"
  by (simp_all add: payload_json_def opt_member_def split: option.split)

lemma payload_back: "read_payload (payload_json p) = Some p"
proof -
  have "optional (the_list the_string) (map_option (\<lambda>xs. JArr (map JStr xs)) v) = Some v" for v
    by (rule optional_back) (rule list_back, simp)
  moreover have "optional (the_list read_activity) (map_option (\<lambda>xs. JArr (map activity_json xs)) v) = Some v" for v
    by (rule optional_back) (rule list_back, rule activity_back)
  moreover have "the_list read_event (JArr (map event_json es)) = Some es" for es
    by (rule list_back) (rule event_back)
  ultimately show ?thesis
    unfolding read_payload_def payload_fields
    by (simp add: source_back nullable_back optional_back heartbeat_back del: the_list.simps)
qed

lemma tick_data_back: "tick_data (json_stringify (payload_json p)) = Some p"
  by (simp add: tick_data_def parse_stringify payload_back)

section \<open>What the worker writes, split into messages\<close>

lemma butlast_split [simp]: "butlast (x # js_split c s) = x # butlast (js_split c s)"
  by simp

lemma messages_frame:
  "sse_messages (tick_frame p @ s) = (''tick'', json_stringify (payload_json p)) # sse_messages s"
proof -
  let ?data = "''data: '' @ json_stringify (payload_json p)"
  have data: "CHR 0x0A \<notin> set ?data"
    using no_newline [OF no_control_stringify] by simp
  have "tick_frame p @ s = ''event: tick'' @ CHR 0x0A # ?data @ CHR 0x0A # CHR 0x0A # s" by (simp add: tick_frame_def)
  then have "js_split CHR 0x0A (tick_frame p @ s) = [''event: tick'', ?data, []] @ js_split CHR 0x0A s"
    using js_split_append [of "CHR 0x0A" "''event: tick''"] js_split_append [OF data] by simp
  then show ?thesis by (simp add: sse_messages_def butlast_append sse_field_def no_sse_def)
qed

lemma messages_keepalive: "sse_messages (keepalive_chunk @ s) = sse_messages s"
proof -
  have "js_split CHR 0x0A (keepalive_chunk @ s) = ['': keepalive'', []] @ js_split CHR 0x0A s"
    using js_split_append [of "CHR 0x0A" "'': keepalive''" "CHR 0x0A # s"] by (simp add: keepalive_chunk_def)
  then show ?thesis by (simp add: sse_messages_def butlast_append sse_field_def no_sse_def)
qed

lemma messages_Nil [simp]: "sse_messages [] = []"
  by (simp add: sse_messages_def)

text \<open>The chunks of a connection, and what each of them says.\<close>

datatype chunk = Keepalive | Frame WatchdogPayload

fun chunk_text :: "chunk \<Rightarrow> string" where
  "chunk_text Keepalive = keepalive_chunk"
| "chunk_text (Frame p) = tick_frame p"

fun chunk_payloads :: "chunk list \<Rightarrow> WatchdogPayload list" where
  "chunk_payloads [] = []"
| "chunk_payloads (Keepalive # cs) = chunk_payloads cs"
| "chunk_payloads (Frame p # cs) = p # chunk_payloads cs"

text \<open>
  What a reader of a framed stream relies on: the messages of a text that begins with a chunk are those of the chunk and
  then those of the rest. So a stream of chunks says what its chunks say, wherever the network cuts it.
\<close>

locale framed_stream =
  fixes text_of :: "'c \<Rightarrow> string"
    and says :: "'c \<Rightarrow> 'm list"
    and messages :: "string \<Rightarrow> 'm list"
  assumes empty: "messages [] = []"
    and framed: "messages (text_of c @ s) = says c @ messages s"
begin

lemma stream_then: "messages (concat (map text_of cs) @ s) = concat (map says cs) @ messages s"
  by (induction cs) (simp_all add: framed)

lemma stream: "messages (concat (map text_of cs)) = concat (map says cs)"
  using stream_then [of cs "[]"] by (simp add: empty)

lemma pieces: "concat (map text_of cs) = concat pieces \<Longrightarrow> messages (concat pieces) = concat (map says cs)"
  using stream [of cs] by simp

end

fun chunk_says :: "chunk \<Rightarrow> (string \<times> string) list" where
  "chunk_says Keepalive = []"
| "chunk_says (Frame p) = [(''tick'', json_stringify (payload_json p))]"

interpretation sse: framed_stream chunk_text chunk_says sse_messages
proof
  show "sse_messages (chunk_text c @ s) = chunk_says c @ sse_messages s" for c s
    by (cases c) (simp_all add: messages_frame messages_keepalive)
qed simp

lemma hear_says: "fold hear (concat (map chunk_says cs)) p = fold (\<lambda>q. stream_tick (Some q)) (chunk_payloads cs) p"
  by (induction cs arbitrary: p rule: chunk_payloads.induct) (simp_all add: hear_def tick_data_back)

lemma hear_chunks: "hear_text (concat (map chunk_text cs)) p = fold (\<lambda>q. stream_tick (Some q)) (chunk_payloads cs) p"
  by (simp add: hear_text_def sse.stream hear_says)

section \<open>What a payload does to the page\<close>

lemma apply_watchdog [simp]: "pn_watchdog (applyWatchdogPayload j p) = Some j"
  by (simp add: applyWatchdogPayload_def fold_seen fold_announce Let_def)

lemma tick_stream [simp]: "pn_stream (stream_tick j p) = pn_stream p"
  by (simp add: stream_tick_def split: option.split)

lemma ticks_stream [simp]: "pn_stream (fold (\<lambda>q. stream_tick (Some q)) qs p) = pn_stream p"
  by (induction qs arbitrary: p) simp_all

definition last_of :: "'a list \<Rightarrow> 'a option" where
  "last_of xs = (if xs = [] then None else Some (last xs))"

lemma ticks_watchdog:
  "pn_stream p \<Longrightarrow> pn_watchdog (fold (\<lambda>q. stream_tick (Some q)) qs p) = (if qs = [] then pn_watchdog p else last_of qs)"
  by (induction qs rule: rev_induct) (simp_all add: stream_tick_def last_of_def)

section \<open>The worker and the page together\<close>

text \<open>
  The worker, one page, the connection between them and how many chunks of it have arrived. \<open>fd_polled\<close> is true while
  the payload on display is the answer of a poll instead of one of the stream; no code reads it.
\<close>

record feed =
  fd_server :: server
  fd_conn :: conn
  fd_read :: nat
  fd_panel :: panel
  fd_polled :: bool

definition init_feed :: "conn \<Rightarrow> feed" where
  "init_feed c = \<lparr>fd_server = init_server, fd_conn = c, fd_read = 0, fd_panel = mount_feed init_panel, fd_polled = False\<rparr>"

definition written :: "feed \<Rightarrow> string list" where
  "written f = sv_sent (fd_server f) (fd_conn f)"

definition deliver :: "feed \<Rightarrow> feed" where
  "deliver f =
     (let text = written f ! fd_read f
      in f\<lparr>fd_panel := hear_text text (fd_panel f), fd_read := Suc (fd_read f),
           fd_polled := (fd_polled f \<and> sse_messages text = [])\<rparr>)"

text \<open>What the user and the other requests of the page do; the feed stays mounted and its stream open.\<close>

fun page_event :: "panel_event \<Rightarrow> bool" where
  "page_event (Ticked j) = False"
| "page_event (Polled r) = False"
| "page_event Feed_mounted = False"
| "page_event Feed_unmounted = False"
| "page_event Stream_failed = False"
| "page_event e = True"

inductive feed_step :: "host \<Rightarrow> feed \<Rightarrow> feed \<Rightarrow> bool" for h where
  worker: "server_step h (fd_server f) sv \<Longrightarrow> feed_step h f (f\<lparr>fd_server := sv\<rparr>)"
| arrival: "fd_read f < length (written f) \<Longrightarrow> feed_step h f (deliver f)"
| polled: "feed_step h f (f\<lparr>fd_panel := panel_step (Polled r) (fd_panel f), fd_polled := True\<rparr>)"
| page: "page_event e \<Longrightarrow> feed_step h f (f\<lparr>fd_panel := panel_step e (fd_panel f)\<rparr>)"

inductive feed_reach :: "host \<Rightarrow> feed \<Rightarrow> bool" for h where
  mounted: "feed_reach h (init_feed c)"
| step: "feed_reach h f \<Longrightarrow> feed_step h f g \<Longrightarrow> feed_reach h g"

inductive_cases feed_step_cases: "feed_step h f g"

section \<open>Lemmas\<close>

lemma tick_frame_inject: "tick_frame p = tick_frame q \<Longrightarrow> p = q"
proof -
  assume eq: "tick_frame p = tick_frame q"
  have "sse_messages (tick_frame p @ []) = sse_messages (tick_frame q @ [])" by (simp only: eq)
  then have "json_stringify (payload_json p) = json_stringify (payload_json q)"
    by (simp only: messages_frame list.inject prod.inject)
  then have "tick_data (json_stringify (payload_json p)) = tick_data (json_stringify (payload_json q))" by (simp only:)
  then show "p = q" by (simp only: tick_data_back option.inject)
qed

text \<open>Every connection carries chunks and nothing else.\<close>

definition carries :: "server \<Rightarrow> conn \<Rightarrow> chunk list \<Rightarrow> bool" where
  "carries sv c cs \<longleftrightarrow> sv_sent sv c = map chunk_text cs"

lemma carries_write: "carries sv d cs \<Longrightarrow> \<exists>es. carries (write_or_drop th (chunk_text k) c sv) d (cs @ es)"
proof (cases "th c \<or> c \<noteq> d")
  case True
  then show "carries sv d cs \<Longrightarrow> ?thesis"
    by (intro exI [of _ "[]"]) (auto simp: carries_def write_or_drop_def write_chunk_def drop_conn_def)
next
  case False
  then show "carries sv d cs \<Longrightarrow> ?thesis"
    by (intro exI [of _ "[k]"]) (auto simp: carries_def write_or_drop_def write_chunk_def)
qed

lemma carries_writes: "carries sv d cs \<Longrightarrow> \<exists>es. carries (fold (write_or_drop th (chunk_text k)) xs sv) d (cs @ es)"
proof (induction xs arbitrary: sv cs)
  case (Cons x xs)
  obtain es where "carries (write_or_drop th (chunk_text k) x sv) d (cs @ es)" using carries_write [OF Cons.prems] by blast
  from Cons.IH [OF this] show ?case by auto
qed (auto intro: exI [of _ "[]"])

lemma carries_step: "server_step h sv sv' \<Longrightarrow> carries sv c cs \<Longrightarrow> \<exists>es. carries sv' c (cs @ es)"
proof (induction rule: server_step.induct)
  case (settled sv R w p st' w' th now)
  then show ?case
    using carries_writes [of "sv\<lparr>sv_state := st', sv_lastPayload := Some p\<rparr>" c cs th "Frame p" "sv_sse sv"]
    by (simp add: runTick_settle_def broadcastTick_def carries_def Let_def)
next
  case (failed sv th now e st')
  then show ?case
    using carries_writes [of "sv\<lparr>sv_state := st', sv_lastPayload := Some (error_payload h now (err_message e))\<rparr>" c cs th
        "Frame (error_payload h now (err_message e))" "sv_sse sv"]
    by (simp add: runTick_settle_def broadcastTick_def carries_def Let_def)
next
  case (connected d sv)
  then have "carries (open_stream d sv) c (cs @ (if c = d then map Frame (case sv_lastPayload sv of None \<Rightarrow> [] | Some p \<Rightarrow> [p]) else []))"
    by (auto simp: carries_def open_stream_def write_chunk_def Let_def split: option.split)
  then show ?case by blast
next
  case (kept_alive d sv th)
  then show ?case using carries_write [of sv c cs th Keepalive d] by (simp add: keepalive_def)
qed (auto simp: carries_def runTick_start_def drop_conn_def intro: exI [of _ "[]"])

lemma last_frame_chunks: "last_frame (map chunk_text cs) = map_option tick_frame (last_of (chunk_payloads cs))"
proof (induction cs rule: rev_induct)
  case (snoc k cs)
  have "chunk_payloads (cs @ ks) = chunk_payloads cs @ chunk_payloads ks" for ks
    by (induction cs rule: chunk_payloads.induct) simp_all
  with snoc show ?case by (cases k) (simp_all add: last_of_def)
qed (simp add: last_of_def)

lemma chunk_payloads_append: "chunk_payloads (cs @ ds) = chunk_payloads cs @ chunk_payloads ds"
  by (induction cs rule: chunk_payloads.induct) simp_all

lemma hear_chunk: "hear_text (chunk_text k) p = fold (\<lambda>q. stream_tick (Some q)) (chunk_payloads [k]) p"
  using hear_chunks [of "[k]"] by simp

lemma messages_chunk: "sse_messages (chunk_text k) = chunk_says k"
  using sse.stream [of "[k]"] by simp

lemma page_event_keeps:
  "page_event e \<Longrightarrow> pn_stream (panel_step e p) = pn_stream p \<and> pn_watchdog (panel_step e p) = pn_watchdog p
     \<and> pn_hydrated (panel_step e p) = pn_hydrated p"
  by (cases e) (auto simp: panel_ops split: option.split sum.split prod.split)

definition feed_ok :: "feed \<Rightarrow> bool" where
  "feed_ok f \<longleftrightarrow> pn_stream (fd_panel f) \<and>
     (\<exists>cs. carries (fd_server f) (fd_conn f) cs \<and> fd_read f \<le> length cs \<and>
       (\<not> fd_polled f \<longrightarrow> pn_watchdog (fd_panel f) = last_of (chunk_payloads (take (fd_read f) cs))))"

lemma feed_ok_init: "feed_ok (init_feed c)"
  by (simp add: feed_ok_def init_feed_def carries_def init_server_def mount_feed_def init_panel_def last_of_def)

lemma feed_ok_worker:
  assumes "feed_ok f" and "server_step h (fd_server f) sv"
  shows "feed_ok (f\<lparr>fd_server := sv\<rparr>)"
proof -
  obtain cs where cs: "carries (fd_server f) (fd_conn f) cs" "fd_read f \<le> length cs"
    "\<not> fd_polled f \<longrightarrow> pn_watchdog (fd_panel f) = last_of (chunk_payloads (take (fd_read f) cs))"
    using assms(1) by (auto simp: feed_ok_def)
  obtain es where "carries sv (fd_conn f) (cs @ es)" using carries_step [OF assms(2) cs(1)] by blast
  then show ?thesis
    using assms(1) cs(2,3) by (auto simp: feed_ok_def intro!: exI [of _ "cs @ es"])
qed

lemma feed_ok_arrival:
  assumes "feed_ok f" and "fd_read f < length (written f)"
  shows "feed_ok (deliver f)"
proof -
  obtain cs where cs: "carries (fd_server f) (fd_conn f) cs"
    "\<not> fd_polled f \<longrightarrow> pn_watchdog (fd_panel f) = last_of (chunk_payloads (take (fd_read f) cs))"
    using assms(1) by (auto simp: feed_ok_def)
  have w: "written f = map chunk_text cs" using cs(1) by (simp add: written_def carries_def)
  have k: "written f ! fd_read f = chunk_text (cs ! fd_read f)" using assms(2) by (simp add: w)
  have stream: "pn_stream (fd_panel f)" using assms(1) by (simp add: feed_ok_def)
  have arrived: "deliver f = f\<lparr>fd_panel := fold (\<lambda>q. stream_tick (Some q)) (chunk_payloads [cs ! fd_read f]) (fd_panel f),
      fd_read := Suc (fd_read f), fd_polled := (fd_polled f \<and> chunk_says (cs ! fd_read f) = [])\<rparr>"
    by (simp only: deliver_def Let_def k hear_chunk messages_chunk)
  have more: "take (Suc (fd_read f)) cs = take (fd_read f) cs @ [cs ! fd_read f]"
    using assms(2) by (simp add: w take_Suc_conv_app_nth)
  have watchdog: "\<not> (fd_polled f \<and> chunk_says (cs ! fd_read f) = []) \<longrightarrow>
      pn_watchdog (fold (\<lambda>q. stream_tick (Some q)) (chunk_payloads [cs ! fd_read f]) (fd_panel f))
        = last_of (chunk_payloads (take (Suc (fd_read f)) cs))"
    using cs(2) ticks_watchdog [OF stream, of "chunk_payloads [cs ! fd_read f]"]
    by (cases "cs ! fd_read f") (simp_all add: more chunk_payloads_append last_of_def)
  show ?thesis
    using stream cs(1) assms(2) watchdog unfolding feed_ok_def arrived
    by (intro conjI exI [of _ cs]) (simp_all add: w)
qed

lemma feed_ok_step: "feed_step h f g \<Longrightarrow> feed_ok f \<Longrightarrow> feed_ok g"
proof (induction rule: feed_step.induct)
  case (polled f r)
  then show ?case by (auto simp: feed_ok_def fetchWatchdog_def split: option.split)
next
  case (page e f)
  then show ?case using page_event_keeps [of e "fd_panel f"] by (simp add: feed_ok_def)
qed (simp_all add: feed_ok_worker feed_ok_arrival)

lemma feed_reach_ok: "feed_reach h f \<Longrightarrow> feed_ok f"
  by (induction rule: feed_reach.induct) (auto intro: feed_ok_init feed_ok_step)

lemma feed_reach_server: "feed_reach h f \<Longrightarrow> server_reach h (fd_server f)"
proof (induction rule: feed_reach.induct)
  case (mounted c)
  show ?case by (simp add: init_feed_def server_reach.start)
next
  case (step f g)
  from step(2) show ?case
    by (rule feed_step_cases) (use step.IH in \<open>auto simp: deliver_def Let_def intro: server_reach.step\<close>)
qed

section \<open>Properties\<close>

text \<open>C7: the page shows what the worker knows. In every interleaving of timers, ticks, failing ticks, connections, keepalives,
  arriving chunks, polls and clicks: once everything written to the page's open connection has arrived, and unless a poll
  was answered since the last chunk, the payload that the page shows is the last payload of the worker, with every
  event, log line and message in it, or none when there is none yet.
\<close>

theorem page_shows_last_payload:
  assumes "feed_reach h f" and "fd_conn f \<in> set (sv_sse (fd_server f))"
    and "fd_read f = length (written f)" and "\<not> fd_polled f"
  shows "pn_watchdog (fd_panel f) = sv_lastPayload (fd_server f)"
proof -
  have "feed_ok f" by (rule feed_reach_ok [OF assms(1)])
  then obtain cs where cs: "carries (fd_server f) (fd_conn f) cs"
    and shown: "pn_watchdog (fd_panel f) = last_of (chunk_payloads (take (fd_read f) cs))"
    using assms(4) by (auto simp: feed_ok_def)
  have sent: "sv_sent (fd_server f) (fd_conn f) = map chunk_text cs" using cs by (simp add: carries_def)
  have "map_option tick_frame (last_of (chunk_payloads cs)) = map_option tick_frame (sv_lastPayload (fd_server f))"
    using server_reach_ok [OF feed_reach_server [OF assms(1)]] assms(2)
    unfolding server_ok_def last_frame_chunks [symmetric] sent [symmetric] by blast
  then have "last_of (chunk_payloads cs) = sv_lastPayload (fd_server f)"
    by (rule option.inj_map_strong [rotated]) (rule tick_frame_inject)
  then show ?thesis using shown assms(3) by (simp add: written_def sent)
qed

text \<open>A run: the page connects, a tick fails, its frame arrives.\<close>

definition failed_tick :: "server \<Rightarrow> server" where
  "failed_tick sv = runTick_settle plain_host (\<lambda>c. False) [] (Inl (OtherValue ''boom'')) createEmptyWatchdogState sv"

definition heard_failure :: feed where
  "heard_failure = deliver ((init_feed 7)\<lparr>fd_server := failed_tick busy_server\<rparr>)"

lemma heard_failure_reach: "feed_reach plain_host heard_failure"
proof -
  have "server_step plain_host init_server (open_stream 7 init_server)"
    by (rule server_step.connected) (simp_all add: init_server_def handle_request_def)
  then have "feed_reach plain_host ((init_feed 7)\<lparr>fd_server := open_stream 7 init_server\<rparr>)"
    using feed_step.worker [of plain_host "init_feed 7"] feed_reach.intros by (simp add: init_feed_def) blast
  from feed_reach.step [OF this feed_step.worker [OF server_step.timer]]
  have busy: "feed_reach plain_host ((init_feed 7)\<lparr>fd_server := busy_server\<rparr>)" by (simp add: busy_server_def)
  have "server_step plain_host busy_server (failed_tick busy_server)"
    unfolding failed_tick_def by (rule server_step.failed) (simp add: busy_server_def runTick_start_def open_stream_def init_server_def)
  from feed_reach.step [OF busy feed_step.worker] this
  have "feed_reach plain_host ((init_feed 7)\<lparr>fd_server := failed_tick busy_server\<rparr>)" by simp
  then show ?thesis
    unfolding heard_failure_def
    by (rule feed_reach.step [OF _ feed_step.arrival])
      (simp add: written_def init_feed_def failed_tick_def runTick_settle_def busy_server_def runTick_start_def open_stream_def
        init_server_def broadcastTick_def write_or_drop_def write_chunk_def Let_def)
qed

theorem page_shows_last_payload_witness:
  "pn_watchdog (fd_panel heard_failure) = Some (error_payload plain_host [] ''boom'')"
proof -
  have "sv_lastPayload (fd_server heard_failure) = Some (error_payload plain_host [] ''boom'')"
    "fd_conn heard_failure \<in> set (sv_sse (fd_server heard_failure))"
    "fd_read heard_failure = length (written heard_failure)" "\<not> fd_polled heard_failure"
    by (simp_all add: heard_failure_def deliver_def written_def init_feed_def failed_tick_def runTick_settle_def busy_server_def
        runTick_start_def open_stream_def init_server_def broadcastTick_def write_or_drop_def write_chunk_def Let_def)
  with page_shows_last_payload [OF heard_failure_reach] show ?thesis by simp
qed

lemma hear_frame: "pn_stream p \<Longrightarrow> hear_text (tick_frame q) p = applyWatchdogPayload q (p\<lparr>pn_polling := False\<rparr>)"
  using hear_chunk [of "Frame q" p] by (simp add: stream_tick_def)

text \<open>
  No event is lost and none is repeated on the way: when a frame arrives at a page that has loaded its history, the
  events of its payload that the page has not seen, the first of each id, are put on top of the toasts, of which six
  are kept, and all events of the payload are seen from then on.
\<close>

theorem arriving_events_are_announced:
  assumes "feed_reach h f" and "fd_read f < length (written f)" and "written f ! fd_read f = tick_frame q"
    and "pn_hydrated (fd_panel f)"
  shows "let new = fresh_events (set (pn_seen (fd_panel f))) (pl_events q)
    in pn_toasts (fd_panel (deliver f)) = (if new = [] then pn_toasts (fd_panel f)
         else take 6 (rev (map toast_of new) @ pn_toasts (fd_panel f))) \<and>
       set (pn_seen (fd_panel (deliver f))) = set (pn_seen (fd_panel f)) \<union> ev_id ` set (pl_events q)"
proof -
  have stream: "pn_stream (fd_panel f)" using feed_reach_ok [OF assms(1)] by (simp add: feed_ok_def)
  have "fd_panel (deliver f) = applyWatchdogPayload q (fd_panel f\<lparr>pn_polling := False\<rparr>)"
    using hear_frame [OF stream, of q] by (simp add: deliver_def Let_def assms(3))
  with assms(4) show ?thesis by (simp add: apply_toasts apply_seen silent_def stack_on_def Let_def)
qed

text \<open>C6: A stopped service is shown to the reader. A service that was up at the previous tick is now stopped, removed or
  without a deployment, the poll succeeded and its service ids are distinct. After the tick settles, every connection
  that can be written to carries one more chunk; and a page with its stream open that has loaded its history (its first
  payload from Docker or Railway is history and stays silent) and hears this chunk puts the stop of this service among
  its toasts, unless it has seen an event of that id, or six newer events of the same payload push it out, or the
  payload is full with thirty other events.
\<close>

theorem stopped_service_reaches_the_page:
  assumes "server_reach h sv" and "c \<in> set (sv_sse sv)" and "\<not> throws c" and "pn_stream p" and "pn_hydrated p"
    and "ws_prev (sv_state sv) (vr_railwayServiceId row) = Some e" and "wasActivelyDeployed e"
    and "isNowStoppedOrNoDeployment (row_dep row) (row_cur row) row"
    and "\<not> truthy (vz_error (fst (fetchRailwayVisibilityRows R h False (snd (perf_now R w)))))"
    and "row \<in> set (vz_containers (fst (fetchRailwayVisibilityRows R h False (snd (perf_now R w)))))"
    and "distinct (map vr_railwayServiceId
           (vz_containers (fst (fetchRailwayVisibilityRows R h False (snd (perf_now R w))))))"
  shows "let (q, st', w') = runRailwayWatchdogTick R h (sv_state sv) w
    in \<exists>text. sv_sent (runTick_settle h throws now (Inr q) st' sv) c = sv_sent sv c @ [text] \<and>
         (length (pl_events q) = 30 \<or>
          (\<exists>ev \<in> set (pl_events q). ev_kind ev = Railway_stopped \<and> ev_service ev = row_name row \<and>
             (ev_id ev \<in> set (pn_seen p) \<or>
              (\<exists>older first newer. fresh_events (set (pn_seen p)) (pl_events q) = older @ first # newer \<and>
                 ev_id first = ev_id ev \<and>
                 (length newer < 6 \<longrightarrow> toast_of first \<in> set (pn_toasts (hear_text text p)))))))"
proof -
  obtain q st' w' where tick: "runRailwayWatchdogTick R h (sv_state sv) w = (q, st', w')" by (cases "runRailwayWatchdogTick R h (sv_state sv) w")
  define sv' where "sv' = runTick_settle h throws now (Inr q) st' sv"
  let ?new = "fresh_events (set (pn_seen p)) (pl_events q)"
  have "distinct (sv_sse sv)" using server_reach_ok [OF assms(1)] by (simp add: server_ok_def)
  then have sent: "sv_sent sv' c = sv_sent sv c @ [tick_frame q]"
    using broadcast_effect [of "sv\<lparr>sv_state := st', sv_lastPayload := Some q\<rparr>" throws q c] assms(2,3)
    by (simp add: sv'_def runTick_settle_def Let_def)
  have "length (pl_events q) = 30 \<or>
      (\<exists>ev \<in> set (pl_events q). ev_kind ev = Railway_stopped \<and> ev_service ev = row_name row)"
    using went_down_in_payload [OF assms(6-11)] by (simp add: tick)
  moreover have "\<exists>older first newer. ?new = older @ first # newer \<and> ev_id first = ev_id ev \<and>
      (length newer < 6 \<longrightarrow> toast_of first \<in> set (pn_toasts (hear_text (tick_frame q) p)))"
    if "ev \<in> set (pl_events q)" "ev_id ev \<notin> set (pn_seen p)" for ev
  proof -
    have "ev_id ev \<in> ev_id ` set ?new" using that by (simp add: fresh_ids)
    then obtain older first newer where new: "?new = older @ first # newer" "ev_id first = ev_id ev"
      by (metis imageE split_list)
    have "pn_toasts (hear_text (tick_frame q) p) = take 6 (rev (map toast_of newer) @ toast_of first # rev (map toast_of older) @ pn_toasts p)"
      using assms(5) by (simp add: hear_frame [OF assms(4)] apply_toasts silent_def stack_on_def new(1))
    then have "length newer < 6 \<longrightarrow> toast_of first \<in> set (pn_toasts (hear_text (tick_frame q) p))"
      by (simp add: take_Cons')
    with new show ?thesis by blast
  qed
  ultimately show ?thesis using sent by (simp add: tick sv'_def) blast
qed

text \<open>
  A run of both parties: a tick fails, a poll gives the page its history, then the tick that finds the service of the
  demonstration removed. The state in which it was up is the one that the failed tick left.
\<close>

definition up_server :: server where
  "up_server = runTick_start (runTick_settle demo_host (\<lambda>c. False) [] (Inl (OtherValue ''boom'')) seen_up busy_server)"

definition stop_tick :: "WatchdogPayload \<times> WatchdogPersistentState \<times> world" where
  "stop_tick = runRailwayWatchdogTick (demo_remote ''REMOVED'' 200 1) demo_host seen_up init_world"

definition down_server :: server where
  "down_server = runTick_settle demo_host (\<lambda>c. False) [] (Inr (fst stop_tick)) (fst (snd stop_tick)) up_server"

definition history_panel :: panel where
  "history_panel = panel_step (Polled (Some (failure_payload Src_railway []))) (mount_feed init_panel)"

definition before_stop :: feed where
  "before_stop = deliver ((init_feed 7)\<lparr>fd_server := down_server, fd_panel := history_panel, fd_polled := True\<rparr>)"

lemmas run_defs = runTick_settle_def runTick_start_def open_stream_def init_server_def broadcastTick_def write_or_drop_def
  write_chunk_def Let_def busy_server_def

lemma up_server_eval:
  "sv_state up_server = seen_up" "sv_sse up_server = [7]" "sv_running up_server = 1"
  by (simp_all add: up_server_def run_defs)

lemma down_server_sent:
  "sv_sent down_server 7 = [tick_frame (error_payload demo_host [] ''boom''), tick_frame (fst stop_tick)]"
  by (simp add: down_server_def up_server_def run_defs)

lemma history_panel_eval:
  "pn_hydrated history_panel" "pn_seen history_panel = []" "pn_stream history_panel" "pn_toasts history_panel = []"
  by (simp_all add: history_panel_def mount_feed_def init_panel_def fetchWatchdog_def applyWatchdogPayload_def failure_payload_def)

lemma before_stop_eval:
  "fd_read before_stop = 1" "written before_stop = [tick_frame (error_payload demo_host [] ''boom''), tick_frame (fst stop_tick)]"
  "pn_hydrated (fd_panel before_stop)" "pn_seen (fd_panel before_stop) = []"
proof -
  have "fd_panel before_stop = applyWatchdogPayload (error_payload demo_host [] ''boom'') (history_panel\<lparr>pn_polling := False\<rparr>)"
    by (simp add: before_stop_def deliver_def written_def init_feed_def down_server_sent Let_def hear_frame history_panel_eval)
  then show "pn_hydrated (fd_panel before_stop)" "pn_seen (fd_panel before_stop) = []"
    by (simp_all add: applyWatchdogPayload_def error_payload_def history_panel_eval)
qed (simp_all add: before_stop_def deliver_def written_def init_feed_def down_server_sent Let_def)

lemma up_server_reach: "server_reach demo_host up_server"
proof -
  have "server_step demo_host init_server (open_stream 7 init_server)"
    by (rule server_step.connected) (simp_all add: init_server_def handle_request_def)
  then have "server_reach demo_host busy_server"
    unfolding busy_server_def by (blast intro: server_reach.intros server_step.timer)
  moreover have "0 < sv_running busy_server" by (simp add: run_defs)
  ultimately show ?thesis
    unfolding up_server_def by (blast intro: server_reach.step server_step.timer server_step.failed)
qed

lemma down_server_reach: "server_reach demo_host down_server"
proof -
  have "runRailwayWatchdogTick (demo_remote ''REMOVED'' 200 1) demo_host (sv_state up_server) init_world
      = (fst stop_tick, fst (snd stop_tick), snd (snd stop_tick))"
    by (simp add: stop_tick_def up_server_eval)
  from server_step.settled [OF _ this] show ?thesis
    unfolding down_server_def by (intro server_reach.step [OF up_server_reach]) (simp add: up_server_eval)
qed

lemma feed_follows_server: "server_reach h sv \<Longrightarrow> feed_reach h ((init_feed c)\<lparr>fd_server := sv\<rparr>)"
proof (induction rule: server_reach.induct)
  case start
  then show ?case using feed_reach.mounted [of h c] by (simp add: init_feed_def)
next
  case (step sv sv')
  then show ?case using feed_reach.step [OF step.IH feed_step.worker [of h _ sv']] by simp
qed

lemma before_stop_reach: "feed_reach demo_host before_stop"
proof -
  have "feed_reach demo_host ((init_feed 7)\<lparr>fd_server := down_server, fd_panel := history_panel, fd_polled := True\<rparr>)"
    using feed_reach.step [OF feed_follows_server [OF down_server_reach] feed_step.polled [of demo_host _ "Some (failure_payload Src_railway [])"], of 7]
    by (simp add: history_panel_def init_feed_def del: panel_step.simps)
  then show ?thesis
    unfolding before_stop_def by (rule feed_reach.step [OF _ feed_step.arrival]) (simp add: written_def init_feed_def down_server_sent)
qed

theorem arriving_events_are_announced_witness:
  "set (pn_seen (fd_panel (deliver before_stop))) = ev_id ` set (pl_events (fst stop_tick))"
  using arriving_events_are_announced [OF before_stop_reach, of "fst stop_tick"] by (simp add: before_stop_eval Let_def)

theorem stopped_service_reaches_the_page_witness:
  "\<exists>text. sv_sent down_server 7 = sv_sent up_server 7 @ [text] \<and>
     (length (pl_events (fst stop_tick)) = 30 \<or>
      (\<exists>ev \<in> set (pl_events (fst stop_tick)). ev_kind ev = Railway_stopped \<and> ev_service ev = ''dashboard'' \<and>
         (\<exists>older first newer. fresh_events {} (pl_events (fst stop_tick)) = older @ first # newer \<and> ev_id first = ev_id ev \<and>
            (length newer < 6 \<longrightarrow> toast_of first \<in> set (pn_toasts (hear_text text history_panel))))))"
proof -
  have "wasActivelyDeployed \<lparr>pe_deploymentStatus = ''SUCCESS'', pe_deploymentId = ''dep1'', pe_onlineStatus = Online\<rparr>"
    by code_simp
  moreover have "isNowStoppedOrNoDeployment ''dep1'' ''REMOVED'' (demo_row ''REMOVED'')" by code_simp
  moreover obtain st' w' where "runRailwayWatchdogTick (demo_remote ''REMOVED'' 200 1) demo_host seen_up init_world = (fst stop_tick, st', w')"
      "st' = fst (snd stop_tick)"
    by (simp add: stop_tick_def prod_eq_iff)
  ultimately show ?thesis
    using stopped_service_reaches_the_page [of demo_host up_server 7 "\<lambda>c. False" history_panel "demo_row ''REMOVED''"
        "\<lparr>pe_deploymentStatus = ''SUCCESS'', pe_deploymentId = ''dep1'', pe_onlineStatus = Online\<rparr>"
        "demo_remote ''REMOVED'' 200 1" init_world "[]"] up_server_reach
    by (simp add: up_server_eval history_panel_eval demo_rows visibility_rows_def down_server_def)
qed

text \<open>Poll and stream agree: the status route of the worker answers with the payload of the last frame.\<close>

lemma poll_and_stream_agree:
  assumes "server_reach h sv" and "sv_lastPayload sv = Some q"
  shows "\<exists>a. handle_request h GET ''/v1/status'' sv = Answer a \<and> tick_data (ha_body a) = Some q
    \<and> (\<forall>c \<in> set (sv_sse sv). last_frame (sv_sent sv c) = Some (tick_frame q))"
  using server_reach_ok [OF assms(1)] by (simp add: handle_request_def assms(2) tick_data_back server_ok_def)

end
