(* ===== verification/ToastStack.thy ===== *)
theory ToastStack
  imports ChaosPanel
begin

text \<open>
  The stack of notifications of the page (\<open>watchdog-toast-stack.tsx\<close>) on top of the toasts of the chaos panel: a row per
  toast with the timer that dismisses it, the stack that fans out while it is hovered or focused, and the look of each row.
  A row is mounted when its toast appears and keeps its timer while the list around it changes.
\<close>

section \<open>Rows\<close>

text \<open>What differs between the rows: the conditional classes, the layer and the rotation.\<close>

record toast_row =
  tr_message :: string
  tr_classes :: "string list"
  tr_zIndex :: int
  tr_rotate :: "rat option"

definition row_classes :: "nat \<Rightarrow> nat \<Rightarrow> bool \<Rightarrow> string list" where
  "row_classes n i expanded =
     (if 0 < i \<and> \<not> expanded then [''-mt-14''] else []) @ (if 0 < i \<and> expanded then [''mt-3''] else [])
     @ (if i = 0 \<and> expanded \<and> 1 < n then [''shadow-xl''] else []) @ (if \<not> expanded \<and> 0 < i then [''opacity-95''] else [])
     @ (if expanded then [''opacity-100''] else [])"

definition toast_row_of :: "nat \<Rightarrow> bool \<Rightarrow> nat \<Rightarrow> toast \<Rightarrow> toast_row" where
  "toast_row_of n expanded i t =
     \<lparr>tr_message = to_message t, tr_classes = row_classes n i expanded, tr_zIndex = int n - int i,
      tr_rotate = (if expanded then Some (fanDeg n i) else None)\<rparr>"

text \<open>The stack: nothing on the server or without toasts, else its label, whether it says that it is expanded, its rows.\<close>

record toast_stack =
  ts_label :: string
  ts_aria_expanded :: "bool option"
  ts_rows :: "toast_row list"

definition WatchdogToastStack :: "bool \<Rightarrow> bool \<Rightarrow> toast list \<Rightarrow> toast_stack option" where
  "WatchdogToastStack isClient expanded toasts =
     (if \<not> isClient \<or> toasts = [] then None
      else let n = length toasts
           in Some \<lparr>ts_label = stack_label n, ts_aria_expanded = (if 1 < n then Some expanded else None),
                    ts_rows = map (\<lambda>(i, t). toast_row_of n expanded i t) (enumerate 0 toasts)\<rparr>)"

section \<open>Timers\<close>

text \<open>
  The page with its clock: for each mounted row the time at which its timer is due, and whether the stack is expanded.
\<close>

record toast_page =
  tp_panel :: panel
  tp_now :: int
  tp_timers :: "(string \<times> int) list"
  tp_expanded :: bool

definition init_toasts :: "int \<Rightarrow> toast_page" where
  "init_toasts now = \<lparr>tp_panel = init_panel, tp_now = now, tp_timers = [], tp_expanded = False\<rparr>"

text \<open>Rendering: rows of toasts that are gone are unmounted (their timers cleared), new rows start a timer.\<close>

definition mount_rows :: "int \<Rightarrow> (string \<times> int) list \<Rightarrow> toast list \<Rightarrow> (string \<times> int) list" where
  "mount_rows now timers toasts =
     map (\<lambda>t. (to_id t, coalesce (map_of timers (to_id t)) (now + AUTO_DISMISS_MS))) toasts"

definition render_toasts :: "panel \<Rightarrow> toast_page \<Rightarrow> toast_page" where
  "render_toasts p s = s\<lparr>tp_panel := p, tp_timers := mount_rows (tp_now s) (tp_timers s) (pn_toasts p)\<rparr>"

definition dismiss :: "string \<Rightarrow> toast_page \<Rightarrow> toast_page" where
  "dismiss i s = render_toasts (panel_step (Dismissed i) (tp_panel s)) s"

text \<open>The handlers of the region, which is there only while there are toasts.\<close>

datatype pointer = Enter | Leave | Focus_in | Focus_out bool

fun hover :: "pointer \<Rightarrow> bool \<Rightarrow> bool" where
  "hover Enter expanded = True"
| "hover Leave expanded = False"
| "hover Focus_in expanded = True"
| "hover (Focus_out stays_inside) expanded = (if stays_inside then expanded else False)"

text \<open>
  Steps: anything that happens to the panel, time passing up to the next timer that is due, a timer that is due, the close
  button of a row, the pointer.
\<close>

inductive toast_step :: "toast_page \<Rightarrow> toast_page \<Rightarrow> bool" where
  happens: "toast_step s (render_toasts (panel_step e (tp_panel s)) s)"
| wait: "0 \<le> d \<Longrightarrow> list_all (\<lambda>(i, due). tp_now s + d \<le> due) (tp_timers s) \<Longrightarrow> toast_step s (s\<lparr>tp_now := tp_now s + d\<rparr>)"
| fire: "(i, due) \<in> set (tp_timers s) \<Longrightarrow> due \<le> tp_now s \<Longrightarrow> toast_step s (dismiss i s)"
| close: "i \<in> to_id ` set (pn_toasts (tp_panel s)) \<Longrightarrow> toast_step s (dismiss i s)"
| hovered: "pn_toasts (tp_panel s) \<noteq> [] \<Longrightarrow> toast_step s (s\<lparr>tp_expanded := hover h (tp_expanded s)\<rparr>)"

inductive toast_reach :: "toast_page \<Rightarrow> bool" where
  mounted: "toast_reach (init_toasts now)"
| step: "toast_reach s \<Longrightarrow> toast_step s t \<Longrightarrow> toast_reach t"

inductive_cases toast_step_cases: "toast_step s t"

section \<open>Lemmas\<close>

text \<open>Every toast on the page has one timer, which runs out within nine seconds and has not run out yet.\<close>

definition toasts_ok :: "toast_page \<Rightarrow> bool" where
  "toasts_ok s \<longleftrightarrow>
     map fst (tp_timers s) = map to_id (pn_toasts (tp_panel s)) \<and> length (pn_toasts (tp_panel s)) \<le> 8 \<and>
     list_all (\<lambda>(i, due). tp_now s \<le> due \<and> due \<le> tp_now s + AUTO_DISMISS_MS) (tp_timers s)"

lemma mount_rows_ids [simp]: "map fst (mount_rows now timers toasts) = map to_id toasts"
  by (simp add: mount_rows_def)

lemma mount_rows_due:
  assumes "list_all (\<lambda>(i, due). now \<le> due \<and> due \<le> now + AUTO_DISMISS_MS) timers"
  shows "list_all (\<lambda>(i, due). now \<le> due \<and> due \<le> now + AUTO_DISMISS_MS) (mount_rows now timers toasts)"
proof -
  have "now \<le> coalesce (map_of timers i) (now + AUTO_DISMISS_MS) \<and> coalesce (map_of timers i) (now + AUTO_DISMISS_MS) \<le> now + AUTO_DISMISS_MS" for i
    using assms by (cases "map_of timers i") (auto simp: AUTO_DISMISS_MS_def list_all_iff dest: map_of_SomeD)
  then show ?thesis by (simp add: mount_rows_def list_all_iff)
qed

lemma toasts_ok_render:
  assumes "toasts_ok s"
  shows "toasts_ok (render_toasts (panel_step e (tp_panel s)) s)"
  using assms announces_step [of e "tp_panel s"] mount_rows_due [of "tp_now s" "tp_timers s"]
  by (simp add: toasts_ok_def render_toasts_def announces_fresh_def del: panel_step.simps)

lemma toasts_ok_step: "toast_step s t \<Longrightarrow> toasts_ok s \<Longrightarrow> toasts_ok t"
proof (induction rule: toast_step.induct)
  case (wait d s)
  then show ?case by (auto simp: toasts_ok_def list_all_iff)
next
  case (hovered s h)
  then show ?case by (simp add: toasts_ok_def)
qed (simp_all add: toasts_ok_render dismiss_def del: panel_step.simps)

lemma toast_reach_ok: "toast_reach s \<Longrightarrow> toasts_ok s"
proof (induction rule: toast_reach.induct)
  case (mounted now)
  show ?case by (simp add: toasts_ok_def init_toasts_def init_panel_def)
qed (rule toasts_ok_step)

text \<open>Rendering never restarts a timer.\<close>

lemma timers_kept:
  "map_of (tp_timers s) i = Some due \<Longrightarrow> i \<in> to_id ` set (pn_toasts p) \<Longrightarrow> map_of (tp_timers (render_toasts p s)) i = Some due"
proof -
  assume due: "map_of (tp_timers s) i = Some due" and "i \<in> to_id ` set (pn_toasts p)"
  then have "map_of (map (\<lambda>t. (to_id t, coalesce (map_of (tp_timers s) (to_id t)) x)) ts) i = Some due"
    if "i \<in> to_id ` set ts" for ts x
    using that by (induction ts) auto
  then show ?thesis using \<open>i \<in> to_id ` set (pn_toasts p)\<close> by (simp add: render_toasts_def mount_rows_def)
qed

section \<open>Properties\<close>

text \<open>C23: notifications go away. In every run of the page with punctual timers, whatever arrives, is clicked or hovered:
  each toast on the page has exactly one timer, which is due within nine seconds from now, and a render, a new toast
  above it or the dismissal of another one leaves it as it was; and at most eight toasts are on the page.
\<close>

theorem toasts_expire:
  assumes "toast_reach s"
  shows "map fst (tp_timers s) = map to_id (pn_toasts (tp_panel s)) \<and> length (pn_toasts (tp_panel s)) \<le> 8
    \<and> list_all (\<lambda>(i, due). due \<in> {tp_now s .. tp_now s + AUTO_DISMISS_MS}) (tp_timers s)
    \<and> (\<forall>e. \<forall>i \<in> to_id ` set (pn_toasts (panel_step e (tp_panel s))).
          map_of (tp_timers s) i \<in> {None, map_of (tp_timers (render_toasts (panel_step e (tp_panel s)) s)) i})"
proof (intro conjI allI ballI)
  show "list_all (\<lambda>(i, due). due \<in> {tp_now s .. tp_now s + AUTO_DISMISS_MS}) (tp_timers s)"
    using toast_reach_ok [OF assms] by (auto simp: toasts_ok_def list_all_iff)
  show "map_of (tp_timers s) i \<in> {None, map_of (tp_timers (render_toasts (panel_step e (tp_panel s)) s)) i}"
    if "i \<in> to_id ` set (pn_toasts (panel_step e (tp_panel s)))" for e i
    using timers_kept [OF _ that, of s] by (cases "map_of (tp_timers s) i") simp_all
qed (use toast_reach_ok [OF assms] in \<open>simp_all add: toasts_ok_def\<close>)

text \<open>
  the fan is balanced. Of the rows of a stack the first lies on top and each one below the one before it, all above
  the page; expanded, the rows are turned by angles that mirror each other, the middle upright, a quarter more than two
  degrees apart; collapsed, none is turned.
\<close>

theorem fan_is_balanced:
  "map tr_zIndex (ts_rows (the (WatchdogToastStack True x (t # ts)))) = rev (map int [1..<Suc (length (t # ts))])
   \<and> (i < n \<longrightarrow> fanDeg n (n - 1 - i) = - fanDeg n i \<and> (Suc i < n \<longrightarrow> fanDeg n (Suc i) - fanDeg n i = 9 / 4))
   \<and> list_all (\<lambda>r. tr_rotate r = None) (ts_rows (the (WatchdogToastStack True False (t # ts))))"
proof (intro conjI impI)
  have "map tr_zIndex (ts_rows (the (WatchdogToastStack True x us))) = map (\<lambda>i. int (length us) - int i) [0..<length us]" if "us \<noteq> []" for us
    using that by (simp add: WatchdogToastStack_def Let_def toast_row_of_def enumerate_eq_zip comp_def case_prod_beta)
      (simp add: map_fst_zip flip: map_map [of "\<lambda>i. int (length us) - int i" fst, unfolded comp_def])
  moreover have "map (\<lambda>i. int n - int i) [0..<n] = rev (map int [1..<Suc n])" for n
    by (rule nth_equalityI) (simp_all add: rev_nth of_nat_diff del: upt_Suc)
  ultimately show "map tr_zIndex (ts_rows (the (WatchdogToastStack True x (t # ts)))) = rev (map int [1..<Suc (length (t # ts))])"
    by simp
  show "list_all (\<lambda>r. tr_rotate r = None) (ts_rows (the (WatchdogToastStack True False (t # ts))))"
    by (simp add: WatchdogToastStack_def Let_def toast_row_of_def list_all_iff case_prod_beta)
next
  assume i: "i < n"
  show "fanDeg n (n - 1 - i) = - fanDeg n i"
  proof (cases "n \<le> 1")
    case False
    have "(of_nat (n - 1 - i) :: rat) = of_nat n - 1 - of_nat i" using i by (simp add: of_nat_diff)
    then show ?thesis using False by (simp add: fanDeg_def field_simps)
  qed (simp add: fanDeg_def)
  assume "Suc i < n"
  then show "fanDeg n (Suc i) - fanDeg n i = 9 / 4" by (simp add: fanDeg_def field_simps)
qed

text \<open>A run: an event is announced, the pointer enters, five seconds pass.\<close>

definition announced_page :: toast_page where
  "announced_page = render_toasts (panel_step (Polled (Some (one_event\<lparr>pl_source := Src_error\<rparr>))) init_panel) (init_toasts 1000)"

definition hovered_page :: toast_page where
  "hovered_page = announced_page\<lparr>tp_expanded := hover Enter (tp_expanded announced_page)\<rparr>"

lemma announced_page_eval:
  "pn_toasts (tp_panel announced_page) = [\<lparr>to_id = ''e1'', to_message = ''m'', to_at = []\<rparr>]"
  "tp_timers announced_page = [(''e1'', 10000)]" "tp_now announced_page = 1000"
  by (simp_all add: announced_page_def render_toasts_def init_toasts_def fetchWatchdog_def applyWatchdogPayload_def one_event_def
      failure_payload_def init_panel_def announce_def toast_of_def add_seen_def mount_rows_def AUTO_DISMISS_MS_def)

lemma hovered_page_reach: "toast_reach hovered_page"
proof -
  have "toast_step (init_toasts 1000) announced_page"
    using toast_step.happens [of "init_toasts 1000"] by (simp add: announced_page_def init_toasts_def del: panel_step.simps)
  then have "toast_reach announced_page" by (rule toast_reach.step [OF toast_reach.mounted])
  then show ?thesis
    unfolding hovered_page_def by (rule toast_reach.step) (rule toast_step.hovered, simp add: announced_page_eval)
qed

lemma hovered_page_eval:
  "pn_toasts (tp_panel hovered_page) = [\<lparr>to_id = ''e1'', to_message = ''m'', to_at = []\<rparr>]"
  "tp_timers hovered_page = [(''e1'', 10000)]" "tp_now hovered_page = 1000" "tp_expanded hovered_page"
  by (simp_all add: hovered_page_def announced_page_eval)

theorem toasts_expire_witness:
  "toast_reach (hovered_page\<lparr>tp_now := 6000\<rparr>) \<and> map fst (tp_timers (hovered_page\<lparr>tp_now := 6000\<rparr>)) = [''e1'']"
proof -
  have "toast_step hovered_page (hovered_page\<lparr>tp_now := tp_now hovered_page + 5000\<rparr>)"
    by (rule toast_step.wait) (simp_all add: hovered_page_eval)
  then have reach: "toast_reach (hovered_page\<lparr>tp_now := 6000\<rparr>)"
    using toast_reach.step [OF hovered_page_reach] by (simp add: hovered_page_eval)
  from toasts_expire [OF reach] show ?thesis using reach by (simp add: hovered_page_eval)
qed

text \<open>
  the stack can open by itself. When the last toast expires under the pointer, no handler collapses the stack, since
  its region is gone; the next notification is shown expanded although nothing points at it.
\<close>

theorem next_toast_opens_expanded:
  "\<exists>s. toast_reach s \<and> pn_toasts (tp_panel s) = [] \<and> tp_expanded s"
proof (intro exI conjI)
  show "toast_reach (dismiss ''e1'' hovered_page)"
    by (rule toast_reach.step [OF hovered_page_reach toast_step.close]) (simp add: hovered_page_eval)
  show "pn_toasts (tp_panel (dismiss ''e1'' hovered_page)) = []" "tp_expanded (dismiss ''e1'' hovered_page)"
    by (simp_all add: dismiss_def render_toasts_def dismissWatchdogToast_def hovered_page_eval)
qed

end
