(* ===== verification/PageBlocks.thy ===== *)
theory PageBlocks
  imports PageTables ToastStack
begin

text \<open>
  What a page consists of: texts, figures, tables, pictures, and controls with the event that each fires. The pages of the
  dashboard are functions from their state to such blocks. A control that is disabled fires nothing; the contract of a page
  is that whatever its enabled controls fire is a step of its machine.
\<close>

section \<open>Blocks\<close>

text \<open>
  A picture is drawn in its own coordinates: horizontal lines by their height, texts by their place, curves by colour,
  and the vertical line at the pointer.
\<close>

record picture =
  pi_width :: rat
  pi_height :: rat
  pi_left :: rat
  pi_right :: rat
  pi_lines :: "rat list"
  pi_texts :: "(rat \<times> rat \<times> string) list"
  pi_curves :: "(string \<times> path_command list) list"
  pi_marker :: "(rat \<times> rat \<times> rat) option"

text \<open>
  Colours, sizes and icons are left out, except where they carry information: an alarm is a figure in red, a swatch a
  coloured mark with its name. A button has its label, whether it shows the spinner, whether it is enabled, and its event;
  a pick is one of several buttons of which the chosen one is highlighted; a box and a choice have their label and value; the controls in
  the cells of a table stand after its rows.
\<close>

datatype 'e block =
    Say string
  | Alert string
  | Figure string string "string option"
  | Alarm string string "string option"
  | Flag badge
  | Swatch string string
  | Mark dot
  | Button string bool bool 'e
  | Pick string bool 'e
  | Toggle string bool "bool \<Rightarrow> 'e"
  | Choice string string "(string \<times> string) list" "string \<Rightarrow> 'e"
  | Box string string bool "string \<Rightarrow> 'e"
  | Bar rat string
  | Link string string
  | Table_of "string list" "page_row list" "'e block list"
  | Drawn picture
  | Tip rat rat "'e block list"
  | Part string "'e block list"

text \<open>What a block lets the user fire.\<close>

fun offers :: "'e block \<Rightarrow> 'e \<Rightarrow> bool" where
  "offers (Button label busy enabled e) x \<longleftrightarrow> enabled \<and> x = e"
| "offers (Pick label chosen e) x \<longleftrightarrow> x = e"
| "offers (Toggle label v f) x \<longleftrightarrow> x = f (\<not> v)"
| "offers (Choice label v options f) x \<longleftrightarrow> list_ex (\<lambda>p. x = f (fst p)) options"
| "offers (Box label v enabled f) x \<longleftrightarrow> enabled \<and> (\<exists>t. x = f t)"
| "offers (Table_of hs rows controls) x \<longleftrightarrow> list_ex (\<lambda>b. offers b x) controls"
| "offers (Tip l t bs) x \<longleftrightarrow> list_ex (\<lambda>b. offers b x) bs"
| "offers (Part title bs) x \<longleftrightarrow> list_ex (\<lambda>b. offers b x) bs"
| "offers b x \<longleftrightarrow> False"

definition page_offers :: "'e block list \<Rightarrow> 'e \<Rightarrow> bool" where
  "page_offers bs x \<longleftrightarrow> list_ex (\<lambda>b. offers b x) bs"

lemma page_offers_simps [simp]:
  "page_offers [] x \<longleftrightarrow> False" "page_offers (b # bs) x \<longleftrightarrow> offers b x \<or> page_offers bs x"
  "page_offers (as @ bs) x \<longleftrightarrow> page_offers as x \<or> page_offers bs x"
  by (auto simp: page_offers_def)

lemma offers_parts [simp]:
  "offers (Part t bs) x \<longleftrightarrow> page_offers bs x" "offers (Tip l h bs) x \<longleftrightarrow> page_offers bs x"
  "offers (Table_of hs rows bs) x \<longleftrightarrow> page_offers bs x"
  by (simp_all add: page_offers_def)

declare offers.simps(6,7,8) [simp del]

lemma page_offers_map: "page_offers (map f xs) x \<longleftrightarrow> (\<exists>p \<in> set xs. offers (f p) x)"
  by (auto simp: page_offers_def list_ex_iff)

lemma page_offers_concat: "page_offers (concat bss) x \<longleftrightarrow> (\<exists>bs \<in> set bss. page_offers bs x)"
  by (auto simp: page_offers_def list_ex_iff)

text \<open>Blocks that appear on a condition.\<close>

abbreviation given :: "bool \<Rightarrow> 'e block list \<Rightarrow> 'e block list" where
  "given c bs \<equiv> (if c then bs else [])"

text \<open>
  What a select element says: the option with its value, and the first option when none has it, as the browser does.
\<close>

definition choice_shown :: "string \<Rightarrow> (string \<times> string) list \<Rightarrow> string" where
  "choice_shown v options = coalesce (map_of options v) (case options of [] \<Rightarrow> [] | p # ps \<Rightarrow> snd p)"

section \<open>The contract of a page\<close>

inductive clicked :: "('s \<Rightarrow> 'e block list) \<Rightarrow> ('e \<Rightarrow> 's \<Rightarrow> 's) \<Rightarrow> 's \<Rightarrow> 's \<Rightarrow> bool" for view act where
  click: "page_offers (view s) e \<Longrightarrow> clicked view act s (act e s)"

inductive_cases clickedE: "clicked view act s t"

locale page =
  fixes view :: "'s \<Rightarrow> 'e block list"
    and act :: "'e \<Rightarrow> 's \<Rightarrow> 's"
    and step :: "'s \<Rightarrow> 's \<Rightarrow> bool"
  assumes controls_act: "page_offers (view s) e \<Longrightarrow> step s (act e s)"
begin

lemma clicked_step: "clicked view act s t \<Longrightarrow> step s t"
  by (erule clickedE) (simp add: controls_act)

lemma clicks_steps: "(clicked view act)\<^sup>*\<^sup>* s t \<Longrightarrow> step\<^sup>*\<^sup>* s t"
  by (induction rule: rtranclp_induct) (auto intro: clicked_step rtranclp.rtrancl_into_rtrancl)

lemma clicks_keep:
  assumes "\<And>s t. step s t \<Longrightarrow> I s \<Longrightarrow> I t"
  shows "(clicked view act)\<^sup>*\<^sup>* s t \<Longrightarrow> I s \<Longrightarrow> I t"
  by (induction rule: rtranclp_induct) (auto intro: assms clicked_step)

end

text \<open>The gridlines and axis texts that the three line charts share.\<close>

definition axis_texts :: "rat \<Rightarrow> (rat \<times> string) list \<Rightarrow> (rat \<times> rat \<times> string) list" where
  "axis_texts x grid = map (\<lambda>(y, label). (x, y + 4, label)) grid"

definition time_texts :: "rat \<Rightarrow> (rat \<times> string) list \<Rightarrow> (rat \<times> rat \<times> string) list" where
  "time_texts y labels = map (\<lambda>(x, label). (x, y, label)) labels"

end
