(* ===== verification/SignalPages.thy ===== *)
theory SignalPages
  imports PageBlocks
begin

text \<open>
  Three pages as they are rendered: the golden signals (\<open>golden-signals.tsx\<close>) with their line charts, the incident
  timeline (\<open>incident-timeline.tsx\<close>) with its filters, and the load-test page (\<open>load-test.tsx\<close>) with its form.
\<close>

section \<open>The golden signals\<close>

definition mini_picture ::
  "string \<Rightarrow> (rat \<Rightarrow> string) \<Rightarrow> (rat \<Rightarrow> int \<times> int \<times> int) \<Rightarrow> rat \<Rightarrow> chart_series list \<Rightarrow> rect \<Rightarrow> mini_tooltip option \<Rightarrow> picture" where
  "mini_picture yLabel fmt local h ss r tip =
     (let f = mini_frame h
      in \<lparr>pi_width = fr_width f, pi_height = fr_height f, pi_left = fr_padLeft f, pi_right = fr_padLeft f + chartW f,
          pi_lines = map fst (mini_grid fmt h ss),
          pi_texts = axis_texts (fr_padLeft f - 8) (mini_grid fmt h ss) @ time_texts (fr_height f - 8) (time_labels local h ss)
            @ [(12, fr_padTop f - 8, yLabel)],
          pi_curves = List.map_filter (\<lambda>s. map_option (\<lambda>p. (cs_color s, p)) (mini_path h ss s)) ss,
          pi_marker = map_option (\<lambda>t. (svg_x (mt_x t) r (fr_width f), fr_padTop f, fr_padTop f + chartH f)) tip\<rparr>)"

definition mini_tip :: "mini_tooltip \<Rightarrow> 'e block" where
  "mini_tip t = Tip (mt_x t) (mt_y t - 10) (Say (mt_time t) # map (\<lambda>(label, color, v). Part v [Swatch color label]) (mt_values t))"

definition MiniChart ::
  "string \<Rightarrow> (rat \<Rightarrow> string) \<Rightarrow> (rat \<Rightarrow> int \<times> int \<times> int) \<Rightarrow> rat \<Rightarrow> chart_series list \<Rightarrow> rect \<Rightarrow> mini_tooltip option \<Rightarrow> 'e block list" where
  "MiniChart yLabel fmt local h ss r tip =
     (if allPoints ss = [] then [Say ''No data from Prometheus. Ensure services are running.'']
      else Drawn (mini_picture yLabel fmt local h ss r tip) # (case tip of None \<Rightarrow> [] | Some t \<Rightarrow> [mini_tip t]))"

definition ChartLegend :: "chart_series list \<Rightarrow> 'e block list" where
  "ChartLegend ss = map (\<lambda>s. Swatch (cs_color s) (cs_label s)) ss"

definition StatBox :: "string \<Rightarrow> string \<Rightarrow> string option \<Rightarrow> bool \<Rightarrow> 'e block" where
  "StatBox label v sub alert = (if alert then Alarm label v sub else Figure label v sub)"

text \<open>Where the pointer is and what it shows belongs to each chart; \<open>r1\<close> and \<open>r2\<close> are the places of the two pictures.\<close>

definition latency_card ::
  "(rat \<Rightarrow> int \<times> int \<times> int) \<Rightarrow> rect \<Rightarrow> mini_tooltip option \<Rightarrow> golden \<Rightarrow> 'e block" where
  "latency_card local r tip s =
     Part ''Latency''
       ([Say ''Request duration percentiles (p50, p95, p99) over the last 30 minutes. Source: Prometheus http_request_duration_seconds histogram.'',
         StatBox ''p50 (median)'' (ms_figure (gd_p50 s)) None False,
         StatBox ''p95'' (ms_figure (gd_p95 s)) None (slo_alert (gd_p95 s)),
         StatBox ''p99'' (ms_figure (gd_p99 s)) (if slo_alert (gd_p99 s) then Some ''Above 2s SLO threshold'' else None) (slo_alert (gd_p99 s))]
        @ (if gd_loading s then [Say ''Loading latency data...'']
           else MiniChart ''ms'' (\<lambda>v. toFixed 0 v @ ''ms'') local 220 (gd_latency s) r tip @ ChartLegend (gd_latency s)))"

definition traffic_card ::
  "(rat \<Rightarrow> int \<times> int \<times> int) \<Rightarrow> rect \<Rightarrow> mini_tooltip option \<Rightarrow> golden \<Rightarrow> 'e block" where
  "traffic_card local r tip s =
     Part ''Traffic''
       ([Say ''Requests per second by status code over the last 30 minutes. Source: Prometheus http_requests_total counter.'',
         StatBox ''Current req/s'' (rps_figure (gd_rps s)) None False,
         StatBox ''Peak req/s (visible)'' (peak_figure (gd_traffic s)) None False,
         StatBox ''Status codes'' (codes_figure (gd_traffic s)) None False]
        @ (if gd_loading s then [Say ''Loading traffic data...'']
           else MiniChart ''req/s'' (toFixed 1) local 220 (gd_traffic s) r tip @ ChartLegend (gd_traffic s)))"

text \<open>A replica: its name and host, two gauges with their figures (red above 80), and four figures.\<close>

definition instance_card :: "instance_stats \<Rightarrow> 'e block" where
  "instance_card d =
     (let fig = (\<lambda>label i alert. StatBox label (instance_figures d ! i) None alert)
      in Part (''Instance '' @ coalesce (st_instance_id d) [])
           [Flag (V_outline, st_hostname d),
            fig ''CPU (process)'' 0 (80 < st_cpu_percent_process d), Bar (usage_width (st_cpu_percent_process d)) (usage_color (st_cpu_percent_process d)),
            fig ''Memory (RSS)'' 1 (80 < st_memory_percent_process d),
            Bar (usage_width (st_memory_percent_process d)) (usage_color (st_memory_percent_process d)),
            fig ''Threads'' 2 False, fig ''Load avg (1m)'' 3 False, fig ''Avg latency'' 4 False, fig ''Uptime'' 5 False])"

definition saturation_card :: "golden \<Rightarrow> 'e block" where
  "saturation_card s =
     Part ''Saturation''
       (Say ''Resource utilization per application instance. Source: /api/instance-stats on each Flask replica.''
        # (if gd_saturation s = []
           then [Say (if gd_loading s then ''Loading instance data...''
                      else ''No instance stats available. Ensure url-shortener replicas are running.'')]
           else map instance_card (gd_saturation s)))"

definition golden_page ::
  "(rat \<Rightarrow> int \<times> int \<times> int) \<Rightarrow> rect \<Rightarrow> mini_tooltip option \<Rightarrow> rect \<Rightarrow> mini_tooltip option \<Rightarrow> golden \<Rightarrow> 'e block list" where
  "golden_page local r1 tip1 r2 tip2 s = [latency_card local r1 tip1 s, traffic_card local r2 tip2 s, saturation_card s]"

section \<open>The incident timeline\<close>

datatype timeline_click = Window int | Severity string | Clear_incidents

text \<open>
  The page with the requests it has sent, the last one at the end, and the clearings under way. A change of a filter and the
  timer ask for the events; choosing what is chosen already changes nothing. The handler of the clear button is a closure: it
  asks, once the clearing is answered, with the filters of the moment of the click.
\<close>

record timeline_use =
  tu_page :: timeline
  tu_sent :: "string list"
  tu_clears :: "timeline list"

definition init_use :: "string option \<Rightarrow> timeline_use" where
  "init_use backend = \<lparr>tu_page = init_timeline, tu_sent = [incidents_url backend init_timeline], tu_clears = []\<rparr>"

definition fetchEvents :: "string option \<Rightarrow> timeline \<Rightarrow> timeline_use \<Rightarrow> timeline_use" where
  "fetchEvents backend p u = u\<lparr>tu_sent := tu_sent u @ [incidents_url backend p]\<rparr>"

definition pick_filter :: "string option \<Rightarrow> timeline \<Rightarrow> timeline_use \<Rightarrow> timeline_use" where
  "pick_filter backend p u = (if p = tu_page u then u else fetchEvents backend p (u\<lparr>tu_page := p\<rparr>))"

definition clear_url :: "string option \<Rightarrow> string" where
  "clear_url backend = incidents_base backend @ ''/api/incidents/clear''"

definition handleClear :: "string option \<Rightarrow> timeline_use \<Rightarrow> timeline_use" where
  "handleClear backend u = u\<lparr>tu_sent := tu_sent u @ [clear_url backend], tu_clears := tu_clears u @ [tu_page u]\<rparr>"

text \<open>The answer to the \<open>i\<close>-th clearing; its status is not looked at, and when the request throws nothing is asked.\<close>

definition clear_answered :: "string option \<Rightarrow> nat \<Rightarrow> thrown + http_response \<Rightarrow> timeline_use \<Rightarrow> timeline_use" where
  "clear_answered backend i r u =
     (if i < length (tu_clears u)
      then let v = u\<lparr>tu_clears := take i (tu_clears u) @ drop (Suc i) (tu_clears u)\<rparr>
           in (case r of Inl e \<Rightarrow> v | Inr a \<Rightarrow> fetchEvents backend (tu_clears u ! i) v)
      else u)"

fun timeline_act :: "string option \<Rightarrow> timeline_click \<Rightarrow> timeline_use \<Rightarrow> timeline_use" where
  "timeline_act backend (Window n) u = pick_filter backend (set_window n (tu_page u)) u"
| "timeline_act backend (Severity v) u = pick_filter backend (set_severity v (tu_page u)) u"
| "timeline_act backend Clear_incidents u = handleClear backend u"

definition window_picks :: "(string \<times> int) list" where
  "window_picks = [(''24h'', 24), (''12h'', 12), (''6h'', 6), (''1h'', 1)]"

definition severity_picks :: "string list" where
  "severity_picks = [[], ''critical'', ''warning'', ''info'']"

definition timeline_filters :: "timeline \<Rightarrow> timeline_click block list" where
  "timeline_filters s =
     map (\<lambda>(label, n). Pick label (tl_windowHours s = n) (Window n)) window_picks
     @ map (\<lambda>v. Pick (str_or v ''All'') (tl_severity s = v) (Severity v)) severity_picks"

definition incident_card :: "(string \<Rightarrow> string) \<Rightarrow> incident \<Rightarrow> timeline_click block" where
  "incident_card local_time e =
     Part (in_title e)
       ([Mark (statusIcon (in_event_type e) (in_status e)), Say (local_time (in_created_at e)), Flag (severityBadge (in_severity e)),
         Flag (V_outline, in_source e)]
        @ given (in_description e \<noteq> []) [Say (in_description e)]
        @ given (in_alert_name e \<noteq> []) [Say (''Alert: '' @ in_alert_name e)])"

definition timeline_page :: "(string \<Rightarrow> string) \<Rightarrow> (string \<Rightarrow> string) \<Rightarrow> timeline \<Rightarrow> timeline_click block list" where
  "timeline_page day local_time s =
     [Part ''Incident Timeline''
        ([Say ''Chronological view of alerts and incidents from Prometheus / Alertmanager'', Button ''Clear'' False True Clear_incidents,
          Figure ''Firing: '' (show_int (int (firingCount (timeline_events s)))) None,
          Figure ''Resolved: '' (show_int (int (resolvedCount (timeline_events s)))) None,
          Figure ''Total: '' (show_int (int (length (timeline_events s)))) None]
         @ timeline_filters s
         @ (case timeline_view_of day s of
              Tv_loading \<Rightarrow> [Say ''Loading timeline...'']
            | Tv_all_clear t \<Rightarrow> [Say t]
            | Tv_groups gs \<Rightarrow> map (\<lambda>(d, es). Part d (map (incident_card local_time) es)) gs))]"

section \<open>The load-test page\<close>

definition vu_picture :: "k6_point list \<Rightarrow> picture" where
  "vu_picture ps =
     (let f = vu_frame
      in \<lparr>pi_width = fr_width f, pi_height = fr_height f, pi_left = fr_padLeft f, pi_right = fr_padLeft f + chartW f,
          pi_lines = map fst (vu_grid ps),
          pi_texts = axis_texts (fr_padLeft f - 6) (vu_grid ps) @ axis_texts (fr_padLeft f + chartW f + 8) (ms_grid ps)
            @ time_texts (fr_height f - 10) (ticksX ps)
            @ [(fr_padLeft f, 14, ''Active VUs''), (fr_padLeft f + chartW f, 14, ''Avg latency''), (fr_width f / 2, fr_height f - 2, ''Elapsed time'')],
          pi_curves = [(''stroke-primary'', pathVu ps), (''stroke-amber-600'', pathMs ps)], pi_marker = None\<rparr>)"

definition VuLatencyChart :: "k6_point list \<Rightarrow> bool \<Rightarrow> 'e block list" where
  "VuLatencyChart ps running =
     (if ps = [] then [Say (no_samples_text running)]
      else [Drawn (vu_picture ps), Swatch ''bg-primary'' ''Active virtual users (left axis)'', Swatch ''bg-amber-600'' ''Average latency (right axis)''])"

datatype load_click = Start json | Stop | Type_vus string | Type_duration string | Type_url string

fun load_act :: "load_click \<Rightarrow> load_test \<Rightarrow> load_test" where
  "load_act (Start b) s = snd (start_click b s)"
| "load_act Stop s = stop_click s"
| "load_act (Type_vus t) s = type_vus t s"
| "load_act (Type_duration t) s = type_duration t s"
| "load_act (Type_url t) s = type_url t s"

definition preset_buttons :: "load_test \<Rightarrow> load_click block list" where
  "preset_buttons s =
     map (\<lambda>(key, p). Button (ps_label p @ '' '' @ show_int (ps_vus p) @ '' VUs '' @ ps_desc p) False
            (\<not> (isRunning (lt_status s) \<or> lt_starting s)) (Start (preset_body key))) PRESETS"

definition custom_form :: "load_test \<Rightarrow> load_click block list" where
  "custom_form s =
     (let running = isRunning (lt_status s)
      in [Box ''Virtual Users'' (show_int (lt_vus s)) (\<not> running) Type_vus, Box ''Duration'' (lt_duration s) (\<not> running) Type_duration,
          Box ''Target URL'' (lt_url s) (\<not> running) Type_url,
          if \<not> running then Button ''Start'' (lt_starting s) (\<not> lt_starting s) (Start (custom_body s))
          else Button ''Stop'' (lt_stopping s) (\<not> lt_stopping s) Stop])"

definition run_figures :: "(int \<Rightarrow> string) \<Rightarrow> k6_status \<Rightarrow> load_click block list" where
  "run_figures grouped st =
     [Figure ''Active VUs'' (show_int (ks_current_vus st)) None, Figure ''Total Requests'' (grouped (ks_requests st)) None,
      Figure ''Errors'' (grouped (ks_errors st)) (error_rate_text st),
      Figure ''Avg Latency'' (toFixed 0 (ks_avg_duration_ms st) @ ''ms'') None,
      Figure ''p95 Latency'' (toFixed 0 (ks_p95_duration_ms st) @ ''ms'') None,
      Figure ''Elapsed'' (show_int (js_round (ks_elapsed_s st)) @ ''s'') None]"

definition error_bar :: "k6_status \<Rightarrow> load_click block list" where
  "error_bar st =
     given (0 < ks_requests st)
       [Figure ''Error Rate'' (toFixed 2 (ks_error_rate st * 100) @ ''%'') None, Bar (error_width st) (error_color (ks_error_rate st)),
        Say ''0%'', Say (threshold_text (ks_error_rate st)), Say ''100%'']"

definition results_card :: "(int \<Rightarrow> string) \<Rightarrow> load_test \<Rightarrow> load_click block list" where
  "results_card grouped s =
     (case lt_status s of
        None \<Rightarrow> []
      | Some st \<Rightarrow>
          (let running = isRunning (lt_status s)
           in given (shows_results (lt_status s))
                [Part ''Live Results''
                   (map Flag (run_badges st)
                    @ [Say (run_line st), Say ''Load over time'',
                       Say ''Active virtual users (primary) and rolling average HTTP latency (amber), sampled about once per second while the test runs.'']
                    @ VuLatencyChart (ks_series st) running @ run_figures grouped st
                    @ given running [Bar (vu_width st) ''bg-primary'', Say ''0 VUs'', Say (show_int (ks_vus st) @ '' VUs (target)'')]
                    @ error_bar st
                    @ given running [Button ''Stop Test'' (lt_stopping s) (\<not> lt_stopping s) Stop])]))"

definition load_page :: "(int \<Rightarrow> string) \<Rightarrow> load_test \<Rightarrow> load_click block list" where
  "load_page grouped s =
     [Part ''Preset Load Tests''
        (Say ''Run the standard Bronze, Silver, or Gold tier tests. These use the same configurations as the k6 scripts in load-tests/.''
         # preset_buttons s),
      Part ''Custom Load Test''
        (Say ''Configure a custom test with your own VU count, duration, and target URL.'' # custom_form s)]
     @ given (truthy (lt_error s)) [Alert (the (lt_error s))]
     @ results_card grouped s"

text \<open>
  The page with the requests under way: the bodies of the starts, and the number of stops. A click that the handler
  refuses sends nothing.
\<close>

record load_use =
  lu_page :: load_test
  lu_starts :: "json list"
  lu_stops :: nat

definition init_load :: "string option \<Rightarrow> load_use" where
  "init_load build_url = \<lparr>lu_page = init_load_test build_url, lu_starts = [], lu_stops = 0\<rparr>"

fun load_do :: "load_click \<Rightarrow> load_use \<Rightarrow> load_use" where
  "load_do (Start b) u =
     (case start_click b (lu_page u) of
        (None, p) \<Rightarrow> u\<lparr>lu_page := p\<rparr>
      | (Some body, p) \<Rightarrow> u\<lparr>lu_page := p, lu_starts := lu_starts u @ [body]\<rparr>)"
| "load_do Stop u =
     u\<lparr>lu_page := stop_click (lu_page u), lu_stops := (if can_stop (lu_page u) then Suc (lu_stops u) else lu_stops u)\<rparr>"
| "load_do (Type_vus t) u = u\<lparr>lu_page := type_vus t (lu_page u)\<rparr>"
| "load_do (Type_duration t) u = u\<lparr>lu_page := type_duration t (lu_page u)\<rparr>"
| "load_do (Type_url t) u = u\<lparr>lu_page := type_url t (lu_page u)\<rparr>"

inductive load_step :: "load_use \<Rightarrow> load_use \<Rightarrow> bool" where
  acts: "load_step u (load_do e u)"
| polled: "load_step u (u\<lparr>lu_page := k6_fetched a (lu_page u)\<rparr>)"
| started: "i < length (lu_starts u) \<Longrightarrow>
     load_step u (u\<lparr>lu_page := start_answered answer a (lu_page u), lu_starts := take i (lu_starts u) @ drop (Suc i) (lu_starts u)\<rparr>)"
| stopped: "lu_stops u = Suc n \<Longrightarrow> load_step u (u\<lparr>lu_page := stop_answered answer' a (lu_page u), lu_stops := n\<rparr>)"

inductive load_reach :: "load_use \<Rightarrow> bool" where
  mounted: "load_reach (init_load build_url)"
| step: "load_reach u \<Longrightarrow> load_step u v \<Longrightarrow> load_reach v"

inductive_cases load_step_cases: "load_step u v"

section \<open>Lemmas\<close>

subsection \<open>The timeline\<close>

lemma timeline_page_offers:
  "page_offers (timeline_page day local_time s) e \<longleftrightarrow>
     e = Clear_incidents \<or> e \<in> set (map (\<lambda>p. Window (snd p)) window_picks) \<or> e \<in> set (map Severity severity_picks)"
proof -
  have card: "\<not> offers (incident_card local_time ev) e" for ev
    by (simp add: incident_card_def)
  have days: "\<not> page_offers (map (\<lambda>(d, es). Part d (map (incident_card local_time) es)) gs) e" for gs
    by (simp add: page_offers_map case_prod_beta card)
  have picks: "page_offers (timeline_filters s) e \<longleftrightarrow>
      e \<in> set (map (\<lambda>p. Window (snd p)) window_picks) \<or> e \<in> set (map Severity severity_picks)"
    by (simp add: timeline_filters_def page_offers_map case_prod_beta image_iff)
  show ?thesis
    by (simp add: timeline_page_def picks days split: timeline_view.split)
qed

text \<open>The timeline in use: its controls, the timer, the answers to clearings, and the events that arrive.\<close>

inductive timeline_used :: "(string \<Rightarrow> string) \<Rightarrow> (string \<Rightarrow> string) \<Rightarrow> string option \<Rightarrow> timeline_use \<Rightarrow> bool"
  for day local_time backend where
  mounted: "timeline_used day local_time backend (init_use backend)"
| clicks: "timeline_used day local_time backend u \<Longrightarrow> page_offers (timeline_page day local_time (tu_page u)) e \<Longrightarrow>
     timeline_used day local_time backend (timeline_act backend e u)"
| polls: "timeline_used day local_time backend u \<Longrightarrow> timeline_used day local_time backend (fetchEvents backend (tu_page u) u)"
| clears: "timeline_used day local_time backend u \<Longrightarrow> timeline_used day local_time backend (clear_answered backend i r u)"
| events: "timeline_used day local_time backend u \<Longrightarrow> timeline_used day local_time backend (u\<lparr>tu_page := events_settle a (tu_page u)\<rparr>)"

definition picked_filters :: "timeline \<Rightarrow> bool" where
  "picked_filters p \<longleftrightarrow> tl_windowHours p \<in> {24, 12, 6, 1} \<and> tl_severity p \<in> {[], ''critical'', ''warning'', ''info''}"

definition sent_ok :: "string option \<Rightarrow> string \<Rightarrow> bool" where
  "sent_ok backend url \<longleftrightarrow> url = clear_url backend \<or> (\<exists>p. picked_filters p \<and> url = incidents_url backend p)"

definition use_ok :: "string option \<Rightarrow> timeline_use \<Rightarrow> bool" where
  "use_ok backend u \<longleftrightarrow> picked_filters (tu_page u) \<and> list_all picked_filters (tu_clears u) \<and> list_all (sent_ok backend) (tu_sent u)"

lemma settle_keeps_filters:
  "tl_windowHours (events_settle a p) = tl_windowHours p" "tl_severity (events_settle a p) = tl_severity p"
  by (auto simp: events_settle_def split: sum.split)

lemma use_ok_fetch: "use_ok backend u \<Longrightarrow> picked_filters p \<Longrightarrow> use_ok backend (fetchEvents backend p u)"
  by (auto simp: use_ok_def fetchEvents_def sent_ok_def)

lemma use_ok_pick: "use_ok backend u \<Longrightarrow> picked_filters p \<Longrightarrow> use_ok backend (pick_filter backend p u)"
  by (auto simp: pick_filter_def use_ok_def fetchEvents_def sent_ok_def)

lemma use_ok_picked: "use_ok backend u \<Longrightarrow> picked_filters (tu_page u)"
  by (simp add: use_ok_def)

lemma use_ok_act:
  assumes "use_ok backend u" and "page_offers (timeline_page day local_time (tu_page u)) e"
  shows "use_ok backend (timeline_act backend e u)"
proof (cases e)
  case (Window n)
  with assms use_ok_picked [OF assms(1)] show ?thesis
    by (auto simp: timeline_page_offers window_picks_def picked_filters_def set_window_def intro!: use_ok_pick)
next
  case (Severity v)
  with assms use_ok_picked [OF assms(1)] show ?thesis
    by (auto simp: timeline_page_offers severity_picks_def picked_filters_def set_severity_def intro!: use_ok_pick)
next
  case Clear_incidents
  with assms show ?thesis by (simp add: handleClear_def use_ok_def sent_ok_def)
qed

lemma use_ok_cleared: "use_ok backend u \<Longrightarrow> use_ok backend (clear_answered backend i r u)"
  by (auto simp: clear_answered_def Let_def use_ok_def fetchEvents_def sent_ok_def list_all_iff
      split: sum.split dest: in_set_takeD in_set_dropD)

lemma timeline_used_ok: "timeline_used day local_time backend u \<Longrightarrow> use_ok backend u"
proof (induction rule: timeline_used.induct)
  case mounted
  have "picked_filters init_timeline" by (simp add: picked_filters_def init_timeline_def)
  then show ?case by (auto simp: init_use_def use_ok_def sent_ok_def)
next
  case (events u a)
  then show ?case by (simp add: use_ok_def picked_filters_def settle_keeps_filters)
qed (simp_all add: use_ok_act use_ok_fetch use_ok_picked use_ok_cleared)

lemma set_window_hours: "tl_windowHours (set_window n p) = n"
  by (simp add: set_window_def)

lemma set_window_same: "set_window n p = p \<Longrightarrow> tl_windowHours p = n"
  by (metis set_window_hours)

text \<open>The highlighted buttons of a row.\<close>

fun chosen_pick :: "'e block \<Rightarrow> bool" where
  "chosen_pick (Pick label chosen e) = chosen"
| "chosen_pick b = False"

subsection \<open>The load-test page\<close>

text \<open>The two flags of the page count the requests under way.\<close>

definition load_counted :: "load_use \<Rightarrow> bool" where
  "load_counted u \<longleftrightarrow> length (lu_starts u) = (if lt_starting (lu_page u) then 1 else 0)
     \<and> lu_stops u = (if lt_stopping (lu_page u) then 1 else 0)"

lemma fetched_flags:
  "lt_starting (k6_fetched a s) = lt_starting s" "lt_stopping (k6_fetched a s) = lt_stopping s"
  by (simp_all add: k6_fetched_def split: option.split)

lemma answered_flags:
  "\<not> lt_starting (start_answered x a s)" "lt_stopping (start_answered x a s) = lt_stopping s"
  "\<not> lt_stopping (stop_answered y a s)" "lt_starting (stop_answered y a s) = lt_starting s"
  by (simp_all add: start_answered_def stop_answered_def fetched_flags split: sum.split)

lemma load_counted_do: "load_counted u \<Longrightarrow> load_counted (load_do e u)"
  by (cases e) (auto simp: load_counted_def start_click_def can_start_def stop_click_def can_stop_def
      type_vus_def type_duration_def type_url_def)

lemma load_counted_step: "load_step u v \<Longrightarrow> load_counted u \<Longrightarrow> load_counted v"
proof (induction rule: load_step.induct)
  case (acts u e)
  then show ?case by (rule load_counted_do)
qed (auto simp: load_counted_def fetched_flags answered_flags split: if_splits)

lemma load_reach_counted: "load_reach u \<Longrightarrow> load_counted u"
proof (induction rule: load_reach.induct)
  case (mounted build_url)
  show ?case by (simp add: load_counted_def init_load_def init_load_test_def)
qed (rule load_counted_step)

interpretation load_view: page "\<lambda>u. load_page grouped (lu_page u)" load_do load_step for grouped
  by unfold_locales (rule load_step.acts)

lemma load_page_parts:
  "\<not> page_offers (VuLatencyChart ps running) e" "\<not> page_offers (run_figures grouped st) e" "\<not> page_offers (error_bar st) e"
  "\<not> page_offers (map Flag bs) e"
  by (auto simp: VuLatencyChart_def run_figures_def error_bar_def page_offers_map)

lemma results_offer: "page_offers (results_card grouped s) e \<longleftrightarrow> e = Stop \<and> can_stop s"
  by (auto simp: results_card_def Let_def load_page_parts can_stop_def shows_results_def isRunning_def split: option.splits)

lemma preset_buttons_offer:
  "page_offers (preset_buttons s) e \<longleftrightarrow> can_start s \<and> e \<in> (\<lambda>p. Start (preset_body (fst p))) ` set PRESETS"
  by (auto simp: preset_buttons_def page_offers_map can_start_def case_prod_beta image_iff)

lemma custom_form_offers:
  "page_offers (custom_form s) e \<longleftrightarrow>
     (if isRunning (lt_status s) then e = Stop \<and> can_stop s
      else (\<exists>t. e = Type_vus t) \<or> (\<exists>t. e = Type_duration t) \<or> (\<exists>t. e = Type_url t)
        \<or> e = Start (custom_body s) \<and> can_start s)"
  by (auto simp: custom_form_def Let_def can_start_def can_stop_def)

lemma load_page_offers:
  "page_offers (load_page grouped s) e \<longleftrightarrow>
     (case e of
        Start b \<Rightarrow> can_start s \<and> (b \<in> set (map (\<lambda>p. preset_body (fst p)) PRESETS) \<or> b = custom_body s)
      | Stop \<Rightarrow> can_stop s
      | _ \<Rightarrow> \<not> isRunning (lt_status s))"
  by (cases e)
    (auto simp: load_page_def preset_buttons_offer custom_form_offers results_offer can_start_def can_stop_def split: if_splits)

section \<open>Properties\<close>

text \<open>
  the filters of the incident timeline. Whatever is clicked and whatever arrives, every request that the page has sent
  clears the incidents or asks for them with one of the offered windows and severities, and exactly one window and
  one severity are highlighted, so what is asked for is never out of sight.
\<close>

theorem timeline_asks_for_what_is_offered:
  assumes "timeline_used day local_time backend u"
  shows "list_all (sent_ok backend) (tu_sent u) \<and> length (filter chosen_pick (timeline_filters (tu_page u))) = 2"
proof -
  have ok: "use_ok backend u" using timeline_used_ok [OF assms] .
  from use_ok_picked [OF this] have "length (filter chosen_pick (timeline_filters (tu_page u))) = 2"
    by (auto simp: picked_filters_def timeline_filters_def window_picks_def severity_picks_def)
  with ok show ?thesis by (simp add: use_ok_def)
qed

definition hour_picked :: timeline_use where
  "hour_picked = timeline_act None (Window 1) (timeline_act None Clear_incidents (init_use None))"

lemma hour_picked_used: "timeline_used (\<lambda>t. t) (\<lambda>t. t) None (clear_answered None 0 (Inr \<lparr>hr_status = 200, hr_json = Inr (JObj []), hr_text = Inr ''{}''\<rparr>) hour_picked)"
  unfolding hour_picked_def
  by (intro timeline_used.clears timeline_used.clicks timeline_used.mounted)
    (simp_all add: timeline_page_offers window_picks_def)

theorem timeline_asks_for_what_is_offered_witness:
  "length (filter chosen_pick (timeline_filters (tu_page (clear_answered None 0 (Inr \<lparr>hr_status = 200, hr_json = Inr (JObj []), hr_text = Inr ''{}''\<rparr>) hour_picked)))) = 2"
  by (rule timeline_asks_for_what_is_offered [OF hour_picked_used, THEN conjunct2])

text \<open>
  the clear button asks with the filters of its click. When another window is picked while the clearing is under way, the
  request that follows it still asks for the window of the click, while the page already says the other.
\<close>

theorem clear_asks_for_clicked_window:
  "(let v = clear_answered backend (length (tu_clears u)) (Inr a) (timeline_act backend (Window n) (timeline_act backend Clear_incidents u))
    in last (tu_sent v) = incidents_url backend (tu_page u) \<and> tl_windowHours (tu_page v) = n)"
  using set_window_same [of n "tu_page u"]
  by (auto simp: Let_def handleClear_def pick_filter_def fetchEvents_def clear_answered_def set_window_hours)

text \<open>
  the line at the pointer. Where the pointer stands over a line chart of the golden signals, the hover line is drawn at
  its place in the picture, from the top to the bottom of the drawing area, and the tip stands at its place on the screen.
\<close>

theorem hover_line_is_under_pointer:
  assumes "rc_width r \<noteq> 0"
  shows "pi_marker (mini_picture yLabel fmt local h ss r (Some (mini_hover local fmt h ss r clientX))) =
      Some (svg_x clientX r 900, fr_padTop (mini_frame h), fr_padTop (mini_frame h) + chartH (mini_frame h)) \<and>
    mt_x (mini_hover local fmt h ss r clientX) = clientX"
proof -
  have x: "mt_x (mini_hover local fmt h ss r clientX) = clientX"
    using assms by (simp add: mini_hover_def svg_x_def Let_def) (simp add: field_simps)
  then show ?thesis by (simp add: mini_picture_def mini_frame_def Let_def)
qed

theorem hover_line_is_under_pointer_witness:
  "mt_x (mini_hover (\<lambda>t. (0, 0, 0)) (toFixed 1) 220 [] \<lparr>rc_left = 10, rc_top = 0, rc_width = 450, rc_height = 110\<rparr> 100) = 100"
  by (rule hover_line_is_under_pointer [THEN conjunct2]) simp

text \<open>C20: the buttons of the load-test page agree with its handlers, and there is one request at a time. However the page is
  used, at most one start and one stop are under way; a start is offered exactly while no start is under way and no
  test runs, with the body of a preset or of the form, and the click sends it; a stop exactly while a test runs and no stop is
  under way.
\<close>

theorem load_requests_one_at_a_time:
  assumes "load_reach u"
  shows "length (lu_starts u) \<le> 1 \<and> lu_stops u \<le> 1 \<and>
    (page_offers (load_page grouped (lu_page u)) (Start b) \<longleftrightarrow>
       lu_starts u = [] \<and> \<not> isRunning (lt_status (lu_page u)) \<and> lu_starts (load_do (Start b) u) = [b]
       \<and> (b \<in> set (map (\<lambda>p. preset_body (fst p)) PRESETS) \<or> b = custom_body (lu_page u))) \<and>
    (page_offers (load_page grouped (lu_page u)) Stop \<longleftrightarrow> lu_stops u = 0 \<and> isRunning (lt_status (lu_page u)))"
proof -
  have counted: "load_counted u" by (rule load_reach_counted [OF assms])
  then have few: "length (lu_starts u) \<le> 1" "lu_stops u \<le> 1" by (simp_all add: load_counted_def split: if_splits)
  from counted have start: "can_start (lu_page u) \<longleftrightarrow> lu_starts u = [] \<and> \<not> isRunning (lt_status (lu_page u))"
    by (auto simp: load_counted_def can_start_def split: if_splits)
  from counted have stop: "can_stop (lu_page u) \<longleftrightarrow> lu_stops u = 0 \<and> isRunning (lt_status (lu_page u))"
    by (auto simp: load_counted_def can_stop_def split: if_splits)
  have sends: "lu_starts (load_do (Start b) u) = (if can_start (lu_page u) then lu_starts u @ [b] else lu_starts u)"
    by (simp add: start_click_def)
  have "page_offers (load_page grouped (lu_page u)) (Start b) \<longleftrightarrow>
      can_start (lu_page u) \<and> lu_starts (load_do (Start b) u) = lu_starts u @ [b]
      \<and> (b \<in> set (map (\<lambda>p. preset_body (fst p)) PRESETS) \<or> b = custom_body (lu_page u))"
    unfolding load_page_offers sends load_click.case by simp
  also have "\<dots> \<longleftrightarrow> lu_starts u = [] \<and> \<not> isRunning (lt_status (lu_page u)) \<and> lu_starts (load_do (Start b) u) = [b]
      \<and> (b \<in> set (map (\<lambda>p. preset_body (fst p)) PRESETS) \<or> b = custom_body (lu_page u))"
    unfolding start by (rule iffI) (elim conjE, simp)+
  finally show ?thesis using few stop by (simp only: load_page_offers load_click.case)
qed

definition bronze_started :: load_use where
  "bronze_started = load_do (Start (preset_body ''bronze'')) (init_load None)"

theorem load_requests_one_at_a_time_witness:
  "length (lu_starts bronze_started) = 1 \<and> \<not> page_offers (load_page show_int (lu_page bronze_started)) (Start (preset_body ''bronze''))"
proof -
  have r: "load_reach bronze_started"
    unfolding bronze_started_def by (rule load_reach.step [OF load_reach.mounted load_step.acts])
  have one: "length (lu_starts bronze_started) = 1"
    by (simp add: bronze_started_def init_load_def start_click_def can_start_def init_load_test_def isRunning_def)
  moreover have "\<not> page_offers (load_page show_int (lu_page bronze_started)) (Start (preset_body ''bronze''))"
  proof
    assume "page_offers (load_page show_int (lu_page bronze_started)) (Start (preset_body ''bronze''))"
    then have "lu_starts bronze_started = []"
      by (rule load_requests_one_at_a_time [OF r, THEN conjunct2, THEN conjunct2, THEN conjunct1, THEN iffD1, THEN conjunct1])
    with one show False by simp
  qed
  ultimately show ?thesis ..
qed

end
