(* ===== verification/ChaosTab.thy ===== *)
theory ChaosTab
  imports PageBlocks
begin

text \<open>
  The chaos tab as it is rendered (\<open>chaos-panel.tsx\<close>): the card of the watchdog, the card of the services with the one
  that is watched, the dialog that confirms an action; and the tab in use, with the requests that it sends.
\<close>

section \<open>The card of the watchdog\<close>

definition u_rsquo :: string where "u_rsquo = [CHR 0xE2, CHR 0x80, CHR 0x99]"

definition watchdog_description :: "WatchdogPayload option \<Rightarrow> string" where
  "watchdog_description wd =
     (case wd of
        None \<Rightarrow> ''Loading watchdog status'' @ u_ellipsis
      | Some p \<Rightarrow>
          if pl_source p = Src_railway
          then ''HTTP heartbeats are for visibility only unless you set RAILWAY_HEARTBEAT_RECOVER=1 (off by default '' @ u_emdash
            @ '' probes are not reliable enough to auto-redeploy). Prefer Railway'' @ u_rsquo
            @ ''s CRASHED/FAILED auto-redeploy (RAILWAY_WATCHDOG_AUTO_RECOVER, on by default). If you enable heartbeat recover, use RAILWAY_HEARTBEAT_RECOVER_COOLDOWN_MS (default 1h) and RAILWAY_HEARTBEAT_MAX_RECOVER (default 1). Toasts and log below.''
          else ''Local stack: the compose-watchdog service scans Compose containers on each interval (starts exited tasks, restarts unhealthy ones). Alerts appear at the top-right when it acts.'')"

text \<open>
  The share of the interval that has run, as text and as a bar. \<^const>\<open>None\<close> is \<open>NaN\<close>: its width is not valid, and the
  bar keeps its full width.
\<close>

definition progress_text :: "rat option \<Rightarrow> string" where
  "progress_text prog = (case prog of None \<Rightarrow> ''NaN%'' | Some q \<Rightarrow> show_int (js_round (q * 100)) @ ''%'')"

definition progress_width :: "rat option \<Rightarrow> rat" where
  "progress_width prog = (case prog of None \<Rightarrow> 100 | Some q \<Rightarrow> min 100 (q * 100))"

definition log_tail :: "WatchdogPayload \<Rightarrow> 'e block list" where
  "log_tail p =
     given (coalesce (pl_logTail p) [] \<noteq> [] \<and> pl_source p \<noteq> Src_unconfigured)
       [Part (''Watchdog log (recent) '' @ u_emdash @ '' '' @ (if pl_source p = Src_railway then ''Railway polls'' else ''compose-watchdog''))
          [Say (js_join [CHR 0x0A] (coalesce (pl_logTail p) []))]]"

definition api_calls :: "WatchdogPayload \<Rightarrow> 'e block list" where
  "api_calls p =
     given (coalesce (pl_apiActivity p) [] \<noteq> [] \<and> pl_source p = Src_railway)
       [Part ''Recent GraphQL / HTTP calls (hosted worker)''
          [Say (js_join [CHR 0x0A] (map activity_text (coalesce (pl_apiActivity p) [])))]]"

definition watchdog_card :: "rat option \<Rightarrow> WatchdogPayload option \<Rightarrow> 'e block" where
  "watchdog_card prog wd =
     Part ''Watchdog''
       (Say (watchdog_description wd)
        # (case wd of
             None \<Rightarrow> []
           | Some p \<Rightarrow>
               (case watchdog_notice wd of
                  None \<Rightarrow> []
                | Some t \<Rightarrow> [if pl_source p = Src_unconfigured then Say t else Alert t])
               @ given (shows_progress wd) [Say (scan_text p), Say (progress_text prog), Bar (progress_width prog) ''bg-primary'']
               @ log_tail p @ api_calls p))"

section \<open>The card of the services\<close>

definition chaos_title :: "bool \<Rightarrow> string" where
  "chaos_title railway = (if railway then ''Service chaos (Railway)'' else ''Container chaos (local Docker)'')"

definition chaos_description :: "bool \<Rightarrow> string" where
  "chaos_description railway =
     (if railway
      then ''Reboot calls Railway deploymentRestart on the active deployment. Kill calls deploymentStop '' @ u_emdash
        @ '' traffic fails until the watchdog runs serviceInstanceDeploy(latest) (see Watchdog card; set RAILWAY_WATCHDOG_AUTO_RECOVER=0 to disable).''
      else ''Reboot runs docker restart (graceful stop, then start). Kill sends SIGKILL only (watchdog restarts later). Watch status after either action. See ARCHITECTURE.md for Desktop restart quirks.'')"

text \<open>The box of the watched service, with the button that ends the watching.\<close>

definition watch_box :: "(string \<Rightarrow> RailwayOnlineStatus) \<Rightarrow> panel \<Rightarrow> panel_event block list" where
  "watch_box read_status p =
     given (truthy (pn_watchService p))
       [Part (''Watching '' @ the (pn_watchService p) @ '' (every 2s)'')
          (Button ''Stop'' False True Watch_stopped
           # given (truthy (pn_watchError p)) [Say (the (pn_watchError p))]
           @ (case watch_view_of read_status p of
                No_watch \<Rightarrow> []
              | Watch_message t \<Rightarrow> [Say t]
              | Watch_fields fs \<Rightarrow> map (\<lambda>(label, texts). Part label (map Say texts)) fs))]"

text \<open>The three buttons of a row; the two actions are enabled together.\<close>

definition row_buttons :: "panel_config option \<Rightarrow> panel_docker option \<Rightarrow> panel_container \<Rightarrow> panel_event block list" where
  "row_buttons cfg d c =
     [Button ''Watch'' False True (Watch_clicked (pc_service c)), Button ''Reboot'' False (canKill cfg d c) (Clicked c Restart),
      Button ''Kill'' False (canKill cfg d c) (Clicked c Kill)]"

definition chaos_card ::
  "(string \<Rightarrow> string \<Rightarrow> bool) \<Rightarrow> (string \<Rightarrow> RailwayOnlineStatus) \<Rightarrow> panel \<Rightarrow> panel_event block" where
  "chaos_card le read_status p =
     (let d = pn_docker p; cfg = pn_config p; railway = from_railway d
      in Part (chaos_title railway)
           ([Say (chaos_description railway), Button ''Refresh'' (pn_loading p) (\<not> pn_loading p) Docker_requested]
            @ (case Option.bind cfg pf_hint of None \<Rightarrow> [] | Some h \<Rightarrow> given (h \<noteq> []) [Say h])
            @ given (\<not> (case cfg of None \<Rightarrow> False | Some f \<Rightarrow> pf_supportsDockerKill f) \<and> railway)
                [Say ''Set a Railway API token on this service so Kill/Reboot can call the GraphQL API. The watchdog also needs the token to poll and auto-redeploy.'']
            @ given (truthy (Option.bind d pd_error)) [Alert (the (Option.bind d pd_error))]
            @ watch_box read_status p
            @ [Table_of (chaos_headings d) (chaos_rows le p) (concat (map (row_buttons cfg d) (sorted_containers le d)))]))"

section \<open>The dialog\<close>

definition dialog_description :: "panel_container \<Rightarrow> chaos_action \<Rightarrow> bool \<Rightarrow> string" where
  "dialog_description c a railway =
     (case (a, railway) of
        (Kill, True) \<Rightarrow> ''This calls Railway deploymentStop on the active deployment. The watchdog can redeploy latest automatically (unless RAILWAY_WATCHDOG_AUTO_RECOVER=0).''
      | (Kill, False) \<Rightarrow> ''This sends docker kill (SIGKILL) only '' @ u_emdash
          @ '' it does not start the container. The compose-watchdog service (or Docker's restart policy) will bring it back; expect traffic to fail until then.''
      | (Restart, True) \<Rightarrow> ''This calls Railway deploymentRestart for '' @ pc_service c @ '' (graceful restart of the running deployment).''
      | (Restart, False) \<Rightarrow> ''This runs docker restart on '' @ pc_name c @ '' (graceful stop, then start). Expect a short outage for that service.'')"

definition dialog_card :: "panel \<Rightarrow> panel_event block list" where
  "dialog_card p =
     (case (pn_pending p, dialog_of p) of
        (Some (c, a), Some d) \<Rightarrow>
          [Part (dl_title d)
             ([Say (dialog_description c a (from_railway (pn_docker p))), Say (''Target: '' @ dl_target d)]
              @ (case dl_error d of None \<Rightarrow> [] | Some e \<Rightarrow> [Alert e])
              @ [Button ''Cancel'' False (\<not> pn_busy p) Cancelled,
                 Button (coalesce (dl_button d) []) (dl_button d = None) (\<not> pn_busy p) Submitted])]
      | _ \<Rightarrow> [])"

definition toast_controls :: "panel \<Rightarrow> panel_event block list" where
  "toast_controls p = map (\<lambda>t. Button ''Dismiss'' False True (Dismissed (to_id t))) (pn_toasts p)"

definition chaos_page ::
  "(string \<Rightarrow> string \<Rightarrow> bool) \<Rightarrow> (string \<Rightarrow> RailwayOnlineStatus) \<Rightarrow> rat option \<Rightarrow> panel \<Rightarrow> panel_event block list" where
  "chaos_page le read_status prog p =
     toast_controls p @ [watchdog_card prog (pn_watchdog p), chaos_card le read_status p] @ dialog_card p"

section \<open>The tab in use\<close>

text \<open>
  The tab with the chaos requests under way (what was captured at the click) and all that were sent. Services and their
  configuration arrive together; the configuration is the one of the server whose environment is \<open>h\<close>.
\<close>

record chaos_use =
  cu_panel :: panel
  cu_flying :: "(panel_docker option \<times> panel_container \<times> chaos_action) list"
  cu_sent :: "(string \<times> chaos_body) list"

definition init_chaos :: chaos_use where
  "init_chaos = \<lparr>cu_panel = init_panel, cu_flying = [], cu_sent = []\<rparr>"

definition chaos_act :: "panel_event \<Rightarrow> chaos_use \<Rightarrow> chaos_use" where
  "chaos_act e u =
     (let p = cu_panel u; v = u\<lparr>cu_panel := panel_step e p\<rparr>
      in case (e, pn_pending p, fst (submit_start p)) of
           (Submitted, Some (c, a), Some r) \<Rightarrow>
             v\<lparr>cu_flying := cu_flying u @ [(pn_docker p, c, a)], cu_sent := cu_sent u @ [r]\<rparr>
         | _ \<Rightarrow> v)"

text \<open>What happens by itself.\<close>

inductive chaos_event :: "host \<Rightarrow> panel_event \<Rightarrow> bool" for h where
  "chaos_event h Docker_requested"
| "chaos_event h (Docker_settled None)"
| "chaos_event h (Docker_settled (Some (d, read_config (rp_body (chaos_config_GET h)))))"
| "chaos_event h Feed_mounted"
| "chaos_event h (Polled r)"
| "chaos_event h (Ticked j)"
| "chaos_event h Stream_failed"
| "chaos_event h Feed_unmounted"
| "chaos_event h Status_requested"
| "chaos_event h (Status_settled s)"
| "chaos_event h (Dismissed i)"

inductive chaos_used :: "host \<Rightarrow> (string \<Rightarrow> string \<Rightarrow> bool) \<Rightarrow> (string \<Rightarrow> RailwayOnlineStatus) \<Rightarrow> chaos_use \<Rightarrow> bool"
  for h le read_status where
  mounted: "chaos_used h le read_status init_chaos"
| clicks: "chaos_used h le read_status u \<Longrightarrow> page_offers (chaos_page le read_status prog (cu_panel u)) e \<Longrightarrow>
     chaos_used h le read_status (chaos_act e u)"
| happens: "chaos_used h le read_status u \<Longrightarrow> chaos_event h e \<Longrightarrow> chaos_used h le read_status (chaos_act e u)"
| answers: "chaos_used h le read_status u \<Longrightarrow> i < length (cu_flying u) \<Longrightarrow> cu_flying u ! i = (d, c, a) \<Longrightarrow>
     chaos_used h le read_status
       (u\<lparr>cu_panel := panel_step (Submit_settled d c a toast_id now r) (cu_panel u),
          cu_flying := take i (cu_flying u) @ drop (Suc i) (cu_flying u)\<rparr>)"

section \<open>Lemmas\<close>

subsection \<open>What the tab offers\<close>

fun chaos_offers :: "panel \<Rightarrow> panel_event \<Rightarrow> bool" where
  "chaos_offers p Docker_requested = True"
| "chaos_offers p Watch_stopped = True"
| "chaos_offers p (Watch_clicked svc) = True"
| "chaos_offers p (Dismissed i) = True"
| "chaos_offers p (Clicked c a) = canKill (pn_config p) (pn_docker p) c"
| "chaos_offers p Cancelled = (\<not> pn_busy p)"
| "chaos_offers p Submitted = (\<not> pn_busy p \<and> pn_pending p \<noteq> None)"
| "chaos_offers p e = False"

lemma toast_controls_offer: "page_offers (toast_controls p) e \<Longrightarrow> chaos_offers p e"
  by (auto simp: toast_controls_def page_offers_map)

lemma watchdog_card_offers: "\<not> offers (watchdog_card prog wd) e"
  by (auto simp: watchdog_card_def log_tail_def api_calls_def split: option.splits)

lemma watch_box_offers: "page_offers (watch_box r p) e \<Longrightarrow> e = Watch_stopped"
  by (auto simp: watch_box_def page_offers_map split: watch_view.splits if_splits prod.splits)

lemma row_buttons_offer:
  "page_offers (row_buttons cfg d c) e \<Longrightarrow> e = Watch_clicked (pc_service c) \<or> canKill cfg d c \<and> (e = Clicked c Restart \<or> e = Clicked c Kill)"
  by (auto simp: row_buttons_def)

lemma chaos_card_offers: "offers (chaos_card le r p) e \<Longrightarrow> chaos_offers p e"
  by (auto simp: chaos_card_def Let_def page_offers_concat dest!: watch_box_offers row_buttons_offer split: option.splits if_splits)

lemma dialog_card_offers:
  "page_offers (dialog_card p) e \<longleftrightarrow> pn_pending p \<noteq> None \<and> \<not> pn_busy p \<and> (e = Cancelled \<or> e = Submitted)"
  by (auto simp: dialog_card_def dialog_of_def split: option.splits)

lemma chaos_page_offers: "page_offers (chaos_page le r prog p) e \<Longrightarrow> chaos_offers p e"
  by (auto simp: chaos_page_def watchdog_card_offers dialog_card_offers dest: toast_controls_offer chaos_card_offers)

lemma submitted_offered: "page_offers (chaos_page le r prog p) Submitted \<longleftrightarrow> pn_pending p \<noteq> None \<and> \<not> pn_busy p"
  using chaos_page_offers [of le r prog p Submitted] by (auto simp: chaos_page_def dialog_card_offers)

subsection \<open>What keeps the dialog\<close>

definition keeps_dialog :: "panel \<Rightarrow> panel \<Rightarrow> bool" where
  "keeps_dialog p q \<longleftrightarrow> pn_config q = pn_config p \<and> pn_pending q = pn_pending p \<and> pn_busy q = pn_busy p"

lemma keeps_trans: "keeps_dialog p q \<Longrightarrow> keeps_dialog q r \<Longrightarrow> keeps_dialog p r"
  by (simp add: keeps_dialog_def)

lemma keeps_fold: "(\<And>x p. keeps_dialog p (f x p)) \<Longrightarrow> keeps_dialog p (fold f xs p)"
  by (induction xs arbitrary: p) (simp_all add: keeps_dialog_def)

lemma keeps_add: "keeps_dialog p (add_seen i p)" "keeps_dialog p (announce ev p)"
  by (simp_all add: keeps_dialog_def add_seen_def announce_def Let_def)

lemma keeps_apply: "keeps_dialog p (applyWatchdogPayload j p)"
proof -
  have "keeps_dialog p (p\<lparr>pn_watchdog := Some j\<rparr>)" "keeps_dialog p (p\<lparr>pn_watchdog := Some j, pn_hydrated := True\<rparr>)"
    by (simp_all add: keeps_dialog_def)
  then show ?thesis
    using keeps_fold [of "\<lambda>ev. add_seen (ev_id ev)", OF keeps_add(1)] keeps_fold [of announce, OF keeps_add(2)]
    by (auto simp: applyWatchdogPayload_def Let_def intro: keeps_trans)
qed

definition server_config :: "host \<Rightarrow> panel_config" where
  "server_config h = read_config (rp_body (chaos_config_GET h))"

text \<open>A request that names a service the server allows, while chaos actions are switched on.\<close>

definition sent_approved :: "host \<Rightarrow> string \<times> chaos_body \<Rightarrow> bool" where
  "sent_approved h r \<longleftrightarrow> (\<exists>d c a. r = (submit_url a, submit_body d c) \<and> approved h (Inr (submit_body d c)) (pc_service c))"

definition dialog_ok :: "host \<Rightarrow> panel \<Rightarrow> bool" where
  "dialog_ok h p \<longleftrightarrow> pn_config p \<in> {None, Some (server_config h)} \<and>
     (case pn_pending p of None \<Rightarrow> True | Some (c, a) \<Rightarrow> chaosKillEnabled h \<and> isServiceKillAllowed h (pc_service c))"

definition chaos_ok :: "host \<Rightarrow> chaos_use \<Rightarrow> bool" where
  "chaos_ok h u \<longleftrightarrow> dialog_ok h (cu_panel u) \<and> length (cu_flying u) = (if pn_busy (cu_panel u) then 1 else 0)
     \<and> list_all (sent_approved h) (cu_sent u)"

lemma approved_submit: "approved h (Inr (submit_body d c)) (pc_service c) \<longleftrightarrow> chaosKillEnabled h \<and> isServiceKillAllowed h (pc_service c)"
  by (simp add: approved_def submit_confirms)

lemma dialog_ok_keeps: "dialog_ok h p \<Longrightarrow> keeps_dialog p q \<Longrightarrow> dialog_ok h q"
  by (simp add: dialog_ok_def keeps_dialog_def)

lemma dialog_ok_click:
  assumes "dialog_ok h p" and "canKill (pn_config p) (pn_docker p) c"
  shows "dialog_ok h (openChaos c a p)"
proof -
  from assms have "pn_config p = Some (server_config h)" by (auto simp: dialog_ok_def canKill_def showKill_def Let_def)
  with assms(2) have "chaosKillEnabled h \<and> isServiceKillAllowed h (pc_service c)"
    by (simp add: server_config_def canKill_iff_approved approved_submit)
  with assms(1) show ?thesis by (simp add: dialog_ok_def openChaos_def)
qed

lemma panel_keeps:
  "keeps_dialog p (panel_step Docker_requested p)" "keeps_dialog p (panel_step Feed_mounted p)" "keeps_dialog p (panel_step (Polled r) p)"
  "keeps_dialog p (panel_step (Ticked j) p)" "keeps_dialog p (panel_step Stream_failed p)" "keeps_dialog p (panel_step Feed_unmounted p)"
  "keeps_dialog p (panel_step Status_requested p)" "keeps_dialog p (panel_step (Status_settled s) p)"
  "keeps_dialog p (panel_step (Watch_clicked svc) p)" "keeps_dialog p (panel_step Watch_stopped p)" "keeps_dialog p (panel_step (Dismissed i) p)"
  using keeps_apply [of p] keeps_apply [of "p\<lparr>pn_polling := False\<rparr>"]
  by (auto simp: panel_ops fetchWatchdog_def stream_tick_def keeps_dialog_def split: option.split sum.split)

lemma chaos_act_plain: "e \<noteq> Submitted \<Longrightarrow> chaos_act e u = u\<lparr>cu_panel := panel_step e (cu_panel u)\<rparr>"
  by (cases e) (simp_all add: chaos_act_def Let_def)

lemma chaos_ok_keeps: "chaos_ok h u \<Longrightarrow> keeps_dialog (cu_panel u) q \<Longrightarrow> chaos_ok h (u\<lparr>cu_panel := q\<rparr>)"
  using dialog_ok_keeps [of h "cu_panel u" q] by (simp add: chaos_ok_def keeps_dialog_def)

lemma chaos_ok_submit:
  assumes "chaos_ok h u" and "chaos_offers (cu_panel u) Submitted"
  shows "chaos_ok h (chaos_act Submitted u)"
proof -
  from assms(2) obtain c a where p: "pn_pending (cu_panel u) = Some (c, a)" "\<not> pn_busy (cu_panel u)" by auto
  with assms(1) have "sent_approved h (submit_url a, submit_body (pn_docker (cu_panel u)) c)"
    by (auto simp: chaos_ok_def dialog_ok_def sent_approved_def approved_submit)
  with p assms(1) show ?thesis
    by (simp add: chaos_act_def Let_def submit_start_def chaos_ok_def dialog_ok_def)
qed

lemma chaos_ok_click:
  assumes "chaos_ok h u" and "chaos_offers (cu_panel u) e"
  shows "chaos_ok h (chaos_act e u)"
proof (cases e)
  case (Clicked c a)
  with assms show ?thesis
    using dialog_ok_click [of h "cu_panel u" c a] by (simp add: chaos_act_plain chaos_ok_def openChaos_def)
next
  case Cancelled
  with assms show ?thesis by (simp add: chaos_act_plain chaos_ok_def dialog_ok_def cancelChaos_def)
next
  case Submitted
  with assms show ?thesis by (simp only: chaos_ok_submit)
qed (use assms in \<open>simp_all add: chaos_act_plain chaos_ok_keeps panel_keeps del: panel_step.simps\<close>)

lemma chaos_ok_event: "chaos_event h e \<Longrightarrow> chaos_ok h u \<Longrightarrow> chaos_ok h (chaos_act e u)"
proof (induction rule: chaos_event.induct)
  case 2
  then show ?case by (simp add: chaos_act_plain chaos_ok_def dialog_ok_def fetchDocker_def)
next
  case (3 d)
  then show ?case by (simp add: chaos_act_plain chaos_ok_def dialog_ok_def fetchDocker_def server_config_def)
qed (simp_all add: chaos_act_plain chaos_ok_keeps panel_keeps del: panel_step.simps)

lemma chaos_ok_answer:
  assumes "chaos_ok h u" and "i < length (cu_flying u)"
  shows "chaos_ok h (u\<lparr>cu_panel := panel_step (Submit_settled d c a toast_id now r) (cu_panel u),
    cu_flying := take i (cu_flying u) @ drop (Suc i) (cu_flying u)\<rparr>)"
  using assms by (auto simp: chaos_ok_def dialog_ok_def submit_settle_def split: sum.split if_splits)

text \<open>The handlers behind the enabled controls, what happens by itself, and the answers to the requests under way.\<close>

inductive chaos_step :: "host \<Rightarrow> chaos_use \<Rightarrow> chaos_use \<Rightarrow> bool" for h where
  handled: "chaos_offers (cu_panel u) e \<Longrightarrow> chaos_step h u (chaos_act e u)"
| arrived: "chaos_event h e \<Longrightarrow> chaos_step h u (chaos_act e u)"
| answered: "i < length (cu_flying u) \<Longrightarrow>
     chaos_step h u (u\<lparr>cu_panel := panel_step (Submit_settled d c a toast_id now r) (cu_panel u),
       cu_flying := take i (cu_flying u) @ drop (Suc i) (cu_flying u)\<rparr>)"

lemma chaos_ok_step: "chaos_step h u v \<Longrightarrow> chaos_ok h u \<Longrightarrow> chaos_ok h v"
proof (induction rule: chaos_step.induct)
  case (answered i u d c a toast_id now r)
  then show ?case by (simp only: chaos_ok_answer)
qed (simp_all add: chaos_ok_click chaos_ok_event)

interpretation chaos_view: page "\<lambda>u. chaos_page le read_status prog (cu_panel u)" chaos_act "chaos_step h" for le read_status prog h
  by unfold_locales (rule chaos_step.handled, rule chaos_page_offers)

lemma chaos_used_ok: "chaos_used h le read_status u \<Longrightarrow> chaos_ok h u"
proof (induction rule: chaos_used.induct)
  case mounted
  show ?case by (simp add: chaos_ok_def dialog_ok_def init_chaos_def init_panel_def)
next
  case (clicks u prog e)
  from chaos_view.controls_act [OF clicks(2)] show ?case by (rule chaos_ok_step) (rule clicks.IH)
next
  case (happens u e)
  then show ?case by (auto intro: chaos_ok_step chaos_step.arrived)
next
  case (answers u i d c a toast_id now r)
  show ?case by (rule chaos_ok_step [OF chaos_step.answered [OF answers(2)] answers.IH])
qed

section \<open>Properties\<close>

text \<open>C8: the requests of the chaos tab. Whatever is clicked, whatever arrives and whenever the list of services changes under an open
  dialog: every kill and reboot that the tab sends names a service that the server's policy approves, at most one is under
  way, and the dialog can be confirmed exactly while it is open and none is.
\<close>

theorem chaos_requests_are_approved:
  assumes "chaos_used h le read_status u"
  shows "list_all (sent_approved h) (cu_sent u) \<and> length (cu_flying u) \<le> 1 \<and>
    (page_offers (chaos_page le read_status prog (cu_panel u)) Submitted \<longleftrightarrow> pn_pending (cu_panel u) \<noteq> None \<and> cu_flying u = [])"
  using chaos_used_ok [OF assms] by (auto simp: chaos_ok_def submitted_offered split: if_splits)

definition redis_row :: panel_container where
  "redis_row = \<lparr>pc_id = ''c1'', pc_name = ''redis-1'', pc_state = ''running'', pc_status = ''Up'', pc_service = ''redis'', pc_health = None,
     pc_railwayServiceId = None, pc_railwayOnlineStatus = None, pc_heartbeat = None\<rparr>"

definition redis_list :: panel_docker where
  "redis_list = \<lparr>pd_source = Some ''docker'', pd_project = ''app'', pd_containers = [redis_row], pd_error = None\<rparr>"

definition redis_loaded :: chaos_use where
  "redis_loaded = chaos_act (Docker_settled (Some (redis_list, read_config (rp_body (chaos_config_GET chaos_host))))) init_chaos"

definition redis_killed :: chaos_use where
  "redis_killed = chaos_act Submitted (chaos_act (Clicked redis_row Kill) redis_loaded)"

lemma redis_killed_used: "chaos_used chaos_host (\<lambda>a b. True) read_online redis_killed"
proof -
  have "canKill (pn_config (cu_panel redis_loaded)) (pn_docker (cu_panel redis_loaded)) redis_row" by code_simp
  then have "page_offers (chaos_page (\<lambda>a b. True) read_online None (cu_panel redis_loaded)) (Clicked redis_row Kill)"
    by (auto simp: chaos_page_def chaos_card_def Let_def page_offers_concat row_buttons_def sorted_containers_def redis_loaded_def
        chaos_act_plain fetchDocker_def redis_list_def)
  moreover have "chaos_used chaos_host (\<lambda>a b. True) read_online redis_loaded"
    unfolding redis_loaded_def by (rule chaos_used.happens [OF chaos_used.mounted chaos_event.intros(3)])
  ultimately have "chaos_used chaos_host (\<lambda>a b. True) read_online (chaos_act (Clicked redis_row Kill) redis_loaded)"
    by (rule chaos_used.clicks [rotated])
  then show ?thesis
    unfolding redis_killed_def
    by (rule chaos_used.clicks [where prog = None])
      (simp add: submitted_offered chaos_act_plain openChaos_def redis_loaded_def fetchDocker_def init_chaos_def init_panel_def)
qed

theorem chaos_requests_are_approved_witness:
  "list_all (sent_approved chaos_host) (cu_sent redis_killed) \<and> length (cu_sent redis_killed) = 1"
  by (rule conjI [OF chaos_requests_are_approved [OF redis_killed_used, THEN conjunct1]])
    (simp add: redis_killed_def redis_loaded_def chaos_act_def Let_def submit_start_def openChaos_def fetchDocker_def init_chaos_def init_panel_def)

text \<open>
  the box of the watched service does not forget the one before. A click on another row renames the box at once, while
  the fields in it stay those of the service that was watched before until the next answer.
\<close>

theorem watch_box_keeps_old_fields:
  "pn_watchService (panel_step (Watch_clicked svc) p) = Some svc \<and>
   watch_view_of read_status (panel_step (Watch_clicked svc) p) = watch_view_of read_status p"
  by (simp add: watch_def watch_view_of_def)

end
