(* ===== verification/LogPage.thy ===== *)
theory LogPage
  imports PageBlocks JsonText
begin

text \<open>
  The log page as it is rendered (\<open>unified-log-monitor.tsx\<close>): the cards of the cache and of the stream, the filter
  controls, the chart with its tooltip, and the table whose rows open to the full record. Each control fires an event of
  the machine of \<open>LogMonitor\<close>.
\<close>

section \<open>The chart\<close>

definition frequency_picture :: "series_shown \<Rightarrow> bucket list \<Rightarrow> tooltip option \<Rightarrow> picture" where
  "frequency_picture sh bs tip =
     (let f = graph_frame sh
      in \<lparr>pi_width = fr_width f, pi_height = fr_height f, pi_left = fr_padLeft f, pi_right = fr_padLeft f + chartW f,
          pi_lines = map fst (gridLines sh bs),
          pi_texts = axis_texts (fr_padLeft f - 8) (gridLines sh bs) @ time_texts (fr_height f - 8) (xLabels sh bs)
            @ [(14, fr_padTop f - 10, ''Counts / min'')]
            @ (if sh_error_rate sh then [(fr_width f - 8, fr_padTop f - 10, ''Error rate %'')] else []),
          pi_curves = (if sh_requests sh then [(''#22c55e'', reqPath sh bs)] else [])
            @ (if sh_errors sh then [(''#ef4444'', errPath sh bs)] else [])
            @ (if sh_error_rate sh then [(''#f59e0b'', ratePath sh bs)] else []),
          pi_marker = map_option (\<lambda>x. (x, fr_padTop f, fr_padTop f + chartH f)) (crosshair sh bs tip)\<rparr>)"

definition GraphTooltip :: "(string \<Rightarrow> string \<Rightarrow> bool) \<Rightarrow> tooltip \<Rightarrow> 'e block" where
  "GraphTooltip le t =
     (let b = tt_bucket t
      in Tip (tt_x t) (tt_y t - 10)
           (Say (bk_minute b)
            # Say (''Requests: '' @ show_int (bk_total b) @ '' '' @ u_middot @ '' Errors: '' @ show_int (bk_errors b) @ '' ''
                   @ u_middot @ '' Rate: '' @ toFixed 1 (bk_error_rate b) @ ''%'')
            # map (\<lambda>(code, n). Figure code (show_int n @ ''x'') None) (tooltip_breakdown le b)))"

section \<open>The controls\<close>

datatype log_click =
    Edits filter_edit
  | Types string
  | Chips string
  | Reloads
  | Pauses bool
  | Opens string
  | Clears
  | Shows series_shown

fun log_act :: "log_click \<Rightarrow> monitor \<Rightarrow> monitor" where
  "log_act (Edits e) s = set_filters (edit_filters e (lm_filters s)) s"
| "log_act (Types t) s = type_search t s"
| "log_act (Chips i) s = toggle_instance i s"
| "log_act Reloads s = refresh_logs s"
| "log_act (Pauses b) s = set_pause b s"
| "log_act (Opens k) s = toggle_log_row k s"
| "log_act Clears s = clear_click s"
| "log_act (Shows sh) s = s\<lparr>lm_shows := sh\<rparr>"

definition window_options :: "(string \<times> string) list" where
  "window_options = [(''15'', ''15 min''), (''60'', ''60 min''), (''120'', ''2 h''), (''360'', ''6 h''), (''720'', ''12 h''), (''1440'', ''24 h'')]"

definition instance_options :: "(string \<times> string) list" where
  "instance_options = [([], ''All instances''), (''1'', ''Instance 1 (replica A)''), (''2'', ''Instance 2 (replica B)'')]"

definition level_options :: "(string \<times> string) list" where
  "level_options = [([], ''Any''), (''DEBUG'', ''DEBUG''), (''INFO'', ''INFO''), (''WARNING'', ''WARNING''), (''ERROR'', ''ERROR'')]"

text \<open>\<open>Number(e.target.value)\<close> of an option; all of them are whole numbers.\<close>

definition read_window :: "string \<Rightarrow> int" where
  "read_window t = coalesce (js_parseInt t) 0"

definition filter_controls :: "monitor \<Rightarrow> log_click block list" where
  "filter_controls s =
     (let f = lm_filters s
      in [Choice ''Window'' (show_int (fl_windowMinutes f)) window_options (\<lambda>t. Edits (Edit_window (read_window t))),
          Choice ''Instance'' (fl_logInstance f) instance_options (\<lambda>t. Edits (Edit_instance t)),
          Choice ''Level'' (fl_logLevel f) level_options (\<lambda>t. Edits (Edit_level t)),
          Box ''HTTP status'' (fl_status f) True (\<lambda>t. Edits (Edit_status t)),
          Box ''Limit'' (show_int (fl_logLimit f)) True (\<lambda>t. Edits (Edit_limit t)),
          Box ''Search (message / logger / path)'' (lm_search s) True Types])"

definition series_controls :: "monitor \<Rightarrow> log_click block list" where
  "series_controls s =
     (let sh = lm_shows s
      in [Say ''Series:'', Toggle ''Requests'' (sh_requests sh) (\<lambda>b. Shows (sh\<lparr>sh_requests := b\<rparr>)),
          Toggle ''Errors'' (sh_errors sh) (\<lambda>b. Shows (sh\<lparr>sh_errors := b\<rparr>)),
          Toggle ''Error rate %'' (sh_error_rate sh) (\<lambda>b. Shows (sh\<lparr>sh_error_rate := b\<rparr>))])"

section \<open>The cards\<close>

definition stat_labels :: "string list" where
  "stat_labels = [''Buffered'', ''Total ingested'', ''HTTP requests (tracked)'', ''Global error rate'']"

text \<open>The first card: what the backend holds, with a button per instance that filters for it and is highlighted while it does.\<close>

definition cache_card :: "monitor \<Rightarrow> log_click block" where
  "cache_card s =
     Part ''Kafka log cache''
       ([Say ''Flask replicas publish structured logs; the dashboard backend keeps a ring buffer and persists to Postgres. Filters below apply to both the frequency chart and the log list.'']
        @ (case lm_logStats s of
             None \<Rightarrow> []
           | Some st \<Rightarrow> given (truthy (ls_error st)) [Alert (error_with_hint (the (ls_error st)) (ls_hint st))])
        @ map (\<lambda>(label, v). Figure label v None) (zip stat_labels (stat_figures (lm_logStats s)))
        @ (case lm_logStats s of
             None \<Rightarrow> []
           | Some st \<Rightarrow> map (\<lambda>p. Pick (instance_chip p) (fl_logInstance (lm_filters s) = fst p) (Chips (fst p))) (ls_instances st)))"

text \<open>The figures of the window, with \<open>toLocaleString\<close> for the counts.\<close>

definition summary_figures :: "(int \<Rightarrow> string) \<Rightarrow> log_summary \<Rightarrow> log_click block list" where
  "summary_figures grouped sm =
     [Figure ''Recent error rate (last 5 min)'' (toFixed 2 (sm_current_rate sm) @ ''%'') None, Flag (current_rate_badge sm),
      Figure ''Errors in window'' (grouped (sm_total_errors sm)) None,
      Figure ''Requests in window (chart)'' (grouped (sm_total_requests sm)) None,
      Figure ''Peak errors / min'' (show_int (sm_peak_errors sm)) None]"

definition log_buckets :: "monitor \<Rightarrow> bucket list" where
  "log_buckets s = (case lm_insights s of None \<Rightarrow> [] | Some i \<Rightarrow> is_buckets i)"

definition log_lines :: "monitor \<Rightarrow> log_entry list" where
  "log_lines s = (case lm_insights s of None \<Rightarrow> [] | Some i \<Rightarrow> is_logs i)"

text \<open>The chart, or why there is none.\<close>

definition chart_area :: "(string \<Rightarrow> string \<Rightarrow> bool) \<Rightarrow> monitor \<Rightarrow> log_click block list" where
  "chart_area le s =
     (if lm_loading s \<and> log_buckets s = [] then [Say (''Loading'' @ u_ellipsis)]
      else if log_buckets s = [] then [Say ''No bucketed data for this window. Generate traffic or widen filters.'']
      else Drawn (frequency_picture (lm_shows s) (log_buckets s) (lm_tooltip s))
           # (case lm_tooltip s of None \<Rightarrow> [] | Some t \<Rightarrow> [GraphTooltip le t]))"

section \<open>The table\<close>

definition log_headings :: "string list" where
  "log_headings = [[], ''Time'', ''Level'', ''Status'', ''Instance'', ''Request ID'', ''Request'', ''Duration'', ''Message'']"

definition log_row_cells :: "(string \<Rightarrow> string) \<Rightarrow> bool \<Rightarrow> log_entry \<Rightarrow> page_cell list" where
  "log_row_cells local_time opened row =
     (let c = log_cells_of local_time row
      in [Text (if opened then ''v'' else ''>''), Text (lc_time c), State (lc_level c),
          (case lc_status c of Some b \<Rightarrow> State b | None \<Rightarrow> Text u_emdash), Text (lc_instance c), Text (lc_request_id c),
          Text (lc_request c), Text (lc_duration c), Text (lc_message c)])"

definition log_table_rows :: "(string \<Rightarrow> string) \<Rightarrow> monitor \<Rightarrow> page_row list" where
  "log_table_rows local_time s =
     (let rows = log_lines s; failed = (case lm_insights s of None \<Rightarrow> False | Some i \<Rightarrow> truthy (is_error i))
      in (if rows = [] \<and> \<not> failed then [Spanning 9 ''No matching log lines.''] else [])
         @ concat (map (\<lambda>(i, row).
             let opened = (lm_expanded s = Some (rowKey row i))
             in Cells (log_row_cells local_time opened row)
                # (if opened then [Spanning 9 (json_pretty 0 (JObj row))] else [])) (enumerate 0 rows)))"

text \<open>A click anywhere on a row opens or closes it.\<close>

definition row_clicks :: "monitor \<Rightarrow> log_click block list" where
  "row_clicks s = map (\<lambda>(i, row). Button [] False True (Opens (rowKey row i))) (enumerate 0 (log_lines s))"

definition log_table :: "(string \<Rightarrow> string) \<Rightarrow> monitor \<Rightarrow> log_click block list" where
  "log_table local_time s =
     [Say ''Log entries'', Say ''Click a row to expand the full structured record (JSON). Request bodies are only present if the API logs them.'',
      Table_of log_headings (log_table_rows local_time s) (row_clicks s)]"

section \<open>The page\<close>

definition stream_card ::
  "(string \<Rightarrow> string \<Rightarrow> bool) \<Rightarrow> (string \<Rightarrow> string) \<Rightarrow> (int \<Rightarrow> string) \<Rightarrow> monitor \<Rightarrow> log_click block" where
  "stream_card le local_time grouped s =
     Part ''Log frequency & stream''
       ([Say ''Per-minute HTTP request lines (green) and error count 4xx/5xx (red). Chart uses the same filters as the table. Polls every 2.5s.'',
         Button ''Clear'' False (lm_clearing s = Clear_idle) Clears, Toggle ''Pause'' (lm_pause s) Pauses,
         Button ''Refresh'' (lm_loading s) (\<not> lm_loading s) Reloads]
        @ filter_controls s @ series_controls s
        @ (case lm_insights s of None \<Rightarrow> [] | Some i \<Rightarrow> summary_figures grouped (is_summary i))
        @ (case lm_insights s of
             None \<Rightarrow> []
           | Some i \<Rightarrow> given (truthy (is_error i)) [Alert (error_with_hint (the (is_error i)) (is_hint i))])
        @ chart_area le s
        @ [Say (''Overall error rate (window): '' @ toFixed 2 (overallRate (lm_insights s)) @ ''%'')]
        @ log_table local_time s)"

definition log_page ::
  "(string \<Rightarrow> string \<Rightarrow> bool) \<Rightarrow> (string \<Rightarrow> string) \<Rightarrow> (int \<Rightarrow> string) \<Rightarrow> monitor \<Rightarrow> log_click block list" where
  "log_page le local_time grouped s = [cache_card s, stream_card le local_time grouped s]"

text \<open>Every control of the page is a step of the machine, so what holds along its runs holds whatever is clicked.\<close>

interpretation log_view: page "log_page le local_time grouped" log_act monitor_step for le local_time grouped
proof
  show "monitor_step s (log_act e s)" for s e
    by (cases e) (auto intro: monitor_step.intros)
qed

text \<open>
  The page in use: its enabled controls, and what happens by itself: timers, answers, the pointer, and the operations page
  that asks for an instance.
\<close>

inductive log_use ::
  "(string \<Rightarrow> string \<Rightarrow> bool) \<Rightarrow> (string \<Rightarrow> string) \<Rightarrow> (int \<Rightarrow> string) \<Rightarrow> monitor \<Rightarrow> bool" for le local_time grouped where
  mounted: "log_use le local_time grouped init_monitor"
| clicks: "log_use le local_time grouped s \<Longrightarrow> page_offers (log_page le local_time grouped s) e \<Longrightarrow>
     log_use le local_time grouped (log_act e s)"
| debounced: "log_use le local_time grouped s \<Longrightarrow> log_use le local_time grouped (search_timer s)"
| asked: "log_use le local_time grouped s \<Longrightarrow> log_use le local_time grouped (instance_jump i s)"
| polls: "log_use le local_time grouped s \<Longrightarrow> log_use le local_time grouped (poll_logs s)"
| posts: "log_use le local_time grouped s \<Longrightarrow> log_use le local_time grouped (clear_posted r s)"
| answers: "log_use le local_time grouped s \<Longrightarrow> (g, f) \<in> set (lm_pending s) \<Longrightarrow> log_use le local_time grouped (logs_settle g f a s)"
| hovers: "log_use le local_time grouped s \<Longrightarrow> log_use le local_time grouped (s\<lparr>lm_tooltip := t\<rparr>)"

lemma log_use_reach: "log_use le local_time grouped s \<Longrightarrow> monitor_reach s"
proof (induction rule: log_use.induct)
  case (clicks s e)
  from log_view.controls_act [OF clicks(2)] show ?case by (rule monitor_reach.step [OF clicks.IH])
qed (auto intro: monitor_reach.intros monitor_step.intros)

section \<open>Which requests the controls can make\<close>

definition offered_filters :: "filters \<Rightarrow> bool" where
  "offered_filters f \<longleftrightarrow>
     fl_windowMinutes f \<in> {15, 60, 120, 360, 720, 1440} \<and> fl_logLevel f \<in> {[], ''DEBUG'', ''INFO'', ''WARNING'', ''ERROR''}
     \<and> fl_logLimit f \<noteq> 0"

definition requests_ok :: "monitor \<Rightarrow> bool" where
  "requests_ok s \<longleftrightarrow> offered_filters (lm_filters s) \<and> list_all (\<lambda>r. offered_filters (snd r)) (lm_pending s)
     \<and> (case lm_clearing s of Clear_posting f \<Rightarrow> offered_filters f | _ \<Rightarrow> True)"

lemma requests_ok_start: "requests_ok s \<Longrightarrow> offered_filters f \<Longrightarrow> requests_ok (logs_start f s)"
  by (auto simp: requests_ok_def logs_start_def)

lemma requests_ok_filters: "requests_ok s \<Longrightarrow> offered_filters f \<Longrightarrow> requests_ok (set_filters f s)"
  by (auto simp: set_filters_def requests_ok_def logs_start_def)

lemma offered_same:
  "offered_filters f \<Longrightarrow> offered_filters (f\<lparr>fl_logInstance := i\<rparr>)" "offered_filters f \<Longrightarrow> offered_filters (f\<lparr>fl_search := t\<rparr>)"
  "offered_filters f \<Longrightarrow> offered_filters (f\<lparr>fl_status := t\<rparr>)" "offered_filters f \<Longrightarrow> offered_filters (f\<lparr>fl_logLimit := read_limit t\<rparr>)"
  by (auto simp: offered_filters_def read_limit_def split: option.split)

lemma read_window_options:
  "read_window ''15'' = 15" "read_window ''60'' = 60" "read_window ''120'' = 120" "read_window ''360'' = 360"
  "read_window ''720'' = 720" "read_window ''1440'' = 1440"
  by code_simp+

text \<open>Which group of blocks offers what.\<close>

lemma cache_card_offers: "offers (cache_card s) e \<Longrightarrow> \<exists>i. e = Chips i"
  by (auto simp: cache_card_def page_offers_map split: option.splits if_splits)

lemma chart_area_offers: "\<not> page_offers (chart_area le s) e"
  by (auto simp: chart_area_def GraphTooltip_def Let_def page_offers_map split: option.splits prod.splits)

lemma log_table_offers: "page_offers (log_table local_time s) e \<Longrightarrow> \<exists>k. e = Opens k"
  by (auto simp: log_table_def row_clicks_def page_offers_map)

lemma summary_offers: "\<not> page_offers (summary_figures grouped sm) e"
  by (simp add: summary_figures_def)

lemma filter_controls_offer:
  "page_offers (filter_controls s) e \<longleftrightarrow>
     (\<exists>n \<in> {15, 60, 120, 360, 720, 1440}. e = Edits (Edit_window n)) \<or> (\<exists>i \<in> {[], ''1'', ''2''}. e = Edits (Edit_instance i))
     \<or> (\<exists>l \<in> {[], ''DEBUG'', ''INFO'', ''WARNING'', ''ERROR''}. e = Edits (Edit_level l))
     \<or> (\<exists>t. e = Edits (Edit_status t)) \<or> (\<exists>t. e = Edits (Edit_limit t)) \<or> (\<exists>t. e = Types t)"
  by (auto simp: filter_controls_def Let_def window_options_def instance_options_def level_options_def read_window_options)

text \<open>Every edit of the filters on the page comes from the row of filter controls.\<close>

lemma edits_from_controls:
  "page_offers (log_page le local_time grouped s) (Edits e) \<longleftrightarrow> page_offers (filter_controls s) (Edits e)"
  using cache_card_offers [of s "Edits e"] log_table_offers [of local_time s "Edits e"]
  by (auto simp: log_page_def stream_card_def chart_area_offers summary_offers series_controls_def Let_def split: option.splits if_splits)

lemma requests_ok_frame:
  "lm_filters t = lm_filters s \<Longrightarrow> lm_pending t = lm_pending s \<Longrightarrow> lm_clearing t = lm_clearing s \<Longrightarrow> requests_ok s \<Longrightarrow> requests_ok t"
  by (simp add: requests_ok_def)

lemma requests_ok_offered: "requests_ok s \<Longrightarrow> offered_filters (lm_filters s)"
  by (simp add: requests_ok_def)

lemma requests_ok_clicks:
  assumes "requests_ok s" and "page_offers (log_page le local_time grouped s) e"
  shows "requests_ok (log_act e s)"
proof (cases e)
  case (Edits x)
  with assms(2) have "page_offers (filter_controls s) (Edits x)" by (simp add: edits_from_controls)
  with requests_ok_offered [OF assms(1)] have "offered_filters (edit_filters x (lm_filters s))"
    by (auto simp: filter_controls_offer offered_same) (auto simp: offered_filters_def)
  with Edits assms(1) show ?thesis by (simp add: requests_ok_filters)
next
  case (Chips i)
  with assms(1) show ?thesis
    by (simp add: toggle_instance_def requests_ok_filters offered_same requests_ok_offered)
next
  case Reloads
  with assms(1) show ?thesis by (simp add: refresh_logs_def requests_ok_start requests_ok_offered)
next
  case Clears
  with assms(1) show ?thesis by (simp add: clear_click_def requests_ok_def)
qed (use assms(1) in \<open>auto simp: type_search_def set_pause_def toggle_log_row_def elim: requests_ok_frame [rotated 3]\<close>)

lemma requests_ok_posted: "requests_ok s \<Longrightarrow> requests_ok (clear_posted r s)"
  by (auto simp: requests_ok_def clear_posted_def logs_start_def split: clear_phase.splits sum.splits)

lemma requests_ok_settle: "requests_ok s \<Longrightarrow> requests_ok (logs_settle g f a s)"
  by (auto simp: requests_ok_def logs_settle_def Let_def list_all_iff split: option.splits clear_phase.splits)

lemma requests_ok_timer: "requests_ok s \<Longrightarrow> requests_ok (search_timer s)"
  by (auto simp: search_timer_def offered_same requests_ok_offered split: option.split
      intro!: requests_ok_filters elim: requests_ok_frame [rotated 3])

lemma log_use_ok: "log_use le local_time grouped s \<Longrightarrow> requests_ok s"
proof (induction rule: log_use.induct)
  case mounted
  show ?case by (simp add: requests_ok_def init_monitor_def offered_filters_def init_filters_def)
next
  case (clicks s e)
  then show ?case by (simp add: requests_ok_clicks)
next
  case (asked s i)
  then show ?case by (simp add: instance_jump_def requests_ok_filters offered_same requests_ok_offered)
next
  case (polls s)
  then show ?case by (simp add: poll_logs_def requests_ok_start requests_ok_offered)
next
  case (hovers s t)
  then show ?case by (auto elim: requests_ok_frame [rotated 3])
qed (simp_all add: requests_ok_posted requests_ok_settle requests_ok_timer)

section \<open>Rows and the record below one\<close>

lemma json_pretty_read: "json_parse (json_pretty n j) = Some j"
  by (rule reads_parse) (rule pretty_reads)

text \<open>The row of line \<open>j\<close>, marked as open when \<open>k\<close> names it.\<close>

abbreviation line_row :: "(string \<Rightarrow> string) \<Rightarrow> log_entry list \<Rightarrow> nat option \<Rightarrow> nat \<Rightarrow> page_row" where
  "line_row local_time rows k j \<equiv> Cells (log_row_cells local_time (k = Some j) (rows ! j))"

lemma nothing_below: "concat (map (\<lambda>j. [f j]) xs) = map f xs"
  by (induction xs) simp_all

lemma inserted_below:
  "i < n \<Longrightarrow> concat (map (\<lambda>j. f j # (if j = i then [d] else [])) [0..<n]) = map f [0..<Suc i] @ d # map f [Suc i..<n]"
proof (induction n)
  case (Suc n)
  show ?case
  proof (cases "i = n")
    case True
    have "map (\<lambda>j. f j # (if j = n then [d] else [])) [0..<n] = map (\<lambda>j. [f j]) [0..<n]" by simp
    then have "concat (map (\<lambda>j. f j # (if j = n then [d] else [])) [0..<n]) = map f [0..<n]" by (simp only: nothing_below)
    with True show ?thesis by simp
  qed (use Suc in simp)
qed simp

lemma enumerate_upt: "enumerate 0 xs = map (\<lambda>j. (j, xs ! j)) [0..<length xs]"
  by (rule nth_equalityI) (simp_all add: nth_enumerate_eq)

lemma log_rows_indexed:
  assumes "log_lines s \<noteq> []"
  shows "log_table_rows local_time s = concat (map (\<lambda>j.
      Cells (log_row_cells local_time (lm_expanded s = Some (rowKey (log_lines s ! j) j)) (log_lines s ! j))
      # (if lm_expanded s = Some (rowKey (log_lines s ! j) j) then [Spanning 9 (json_pretty 0 (JObj (log_lines s ! j)))] else []))
      [0..<length (log_lines s)])"
  using assms by (simp add: log_table_rows_def Let_def enumerate_upt comp_def)

lemma table_closed:
  assumes "log_lines s \<noteq> []" and "lm_expanded s = None"
  shows "log_table_rows local_time s = map (line_row local_time (log_lines s) None) [0..<length (log_lines s)]"
  using assms by (simp add: log_rows_indexed nothing_below)

lemma table_open:
  assumes i: "i < length (log_lines s)" and "lm_expanded s = Some (rowKey (log_lines s ! i) i)"
  shows "log_table_rows local_time s =
    map (line_row local_time (log_lines s) (Some i)) [0..<Suc i] @ Spanning 9 (json_pretty 0 (JObj (log_lines s ! i)))
    # map (line_row local_time (log_lines s) (Some i)) [Suc i..<length (log_lines s)]"
proof -
  have key: "lm_expanded s = Some (rowKey (log_lines s ! j) j) \<longleftrightarrow> j = i" for j
    using assms(2) by (auto dest: rowKey_inject)
  have some: "(Some i = Some j) = (j = i)" for j by auto
  have detail: "(if j = i then [Spanning 9 (json_pretty 0 (JObj (log_lines s ! j)))] else [])
      = (if j = i then [Spanning 9 (json_pretty 0 (JObj (log_lines s ! i)))] else [])" for j by simp
  have some_line: "log_lines s \<noteq> []" using i by auto
  show ?thesis unfolding log_rows_indexed [OF some_line] key detail some by (rule inserted_below [OF i])
qed

section \<open>Properties\<close>

text \<open>C19: the requests of the log page ask for what its controls offer. Whatever the user clicks and types, whatever arrives and in
  whatever order, and whichever instance the operations page asks for: the filters of the page, of every request under way
  and of a clearing under way have one of the six windows, one of the four levels or none, and a limit that is not zero.
\<close>

theorem log_requests_are_offered:
  assumes "log_use le local_time grouped s"
  shows "offered_filters (lm_filters s) \<and> list_all (\<lambda>r. offered_filters (snd r)) (lm_pending s) \<and>
    (case lm_clearing s of Clear_posting f \<Rightarrow> offered_filters f | _ \<Rightarrow> True)"
  using log_use_ok [OF assms] by (simp only: requests_ok_def)

text \<open>Errors of the last day: two controls, and no other way to the page.\<close>

definition day_of_errors :: monitor where
  "day_of_errors = log_act (Edits (Edit_level ''ERROR'')) (log_act (Edits (Edit_window 1440)) init_monitor)"

lemma day_of_errors_used: "log_use (\<lambda>a b. True) (\<lambda>t. t) show_int day_of_errors"
  unfolding day_of_errors_def
  by (rule log_use.clicks [OF log_use.clicks [OF log_use.mounted]])
    (simp_all add: edits_from_controls filter_controls_offer)

theorem log_requests_are_offered_witness:
  "offered_filters (lm_filters day_of_errors) \<and> length (lm_pending day_of_errors) = 3"
  by (rule conjI [OF log_requests_are_offered [OF day_of_errors_used, THEN conjunct1]])
    (simp add: day_of_errors_def set_filters_def init_monitor_def init_filters_def logs_start_def)

text \<open>C22: a click on a line of the log page shows its whole record. The click on the row of a line that is not open opens
  that line and no other: the table then has the row of every line, in order, with the open one marked, and directly below
  that row, and nowhere else, a row as wide as the table whose JSON text reads back as the record of the line, every
  field and every item of it. (A record is any JSON object: texts, booleans, integers and decimal fractions, lists and
  objects.) A second click on the same row leaves the rows of the lines alone in the table, none of them marked.
\<close>

theorem opened_row_shows_whole_record:
  assumes "i < length (log_lines s)" and "row_clicks s ! i = Button t hot True e"
    and "lm_expanded s \<noteq> Some (rowKey (log_lines s ! i) i)"
  shows "let rows = log_lines s; row = (\<lambda>k j. Cells (log_row_cells local_time (k = Some j) (rows ! j))) in
    (\<exists>text. json_parse text = Some (JObj (rows ! i)) \<and>
       log_table_rows local_time (log_act e s) =
         map (row (Some i)) [0..<Suc i] @ Spanning (length log_headings) text # map (row (Some i)) [Suc i..<length rows]) \<and>
    log_table_rows local_time (log_act e (log_act e s)) = map (row None) [0..<length rows]"
proof -
  let ?key = "rowKey (log_lines s ! i) i"
  have e: "e = Opens ?key"
    using assms(1,2) by (simp add: row_clicks_def enumerate_upt)
  have opened: "log_lines (log_act e s) = log_lines s" "lm_expanded (log_act e s) = Some ?key"
    and closed: "log_lines (log_act e (log_act e s)) = log_lines s" "lm_expanded (log_act e (log_act e s)) = None"
    using assms(3) by (auto simp: e toggle_log_row_def log_lines_def)
  have "log_lines s \<noteq> []" using assms(1) by auto
  then have again: "log_table_rows local_time (log_act e (log_act e s)) = map (line_row local_time (log_lines s) None) [0..<length (log_lines s)]"
    using table_closed [of "log_act e (log_act e s)"] closed by simp
  have width: "9 = length log_headings" by (simp add: log_headings_def)
  show ?thesis
    unfolding Let_def
    using table_open [of i "log_act e s" local_time, unfolded opened, OF assms(1) refl, unfolded width] again json_pretty_read
    by blast
qed

definition slow_request :: log_entry where
  "slow_request = [(''timestamp'', JStr ''t''), (''request_id'', JStr ''r''), (''duration_ms'', JDec False 12 4),
     (''request'', JObj [(''path'', JStr ''/shorten''), (''args'', JArr [JInt (-1), JNull])])]"

definition two_lines :: monitor where
  "two_lines = init_monitor\<lparr>lm_insights := Some (load_failed\<lparr>is_logs := [slow_request, slow_request]\<rparr>)\<rparr>"

theorem opened_row_shows_whole_record_witness:
  "\<exists>text. json_parse text = Some (JObj slow_request) \<and>
    log_table_rows (\<lambda>t. t) (log_act (Opens ''t-r-0'') two_lines) =
      [Cells (log_row_cells (\<lambda>t. t) True slow_request), Spanning 9 text, Cells (log_row_cells (\<lambda>t. t) False slow_request)]"
proof -
  have lines: "log_lines two_lines = [slow_request, slow_request]" by (simp add: two_lines_def log_lines_def)
  have key: "rowKey slow_request 0 = ''t-r-0''" by code_simp
  have "row_clicks two_lines ! 0 = Button [] False True (Opens ''t-r-0'')" by (simp add: row_clicks_def lines key)
  moreover have "lm_expanded two_lines \<noteq> Some (rowKey (log_lines two_lines ! 0) 0)"
    by (simp add: two_lines_def init_monitor_def)
  ultimately show ?thesis
    using opened_row_shows_whole_record [of 0 two_lines "[]" False "Opens ''t-r-0''" "\<lambda>t. t"]
    by (auto simp: lines Let_def log_headings_def upt_rec [of 1] numeral_2_eq_2)
qed

section \<open>What the backend is asked\<close>

text \<open>
  The request of \<open>fetchAll\<close> on its way to the backend: the page writes the query, the route of the dashboard reads it
  (\<open>request.nextUrl.searchParams\<close>) and writes it again behind the address of the backend.
\<close>

definition ask_insights ::
  "(string \<Rightarrow> url_parts option) \<Rightarrow> remote \<Rightarrow> host \<Rightarrow> filters \<Rightarrow> world \<Rightarrow> reply \<times> world" where
  "ask_insights parse_url R h f w =
     insights_GET parse_url R h (search_params (parse_query (search_params (insights_params f)))) w"

lemma insights_params_some: "search_params (insights_params f) \<noteq> []"
proof
  assume "search_params (insights_params f) = []"
  then have "search_params (insights_params f) = search_params []" by (simp add: search_params_def)
  then show False unfolding query_inject by (simp add: insights_params_def)
qed

lemma ask_insights_trace:
  assumes "resolveDashboardBackendBase pu h = Base base d"
  shows "w_trace (snd (ask_insights pu R h f w)) =
    w_trace w @ [Call_http (base @ ''/api/logs/insights?'' @ search_params (insights_params f))]"
  by (simp add: ask_insights_def checked_routes insights_body.one_request assms parse_search_params with_query_def
      insights_params_some)

text \<open>C34: every filter of the log page reaches the backend. Through the page, the query string and the route of the
  dashboard, two settings of the controls make the backend the same request exactly when they agree in the window, the
  instance, the level, the limit as far as it lies between 1 and 10000, and in the search and status texts up to blanks
  around them: whatever the texts contain (ampersands, equals signs, percent signs, bytes of any kind), no text is taken
  for another filter, and no filter is lost on the way.
\<close>

theorem filters_survive_query:
  assumes "resolveDashboardBackendBase pu h = Base base d"
  shows "w_trace (snd (ask_insights pu R h f w)) = w_trace (snd (ask_insights pu R h g w)) \<longleftrightarrow>
     fl_windowMinutes f = fl_windowMinutes g \<and>
     min 10000 (max 1 (fl_logLimit f)) = min 10000 (max 1 (fl_logLimit g)) \<and>
     fl_logInstance f = fl_logInstance g \<and> fl_logLevel f = fl_logLevel g \<and>
     js_trim (fl_search f) = js_trim (fl_search g) \<and> js_trim (fl_status f) = js_trim (fl_status g)"
  by (simp only: ask_insights_trace [OF assms] same_append_eq list.inject call.inject simp_thms query_inject
      insights_inject ask_alike_def)

text \<open>A search text that looks like a level is not one; blanks at its end make no difference.\<close>

theorem filters_survive_query_witness:
  "let ask = (\<lambda>f. w_trace (snd (ask_insights (\<lambda>u. None) (demo_remote ''SUCCESS'' 200 1) plain_host f init_world)))
   in ask (init_filters\<lparr>fl_search := ''a&level=ERROR''\<rparr>) \<noteq> ask (init_filters\<lparr>fl_search := ''a'', fl_logLevel := ''ERROR''\<rparr>) \<and>
     ask (init_filters\<lparr>fl_search := ''a ''\<rparr>) = ask (init_filters\<lparr>fl_search := ''a''\<rparr>)"
proof -
  have "resolveDashboardBackendBase (\<lambda>u. None) plain_host = Base local_backend True" by code_simp
  note iff = filters_survive_query [OF this]
  have "js_trim ''a '' = js_trim ''a''" by code_simp
  then show ?thesis unfolding Let_def iff by (simp add: init_filters_def)
qed

text \<open>
  a filter that its own control does not show. A click on the chip of an instance other than the two replicas filters the
  page for it, while the select of the instances, which has no such option, says that all instances are shown.
\<close>

theorem chip_filter_is_not_in_select:
  assumes "map_of instance_options i = None" and "fl_logInstance (lm_filters s) \<noteq> i"
  shows "fl_logInstance (lm_filters (log_act (Chips i) s)) = i \<and> choice_shown i instance_options = ''All instances''"
proof
  have "lm_filters (set_filters f s) = f" for f by (simp add: set_filters_def logs_start_def)
  with assms(2) show "fl_logInstance (lm_filters (log_act (Chips i) s)) = i" by (simp add: toggle_instance_def)
  show "choice_shown i instance_options = ''All instances''"
    using assms(1) unfolding choice_shown_def by (simp add: instance_options_def coalesce_def)
qed

theorem chip_filter_is_not_in_select_witness:
  "fl_logInstance (lm_filters (log_act (Chips ''3'') init_monitor)) = ''3''"
  by (rule chip_filter_is_not_in_select [THEN conjunct1])
    (simp_all add: instance_options_def init_monitor_def init_filters_def)

end
