(* ===== verification/OpsPage.thy ===== *)
theory OpsPage
  imports LogPage
begin

text \<open>
  The operations page as it is rendered (\<open>ops-dashboard.tsx\<close>): its head, the tabs of services and alerts, the details of a
  database, the links of the telemetry tab; and how the button of a replica leads to the log page.
\<close>

section \<open>The head\<close>

datatype ops_click = Refresh | Tab string | Triangle ops_row | To_logs ops_row int

fun ops_act :: "ops_click \<Rightarrow> ops \<Rightarrow> ops" where
  "ops_act Refresh s = refresh_clicked s"
| "ops_act (Tab t) s = set_tab t s"
| "ops_act (Triangle c) s = toggle_row c s"
| "ops_act (To_logs c now) s = jump_to_logs c now s"

definition head_text :: "ops \<Rightarrow> string" where
  "head_text s =
     ''Compose / Railway, Alertmanager, and Kafka log stream ('' @ (if op_mainTab s = ''logs'' then ''logs ~2.5s'' else ''12s'') @ '' refresh)''"

definition main_tabs :: "(string \<times> string) list" where
  "main_tabs = [(''containers'', ''Containers''), (''alerts'', ''Alerts''), (''logs'', ''Logs''), (''loadtest'', ''Load Test''),
     (''chaos'', ''Chaos''), (''telemetry'', ''Telemetry''), (''incidents'', ''Incidents'')]"

text \<open>\<open>clock_text\<close> is \<open>toLocaleTimeString\<close>.\<close>

definition ops_head :: "(int \<Rightarrow> string) \<Rightarrow> ops \<Rightarrow> ops_click block list" where
  "ops_head clock_text s =
     [Say ''Ops'', Say (head_text s), Button ''Refresh'' (op_loading s) (\<not> op_loading s) Refresh]
     @ given (truthy (op_error s)) [Alert (''Heads up! '' @ the (op_error s))]
     @ (case op_lastFetch s of None \<Rightarrow> [] | Some t \<Rightarrow> [Say (''Last updated: '' @ clock_text t)])
     @ map (\<lambda>(key, label). Pick label (op_mainTab s = key) (Tab key)) main_tabs"

section \<open>The services\<close>

text \<open>The description of the card. \<open>projectId\<close> is the id of the Railway project in the answer.\<close>

definition services_description :: "string option \<Rightarrow> ops \<Rightarrow> ops_click block list" where
  "services_description projectId s =
     (let project = coalesce (map_option od_project (op_docker s)) u_emdash
      in (if ops_railway s
          then Say (''Project '' @ project)
            # given (truthy projectId) [Say u_middot, Link ''Open in Railway'' (''https://railway.com/project/'' @ the projectId)]
          else [Say (''Compose project '' @ project)])
         @ given (truthy (Option.bind (op_docker s) od_error)) [Say (u_emdash @ '' '' @ the (Option.bind (op_docker s) od_error))])"

text \<open>The controls of a row; \<open>now\<close> is \<open>Date.now()\<close> at the click.\<close>

definition ops_row_buttons :: "int \<Rightarrow> ops \<Rightarrow> ops_row \<Rightarrow> ops_click block list" where
  "ops_row_buttons now s c =
     (case toggle_label s c of None \<Rightarrow> [] | Some l \<Rightarrow> [Button l False True (Triangle c)])
     @ (case instanceIdFromComposeService (pc_service c) of
          None \<Rightarrow> [] | Some i \<Rightarrow> [Button (''Instance '' @ i) False True (To_logs c now)])"

definition services_card :: "(string \<Rightarrow> string \<Rightarrow> bool) \<Rightarrow> string option \<Rightarrow> int \<Rightarrow> ops \<Rightarrow> ops_click block" where
  "services_card le projectId now s =
     Part (if ops_railway s then ''Railway services'' else ''Docker'')
       (services_description projectId s
        @ [Table_of (ops_headings s) (ops_rows le s) (concat (map (ops_row_buttons now s) (ops_order le s)))])"

section \<open>The details of a database\<close>

definition profile_text :: "string \<Rightarrow> string" where
  "profile_text profile =
     (if profile = ''main'' then ''Introspection uses INTROSPECT_DB_URL on dashboard-backend (Compose db service).''
      else ''Databases and tables on the same Postgres server as dashboard-backend (DASHBOARD_DATABASE_URL / discrete DASHBOARD_DB_*). Hosted Railway: often shows dashboard_db and the default DB on one plugin.'')"

definition missing_db_text :: string where
  "missing_db_text = ''dashboard_db not found '' @ u_emdash @ '' create it on this instance (see RAILWAY.md) or check DASHBOARD_DB_NAME.''"

definition introspection_blocks :: "ops \<Rightarrow> ops_row \<Rightarrow> introspection \<Rightarrow> ops_click block list" where
  "introspection_blocks s c d =
     [Part ''Databases on this server'' (map (\<lambda>n. Flag (database_badge n)) (in_databases d))]
     @ given (missing_db_notice s c d) [Say missing_db_text]
     @ given (in_tables d \<noteq> []) [Part ''Public tables by database'' (map (\<lambda>dt. Part (fst dt) [Say (tables_text d dt)]) (in_tables d))]
     @ map Say (error_lines d)"

definition pg_details :: "ops \<Rightarrow> ops_row \<Rightarrow> pg_view \<Rightarrow> ops_click block list" where
  "pg_details s c v =
     [Say (profile_text (introspectProfileForRow (Option.bind (op_docker s) od_source) (pc_service c)))]
     @ given (vw_spinner v) [Say (''Loading'' @ u_ellipsis)]
     @ (case vw_error v of None \<Rightarrow> [] | Some e \<Rightarrow> [Alert e])
     @ (case vw_data v of None \<Rightarrow> [] | Some d \<Rightarrow> introspection_blocks s c d)"

text \<open>The details that stand below the rows of the table, at most one.\<close>

definition open_details :: "(string \<Rightarrow> string \<Rightarrow> bool) \<Rightarrow> ops \<Rightarrow> ops_click block list" where
  "open_details le s =
     concat (map (\<lambda>c. case pg_view_of s c of None \<Rightarrow> [] | Some v \<Rightarrow> pg_details s c v) (ops_order le s))"

section \<open>The other tabs\<close>

definition alerts_card :: "(string \<Rightarrow> string) \<Rightarrow> ops \<Rightarrow> ops_click block" where
  "alerts_card local_time s =
     Part ''Active alerts''
       (Say ''From Alertmanager API (same data as the Incidents strip).''
        # (case Option.bind (op_alerts s) snd of None \<Rightarrow> [] | Some e \<Rightarrow> given (e \<noteq> []) [Say e])
        @ [Table_of alert_headings (alert_rows local_time s) []])"

text \<open>The links of the telemetry tab; one slash at the end of an address is left out.\<close>

definition without_slash :: "string \<Rightarrow> string" where
  "without_slash u = (if u \<noteq> [] \<and> last u = CHR ''/'' then butlast u else u)"

definition telemetry_links :: "string option \<Rightarrow> string option \<Rightarrow> ops_click block list" where
  "telemetry_links prom_addr am_addr =
     [Part ''Prometheus''
        [Say ''Metrics and PromQL console (opens in a new tab).'',
         Link ''Open Prometheus'' (without_slash (coalesce prom_addr ''http://localhost:9090'') @ ''/graph'')],
      Part ''Alertmanager''
        [Say ''Silences and alert groups in the UI.'',
         Link ''Open Alertmanager'' (without_slash (coalesce am_addr ''http://localhost:9093''))]]"

text \<open>
  The page without the contents of the tabs that are pages of their own. The tabs of services and alerts are there only
  while they are chosen; the telemetry tab is hidden otherwise.
\<close>

definition ops_page ::
  "(string \<Rightarrow> string \<Rightarrow> bool) \<Rightarrow> (string \<Rightarrow> string) \<Rightarrow> (int \<Rightarrow> string) \<Rightarrow> string option \<Rightarrow> string option \<Rightarrow> string option \<Rightarrow> int
     \<Rightarrow> ops \<Rightarrow> ops_click block list" where
  "ops_page le local_time clock_text projectId prom_addr am_addr now s =
     ops_head clock_text s
     @ given (op_mainTab s = ''containers'') (services_card le projectId now s # open_details le s)
     @ given (op_mainTab s = ''alerts'') [alerts_card local_time s]
     @ given (op_mainTab s = ''telemetry'') (telemetry_links prom_addr am_addr)"

lemma triangle_offered: "page_offers (ops_row_buttons now s c) (Triangle c') \<Longrightarrow> row_shows_pg s c' \<and> c' = c"
  by (auto simp: ops_row_buttons_def toggle_label_def split: option.splits if_splits)

lemma details_offer: "\<not> page_offers (pg_details s c v) e"
  by (auto simp: pg_details_def introspection_blocks_def page_offers_map split: option.splits)

lemma open_details_offer: "\<not> page_offers (open_details le s) e"
  by (auto simp: open_details_def page_offers_concat details_offer split: option.splits)

lemma page_triangle:
  "page_offers (ops_page le local_time clock_text projectId prom_addr am_addr now s) (Triangle c) \<Longrightarrow> row_shows_pg s c"
  by (auto simp: ops_page_def ops_head_def services_card_def services_description_def Let_def open_details_offer alerts_card_def
      telemetry_links_def page_offers_map page_offers_concat dest: triangle_offered split: option.splits if_splits)

interpretation ops_view: page "ops_page le local_time clock_text projectId prom_addr am_addr now" ops_act ops_step
  for le local_time clock_text projectId prom_addr am_addr now
proof
  fix s e
  assume "page_offers (ops_page le local_time clock_text projectId prom_addr am_addr now s) e"
  then show "ops_step s (ops_act e s)"
    by (cases e) (auto intro: ops_step.intros dest: page_triangle)
qed

section \<open>From a replica to its logs\<close>

text \<open>
  The two pages together. The log page is there while its tab is chosen: it is mounted when the tab is entered and gone
  when the tab is left, and the instance it is asked for is applied once and then forgotten.
\<close>

record site =
  si_ops :: ops
  si_logs :: "monitor option"

definition sync_logs :: "site \<Rightarrow> site" where
  "sync_logs w =
     (if op_mainTab (si_ops w) = ''logs''
      then (let m = coalesce (si_logs w) init_monitor
            in case op_logJump (si_ops w) of
                 None \<Rightarrow> w\<lparr>si_logs := Some m\<rparr>
               | Some (i, nonce) \<Rightarrow>
                   if i = [] then w\<lparr>si_logs := Some m\<rparr>
                   else \<lparr>si_ops = jump_applied (si_ops w), si_logs = Some (instance_jump i m)\<rparr>)
      else w\<lparr>si_logs := None\<rparr>)"

definition click_ops :: "ops_click \<Rightarrow> site \<Rightarrow> site" where
  "click_ops e w = sync_logs (w\<lparr>si_ops := ops_act e (si_ops w)\<rparr>)"

lemma to_logs_offered:
  "page_offers (ops_page le local_time clock_text projectId prom_addr am_addr now s) (To_logs c n) \<Longrightarrow>
     \<exists>i \<in> {''1'', ''2''}. instanceIdFromComposeService (pc_service c) = Some i"
  by (auto simp: ops_page_def ops_head_def services_card_def services_description_def Let_def open_details_offer alerts_card_def
      telemetry_links_def ops_row_buttons_def instanceIdFromComposeService_def page_offers_map page_offers_concat
      split: option.splits if_splits)

lemma click_to_logs:
  assumes "instanceIdFromComposeService (pc_service c) = Some i" and "i \<noteq> []" and "si_logs w = None"
  shows "click_ops (To_logs c n) w = \<lparr>si_ops = (si_ops w)\<lparr>op_mainTab := ''logs'', op_logJump := None\<rparr>,
    si_logs = Some (set_filters (init_filters\<lparr>fl_logInstance := i\<rparr>) init_monitor)\<rparr>"
  using assms by (simp add: click_ops_def sync_logs_def jump_to_logs_def jump_applied_def instance_jump_def coalesce_def init_monitor_def Let_def)

lemma leave_and_return:
  "op_logJump (si_ops w) = None \<Longrightarrow> si_logs (click_ops (Tab ''logs'') (click_ops (Tab ''containers'') w)) = Some init_monitor"
  by (simp add: click_ops_def sync_logs_def set_tab_def coalesce_def)

section \<open>Properties\<close>

text \<open>C21: the button of a replica leads to its logs. Wherever the user is, the click on the button of a replica chooses the log tab,
  whose page filters for that replica: its latest request asks for it, and its select names it. The wish is used up, so that
  leaving the tab and coming back shows all instances again.
\<close>

theorem replica_button_shows_its_logs:
  assumes "page_offers (ops_page le local_time clock_text projectId prom_addr am_addr now (si_ops w)) (To_logs c n)"
    and "si_logs w = None"
  shows "case instanceIdFromComposeService (pc_service c) of
      None \<Rightarrow> False
    | Some i \<Rightarrow>
        (let v = click_ops (To_logs c n) w
         in op_mainTab (si_ops v) = ''logs'' \<and> op_logJump (si_ops v) = None \<and>
            si_logs v = Some (set_filters (init_filters\<lparr>fl_logInstance := i\<rparr>) init_monitor) \<and>
            map_of (insights_params (snd (last (lm_pending (the (si_logs v)))))) ''instance_id'' = Some i \<and>
            choice_shown i instance_options = (if i = ''1'' then ''Instance 1 (replica A)'' else ''Instance 2 (replica B)'') \<and>
            si_logs (click_ops (Tab ''logs'') (click_ops (Tab ''containers'') v)) = Some init_monitor)"
proof -
  from to_logs_offered [OF assms(1)] obtain i where i: "i \<in> {''1'', ''2''}" "instanceIdFromComposeService (pc_service c) = Some i" by blast
  then have ne: "i \<noteq> []" by auto
  let ?v = "click_ops (To_logs c n) w"
  note click = click_to_logs [OF i(2) ne assms(2), of n]
  have "lm_pending (set_filters f init_monitor) = [(1, init_filters), (2, f)]" if "f \<noteq> init_filters" for f
    using that by (simp add: set_filters_def logs_start_def init_monitor_def)
  moreover have "init_filters\<lparr>fl_logInstance := i\<rparr> \<noteq> init_filters" using ne by (simp add: init_filters_def)
  ultimately have "snd (last (lm_pending (the (si_logs ?v)))) = init_filters\<lparr>fl_logInstance := i\<rparr>" unfolding click by simp
  moreover have "map_of (insights_params (init_filters\<lparr>fl_logInstance := i\<rparr>)) ''instance_id'' = Some i"
    using ne by (simp add: insights_params_def)
  moreover have "choice_shown i instance_options = (if i = ''1'' then ''Instance 1 (replica A)'' else ''Instance 2 (replica B)'')"
    using i(1) by (auto simp: choice_shown_def instance_options_def coalesce_def)
  moreover have "si_logs (click_ops (Tab ''logs'') (click_ops (Tab ''containers'') ?v)) = Some init_monitor"
    by (rule leave_and_return) (simp add: click)
  ultimately show ?thesis by (simp add: i(2) Let_def click)
qed

definition replica_row :: ops_row where
  "replica_row = (sample_row ''a'')\<lparr>pc_service := ''url-shortener-a'', or_image := ''app''\<rparr>"

definition replica_site :: site where
  "replica_site = \<lparr>si_ops = init_ops\<lparr>op_docker := Some \<lparr>od_source = Some ''docker'', od_project = ''app'', od_rows = [replica_row], od_error = None\<rparr>\<rparr>,
     si_logs = None\<rparr>"

theorem replica_button_shows_its_logs_witness:
  "si_logs (click_ops (To_logs replica_row 5) replica_site) = Some (set_filters (init_filters\<lparr>fl_logInstance := ''1''\<rparr>) init_monitor)"
proof -
  have one: "instanceIdFromComposeService (pc_service replica_row) = Some ''1''"
    by (simp add: replica_row_def instanceIdFromComposeService_def)
  have "ops_order (\<lambda>a b. True) (si_ops replica_site) = [replica_row]" by (simp add: ops_order_def replica_site_def)
  then have "page_offers (ops_page (\<lambda>a b. True) (\<lambda>t. t) show_int None None None 5 (si_ops replica_site)) (To_logs replica_row 5)"
    by (auto simp: ops_page_def services_card_def ops_row_buttons_def one replica_site_def init_ops_def)
  moreover have "si_logs replica_site = None" by (simp add: replica_site_def)
  ultimately show ?thesis
    using replica_button_shows_its_logs [of "\<lambda>a b. True" "\<lambda>t. t" show_int None None None 5 replica_site replica_row 5]
    by (simp add: one Let_def)
qed

end
