(* ===== verification/Spec2Isabelle.thy ===== *)
theory Spec2Isabelle
  imports WatchdogFeed SignalPages ChaosTab OpsPage
begin

text \<open>
  Verification development for the TypeScript and JavaScript of PE-Hackathon-2026: the Railway watchdog, the dashboard
  that shows and disturbs the services, the script that provisions them, and the scripts that put load on them.

  The program. A Flask URL shortener runs in replicas behind a balancer, on Docker Compose or on Railway. The dashboard
  (\<open>src/dashboard\<close>, Next.js) lists the services, proxies the Python backend and Prometheus, and can kill and restart a
  service. The watchdog polls Railway, probes the services over HTTP and redeploys what is down; it runs as a worker
  (\<open>src/watchdog-service\<close>) or inside the dashboard. \<open>src/setup-railway.js\<close> creates the services and wires their
  variables. k6 runs the load scripts.

  The theories form a directed graph under this one; each holds one component, its state, its operations and its lemmas.

  \<^item> \<open>JsPrelude\<close>, \<open>JsNumbers\<close>, \<open>ApiWorld\<close>: strings, numbers and dates of JavaScript, thrown values, JSON, the world
    (clock, remote endpoints, console) that is threaded through every effect, and the locale of a bounded log.
  \<^item> \<open>RuntimeEnv\<close>: \<open>server-runtime-env.ts\<close>: reading \<open>/proc/self/environ\<close>, with the decoding of UTF-8 and the order of an
    object's keys, the settings and credentials; the parser reads back an environment that was printed.
  \<^item> \<open>HeartbeatLifecycle\<close>: \<open>heartbeat-lifecycle.ts\<close>: four maps that turn failed probes into the status
    \<open>exited\<close> and schedule a redeploy; refined to a count of trailing failures.
  \<^item> \<open>ServiceHeartbeat\<close>, \<open>RailwayVisibility\<close>: \<open>service-heartbeat.ts\<close>, \<open>railway-visibility.ts\<close>: probes; rows, metrics and
    mutations of the Railway API.
  \<^item> \<open>WatchdogTick\<close>, \<open>TickSafety\<close>: \<open>railway-watchdog-tick.ts\<close>: one tick with its phases per service, and what a tick can
    do: at most one redeploy per service, cooldowns, the budget of a deployment over a whole run, the redeploy that is owed
    is sent, one recovery path excludes the other, bounded logs.
  \<^item> \<open>WatchdogServer\<close>: \<open>watchdog-service/src/server.ts\<close>: the worker as a step relation with its invariant.
  \<^item> \<open>ChaosPolicy\<close>, \<open>VisibilityRoutes\<close>, \<open>WatchdogRoute\<close>, \<open>ProxyRoutes\<close>: the API routes of the dashboard
    (\<open>app/api\<close>) with the libraries only they use; a refused action changes nothing, viewing changes nothing, a reply says
    what the request itself has read. The locale \<open>failure_body\<close> is what the routes to the backend promise of a failure, interpreted
    by the body of each route.
  \<^item> \<open>ChaosPanel\<close>, \<open>OpsDashboard\<close>, \<open>PageTables\<close>, \<open>ToastStack\<close>: \<open>chaos-panel.tsx\<close>, \<open>ops-dashboard.tsx\<close> and their small
    parts: the states of the pages with overlapping requests as step relations; which events become toasts; what tables, cards
    and dialogs say; the stack of notifications with a timer per row.
  \<^item> \<open>ChartGeometry\<close>, \<open>LogChart\<close>, \<open>LogMonitor\<close>, \<open>MiniChart\<close>, \<open>GoldenSignals\<close>, \<open>IncidentTimeline\<close>, \<open>LoadTest\<close>: the charts
    (a locale with the contract of a drawn series, interpreted by each chart), the log page, the golden signals, the
    timeline and the load-test page.
  \<^item> \<open>SetupEnv\<close>, \<open>SetupVariables\<close>, \<open>SetupApi\<close>, \<open>SetupRailway\<close>: \<open>setup-railway.js\<close>: the setup file and the generated
    token; the plan of variables with its references; requests, answers and runs (a locale for relations that every
    combination of steps keeps, interpreted by what is sent and by what is left alone); the script itself.
  \<^item> \<open>LoadScripts\<close>: \<open>dashboard/backend/load-test.js\<close> and \<open>load-tests/*.js\<close>: options, setup and iterations, with the events
    that k6 sees.
  \<^item> \<open>JsonText\<close>: \<open>JSON.parse\<close> on text, with strings and their escapes, numbers, white space and nesting; it reads back what
    \<open>JSON.stringify\<close> writes, compact or indented. Like \<open>URLSearchParams\<close> in \<open>LogMonitor\<close> and the event source of the browser
    in \<open>WatchdogFeed\<close> it is a model of the language's library, which the properties of the program's own parts rest on.
  \<^item> \<open>WatchdogFeed\<close>: the event stream from the worker to the page as text: frames, lines, messages, payloads (a locale for
    streams that are cut anywhere, interpreted by the worker's frames); the worker and a page as one machine.
  \<^item> \<open>PageBlocks\<close>, \<open>LogPage\<close>, \<open>SignalPages\<close>, \<open>ChaosTab\<close>, \<open>OpsPage\<close>: the pages as they are rendered: a page is a function
    from its state to texts, figures, tables, pictures and controls, each control with the event that it fires while it is
    enabled. The locale \<open>page\<close> is its contract with the machine of the page (whatever an enabled control fires is a step),
    interpreted by every page; so what holds along the runs holds whatever is clicked.

  How the parts meet. The tick reads the probes and the lifecycle; the routes share the lifecycle and ask the
  worker; the panel reads the routes' answers (\<open>PageTables\<close> relates the card to the bodies that the status route
  sends, \<open>GoldenSignals\<close> the page's query to what Prometheus is asked, \<open>LogPage\<close> the page's filters to what the
  backend is asked, \<open>LoadScripts\<close> the announced presets to the stages that run). \<open>WatchdogFeed\<close> composes the worker with
  the page that listens to it: what the page shows is what the worker last broadcast, and a stopped service is announced on
  every page that listens and has loaded its history. \<open>ChaosTab\<close> composes the tab with the policy of the chaos routes, \<open>OpsPage\<close> the operations page with the
  log page.

  Parameters. What the repository only calls is an argument of the definitions: the remote endpoints and the Railway
  API (any function of the calls so far), the Docker engine, the URL parser, \<open>localeCompare\<close>, the parsing and local
  rendering of dates, the random token and random numbers, the server under load.

  Bounds. Numbers are exact: integers are unbounded, coordinates and percentages are rationals; the doubles of the code
  agree with them up to \<open>2 ^ 53\<close> and up to rounding. Numbers in JSON are integers and decimal fractions, which a double
  prints back up to fifteen digits. Chains of causes are followed six deep, sizes are divided at most three
  times, a chart has at most seven labels, a call is tried at most four times, the logs hold 40, 48 and 30
  entries, a stack has eight toasts of nine seconds, the parser of JSON has the length of its text as fuel; each bound is
  the one of the code and is enough by a lemma of its theory. All loops are structural or have a
  termination proof.

  Not modelled: colours, sizes, icons and animations of the pages (except where a colour is what a figure says), console
  messages, file-system errors of the provisioning script, the engine of k6 (metrics, thresholds, scheduling of users) and
  the text of its summary, the primitives under \<open>components/ui\<close>, the static pages, the services in Python, and the
  configuration of Compose, nginx, Prometheus and the builds. They hold no state of the modelled code or are not in its
  language. A payload on the event stream that is JSON but not of the declared type is ignored by the model of the page, where
  the code would keep it without a check; the worker writes none. In JSON, numbers with an exponent are refused, and an object
  is the list of its members in the order of the text (JavaScript would put keys that look like array indices first); the
  last of two members with one key is the one that is read.
\<close>

end
